(* ===== verification/Prelude.thy ===== *)
theory Prelude
  imports Main "HOL-Library.Sublist" "HOL-Library.AList" "HOL-Library.Char_ord" "HOL-Library.List_Lexorder"
begin

text \<open>
  Shared vocabulary of the development: Rust strings, the parts of \<open>str\<close> and \<open>u64\<close> the
  program uses, the process environment, and the generic lemmas the component theories rest on.

  A Rust \<open>str\<close> is the list of its UTF-8 bytes, one \<^typ>\<open>char\<close> (a value below 256) per
  byte, so \<^const>\<open>length\<close> is Rust's \<open>len\<close>. Searching, splitting and comparing at ASCII
  delimiters is the same on bytes and on code points, because no byte of a multi-byte UTF-8
  sequence is an ASCII byte. Where the code iterates over \<open>chars()\<close> the bytes are decoded
  with \<open>utf8_chars\<close>.

  Case folding: \<open>to_ascii_lowercase\<close> is exact. \<open>to_lowercase\<close> and \<open>to_uppercase\<close> are
  Unicode functions; the model folds the ASCII letters and the non-ASCII letters whose image
  contains an ASCII letter (U+212A and U+0130 going down; U+017F, U+0131, sharp s and the
  ligatures going up), and leaves the other non-ASCII letters alone. A comparison of the folded
  text with an ASCII name, which is the only use the program makes of it, is therefore exact.
\<close>

section \<open>Collections of facts\<close>

named_theorems result_simps \<open>case analysis on results\<close>

type_synonym env = "string \<Rightarrow> string option"
  \<comment> \<open>\<open>std::env::var(k).ok()\<close>\<close>

section \<open>Results\<close>

text \<open>Rust's \<open>?\<close> on a \<open>Result\<close>: the error is returned, a value goes to the continuation.\<close>

definition bindR :: "'e + 'a \<Rightarrow> ('a \<Rightarrow> 'e + 'b) \<Rightarrow> 'e + 'b" where
  "bindR r f = (case r of Inl e \<Rightarrow> Inl e | Inr x \<Rightarrow> f x)"

lemma bindR_Inl [simp, result_simps]: "bindR (Inl e) f = Inl e"
  by (simp add: bindR_def)

lemma bindR_Inr [simp, result_simps]: "bindR (Inr x) f = f x"
  by (simp add: bindR_def)

lemma bindR_eq_Inr [result_simps]: "bindR r f = Inr y \<longleftrightarrow> (\<exists>x. r = Inr x \<and> f x = Inr y)"
  by (cases r) simp_all

definition is_ok :: "'e + 'a \<Rightarrow> bool" where
  "is_ok r = (case r of Inl _ \<Rightarrow> False | Inr _ \<Rightarrow> True)"

lemma is_ok_simps [simp]: "\<not> is_ok (Inl e)" "is_ok (Inr x)"
  by (simp_all add: is_ok_def)

section \<open>Searching and splitting\<close>

definition starts_with :: "string \<Rightarrow> string \<Rightarrow> bool" where
  "starts_with s p = prefix p s"

definition ends_with :: "string \<Rightarrow> string \<Rightarrow> bool" where
  "ends_with s p = suffix p s"

definition strip_prefix :: "string \<Rightarrow> string \<Rightarrow> string option" where
  "strip_prefix s p = (if prefix p s then Some (drop (length p) s) else None)"

text \<open>\<open>str::find\<close>: the byte position of the first occurrence.\<close>

fun find_str :: "string \<Rightarrow> string \<Rightarrow> nat option" where
  "find_str p [] = (if p = [] then Some 0 else None)"
| "find_str p (c # s) = (if prefix p (c # s) then Some 0 else map_option Suc (find_str p s))"

definition contains :: "string \<Rightarrow> string \<Rightarrow> bool" where
  "contains s p = (find_str p s \<noteq> None)"

definition contains_char :: "string \<Rightarrow> char \<Rightarrow> bool" where
  "contains_char s c = (c \<in> set s)"

text \<open>\<open>str::split\<close> on characters satisfying a predicate; it always yields at least one piece.\<close>

fun split_on :: "(char \<Rightarrow> bool) \<Rightarrow> string \<Rightarrow> string list" where
  "split_on P [] = [[]]"
| "split_on P (c # s) =
     (if P c then [] # split_on P s
      else (c # hd (split_on P s)) # tl (split_on P s))"

definition split_char :: "char \<Rightarrow> string \<Rightarrow> string list" where
  "split_char d = split_on (\<lambda>c. c = d)"

definition split_once_char :: "char \<Rightarrow> string \<Rightarrow> (string \<times> string) option" where
  "split_once_char d s =
     (case dropWhile (\<lambda>c. c \<noteq> d) s of
        [] \<Rightarrow> None
      | _ # r \<Rightarrow> Some (takeWhile (\<lambda>c. c \<noteq> d) s, r))"

definition rsplit_once_char :: "char \<Rightarrow> string \<Rightarrow> (string \<times> string) option" where
  "rsplit_once_char d s =
     (case split_once_char d (rev s) of
        None \<Rightarrow> None
      | Some (b, a) \<Rightarrow> Some (rev a, rev b))"

definition split_once_str :: "string \<Rightarrow> string \<Rightarrow> (string \<times> string) option" where
  "split_once_str p s =
     (case find_str p s of
        None \<Rightarrow> None
      | Some i \<Rightarrow> Some (take i s, drop (i + length p) s))"

fun join :: "string \<Rightarrow> string list \<Rightarrow> string" where
  "join sep [] = []"
| "join sep [s] = s"
| "join sep (s # t # ss) = s @ sep @ join sep (t # ss)"

lemma split_on_nonempty [simp]: "split_on P s \<noteq> []"
  by (cases s) simp_all

lemma split_char_nonempty [simp]: "split_char d s \<noteq> []"
  by (simp add: split_char_def)

lemma split_on_no_sep: "w \<in> set (split_on P s) \<Longrightarrow> c \<in> set w \<Longrightarrow> \<not> P c"
proof (induction s arbitrary: w c)
  case Nil
  then show ?case by simp
next
  case (Cons x s)
  have hd_in: "hd (split_on P s) \<in> set (split_on P s)" by simp
  have tl_in: "\<And>v. v \<in> set (tl (split_on P s)) \<Longrightarrow> v \<in> set (split_on P s)"
    by (meson list.set_sel(2) split_on_nonempty)
  show ?case
  proof (cases "P x")
    case True
    with Cons.prems consider "w = []" | "w \<in> set (split_on P s)" by auto
    then show ?thesis using Cons.IH Cons.prems(2) by cases auto
  next
    case False
    with Cons.prems consider "w = x # hd (split_on P s)" | "w \<in> set (tl (split_on P s))" by auto
    then show ?thesis
      using False Cons.prems(2) Cons.IH [OF hd_in] Cons.IH [OF tl_in] by cases auto
  qed
qed

text \<open>The same, one piece at a time, for evaluation.\<close>

lemma split_on_code [code]:
  "split_on P s = takeWhile (\<lambda>c. \<not> P c) s #
     (case dropWhile (\<lambda>c. \<not> P c) s of [] \<Rightarrow> [] | _ # r \<Rightarrow> split_on P r)"
  by (induction s) auto

lemma split_on_none: "(\<forall>c \<in> set s. \<not> P c) \<Longrightarrow> split_on P s = [s]"
  by (induction s) auto

lemma find_str_Some:
  "find_str p s = Some i \<Longrightarrow> i + length p \<le> length s \<and> take (length p) (drop i s) = p"
proof (induction s arbitrary: i)
  case Nil
  then show ?case by (simp split: if_splits)
next
  case (Cons c s)
  show ?case
  proof (cases "prefix p (c # s)")
    case True
    then have "length p \<le> length (c # s)" by (rule prefix_length_le)
    moreover from True have "take (length p) (c # s) = p" by (auto simp: prefix_def)
    ultimately show ?thesis using True Cons.prems by simp
  next
    case False
    with Cons.prems obtain j where "find_str p s = Some j" and "i = Suc j" by auto
    with Cons.IH show ?thesis by auto
  qed
qed

lemma find_str_split: "find_str p s = Some i \<Longrightarrow> s = take i s @ p @ drop (i + length p) s"
proof -
  assume h: "find_str p s = Some i"
  from find_str_Some [OF h] have p: "take (length p) (drop i s) = p" by simp
  have "drop i s = take (length p) (drop i s) @ drop (length p) (drop i s)"
    by (rule append_take_drop_id [symmetric])
  then have "drop i s = p @ drop (i + length p) s"
    using p by (simp add: add.commute)
  then show ?thesis by (metis append_take_drop_id)
qed

lemma find_str_append: "find_str p (a @ p @ b) \<noteq> None"
proof (induction a)
  case Nil
  show ?case
  proof (cases "p @ b")
    case Nil
    then show ?thesis by simp
  next
    case (Cons c s)
    have "prefix p (p @ b)" by simp
    then show ?thesis by (simp add: Cons)
  qed
next
  case (Cons x a)
  then show ?case by auto
qed

lemma contains_iff: "contains s p \<longleftrightarrow> (\<exists>a b. s = a @ p @ b)"
  unfolding contains_def using find_str_append find_str_split by (metis option.exhaust)

lemma starts_with_append [simp]: "starts_with (p @ s) p"
  by (simp add: starts_with_def)

section \<open>Case folding, whitespace, UTF-8\<close>

definition ascii_lower :: "char \<Rightarrow> char" where
  "ascii_lower c = (if 65 \<le> (of_char c :: nat) \<and> (of_char c :: nat) \<le> 90
                    then char_of ((of_char c :: nat) + 32) else c)"

definition ascii_upper :: "char \<Rightarrow> char" where
  "ascii_upper c = (if 97 \<le> (of_char c :: nat) \<and> (of_char c :: nat) \<le> 122
                    then char_of ((of_char c :: nat) - 32) else c)"

definition to_ascii_lowercase :: "string \<Rightarrow> string" where
  "to_ascii_lowercase s = map ascii_lower s"

definition to_ascii_uppercase :: "string \<Rightarrow> string" where
  "to_ascii_uppercase s = map ascii_upper s"

definition eq_ignore_ascii_case :: "string \<Rightarrow> string \<Rightarrow> bool" where
  "eq_ignore_ascii_case a b = (to_ascii_lowercase a = to_ascii_lowercase b)"

text \<open>Maps every character with \<open>f\<close>, except that the byte sequences of the table \<open>tbl\<close>
  are replaced as a whole.\<close>

fun fold_case :: "(string \<times> string) list \<Rightarrow> (char \<Rightarrow> char) \<Rightarrow> string \<Rightarrow> string" where
  "fold_case tbl f [] = []"
| "fold_case tbl f (c # s) =
     (case List.find (\<lambda>(p, r). prefix p (c # s)) tbl of
        Some (p, r) \<Rightarrow> r @ fold_case tbl f (drop (length p - 1) s)
      | None \<Rightarrow> f c # fold_case tbl f s)"

definition lower_table :: "(string \<times> string) list" where
  "lower_table =
     [([CHR 0xE2, CHR 0x84, CHR 0xAA], ''k''),
      ([CHR 0xC4, CHR 0xB0], [CHR ''i'', CHR 0xCC, CHR 0x87])]"

definition upper_table :: "(string \<times> string) list" where
  "upper_table =
     [([CHR 0xC5, CHR 0xBF], ''S''), ([CHR 0xC4, CHR 0xB1], ''I''), ([CHR 0xC3, CHR 0x9F], ''SS''),
      ([CHR 0xC5, CHR 0x89], [CHR 0xCA, CHR 0xBC, CHR ''N'']),
      ([CHR 0xC7, CHR 0xB0], [CHR ''J'', CHR 0xCC, CHR 0x8C]),
      ([CHR 0xE1, CHR 0xBA, CHR 0x96], [CHR ''H'', CHR 0xCC, CHR 0xB1]),
      ([CHR 0xE1, CHR 0xBA, CHR 0x97], [CHR ''T'', CHR 0xCC, CHR 0x88]),
      ([CHR 0xE1, CHR 0xBA, CHR 0x98], [CHR ''W'', CHR 0xCC, CHR 0x8A]),
      ([CHR 0xE1, CHR 0xBA, CHR 0x99], [CHR ''Y'', CHR 0xCC, CHR 0x8A]),
      ([CHR 0xE1, CHR 0xBA, CHR 0x9A], [CHR ''A'', CHR 0xCA, CHR 0xBE]),
      ([CHR 0xEF, CHR 0xAC, CHR 0x80], ''FF''), ([CHR 0xEF, CHR 0xAC, CHR 0x81], ''FI''),
      ([CHR 0xEF, CHR 0xAC, CHR 0x82], ''FL''), ([CHR 0xEF, CHR 0xAC, CHR 0x83], ''FFI''),
      ([CHR 0xEF, CHR 0xAC, CHR 0x84], ''FFL''), ([CHR 0xEF, CHR 0xAC, CHR 0x85], ''ST''),
      ([CHR 0xEF, CHR 0xAC, CHR 0x86], ''ST'')]"

definition to_lowercase :: "string \<Rightarrow> string" where
  "to_lowercase = fold_case lower_table ascii_lower"

definition to_uppercase :: "string \<Rightarrow> string" where
  "to_uppercase = fold_case upper_table ascii_upper"

text \<open>The UTF-8 encodings of the characters with the Unicode property White\_Space.\<close>

definition white_space :: "string list" where
  "white_space =
     [[CHR 0x09], [CHR 0x0A], [CHR 0x0B], [CHR 0x0C], [CHR 0x0D], [CHR 0x20],
      [CHR 0xC2, CHR 0x85], [CHR 0xC2, CHR 0xA0], [CHR 0xE1, CHR 0x9A, CHR 0x80],
      [CHR 0xE2, CHR 0x80, CHR 0x80], [CHR 0xE2, CHR 0x80, CHR 0x81], [CHR 0xE2, CHR 0x80, CHR 0x82],
      [CHR 0xE2, CHR 0x80, CHR 0x83], [CHR 0xE2, CHR 0x80, CHR 0x84], [CHR 0xE2, CHR 0x80, CHR 0x85],
      [CHR 0xE2, CHR 0x80, CHR 0x86], [CHR 0xE2, CHR 0x80, CHR 0x87], [CHR 0xE2, CHR 0x80, CHR 0x88],
      [CHR 0xE2, CHR 0x80, CHR 0x89], [CHR 0xE2, CHR 0x80, CHR 0x8A], [CHR 0xE2, CHR 0x80, CHR 0xA8],
      [CHR 0xE2, CHR 0x80, CHR 0xA9], [CHR 0xE2, CHR 0x80, CHR 0xAF], [CHR 0xE2, CHR 0x81, CHR 0x9F],
      [CHR 0xE3, CHR 0x80, CHR 0x80]]"

fun trim_start_in :: "string list \<Rightarrow> string \<Rightarrow> string" where
  "trim_start_in ws [] = []"
| "trim_start_in ws (c # s) =
     (case List.find (\<lambda>w. prefix w (c # s)) ws of
        Some w \<Rightarrow> trim_start_in ws (drop (length w - 1) s)
      | None \<Rightarrow> c # s)"

definition trim_start :: "string \<Rightarrow> string" where
  "trim_start = trim_start_in white_space"

definition trim_end :: "string \<Rightarrow> string" where
  "trim_end s = rev (trim_start_in (map rev white_space) (rev s))"

definition trim :: "string \<Rightarrow> string" where
  "trim s = trim_end (trim_start s)"

definition trim_end_char :: "char \<Rightarrow> string \<Rightarrow> string" where
  "trim_end_char d s = rev (dropWhile (\<lambda>c. c = d) (rev s))"

text \<open>\<open>split_whitespace\<close>: the maximal runs without white space.\<close>

fun words_acc :: "string \<Rightarrow> string \<Rightarrow> string list" where
  "words_acc w [] = (if w = [] then [] else [rev w])"
| "words_acc w (c # s) =
     (case List.find (\<lambda>p. prefix p (c # s)) white_space of
        Some p \<Rightarrow> (if w = [] then id else (#) (rev w)) (words_acc [] (drop (length p - 1) s))
      | None \<Rightarrow> words_acc (c # w) s)"

definition split_whitespace :: "string \<Rightarrow> string list" where
  "split_whitespace s = words_acc [] s"

text \<open>\<open>chars()\<close>: the code points of a (well-formed) UTF-8 byte sequence.\<close>

fun utf8_chars :: "string \<Rightarrow> nat list" where
  "utf8_chars [] = []"
| "utf8_chars (b # s) =
     (let n = of_char b; k = (\<lambda>i. of_char (s ! i) mod 64) in
      if n < 0x80 then n # utf8_chars s
      else if n < 0xE0 \<and> 1 \<le> length s then
        ((n mod 32) * 64 + k 0) # utf8_chars (drop 1 s)
      else if n < 0xF0 \<and> 2 \<le> length s then
        ((n mod 16) * 4096 + k 0 * 64 + k 1) # utf8_chars (drop 2 s)
      else if 3 \<le> length s then
        ((n mod 8) * 262144 + k 0 * 4096 + k 1 * 64 + k 2) # utf8_chars (drop 3 s)
      else [])"

definition is_ascii_digit :: "char \<Rightarrow> bool" where
  "is_ascii_digit c = (48 \<le> (of_char c :: nat) \<and> (of_char c :: nat) \<le> 57)"

definition is_ascii_alphabetic :: "char \<Rightarrow> bool" where
  "is_ascii_alphabetic c = (let n = (of_char c :: nat) in 65 \<le> n \<and> n \<le> 90 \<or> 97 \<le> n \<and> n \<le> 122)"

section \<open>Unsigned 64-bit integers as bounded naturals\<close>

definition u64_max :: nat where
  "u64_max = 18446744073709551615"

definition saturating_add :: "nat \<Rightarrow> nat \<Rightarrow> nat" where
  "saturating_add a b = min (a + b) u64_max"

definition saturating_mul :: "nat \<Rightarrow> nat \<Rightarrow> nat" where
  "saturating_mul a b = min (a * b) u64_max"

definition saturating_sub :: "nat \<Rightarrow> nat \<Rightarrow> nat" where
  "saturating_sub a b = a - b"

definition digit_val :: "char \<Rightarrow> nat" where
  "digit_val c = of_char c - 48"

fun digits_val :: "nat \<Rightarrow> string \<Rightarrow> nat" where
  "digits_val acc [] = acc"
| "digits_val acc (c # s) = digits_val (acc * 10 + digit_val c) s"

text \<open>\<open>str::parse::<uN>()\<close> for an unsigned type with the given largest value: an optional
  plus sign, at least one digit, and no overflow.\<close>

definition parse_unsigned :: "nat \<Rightarrow> string \<Rightarrow> nat option" where
  "parse_unsigned m s =
     (let d = (case s of c # r \<Rightarrow> if c = CHR ''+'' then r else s | [] \<Rightarrow> []) in
      if d \<noteq> [] \<and> list_all is_ascii_digit d \<and> digits_val 0 d \<le> m then Some (digits_val 0 d)
      else None)"

definition parse_u64 :: "string \<Rightarrow> nat option" where
  "parse_u64 = parse_unsigned u64_max"

definition parse_u32 :: "string \<Rightarrow> nat option" where
  "parse_u32 = parse_unsigned 4294967295"

text \<open>\<open>to_string\<close> of an unsigned integer.\<close>

definition digit_char :: "nat \<Rightarrow> char" where
  "digit_char n = char_of (48 + n)"

fun dec_acc :: "nat \<Rightarrow> string \<Rightarrow> string" where
  "dec_acc n acc = (if n < 10 then digit_char n # acc else dec_acc (n div 10) (digit_char (n mod 10) # acc))"

declare dec_acc.simps [simp del]

definition nat_str :: "nat \<Rightarrow> string" where
  "nat_str n = dec_acc n []"

lemma digit_char_props: "n < 10 \<Longrightarrow> is_ascii_digit (digit_char n) \<and> digit_val (digit_char n) = n"
  by (simp add: is_ascii_digit_def digit_val_def digit_char_def)

lemma digits_val_dec_acc: "digits_val 0 (dec_acc n acc) = digits_val n acc"
proof (induction n acc rule: dec_acc.induct)
  case (1 n acc)
  show ?case
  proof (cases "n < 10")
    case True
    then show ?thesis by (subst dec_acc.simps) (simp add: digit_char_props)
  next
    case False
    then have "digits_val 0 (dec_acc n acc) = digits_val (n div 10) (digit_char (n mod 10) # acc)"
      using 1 by (subst dec_acc.simps) simp
    then show ?thesis by (simp add: digit_char_props)
  qed
qed

lemma dec_acc_digits: "list_all is_ascii_digit acc \<Longrightarrow> list_all is_ascii_digit (dec_acc n acc)"
proof (induction n acc rule: dec_acc.induct)
  case (1 n acc)
  then show ?case by (subst dec_acc.simps) (simp add: digit_char_props)
qed

lemma dec_acc_nonempty: "dec_acc n acc \<noteq> []"
proof (induction n acc rule: dec_acc.induct)
  case (1 n acc)
  then show ?case by (subst dec_acc.simps) simp
qed

text \<open>Printing and parsing an unsigned integer are inverse to each other.\<close>

lemma parse_unsigned_nat_str: "n \<le> m \<Longrightarrow> parse_unsigned m (nat_str n) = Some n"
proof -
  assume le: "n \<le> m"
  have dig: "list_all is_ascii_digit (nat_str n)" by (simp add: nat_str_def dec_acc_digits)
  have ne: "nat_str n \<noteq> []" by (simp add: nat_str_def dec_acc_nonempty)
  have val: "digits_val 0 (nat_str n) = n" by (simp add: nat_str_def digits_val_dec_acc)
  from dig ne have "hd (nat_str n) \<noteq> CHR ''+''"
    by (cases "nat_str n") (auto simp: is_ascii_digit_def)
  then show ?thesis
    using dig ne val le by (cases "nat_str n") (simp_all add: parse_unsigned_def Let_def)
qed

lemma parse_u64_nat_str: "n \<le> u64_max \<Longrightarrow> parse_u64 (nat_str n) = Some n"
  by (simp add: parse_u64_def parse_unsigned_nat_str)

lemma parse_u64_bound: "parse_u64 s = Some n \<Longrightarrow> n \<le> u64_max"
  by (auto simp: parse_u64_def parse_unsigned_def Let_def split: if_splits list.splits)

section \<open>Environment flags\<close>

text \<open>\<open>is_ok_and(|v| v == "1" || v == "true")\<close>, the reading the switches share.\<close>

definition env_flag :: "env \<Rightarrow> string \<Rightarrow> bool" where
  "env_flag env k = (case env k of Some v \<Rightarrow> v = ''1'' \<or> v = ''true'' | None \<Rightarrow> False)"

definition env_or :: "env \<Rightarrow> string \<Rightarrow> string \<Rightarrow> string" where
  "env_or env k d = (case env k of Some v \<Rightarrow> v | None \<Rightarrow> d)"

lemmas string_ops = starts_with_def ends_with_def strip_prefix_def contains_def contains_char_def
  split_char_def split_once_char_def rsplit_once_char_def split_once_str_def
  ascii_lower_def ascii_upper_def to_ascii_lowercase_def to_ascii_uppercase_def
  eq_ignore_ascii_case_def to_lowercase_def lower_table_def to_uppercase_def upper_table_def
  trim_def trim_start_def trim_end_def trim_end_char_def white_space_def split_whitespace_def

end
