(* ===== verification/Sql_Ast.thy ===== *)
theory Sql_Ast
  imports Prelude
begin

text \<open>
  The abstract syntax the validator (\<open>src/validate.rs\<close>) inspects.

  The types belong to the crate \<open>sqlparser\<close>, which is not part of the repository. The
  datatypes below carry exactly the constructors and fields that \<open>src/validate.rs\<close> matches
  on; everything else of a node is kept as an opaque text (the fields named \<open>hidden\<close> and the
  constructors named \<open>Other\<close>), so two different trees stay different. What the crate
  \<^emph>\<open>computes\<close> is never defined here: it is the record \<open>sqlparser\<close>, an argument of the
  definitions that use it. In particular the traversal \<open>Visit::visit\<close> is the list of nodes the
  visitor is shown, in order (\<open>sp_visit\<close>), which includes nodes nested in hidden parts.
\<close>

type_synonym ident = string

datatype name_part = NP_Ident ident | NP_Function string

type_synonym object_name = "name_part list"

fun as_ident :: "name_part \<Rightarrow> ident option" where
  "as_ident (NP_Ident i) = Some i"
| "as_ident (NP_Function _) = None"

datatype sql_value =
    V_SingleQuotedString string
  | V_DoubleQuotedString string
  | V_EscapedStringLiteral string
  | V_NationalStringLiteral string
  | V_Number string bool
  | V_Other string

datatype binary_op = Op_StringConcat | Op_Multiply | Op_Plus | Op_Minus | Op_Other string

datatype expr =
    E_Identifier ident
  | E_CompoundIdentifier "ident list"
  | E_Nested expr
  | E_Cast expr string
  | E_Value sql_value
  | E_BinaryOp expr binary_op expr
  | E_Function sql_function
  | E_Exists string
  | E_Other string
and sql_function = SqlFunction (fn_name: object_name) (fn_args: function_arguments) (fn_hidden: string)
and function_arguments = FA_List "function_arg list" | FA_Other string
and function_arg =
    Arg_Unnamed function_arg_expr
  | Arg_Named ident function_arg_expr
  | Arg_Other string
and function_arg_expr = FAE_Expr expr | FAE_QualifiedWildcard string | FAE_Wildcard

datatype table_alias = TableAlias (ta_name: ident) (ta_columns: "ident list")

datatype join_constraint = JC_Using "object_name list" | JC_Natural | JC_Other string

datatype join_operator =
    J_Join join_constraint
  | J_Inner join_constraint
  | J_Left join_constraint
  | J_LeftOuter join_constraint
  | J_Right join_constraint
  | J_RightOuter join_constraint
  | J_FullOuter join_constraint
  | J_Semi join_constraint
  | J_LeftSemi join_constraint
  | J_RightSemi join_constraint
  | J_Anti join_constraint
  | J_LeftAnti join_constraint
  | J_RightAnti join_constraint
  | J_Other string

datatype select_item = SI_UnnamedExpr expr | SI_ExprWithAlias expr ident | SI_Other string

datatype fetch = Fetch (fetch_quantity: "expr option") (fetch_hidden: string)

datatype limit_clause =
    LC_LimitOffset "expr option" "expr option" "expr list"
  | LC_OffsetCommaLimit expr expr

datatype table_factor =
    TF_Table object_name "table_alias option" "string option"
  | TF_Derived "table_alias option" string
  | TF_TableFunction "table_alias option" string
  | TF_NestedJoin "table_alias option" "table_with_joins"
  | TF_Other string
and table_with_joins = TableWithJoins (twj_relation: table_factor) (twj_joins: "join_item list")
and join_item = JoinItem (join_relation: table_factor) (join_operator: join_operator)

datatype sel = Select (sel_into: "string option") (sel_from: "table_with_joins list")
                      (sel_projection: "select_item list") (sel_hidden: string)

datatype query =
    Query (q_with: "cte list option") (q_body: set_expr) (q_locks: "string list")
          (q_fetch: "fetch option") (q_limit_clause: "limit_clause option") (q_hidden: string)
and cte = Cte (cte_alias: table_alias) (cte_query: query)
and set_expr =
    SE_Select sel
  | SE_Values string
  | SE_Table string
  | SE_Query query
  | SE_SetOperation set_expr set_expr string
  | SE_Other string

datatype statement =
    S_Query query
  | S_Explain bool statement "ident list option" string
  | S_ExplainTable string
  | S_ShowVariable "ident list"
  | S_ShowVariables string
  | S_ShowColumns string
  | S_ShowTables string
  | S_ShowFunctions string
  | S_Other string

text \<open>The token kinds \<open>src/validate.rs\<close> distinguishes; the literal kinds are the exempt list of
  \<open>reject_invisible_outside_literals\<close>.\<close>

datatype token =
    T_Whitespace string
  | T_SemiColon
  | T_SingleQuotedString string
  | T_DoubleQuotedString string
  | T_TripleSingleQuotedString string
  | T_TripleDoubleQuotedString string
  | T_DollarQuotedString string
  | T_SingleQuotedByteStringLiteral string
  | T_DoubleQuotedByteStringLiteral string
  | T_TripleSingleQuotedByteStringLiteral string
  | T_TripleDoubleQuotedByteStringLiteral string
  | T_SingleQuotedRawStringLiteral string
  | T_DoubleQuotedRawStringLiteral string
  | T_TripleSingleQuotedRawStringLiteral string
  | T_TripleDoubleQuotedRawStringLiteral string
  | T_NationalStringLiteral string
  | T_EscapedStringLiteral string
  | T_UnicodeStringLiteral string
  | T_HexStringLiteral string
  | T_Other string

text \<open>A call of one of the visitor's four \<open>pre_visit\<close> methods.\<close>

datatype visit_event =
    Pre_Query query
  | Pre_Expr expr
  | Pre_Relation object_name
  | Pre_TableFactor table_factor

text \<open>What \<open>src/validate.rs\<close> takes from \<open>sqlparser\<close>: parsing with a recursion limit,
  tokenising, printing a token or a statement, the debug text of a statement, and the two
  traversals.\<close>

record sqlparser =
  sp_parse :: "nat \<Rightarrow> string \<Rightarrow> string + statement list"
  sp_tokenize :: "string \<Rightarrow> token list option"
  sp_token_text :: "token \<Rightarrow> string"
  sp_render :: "statement \<Rightarrow> string"
  sp_debug :: "statement \<Rightarrow> string"
  sp_visit :: "statement \<Rightarrow> visit_event list"
  sp_visit_expr :: "expr \<Rightarrow> visit_event list"

section \<open>Running a visitor\<close>

text \<open>\<open>Visit::visit\<close> with an early exit: the visitor's state is threaded through the events and
  the first \<open>ControlFlow::Break\<close> (the \<^const>\<open>True\<close> of the pair) ends the traversal.\<close>

fun run_visitor :: "('s \<Rightarrow> visit_event \<Rightarrow> 's \<times> bool) \<Rightarrow> 's \<Rightarrow> visit_event list \<Rightarrow> 's" where
  "run_visitor f s [] = s"
| "run_visitor f s (e # es) =
     (case f s e of (s', brk) \<Rightarrow> if brk then s' else run_visitor f s' es)"

text \<open>
  The contract of a \<^emph>\<open>checking\<close> visitor: it continues only with its state unchanged, and when
  it breaks it has recorded why (the state is no longer clean). A run that ends clean has then
  been shown every node and has continued at every one of them.
\<close>

locale checking_visitor =
  fixes step :: "'s \<Rightarrow> visit_event \<Rightarrow> 's \<times> bool"
    and clean :: "'s \<Rightarrow> bool"
  assumes step_continue: "step s e = (s', False) \<Longrightarrow> s' = s"
    and step_break: "step s e = (s', True) \<Longrightarrow> \<not> clean s'"
begin

lemma run_clean_all:
  assumes "clean (run_visitor step s es)" and "e \<in> set es"
  shows "step s e = (s, False)"
  using assms
proof (induction es)
  case Nil
  then show ?case by simp
next
  case (Cons x xs)
  obtain s' b where st: "step s x = (s', b)" by fastforce
  show ?case
  proof (cases b)
    case True
    with st Cons.prems(1) step_break show ?thesis by simp
  next
    case False
    with st step_continue have "s' = s" by simp
    with st False Cons show ?thesis by auto
  qed
qed

lemma run_all_continue:
  "(\<And>e. e \<in> set es \<Longrightarrow> step s e = (s, False)) \<Longrightarrow> run_visitor step s es = s"
  by (induction es) auto

lemma run_clean_iff:
  "clean s \<Longrightarrow> clean (run_visitor step s es) \<longleftrightarrow> (\<forall>e \<in> set es. step s e = (s, False))"
  using run_clean_all run_all_continue by metis

lemma run_clean_state:
  "clean (run_visitor step s es) \<Longrightarrow> run_visitor step s es = s"
  using run_clean_all run_all_continue by metis

end

text \<open>
  The contract of a \<^emph>\<open>collecting\<close> visitor: it never breaks and each node contributes what
  \<open>yield\<close> says, whatever was collected before.
\<close>

locale collecting_visitor =
  fixes step :: "'s \<Rightarrow> visit_event \<Rightarrow> 's \<times> bool"
    and elems :: "'s \<Rightarrow> 'a set"
    and yield :: "visit_event \<Rightarrow> 'a set"
  assumes never_breaks: "\<not> snd (step s e)"
    and step_elems: "elems (fst (step s e)) = elems s \<union> yield e"
begin

lemma run_elems: "elems (run_visitor step s es) = elems s \<union> (\<Union>e \<in> set es. yield e)"
proof (induction es arbitrary: s)
  case Nil
  then show ?case by simp
next
  case (Cons e es)
  obtain s' b where st: "step s e = (s', b)" by fastforce
  with never_breaks [of s e] have "\<not> b" by simp
  moreover from st step_elems [of s e] have "elems s' = elems s \<union> yield e" by simp
  ultimately show ?case using st Cons.IH [of s'] by auto
qed

end

end
