(* ===== verification/Validate_Functions.thy ===== *)
theory Validate_Functions
  imports Sql_Ast
begin

text \<open>
  Function and relation names in \<open>src/validate.rs\<close>: the lists of known side effects, the denied
  families and schemas, and the verdict \<open>classify_function\<close>. The lists are the constants of the
  source, in its order. \<open>operator_allowed\<close> reads \<open>MCP_ALLOW_FUNCTIONS\<close> from the environment,
  which is an argument.

  The lemmas state the verdict as a specification on names (\<open>refused_name\<close>): which names are
  allowed, and that the catalog namespace is closed by default.
\<close>

definition em_dash :: string where
  "em_dash = [CHR 0xE2, CHR 0x80, CHR 0x94]"

definition UNREADABLE_NAME :: string where
  "UNREADABLE_NAME = ''<unreadable name part>''"

section \<open>Names\<close>

definition last_part_name :: "object_name \<Rightarrow> string option" where
  "last_part_name name =
     (if name = [] then None else map_option to_lowercase (as_ident (last name)))"

definition name_has_unreadable_part :: "object_name \<Rightarrow> bool" where
  "name_has_unreadable_part name = list_ex (\<lambda>p. as_ident p = None) name"

section \<open>The constant tables\<close>

definition RAW_STORAGE_RELATIONS :: "string list" where
  "RAW_STORAGE_RELATIONS =
     [''pg_largeobject'', ''pg_statistic'', ''pg_statistic_ext_data'']"

definition RAW_STORAGE_SCHEMAS :: "string list" where
  "RAW_STORAGE_SCHEMAS =
     [''pg_toast'', ''pg_toast_temp_1'']"

definition RAW_STORAGE_FUNCS :: "string list" where
  "RAW_STORAGE_FUNCS =
     [''get_raw_page'', ''heap_page_items'', ''heap_page_item_attrs'', ''tuple_data_split'',
      ''page_header'', ''bt_page_items'', ''brin_page_items'', ''gin_leafpage_items'',
      ''hash_page_items'', ''fsm_page_contents'', ''gist_page_items'', ''gist_page_items_bytea'']"

definition EXTENSION_WRITE_FUNCS :: "string list" where
  "EXTENSION_WRITE_FUNCS =
     [''create_hypertable'', ''drop_chunks'', ''compress_chunk'', ''decompress_chunk'',
      ''add_retention_policy'', ''remove_retention_policy'', ''add_compression_policy'',
      ''remove_compression_policy'', ''add_continuous_aggregate_policy'',
      ''refresh_continuous_aggregate'', ''add_dimension'', ''attach_tablespace'',
      ''detach_tablespace'', ''move_chunk'', ''reorder_chunk'', ''addgeometrycolumn'',
      ''dropgeometrycolumn'', ''dropgeometrytable'', ''updategeometrysrid'',
      ''populate_geometry_columns'']"

definition DENY_SCHEMAS :: "string list" where
  "DENY_SCHEMAS =
     [''cron'', ''repack'', ''partman'', ''pglogical'', ''squeeze'', ''_timescaledb_internal'',
      ''_timescaledb_functions'']"

definition SAFE_PREFIXES :: "string list" where
  "SAFE_PREFIXES =
     [''pg_get_'', ''pg_stat_get_'', ''pg_size_'', ''pg_has_'']"

definition SAFE_EXACT :: "string list" where
  "SAFE_EXACT =
     [''pg_typeof'', ''pg_backend_pid'', ''pg_postmaster_start_time'', ''pg_conf_load_time'',
      ''pg_is_in_recovery'', ''pg_client_encoding'', ''pg_encoding_to_char'',
      ''pg_char_to_encoding'', ''pg_column_size'', ''pg_database_size'', ''pg_relation_size'',
      ''pg_total_relation_size'', ''pg_table_size'', ''pg_indexes_size'', ''pg_tablespace_size'',
      ''pg_tablespace_location'', ''pg_relation_filenode'', ''pg_relation_filepath'',
      ''pg_describe_object'', ''pg_identify_object'', ''pg_identify_object_as_address'',
      ''pg_options_to_table'', ''pg_current_wal_lsn'', ''pg_current_wal_insert_lsn'',
      ''pg_current_wal_flush_lsn'', ''pg_last_wal_receive_lsn'', ''pg_last_wal_replay_lsn'',
      ''pg_last_xact_replay_timestamp'', ''pg_walfile_name'', ''pg_walfile_name_offset'',
      ''pg_wal_lsn_diff'', ''pg_blocking_pids'', ''pg_safe_snapshot_blocking_pids'',
      ''pg_trigger_depth'', ''pg_notification_queue_usage'', ''pg_listening_channels'',
      ''pg_lock_status'', ''pg_index_has_property'', ''pg_index_column_has_property'',
      ''pg_indexam_has_property'', ''pg_column_is_updatable'', ''pg_relation_is_updatable'',
      ''pg_relation_is_publishable'', ''pg_collation_actual_version'',
      ''pg_database_collation_actual_version'', ''pg_snapshot_xmin'', ''pg_snapshot_xmax'',
      ''pg_snapshot_xip'', ''pg_visible_in_snapshot'', ''pg_settings_get_flags'',
      ''pg_show_all_settings'', ''pg_show_all_file_settings'', ''pg_tablespace_databases'',
      ''pg_partition_tree'', ''pg_partition_root'', ''pg_partition_ancestors'',
      ''pg_get_wal_resource_managers'', ''pg_char_to_encoding'', ''pg_input_is_valid'']"

definition DENY_FAMILIES :: "string list" where
  "DENY_FAMILIES =
     [''pg_import_'', ''pg_backup_'', ''pg_start_backup'', ''pg_stop_backup'', ''pg_promote'',
      ''pg_wal_replay_'', ''pg_switch_'', ''pg_create_'', ''pg_drop_'', ''pg_replication_'',
      ''pg_logical_'', ''pg_terminate_'', ''pg_cancel_'', ''pg_advisory_'', ''pg_try_advisory_'',
      ''pg_reload_'', ''pg_rotate_'', ''pg_ls_'', ''pg_file_'', ''pg_write_'', ''pg_logdir_'',
      ''gin_clean_'', ''brin_summarize'', ''brin_desummarize'', ''dblink'', ''query_to_'',
      ''table_to_'', ''cursor_to_'', ''schema_to_'', ''database_to_'', ''lo_'', ''lowrite'',
      ''loread'']"

definition SAFE_DESPITE_FAMILY :: "string list" where
  "SAFE_DESPITE_FAMILY =
     [''lo_get'', ''lo_get_fragment'']"

definition SIDE_EFFECT_FUNCS :: "string list" where
  "SIDE_EFFECT_FUNCS =
     [''setval'', ''nextval'', ''set_config'', ''pg_advisory_lock'', ''pg_advisory_unlock'',
      ''pg_advisory_unlock_all'', ''pg_advisory_xact_lock'', ''pg_advisory_lock_shared'',
      ''pg_advisory_xact_lock_shared'', ''pg_try_advisory_lock'', ''pg_try_advisory_xact_lock'',
      ''pg_try_advisory_lock_shared'', ''pg_try_advisory_xact_lock_shared'',
      ''pg_advisory_unlock_shared'', ''dblink_exec'', ''dblink'', ''dblink_connect'',
      ''lo_import'', ''lo_export'', ''lo_unlink'', ''lo_put'', ''lo_from_bytea'', ''lo_creat'',
      ''lo_create'', ''pg_read_file'', ''pg_read_binary_file'', ''pg_get_loaded_modules'',
      ''pg_ls_dir'', ''pg_stat_file'', ''pg_reload_conf'', ''pg_rotate_logfile'',
      ''pg_terminate_backend'', ''pg_cancel_backend'', ''pg_switch_wal'', ''pg_switch_xlog'',
      ''pg_create_restore_point'', ''pg_logical_emit_message'', ''pg_replication_origin_create'',
      ''pg_replication_origin_drop'', ''pg_drop_replication_slot'',
      ''pg_create_physical_replication_slot'', ''pg_create_logical_replication_slot'',
      ''pg_sleep'', ''pg_sleep_for'', ''pg_sleep_until'', ''pg_notify'', ''pg_stat_reset'',
      ''pg_stat_reset_shared'', ''pg_stat_reset_slru'', ''pg_stat_reset_single_table_counters'',
      ''pg_stat_reset_single_function_counters'', ''pg_stat_reset_replication_slot'',
      ''pg_stat_reset_subscription_stats'', ''pg_file_write'', ''pg_file_unlink'',
      ''pg_file_rename'', ''pg_file_sync'', ''pg_logdir_ls'', ''pg_write_file'',
      ''pg_read_server_files'', ''pg_write_server_files'', ''pg_execute_server_program'',
      ''dblink_connect_u'', ''dblink_send_query'', ''dblink_open'', ''dblink_fetch'',
      ''pg_replication_origin_advance'', ''pg_replication_origin_session_setup'',
      ''pg_logical_slot_get_changes'', ''pg_logical_slot_peek_changes'']"

definition SENSITIVE_SHOW_VARS :: "string list" where
  "SENSITIVE_SHOW_VARS =
     [''data_directory'', ''config_file'', ''hba_file'', ''ident_file'', ''external_pid_file'',
      ''ssl_cert_file'', ''ssl_key_file'', ''ssl_ca_file'', ''ssl_crl_file'', ''archive_command'',
      ''restore_command'', ''log_directory'', ''log_filename'', ''unix_socket_directories'',
      ''dynamic_library_path'', ''krb_server_keyfile'']"

section \<open>The verdict on a function name\<close>

datatype fn_verdict = Allowed | SideEffect | UnknownCatalog | RawStorage

definition csv_lower :: "string \<Rightarrow> string list" where
  "csv_lower v = filter (\<lambda>s. s \<noteq> []) (map (\<lambda>s. to_lowercase (trim s)) (split_char CHR '','' v))"

definition operator_allowed :: "env \<Rightarrow> string \<Rightarrow> bool" where
  "operator_allowed env name =
     (case env ''MCP_ALLOW_FUNCTIONS'' of
        Some v \<Rightarrow> list_ex (\<lambda>a. a = name) (csv_lower v)
      | None \<Rightarrow> False)"

definition function_explicitly_allowed :: "env \<Rightarrow> string \<Rightarrow> bool" where
  "function_explicitly_allowed env name =
     (case env ''MCP_ALLOW_FUNCTIONS'' of
        Some v \<Rightarrow> list_ex (\<lambda>a. eq_ignore_ascii_case a name) (map trim (split_char CHR '','' v))
      | None \<Rightarrow> False)"

definition is_catalog_namespace :: "string \<Rightarrow> bool" where
  "is_catalog_namespace name =
     (starts_with name ''pg_'' \<or> starts_with name ''lo_'' \<or> starts_with name ''dblink'')"

definition is_known_read :: "string \<Rightarrow> bool" where
  "is_known_read name =
     (list_ex (\<lambda>p. starts_with name p) SAFE_PREFIXES
      \<or> contains name ''_is_visible''
      \<or> List.member SAFE_EXACT name)"

definition classify_function :: "env \<Rightarrow> string \<Rightarrow> fn_verdict" where
  "classify_function env name =
     (if List.member SAFE_DESPITE_FAMILY name \<or> operator_allowed env name then Allowed
      else if List.member RAW_STORAGE_FUNCS name then RawStorage
      else if List.member SIDE_EFFECT_FUNCS name
              \<or> List.member EXTENSION_WRITE_FUNCS name
              \<or> list_ex (\<lambda>p. starts_with name p) DENY_FAMILIES
              \<or> starts_with name ''pg_stat_'' \<and> contains name ''reset'' then SideEffect
      else if is_catalog_namespace name \<and> \<not> is_known_read name then UnknownCatalog
      else Allowed)"

definition function_rejection :: "env \<Rightarrow> string \<Rightarrow> string option" where
  "function_rejection env name =
     (case classify_function env name of
        Allowed \<Rightarrow> None
      | SideEffect \<Rightarrow> Some (''side-effect function: '' @ name)
      | RawStorage \<Rightarrow> Some (''raw-storage function: '' @ name @ '' '' @ em_dash @
          '' it returns pages or tuples as bytes, which column controls (redaction, projection) cannot inspect'')
      | UnknownCatalog \<Rightarrow> Some (''catalog function not known to be read-only: '' @ name @
          '' (allow it with MCP_ALLOW_FUNCTIONS if it is)''))"

fun first_denied_schema :: "name_part list \<Rightarrow> string option" where
  "first_denied_schema [] = None"
| "first_denied_schema (p # ps) =
     (case as_ident p of
        Some i \<Rightarrow> (let v = to_lowercase i in
                    if List.member DENY_SCHEMAS v then Some v else first_denied_schema ps)
      | None \<Rightarrow> first_denied_schema ps)"

definition denied_schema :: "object_name \<Rightarrow> string option" where
  "denied_schema name =
     (if length name < 2 then None else first_denied_schema (take (length name - 1) name))"

definition qualified_function_rejection :: "env \<Rightarrow> object_name \<Rightarrow> string option" where
  "qualified_function_rejection env name =
     (case denied_schema name of
        Some sch \<Rightarrow>
          (let f = (case last_part_name name of Some f \<Rightarrow> f | None \<Rightarrow> ''?'') in
           Some (''side-effect function: '' @ sch @ ''.'' @ f @ '' (the '' @ sch @
                 '' schema is administrative)''))
      | None \<Rightarrow>
          (case last_part_name name of
             None \<Rightarrow> None
           | Some n \<Rightarrow> function_rejection env n))"

section \<open>Raw-storage relations\<close>

definition readable_parts :: "object_name \<Rightarrow> string list" where
  "readable_parts name =
     map to_lowercase (List.map_filter as_ident name)"

definition is_raw_storage_relation :: "object_name \<Rightarrow> string option" where
  "is_raw_storage_relation name =
     (let parts = readable_parts name; n = length parts in
      if n = 0 then None
      else if 2 \<le> n \<and> (List.member RAW_STORAGE_SCHEMAS (parts ! (n - 2))
                        \<or> starts_with (parts ! (n - 2)) ''pg_toast'')
      then Some (join ''.'' parts)
      else if List.member RAW_STORAGE_RELATIONS (last parts) then Some (last parts)
      else None)"

section \<open>The verdict as a specification\<close>

text \<open>The names the module documentation promises to refuse, unless the operator named them or
  they are one of the two listed reads of a denied family.\<close>

definition refused_name :: "string \<Rightarrow> bool" where
  "refused_name name \<longleftrightarrow>
     name \<in> set SIDE_EFFECT_FUNCS \<or> name \<in> set EXTENSION_WRITE_FUNCS \<or> name \<in> set RAW_STORAGE_FUNCS
     \<or> (\<exists>p \<in> set DENY_FAMILIES. prefix p name)
     \<or> (is_catalog_namespace name \<and> \<not> is_known_read name)"

definition exempt_name :: "env \<Rightarrow> string \<Rightarrow> bool" where
  "exempt_name env name \<longleftrightarrow> name \<in> set SAFE_DESPITE_FAMILY \<or> operator_allowed env name"

lemma classify_refused:
  "refused_name name \<Longrightarrow> \<not> exempt_name env name \<Longrightarrow> classify_function env name \<noteq> Allowed"
  by (auto simp: refused_name_def exempt_name_def classify_function_def list_ex_iff starts_with_def)

lemma classify_exempt: "exempt_name env name \<Longrightarrow> classify_function env name = Allowed"
  by (auto simp: exempt_name_def classify_function_def)

lemma classify_Allowed:
  "classify_function env name = Allowed \<Longrightarrow> exempt_name env name \<or> \<not> refused_name name"
  using classify_refused by blast

lemma classify_SideEffect_known:
  "name \<in> set SIDE_EFFECT_FUNCS \<or> name \<in> set EXTENSION_WRITE_FUNCS \<Longrightarrow> \<not> exempt_name env name \<Longrightarrow>
   name \<notin> set RAW_STORAGE_FUNCS \<Longrightarrow> classify_function env name = SideEffect"
  by (auto simp: exempt_name_def classify_function_def)

lemma function_rejection_None:
  "function_rejection env name = None \<longleftrightarrow> classify_function env name = Allowed"
  by (simp add: function_rejection_def split: fn_verdict.splits)

lemma first_denied_schema_None:
  "first_denied_schema ps = None \<longleftrightarrow>
     (\<forall>i. NP_Ident i \<in> set ps \<longrightarrow> to_lowercase i \<notin> set DENY_SCHEMAS)"
proof (induction ps)
  case Nil
  then show ?case by simp
next
  case (Cons p ps)
  then show ?case by (cases p) (auto simp: Let_def)
qed

text \<open>A call that is not refused: readable, in no administrative schema, and its name is allowed.\<close>

lemma qualified_function_rejection_None:
  assumes "qualified_function_rejection env name = None"
  shows "denied_schema name = None"
    and "last_part_name name = Some n \<Longrightarrow> exempt_name env n \<or> \<not> refused_name n"
  using assms classify_Allowed
  by (auto simp: qualified_function_rejection_def function_rejection_None Let_def split: option.splits)

lemma last_part_name_readable:
  "name \<noteq> [] \<Longrightarrow> \<not> name_has_unreadable_part name \<Longrightarrow> \<exists>n. last_part_name name = Some n"
  using last_in_set [of name]
  by (fastforce simp: last_part_name_def name_has_unreadable_part_def list_ex_iff)

end
