(* ===== verification/Validate_Size.thy ===== *)
theory Validate_Size
  imports Validate_Functions
begin

text \<open>
  The size of a constant text after folding (\<open>folded_size_estimate\<close> and its helpers in
  \<open>src/validate.rs\<close>). The arithmetic is \<open>u64\<close>: saturating, and capped at \<open>2 ^ 40\<close>.

  \<open>const_text\<close> is the reference semantics: the text PostgreSQL's \<open>repeat\<close> and \<open>||\<close> build from
  literals. The estimate agrees with its length up to the cap (\<open>folded_size_exact\<close>).
\<close>

section \<open>The code\<close>

definition size_cap :: nat where
  "size_cap = 2 ^ 40"

definition MAX_RESULT_BYTES :: nat where
  "MAX_RESULT_BYTES = 8 * 1048576"

text \<open>The visitor \<open>HasColumn\<close> of \<open>is_constant_expr\<close>.\<close>

fun has_column_step :: "bool \<Rightarrow> visit_event \<Rightarrow> bool \<times> bool" where
  "has_column_step s (Pre_Expr (E_Identifier i)) = (True, True)"
| "has_column_step s (Pre_Expr (E_CompoundIdentifier is)) = (True, True)"
| "has_column_step s e = (s, False)"

definition is_constant_expr :: "sqlparser \<Rightarrow> expr \<Rightarrow> bool" where
  "is_constant_expr sp e = (\<not> run_visitor has_column_step False (sp_visit_expr sp e))"

fun const_integer :: "expr \<Rightarrow> nat option" where
  "const_integer (E_Nested inner) = const_integer inner"
| "const_integer (E_Cast e h) = const_integer e"
| "const_integer (E_Value (V_Number n b)) = parse_u64 n"
| "const_integer (E_BinaryOp l op r) =
     (case const_integer l of None \<Rightarrow> None
      | Some a \<Rightarrow>
         (case const_integer r of None \<Rightarrow> None
          | Some b \<Rightarrow>
             (case op of
                Op_Multiply \<Rightarrow> Some (saturating_mul a b)
              | Op_Plus \<Rightarrow> Some (saturating_add a b)
              | Op_Minus \<Rightarrow> Some (saturating_sub a b)
              | _ \<Rightarrow> None)))"
| "const_integer _ = None"

fun plain_arg_list :: "function_arg list \<Rightarrow> expr list option" where
  "plain_arg_list [] = Some []"
| "plain_arg_list (Arg_Unnamed (FAE_Expr e) # as) = map_option ((#) e) (plain_arg_list as)"
| "plain_arg_list (_ # as) = None"

fun plain_args :: "sql_function \<Rightarrow> expr list option" where
  "plain_args (SqlFunction n (FA_List as) h) = plain_arg_list as"
| "plain_args (SqlFunction n (FA_Other _) h) = None"

lemma plain_arg_list_size:
  "plain_arg_list as = Some es \<Longrightarrow> e \<in> set es \<Longrightarrow> size e < size_list size as"
  by (induction as arbitrary: es rule: plain_arg_list.induct) fastforce+

lemma plain_args_size: "plain_args f = Some es \<Longrightarrow> e \<in> set es \<Longrightarrow> size e < size f"
  by (cases f rule: plain_args.cases) (auto dest: plain_arg_list_size)

function folded_size_estimate :: "sqlparser \<Rightarrow> expr \<Rightarrow> nat option" where
  "folded_size_estimate sp e =
     (case e of
        E_Nested inner \<Rightarrow> folded_size_estimate sp inner
      | E_Cast c h \<Rightarrow> folded_size_estimate sp c
      | E_Value (V_SingleQuotedString s) \<Rightarrow> Some (length s)
      | E_Value (V_DoubleQuotedString s) \<Rightarrow> Some (length s)
      | E_Value (V_Number n b) \<Rightarrow> map_option (\<lambda>_. length n) (parse_u64 n)
      | E_BinaryOp l Op_StringConcat r \<Rightarrow>
          (case folded_size_estimate sp l of None \<Rightarrow> None
           | Some a \<Rightarrow>
              (case folded_size_estimate sp r of None \<Rightarrow> None
               | Some b \<Rightarrow> Some (min (saturating_add a b) size_cap)))
      | E_Function f \<Rightarrow>
          (case last_part_name (fn_name f) of None \<Rightarrow> None
           | Some name \<Rightarrow>
              (case plain_args f of None \<Rightarrow> None
               | Some args \<Rightarrow>
                   if name = ''repeat'' \<and> length args = 2 then
                     (case const_integer (args ! 1) of None \<Rightarrow> None
                      | Some cnt \<Rightarrow>
                         (case folded_size_estimate sp (args ! 0) of
                            Some n \<Rightarrow> Some (min (saturating_mul n cnt) size_cap)
                          | None \<Rightarrow>
                              if is_constant_expr sp (args ! 0)
                              then Some (min (saturating_mul 1 cnt) size_cap) else None))
                   else if (name = ''lpad'' \<or> name = ''rpad'') \<and> (length args = 2 \<or> length args = 3)
                   then const_integer (args ! 1)
                   else None))
      | _ \<Rightarrow> None)"
  by pat_completeness auto
termination
proof (relation "measure (\<lambda>(sp, e). size e)", goal_cases)
  case (6 sp e f name args cnt)
  then have "args ! 0 \<in> set args" by simp
  with 6 plain_args_size [of f args "args ! 0"] show ?case by simp
qed auto

declare folded_size_estimate.simps [simp del]

lemma folded_size_simps [simp]:
  "folded_size_estimate sp (E_Nested e) = folded_size_estimate sp e"
  "folded_size_estimate sp (E_Cast e h) = folded_size_estimate sp e"
  "folded_size_estimate sp (E_Value (V_SingleQuotedString s)) = Some (length s)"
  "folded_size_estimate sp (E_Value (V_DoubleQuotedString s)) = Some (length s)"
  "folded_size_estimate sp (E_Identifier i) = None"
  "folded_size_estimate sp (E_CompoundIdentifier is) = None"
  by (subst folded_size_estimate.simps; simp)+

section \<open>The reference semantics\<close>

text \<open>A constant integer, exact: defined while every intermediate value is a \<open>u64\<close>.\<close>

fun const_int :: "expr \<Rightarrow> nat option" where
  "const_int (E_Nested inner) = const_int inner"
| "const_int (E_Value (V_Number n b)) = parse_u64 n"
| "const_int (E_BinaryOp l op r) =
     (case (const_int l, const_int r) of
        (Some a, Some b) \<Rightarrow>
          (if op = Op_Multiply \<and> a * b \<le> u64_max then Some (a * b)
           else if op = Op_Plus \<and> a + b \<le> u64_max then Some (a + b)
           else if op = Op_Minus \<and> b \<le> a then Some (a - b)
           else None)
      | _ \<Rightarrow> None)"
| "const_int _ = None"

text \<open>The text \<open>repeat\<close>, \<open>lpad\<close>, \<open>rpad\<close> and \<open>||\<close> build from single-quoted literals and constant counts. A
  padded text has as many characters as its count says, whatever is padded with whatever; here each of
  them takes one byte.\<close>

inductive const_text :: "expr \<Rightarrow> string \<Rightarrow> bool" where
  ct_literal: "const_text (E_Value (V_SingleQuotedString s)) s"
| ct_nested: "const_text e s \<Longrightarrow> const_text (E_Nested e) s"
| ct_concat: "const_text l s \<Longrightarrow> const_text r t \<Longrightarrow> const_text (E_BinaryOp l Op_StringConcat r) (s @ t)"
| ct_repeat: "const_text u s \<Longrightarrow> const_int c = Some n \<Longrightarrow> last_part_name nm = Some ''repeat'' \<Longrightarrow>
    const_text (E_Function (SqlFunction nm
      (FA_List [Arg_Unnamed (FAE_Expr u), Arg_Unnamed (FAE_Expr c)]) h)) (concat (replicate n s))"
| ct_pad: "const_int c = Some n \<Longrightarrow> last_part_name nm \<in> {Some ''lpad'', Some ''rpad''} \<Longrightarrow> length s = n \<Longrightarrow>
    const_text (E_Function (SqlFunction nm
      (FA_List [Arg_Unnamed (FAE_Expr u), Arg_Unnamed (FAE_Expr c)]) h)) s"
| ct_pad_with: "const_int c = Some n \<Longrightarrow> last_part_name nm \<in> {Some ''lpad'', Some ''rpad''} \<Longrightarrow> length s = n \<Longrightarrow>
    const_text (E_Function (SqlFunction nm
      (FA_List [Arg_Unnamed (FAE_Expr u), Arg_Unnamed (FAE_Expr c), Arg_Unnamed (FAE_Expr v)]) h)) s"

lemma const_integer_exact: "const_int e = Some n \<Longrightarrow> const_integer e = Some n"
proof (induction e arbitrary: n rule: const_int.induct)
  case (3 l op r)
  then obtain a b where ab: "const_int l = Some a" "const_int r = Some b"
    by (auto split: option.splits)
  with 3 have "const_integer l = Some a" "const_integer r = Some b" by auto
  with ab 3 show ?case
    by (auto simp: saturating_mul_def saturating_add_def saturating_sub_def split: if_splits)
qed (auto split: option.splits)

lemma repeat_lower [simp]: "to_lowercase ''repeat'' = ''repeat''"
  by code_simp

lemma last_part_repeat [simp]: "last_part_name [NP_Ident ''repeat''] = Some ''repeat''"
  by (simp add: last_part_name_def)

lemma cap_le_u64: "size_cap \<le> u64_max"
  by (simp add: size_cap_def u64_max_def)

lemma min_cap_add:
  fixes a :: nat
  assumes "min a c = min x c" and "min b c = min y c" and "c \<le> m"
  shows "min (min (min (a + b) m) c) c = min (x + y) c"
  using assms by (auto simp: min_def split: if_splits)

lemma min_cap_mul:
  fixes a :: nat
  assumes "min a c = min x c" and "c \<le> m"
  shows "min (min (min (a * n) m) c) c = min (x * n) c"
proof (cases "a = x")
  case True
  with assms(2) show ?thesis by (simp add: min_def)
next
  case False
  with assms(1) have ge: "c \<le> a" "c \<le> x" by (auto simp: min_def split: if_splits)
  show ?thesis
  proof (cases "n = 0")
    case True
    then show ?thesis by simp
  next
    case False
    with ge have "c \<le> a * n" "c \<le> x * n"
      by (metis le_trans mult_le_mono2 nat_mult_1_right One_nat_def Suc_leI neq0_conv)+
    with assms(2) show ?thesis by (auto simp: min_def)
  qed
qed

lemma length_concat_replicate: "length (concat (replicate n s)) = length s * n"
  by (induction n) auto

lemma folded_size_exact:
  "const_text e s \<Longrightarrow>
   \<exists>k. folded_size_estimate sp e = Some k \<and> min k size_cap = min (length s) size_cap"
proof (induction rule: const_text.induct)
  case (ct_literal s)
  then show ?case by simp
next
  case (ct_nested e s)
  then show ?case by simp
next
  case (ct_concat l s r t)
  then obtain a b where a: "folded_size_estimate sp l = Some a" "min a size_cap = min (length s) size_cap"
    and b: "folded_size_estimate sp r = Some b" "min b size_cap = min (length t) size_cap" by blast
  have "folded_size_estimate sp (E_BinaryOp l Op_StringConcat r)
      = Some (min (saturating_add a b) size_cap)"
    using a b by (subst folded_size_estimate.simps) simp
  then show ?case
    using min_cap_add [OF a(2) b(2) cap_le_u64] by (simp add: saturating_add_def)
next
  case (ct_repeat u s c n nm h)
  then obtain a where a: "folded_size_estimate sp u = Some a" "min a size_cap = min (length s) size_cap"
    by blast
  have "folded_size_estimate sp (E_Function (SqlFunction nm
      (FA_List [Arg_Unnamed (FAE_Expr u), Arg_Unnamed (FAE_Expr c)]) h))
      = Some (min (saturating_mul a n) size_cap)"
    using a const_integer_exact [OF ct_repeat.hyps(2)] ct_repeat.hyps(3)
    by (subst folded_size_estimate.simps) simp
  then show ?case
    using min_cap_mul [OF a(2) cap_le_u64]
    by (simp add: saturating_mul_def length_concat_replicate)
next
  case (ct_pad c n nm s u h)
  then show ?case
    using const_integer_exact [OF ct_pad.hyps(1)] by (subst folded_size_estimate.simps) auto
next
  case (ct_pad_with c n nm s u v h)
  then show ?case
    using const_integer_exact [OF ct_pad_with.hyps(1)] by (subst folded_size_estimate.simps) auto
qed

text \<open>What is not estimated: any other function, and any count with another operator.\<close>

lemma other_function_not_estimated:
  "last_part_name nm \<notin> {Some ''repeat'', Some ''lpad'', Some ''rpad''} \<Longrightarrow>
   folded_size_estimate sp (E_Function (SqlFunction nm args h)) = None"
  by (subst folded_size_estimate.simps) (auto split: option.split)

lemma divided_count_not_estimated:
  "folded_size_estimate sp (E_Function (SqlFunction [NP_Ident ''repeat'']
     (FA_List [Arg_Unnamed (FAE_Expr u), Arg_Unnamed (FAE_Expr (E_BinaryOp a (Op_Other other) b))]) h)) = None"
  by (subst folded_size_estimate.simps) (auto split: option.split)

text \<open>A constant text that is too large to be returned has a refused estimate.\<close>

lemma oversized_constant_estimate:
  assumes "const_text e s" and "MAX_RESULT_BYTES < length s"
  obtains k where "folded_size_estimate sp e = Some k" and "MAX_RESULT_BYTES < k"
proof -
  from folded_size_exact [OF assms(1), of sp] obtain k
    where k: "folded_size_estimate sp e = Some k" "min k size_cap = min (length s) size_cap" by blast
  have "MAX_RESULT_BYTES < min (length s) size_cap"
    using assms(2) by (simp add: MAX_RESULT_BYTES_def size_cap_def)
  with k(2) have "MAX_RESULT_BYTES < min k size_cap" by simp
  then have "MAX_RESULT_BYTES < k" by simp
  with k(1) that show thesis by blast
qed

end
