(* ===== verification/Validate_Redaction.thy ===== *)
theory Validate_Redaction
  imports Validate_Functions
begin

text \<open>
  The lexical layer of \<open>src/validate.rs\<close>: the redacted column list, names hidden in string
  literals, invisible characters, and the two checks on the token list.
\<close>

section \<open>The redacted columns\<close>

definition STATISTIC_VALUE_COLUMNS :: "string list" where
  "STATISTIC_VALUE_COLUMNS =
     [''most_common_vals'', ''most_common_elems'', ''histogram_bounds'', ''elem_count_histogram'',
      ''range_length_histogram'', ''range_bounds_histogram'', ''stavalues1'', ''stavalues2'',
      ''stavalues3'', ''stavalues4'', ''stavalues5'', ''stxdmcv'', ''stxdhistogram'']"

fun push_missing :: "string list \<Rightarrow> string list \<Rightarrow> string list" where
  "push_missing v [] = v"
| "push_missing v (c # cs) = push_missing (if List.member v c then v else v @ [c]) cs"

definition expand_with_statistic_columns :: "string list \<Rightarrow> string list" where
  "expand_with_statistic_columns v = (if v = [] then v else push_missing v STATISTIC_VALUE_COLUMNS)"

definition redacted_names :: "env \<Rightarrow> string list" where
  "redacted_names env =
     (case env ''MCP_REDACT_COLUMNS'' of
        Some v \<Rightarrow> expand_with_statistic_columns
                   (map (\<lambda>s. last (split_char CHR ''.'' s)) (csv_lower v))
      | None \<Rightarrow> [])"

definition redaction_configured :: "env \<Rightarrow> bool" where
  "redaction_configured env = (redacted_names env \<noteq> [])"

definition is_redacted :: "env \<Rightarrow> string \<Rightarrow> bool" where
  "is_redacted env name = list_ex (\<lambda>p. p = name) (redacted_names env)"

definition redacted_name_inside :: "env \<Rightarrow> string \<Rightarrow> string option" where
  "redacted_name_inside env lit = List.find (\<lambda>n. contains lit n) (redacted_names env)"

lemma push_missing_set: "set (push_missing v cs) = set v \<union> set cs"
  by (induction cs arbitrary: v) auto

lemma is_redacted_iff: "is_redacted env n \<longleftrightarrow> n \<in> set (redacted_names env)"
  by (auto simp: is_redacted_def list_ex_iff)

text \<open>Once anything is redacted, the value-bearing statistics columns are too.\<close>

lemma statistic_columns_redacted:
  "redaction_configured env \<Longrightarrow> c \<in> set STATISTIC_VALUE_COLUMNS \<Longrightarrow> is_redacted env c"
  by (auto simp: is_redacted_iff redaction_configured_def redacted_names_def
      expand_with_statistic_columns_def push_missing_set split: option.splits if_splits)

section \<open>String escapes\<close>

definition is_hexdigit :: "nat \<Rightarrow> bool" where
  "is_hexdigit c = (48 \<le> c \<and> c \<le> 57 \<or> 65 \<le> c \<and> c \<le> 70 \<or> 97 \<le> c \<and> c \<le> 102)"

definition hexdigit_val :: "nat \<Rightarrow> nat" where
  "hexdigit_val c = (if c \<le> 57 then c - 48 else if c \<le> 70 then c - 55 else c - 87)"

definition radix_val :: "nat \<Rightarrow> nat list \<Rightarrow> nat" where
  "radix_val r ds = foldl (\<lambda>a d. a * r + d) 0 ds"

text \<open>\<open>unescape_sql_literal\<close> on code points; a backslash is 92 and \<open>x\<close> is 120.
  \<open>escape_after\<close> is the body of the loop after a backslash: the decoded character and how many
  characters it took.\<close>

definition escape_after :: "nat list \<Rightarrow> (nat \<times> nat) option" where
  "escape_after s =
     (let rest = take 3 s;
          hex = filter is_hexdigit (take 2 (drop 1 rest));
          oct = takeWhile (\<lambda>d. 48 \<le> d \<and> d \<le> 55) rest in
      if s = [] then None
      else if hd s = 120 \<and> hex \<noteq> [] then
        Some (radix_val 16 (map hexdigit_val hex), 1 + length hex)
      else if oct \<noteq> [] then Some (radix_val 8 (map (\<lambda>d. d - 48) oct), length oct)
      else None)"

fun unescape_chars :: "nat list \<Rightarrow> nat list" where
  "unescape_chars [] = []"
| "unescape_chars (c # s) =
     (case (if c = 92 then escape_after s else None) of
        Some (n, k) \<Rightarrow> n # unescape_chars (drop k s)
      | None \<Rightarrow> c # unescape_chars s)"

text \<open>\<open>String::push\<close>: the UTF-8 encoding of a code point.\<close>

definition utf8_encode :: "nat \<Rightarrow> string" where
  "utf8_encode n =
     (if n < 0x80 then [char_of n]
      else if n < 0x800 then [char_of (0xC0 + n div 64), char_of (0x80 + n mod 64)]
      else if n < 0x10000 then
        [char_of (0xE0 + n div 4096), char_of (0x80 + n div 64 mod 64), char_of (0x80 + n mod 64)]
      else [char_of (0xF0 + n div 262144), char_of (0x80 + n div 4096 mod 64),
            char_of (0x80 + n div 64 mod 64), char_of (0x80 + n mod 64)])"

definition unescape_sql_literal :: "string \<Rightarrow> string" where
  "unescape_sql_literal s = concat (map utf8_encode (unescape_chars (utf8_chars s)))"

lemma unescape_no_backslash: "92 \<notin> set cs \<Longrightarrow> unescape_chars cs = cs"
proof (induction cs)
  case Nil
  then show ?case by simp
next
  case (Cons c s)
  then have "c \<noteq> 92" "unescape_chars s = s" by auto
  then show ?case by simp
qed

section \<open>Invisible characters\<close>

definition in_ranges :: "nat \<Rightarrow> (nat \<times> nat) list \<Rightarrow> bool" where
  "in_ranges c rs = list_ex (\<lambda>(a, b). a \<le> c \<and> c \<le> b) rs"

text \<open>\<open>char::is_control\<close> and \<open>char::is_whitespace\<close>.\<close>

definition is_control :: "nat \<Rightarrow> bool" where
  "is_control c = (c \<le> 0x1F \<or> 0x7F \<le> c \<and> c \<le> 0x9F)"

definition is_whitespace :: "nat \<Rightarrow> bool" where
  "is_whitespace c =
     in_ranges c [(0x09, 0x0D), (0x20, 0x20), (0x85, 0x85), (0xA0, 0xA0), (0x1680, 0x1680),
       (0x2000, 0x200A), (0x2028, 0x2029), (0x202F, 0x202F), (0x205F, 0x205F), (0x3000, 0x3000)]"

definition invisible_ranges :: "(nat \<times> nat) list" where
  "invisible_ranges =
     [(0x00AD, 0x00AD), (0x0600, 0x0605), (0x061C, 0x061C), (0x06DD, 0x06DD), (0x070F, 0x070F),
      (0x0890, 0x0891), (0x08E2, 0x08E2), (0x180E, 0x180E), (0x200B, 0x200F), (0x202A, 0x202E),
      (0x2060, 0x2064), (0x2066, 0x206F), (0xFEFF, 0xFEFF), (0xFFF9, 0xFFFB), (0x110BD, 0x110BD),
      (0x110CD, 0x110CD), (0x13430, 0x1343F), (0x1BCA0, 0x1BCA3), (0x1D173, 0x1D17A),
      (0xE0001, 0xE0001), (0xE0020, 0xE007F), (0xFE00, 0xFE0F), (0xE0100, 0xE01EF),
      (0x115F, 0x115F), (0x1160, 0x1160), (0x3164, 0x3164), (0xFFA0, 0xFFA0), (0x2800, 0x2800),
      (0x17B4, 0x17B4), (0x17B5, 0x17B5)]"

definition is_invisible :: "nat \<Rightarrow> bool" where
  "is_invisible c =
     (is_control c \<and> \<not> (0x09 \<le> c \<and> c \<le> 0x0D)
      \<or> is_whitespace c \<and> \<not> (c = 0x20 \<or> 0x09 \<le> c \<and> c \<le> 0x0D)
      \<or> in_ranges c invisible_ranges)"

text \<open>Printable ASCII and ordinary SQL white space are never refused.\<close>

lemma ascii_visible: "0x20 \<le> c \<Longrightarrow> c \<le> 0x7E \<Longrightarrow> \<not> is_invisible c"
  by (simp add: is_invisible_def is_control_def is_whitespace_def in_ranges_def invisible_ranges_def)

lemma utf8_ascii: "list_all (\<lambda>c. (of_char c :: nat) < 128) s \<Longrightarrow> utf8_chars s = map of_char s"
  by (induction s) auto

lemma ascii_text_visible:
  "list_all (\<lambda>c. 32 \<le> (of_char c :: nat) \<and> (of_char c :: nat) \<le> 126) s \<Longrightarrow>
   \<not> list_ex is_invisible (utf8_chars s)"
proof (induction s)
  case (Cons c s)
  then show ?case using ascii_visible [of "of_char c"] by auto
qed simp

definition is_exempt_literal :: "token \<Rightarrow> bool" where
  "is_exempt_literal t =
     (case t of
        T_SingleQuotedString _ \<Rightarrow> True
      | T_DoubleQuotedString _ \<Rightarrow> True
      | T_TripleSingleQuotedString _ \<Rightarrow> True
      | T_TripleDoubleQuotedString _ \<Rightarrow> True
      | T_DollarQuotedString _ \<Rightarrow> True
      | T_SingleQuotedByteStringLiteral _ \<Rightarrow> True
      | T_DoubleQuotedByteStringLiteral _ \<Rightarrow> True
      | T_TripleSingleQuotedByteStringLiteral _ \<Rightarrow> True
      | T_TripleDoubleQuotedByteStringLiteral _ \<Rightarrow> True
      | T_SingleQuotedRawStringLiteral _ \<Rightarrow> True
      | T_DoubleQuotedRawStringLiteral _ \<Rightarrow> True
      | T_TripleSingleQuotedRawStringLiteral _ \<Rightarrow> True
      | T_TripleDoubleQuotedRawStringLiteral _ \<Rightarrow> True
      | T_NationalStringLiteral _ \<Rightarrow> True
      | T_EscapedStringLiteral _ \<Rightarrow> True
      | T_UnicodeStringLiteral _ \<Rightarrow> True
      | T_HexStringLiteral _ \<Rightarrow> True
      | _ \<Rightarrow> False)"

definition hex_upper :: "nat \<Rightarrow> char" where
  "hex_upper d = (if d < 10 then char_of (48 + d) else char_of (55 + d))"

definition hex4 :: "nat \<Rightarrow> string" where
  "hex4 n =
     (let ds = [n div 1048576 mod 16, n div 65536 mod 16, n div 4096 mod 16, n div 256 mod 16,
                n div 16 mod 16, n mod 16] in
      map hex_upper (dropWhile (\<lambda>d. d = 0) (take 2 ds) @ drop 2 ds))"

datatype validation_error =
    NotParseable string
  | MultiStatement
  | NotReadOnly string
  | Redacted string
  | RedactionEvasion string
  | OversizedConstant string

fun verror_display :: "validation_error \<Rightarrow> string" where
  "verror_display (OversizedConstant m) = m"
| "verror_display (NotParseable e) = ''SQL parse error: '' @ e"
| "verror_display MultiStatement = ''multiple statements are forbidden''"
| "verror_display (NotReadOnly s) = ''non-read-only statement: '' @ s"
| "verror_display (Redacted c) =
     ''column '' @ c @ '' is redacted by configuration and cannot be referenced''"
| "verror_display (RedactionEvasion what) = what @ '' '' @ em_dash @
     '' while MCP_REDACT_COLUMNS is configured this is refused, because it would carry a redacted value past a check that matches on column names. Select the columns you need explicitly''"

fun first_invisible_token :: "sqlparser \<Rightarrow> token list \<Rightarrow> nat option" where
  "first_invisible_token sp [] = None"
| "first_invisible_token sp (t # ts) =
     (if is_exempt_literal t then first_invisible_token sp ts
      else (case List.find is_invisible (utf8_chars (sp_token_text sp t)) of
              Some c \<Rightarrow> Some c
            | None \<Rightarrow> first_invisible_token sp ts))"

definition reject_invisible_outside_literals :: "sqlparser \<Rightarrow> string \<Rightarrow> validation_error + unit" where
  "reject_invisible_outside_literals sp sql =
     (if \<not> list_ex is_invisible (utf8_chars sql) then Inr ()
      else (case sp_tokenize sp sql of
              None \<Rightarrow> Inr ()
            | Some tokens \<Rightarrow>
                (case first_invisible_token sp tokens of
                   None \<Rightarrow> Inr ()
                 | Some c \<Rightarrow> Inl (NotReadOnly (''character U+'' @ hex4 c @
                     '' outside a string literal '' @ em_dash @
                     '' invisible or a space that is not a space, refused because it makes the text a reader sees and the text the parser sees disagree'')))))"

fun trailing_after :: "bool \<Rightarrow> token list \<Rightarrow> bool" where
  "trailing_after seen [] = False"
| "trailing_after seen (t # ts) =
     (case t of
        T_Whitespace _ \<Rightarrow> trailing_after seen ts
      | T_SemiColon \<Rightarrow> trailing_after True ts
      | _ \<Rightarrow> (if seen then True else trailing_after seen ts))"

definition has_trailing_statement :: "sqlparser \<Rightarrow> string \<Rightarrow> bool" where
  "has_trailing_statement sp sql =
     (case sp_tokenize sp sql of Some tokens \<Rightarrow> trailing_after False tokens | None \<Rightarrow> False)"

section \<open>What the token checks establish\<close>

lemma first_invisible_token_None:
  "first_invisible_token sp ts = None \<longleftrightarrow>
     (\<forall>t \<in> set ts. \<not> is_exempt_literal t \<longrightarrow>
        (\<forall>c \<in> set (utf8_chars (sp_token_text sp t)). \<not> is_invisible c))"
  by (induction ts) (force simp: find_None_iff find_Some_iff split: option.splits)+

definition separator_or_space :: "token \<Rightarrow> bool" where
  "separator_or_space t \<longleftrightarrow> t = T_SemiColon \<or> (\<exists>w. t = T_Whitespace w)"

lemma trailing_after_True:
  "\<not> trailing_after True ts \<longleftrightarrow> (\<forall>t \<in> set ts. separator_or_space t)"
proof (induction ts)
  case Nil
  then show ?case by simp
next
  case (Cons t ts)
  then show ?case by (cases t) (auto simp: separator_or_space_def)
qed

lemma not_trailing_iff:
  "\<not> trailing_after False ts \<longleftrightarrow>
     (\<forall>a b. ts = a @ T_SemiColon # b \<longrightarrow> (\<forall>t \<in> set b. separator_or_space t))"
proof (induction ts)
  case Nil
  then show ?case by simp
next
  case (Cons t ts)
  show ?case
  proof (cases "t = T_SemiColon")
    case True
    have "\<not> trailing_after False (t # ts) \<longleftrightarrow> (\<forall>u \<in> set ts. separator_or_space u)"
      using True trailing_after_True by simp
    also have "\<dots> \<longleftrightarrow> (\<forall>a b. t # ts = a @ T_SemiColon # b \<longrightarrow> (\<forall>u \<in> set b. separator_or_space u))"
    proof
      assume all: "\<forall>u \<in> set ts. separator_or_space u"
      show "\<forall>a b. t # ts = a @ T_SemiColon # b \<longrightarrow> (\<forall>u \<in> set b. separator_or_space u)"
      proof (intro allI impI)
        fix a b assume eq: "t # ts = a @ T_SemiColon # b"
        have "set b \<subseteq> set ts" using eq by (cases a) auto
        with all show "\<forall>u \<in> set b. separator_or_space u" by blast
      qed
    next
      assume "\<forall>a b. t # ts = a @ T_SemiColon # b \<longrightarrow> (\<forall>u \<in> set b. separator_or_space u)"
      from this [rule_format, of "[]" ts] True show "\<forall>u \<in> set ts. separator_or_space u" by simp
    qed
    finally show ?thesis .
  next
    case False
    then have "trailing_after False (t # ts) = trailing_after False ts" by (cases t) auto
    moreover have "(\<forall>a b. t # ts = a @ T_SemiColon # b \<longrightarrow> (\<forall>u \<in> set b. separator_or_space u))
        \<longleftrightarrow> (\<forall>a b. ts = a @ T_SemiColon # b \<longrightarrow> (\<forall>u \<in> set b. separator_or_space u))"
      using False by (metis append_Cons append_eq_Cons_conv list.inject)
    ultimately show ?thesis using Cons.IH by simp
  qed
qed

end
