(* ===== verification/Validate_Scanner.thy ===== *)
theory Validate_Scanner
  imports Validate_Size Validate_Redaction
begin

text \<open>
  The AST layer of \<open>src/validate.rs\<close>: the read-only shape of queries, the visitor
  \<open>SecurityScanner\<close> with its four \<open>pre_visit\<close> methods, and the two collecting visitors.

  The scanner's fields are those of the struct. A method returns the new state and whether it
  breaks (\<open>ControlFlow::Break\<close>).
\<close>

section \<open>The read-only shape of a query\<close>

fun setexpr_is_readonly :: "set_expr \<Rightarrow> bool"
  and query_is_readonly :: "query \<Rightarrow> bool"
  and cte_is_readonly :: "cte \<Rightarrow> bool" where
  "setexpr_is_readonly (SE_Select s) = (sel_into s = None)"
| "setexpr_is_readonly (SE_Values _) = True"
| "setexpr_is_readonly (SE_Table _) = True"
| "setexpr_is_readonly (SE_Query inner) = query_is_readonly inner"
| "setexpr_is_readonly (SE_SetOperation l r _) = (setexpr_is_readonly l \<and> setexpr_is_readonly r)"
| "setexpr_is_readonly (SE_Other _) = False"
| "query_is_readonly (Query wth body locks ftch lim h) =
     (if locks \<noteq> [] then False
      else (case wth of Some ctes \<Rightarrow> list_all cte_is_readonly ctes | None \<Rightarrow> True)
           \<and> setexpr_is_readonly body)"
| "cte_is_readonly (Cte alias q) = query_is_readonly q"

section \<open>Joins that name a column without an expression\<close>

fun constraint_of :: "join_operator \<Rightarrow> join_constraint option" where
  "constraint_of (J_Join c) = Some c"
| "constraint_of (J_Inner c) = Some c"
| "constraint_of (J_Left c) = Some c"
| "constraint_of (J_LeftOuter c) = Some c"
| "constraint_of (J_Right c) = Some c"
| "constraint_of (J_RightOuter c) = Some c"
| "constraint_of (J_FullOuter c) = Some c"
| "constraint_of (J_Semi c) = Some c"
| "constraint_of (J_LeftSemi c) = Some c"
| "constraint_of (J_RightSemi c) = Some c"
| "constraint_of (J_Anti c) = Some c"
| "constraint_of (J_LeftAnti c) = Some c"
| "constraint_of (J_RightAnti c) = Some c"
| "constraint_of (J_Other _) = None"

definition using_name :: "object_name \<Rightarrow> string" where
  "using_name c = (case last_part_name c of Some n \<Rightarrow> n | None \<Rightarrow> [])"

definition constraint_evasion :: "env \<Rightarrow> join_constraint \<Rightarrow> string option" where
  "constraint_evasion env jc =
     (case jc of
        JC_Using cols \<Rightarrow>
          (case List.find (\<lambda>c. is_redacted env (using_name c)) cols of
             Some c \<Rightarrow> Some (''joining on the redacted column `'' @ using_name c @
               ''` with USING '' @ em_dash @
               '' the join answers whether a value is present without ever selecting it'')
           | None \<Rightarrow> None)
      | JC_Natural \<Rightarrow> Some (''a NATURAL JOIN while redaction is configured '' @ em_dash @
          '' the columns it joins on are decided by the schema, so it can silently join on a redacted one'')
      | JC_Other _ \<Rightarrow> None)"

fun first_join_evasion :: "env \<Rightarrow> join_item list \<Rightarrow> string option" where
  "first_join_evasion env [] = None"
| "first_join_evasion env (j # js) =
     (case constraint_of (join_operator j) of
        None \<Rightarrow> first_join_evasion env js
      | Some c \<Rightarrow>
          (case constraint_evasion env c of
             Some m \<Rightarrow> Some m
           | None \<Rightarrow> first_join_evasion env js))"

section \<open>The scanner\<close>

record scanner =
  sc_hit :: "string option"
  sc_redacted :: "string option"
  sc_row_refs :: "string list"
  sc_oversized :: "string option"
  sc_evasion :: "string option"
  sc_redaction_on :: bool

definition alias_renames_columns :: "table_alias option \<Rightarrow> bool" where
  "alias_renames_columns alias = (case alias of Some a \<Rightarrow> ta_columns a \<noteq> [] | None \<Rightarrow> False)"

definition join_constraint_evasion :: "env \<Rightarrow> scanner \<Rightarrow> query \<Rightarrow> scanner \<times> bool" where
  "join_constraint_evasion env s q =
     (if \<not> sc_redaction_on s then (s, False)
      else (case q_body q of
              SE_Select sel \<Rightarrow>
                (case first_join_evasion env (concat (map twj_joins (sel_from sel))) of
                   Some m \<Rightarrow> (s\<lparr>sc_evasion := Some m\<rparr>, True)
                 | None \<Rightarrow> (s, False))
            | _ \<Rightarrow> (s, False)))"

definition renaming_cte :: "query \<Rightarrow> cte option" where
  "renaming_cte q =
     (case q_with q of
        Some ctes \<Rightarrow> List.find (\<lambda>c. ta_columns (cte_alias c) \<noteq> []) ctes
      | None \<Rightarrow> None)"

definition pre_visit_query :: "env \<Rightarrow> scanner \<Rightarrow> query \<Rightarrow> scanner \<times> bool" where
  "pre_visit_query env s q =
     (case (if sc_redaction_on s then renaming_cte q else None) of
        Some c \<Rightarrow> (s\<lparr>sc_evasion := Some (''renaming columns by position in the CTE `'' @
                     ta_name (cte_alias c) @ ''`'')\<rparr>, True)
      | None \<Rightarrow>
          if q_locks q \<noteq> [] then
            (s\<lparr>sc_hit := Some ''row locks (FOR UPDATE/SHARE) in subquery''\<rparr>, True)
          else if \<not> setexpr_is_readonly (q_body q) then
            (s\<lparr>sc_hit := Some ''non-read-only subquery (data-modifying CTE / SELECT INTO)''\<rparr>, True)
          else join_constraint_evasion env s q)"

text \<open>The string literals whose text is compared with the redacted names.\<close>

fun literal_text :: "expr \<Rightarrow> string option" where
  "literal_text (E_Value (V_SingleQuotedString s)) = Some s"
| "literal_text (E_Value (V_EscapedStringLiteral s)) = Some s"
| "literal_text (E_Value (V_NationalStringLiteral s)) = Some s"
| "literal_text (E_Value (V_DoubleQuotedString s)) = Some s"
| "literal_text _ = None"

fun whole_row_arg :: "function_arg \<Rightarrow> bool" where
  "whole_row_arg (Arg_Unnamed (FAE_QualifiedWildcard _)) = True"
| "whole_row_arg (Arg_Unnamed FAE_Wildcard) = True"
| "whole_row_arg (Arg_Named _ (FAE_QualifiedWildcard _)) = True"
| "whole_row_arg _ = False"

definition function_arg_list :: "sql_function \<Rightarrow> function_arg list" where
  "function_arg_list f = (case fn_args f of FA_List l \<Rightarrow> l | FA_Other _ \<Rightarrow> [])"

definition is_count_call :: "object_name \<Rightarrow> bool" where
  "is_count_call name =
     (if name = [] then False
      else (case as_ident (last name) of
              Some n \<Rightarrow> eq_ignore_ascii_case n ''count''
            | None \<Rightarrow> False))"

text \<open>The first half of \<open>pre_visit_expr\<close>: the folded size, then what the expression names.\<close>

definition expr_name_check :: "env \<Rightarrow> scanner \<Rightarrow> expr \<Rightarrow> scanner \<times> bool" where
  "expr_name_check env s e =
     (case e of
        E_Identifier i \<Rightarrow>
          if is_redacted env (to_lowercase i) then (s\<lparr>sc_redacted := Some i\<rparr>, True)
          else if List.member (sc_row_refs s) (to_lowercase i) then
            (s\<lparr>sc_evasion := Some (''referencing the whole row `'' @ i @ ''` as a value'')\<rparr>, True)
          else (s, False)
      | E_CompoundIdentifier parts \<Rightarrow>
          if parts \<noteq> [] \<and> is_redacted env (to_lowercase (last parts)) then
            (s\<lparr>sc_redacted := Some (last parts)\<rparr>, True)
          else (s, False)
      | _ \<Rightarrow>
          (case literal_text e of
             None \<Rightarrow> (s, False)
           | Some t \<Rightarrow>
               (case redacted_name_inside env (to_lowercase (unescape_sql_literal t)) of
                  Some col \<Rightarrow> (s\<lparr>sc_evasion := Some (''naming the redacted column `'' @ col @
                                ''` inside a string literal'')\<rparr>, True)
                | None \<Rightarrow> (s, False))))"

text \<open>The second half: function calls.\<close>

definition expr_function_check :: "env \<Rightarrow> scanner \<Rightarrow> expr \<Rightarrow> scanner \<times> bool" where
  "expr_function_check env s e =
     (case e of
        E_Function f \<Rightarrow>
          if sc_redaction_on s \<and> list_ex whole_row_arg (function_arg_list f)
             \<and> \<not> is_count_call (fn_name f) then
            (s\<lparr>sc_evasion := Some ''serialising a whole row through a wildcard argument''\<rparr>, True)
          else if name_has_unreadable_part (fn_name f) then
            (s\<lparr>sc_hit := Some (''a function name built from another function call '' @ em_dash @
               '' refused because the name cannot be read, and every rule here is written about the name'')\<rparr>, True)
          else (case qualified_function_rejection env (fn_name f) of
                  Some msg \<Rightarrow> (s\<lparr>sc_hit := Some msg\<rparr>, True)
                | None \<Rightarrow> (s, False))
      | _ \<Rightarrow> (s, False))"

definition oversize_message :: "nat \<Rightarrow> string" where
  "oversize_message bytes =
     ''a constant expression that folds to about '' @ nat_str (bytes div 1048576) @
     '' MB, which is past the '' @ nat_str (MAX_RESULT_BYTES div 1048576) @
     '' MB this server can return '' @ em_dash @
     '' PostgreSQL would build it during planning, before any limit here applies''"

definition pre_visit_expr :: "sqlparser \<Rightarrow> env \<Rightarrow> scanner \<Rightarrow> expr \<Rightarrow> scanner \<times> bool" where
  "pre_visit_expr sp env s e =
     (case folded_size_estimate sp e of
        Some bytes \<Rightarrow>
          if MAX_RESULT_BYTES < bytes then
            (s\<lparr>sc_oversized := Some (oversize_message bytes)\<rparr>, True)
          else (case expr_name_check env s e of
                  (s', True) \<Rightarrow> (s', True)
                | (s', False) \<Rightarrow> expr_function_check env s' e)
      | None \<Rightarrow>
          (case expr_name_check env s e of
             (s', True) \<Rightarrow> (s', True)
           | (s', False) \<Rightarrow> expr_function_check env s' e))"

definition pre_visit_relation :: "env \<Rightarrow> scanner \<Rightarrow> object_name \<Rightarrow> scanner \<times> bool" where
  "pre_visit_relation env s name =
     (if name_has_unreadable_part name then
        (s\<lparr>sc_hit := Some (''a relation name built from a function call '' @ em_dash @ '' refused unread'')\<rparr>, True)
      else (case is_raw_storage_relation name of
              Some r \<Rightarrow> (s\<lparr>sc_hit := Some (''raw-storage relation: '' @ r @ '' '' @ em_dash @
                 '' it holds physical storage rather than columns, so column controls (redaction, projection) cannot inspect it'')\<rparr>, True)
            | None \<Rightarrow>
                (case last_part_name name of
                   Some n \<Rightarrow>
                     if classify_function env n = SideEffect then
                       (s\<lparr>sc_hit := Some (''side-effect function: '' @ n)\<rparr>, True)
                     else (s, False)
                 | None \<Rightarrow> (s, False))))"

fun tf_alias :: "table_factor \<Rightarrow> table_alias option" where
  "tf_alias (TF_Table n a args) = a"
| "tf_alias (TF_Derived a h) = a"
| "tf_alias (TF_TableFunction a h) = a"
| "tf_alias (TF_NestedJoin a twj) = a"
| "tf_alias (TF_Other h) = None"

fun called_table_function :: "table_factor \<Rightarrow> object_name option" where
  "called_table_function (TF_Table n a (Some args)) = Some n"
| "called_table_function _ = None"

definition pre_visit_table_factor :: "env \<Rightarrow> scanner \<Rightarrow> table_factor \<Rightarrow> scanner \<times> bool" where
  "pre_visit_table_factor env s tf =
     (if sc_redaction_on s \<and> alias_renames_columns (tf_alias tf) then
        (s\<lparr>sc_evasion := Some ''renaming columns by position in a subquery alias''\<rparr>, True)
      else (case called_table_function tf of
              None \<Rightarrow> (s, False)
            | Some name \<Rightarrow>
                if name_has_unreadable_part name then
                  (s\<lparr>sc_hit := Some (''a table function named by a function call '' @ em_dash @ '' refused unread'')\<rparr>, True)
                else (case qualified_function_rejection env name of
                        Some msg \<Rightarrow> (s\<lparr>sc_hit := Some msg\<rparr>, True)
                      | None \<Rightarrow> (s, False))))"

fun security_step :: "sqlparser \<Rightarrow> env \<Rightarrow> scanner \<Rightarrow> visit_event \<Rightarrow> scanner \<times> bool" where
  "security_step sp env s (Pre_Query q) = pre_visit_query env s q"
| "security_step sp env s (Pre_Expr e) = pre_visit_expr sp env s e"
| "security_step sp env s (Pre_Relation n) = pre_visit_relation env s n"
| "security_step sp env s (Pre_TableFactor tf) = pre_visit_table_factor env s tf"

section \<open>The collecting visitors\<close>

fun row_ref_step :: "string list \<Rightarrow> visit_event \<Rightarrow> string list \<times> bool" where
  "row_ref_step s (Pre_Relation n) =
     (List.insert (case last_part_name n of Some x \<Rightarrow> x | None \<Rightarrow> UNREADABLE_NAME) s, False)"
| "row_ref_step s (Pre_TableFactor tf) =
     ((case tf_alias tf of Some a \<Rightarrow> List.insert (to_lowercase (ta_name a)) s | None \<Rightarrow> s), False)"
| "row_ref_step s e = (s, False)"

fun function_step :: "string list \<Rightarrow> visit_event \<Rightarrow> string list \<times> bool" where
  "function_step s (Pre_Expr (E_Function f)) =
     (s @ [case last_part_name (fn_name f) of Some x \<Rightarrow> x | None \<Rightarrow> UNREADABLE_NAME], False)"
| "function_step s (Pre_TableFactor tf) =
     ((case called_table_function tf of
         Some n \<Rightarrow> s @ [case last_part_name n of Some x \<Rightarrow> x | None \<Rightarrow> UNREADABLE_NAME]
       | None \<Rightarrow> s), False)"
| "function_step s e = (s, False)"

fun relation_pairs :: "visit_event \<Rightarrow> (string \<times> string) list" where
  "relation_pairs (Pre_TableFactor (TF_Table name a None)) =
     (let parts = readable_parts name; n = length parts in
      if n = 0 then []
      else if n = 1 then [([], parts ! 0)]
      else [(parts ! (n - 2), parts ! (n - 1))])"
| "relation_pairs _ = []"

definition relation_step :: "(string \<times> string) list \<Rightarrow> visit_event \<Rightarrow> (string \<times> string) list \<times> bool" where
  "relation_step s e = (s @ relation_pairs e, False)"

section \<open>The visitors meet their contracts\<close>

definition scanner_clean :: "scanner \<Rightarrow> bool" where
  "scanner_clean s \<longleftrightarrow>
     sc_hit s = None \<and> sc_redacted s = None \<and> sc_oversized s = None \<and> sc_evasion s = None"

lemmas scanner_steps = pre_visit_query_def pre_visit_expr_def pre_visit_relation_def
  pre_visit_table_factor_def join_constraint_evasion_def expr_name_check_def expr_function_check_def

lemma expr_name_check_cases:
  "expr_name_check env s e = (s', b) \<Longrightarrow> (b \<longrightarrow> \<not> scanner_clean s') \<and> (\<not> b \<longrightarrow> s' = s)"
  by (cases e) (auto simp: expr_name_check_def scanner_clean_def split: if_splits option.splits)

lemma expr_function_check_cases:
  "expr_function_check env s e = (s', b) \<Longrightarrow> (b \<longrightarrow> \<not> scanner_clean s') \<and> (\<not> b \<longrightarrow> s' = s)"
  by (cases e) (auto simp: expr_function_check_def scanner_clean_def split: if_splits option.splits)

lemma pre_visit_query_cases:
  "pre_visit_query env s q = (s', b) \<Longrightarrow> (b \<longrightarrow> \<not> scanner_clean s') \<and> (\<not> b \<longrightarrow> s' = s)"
  by (auto simp: pre_visit_query_def join_constraint_evasion_def scanner_clean_def
      split: if_splits option.splits set_expr.splits)

lemma pre_visit_expr_cases:
  assumes "pre_visit_expr sp env s e = (s', b)"
  shows "(b \<longrightarrow> \<not> scanner_clean s') \<and> (\<not> b \<longrightarrow> s' = s)"
proof -
  obtain t c where t: "expr_name_check env s e = (t, c)" by fastforce
  have over: "\<not> scanner_clean (s\<lparr>sc_oversized := Some m\<rparr>)" for m
    by (simp add: scanner_clean_def)
  show ?thesis
    using assms t expr_name_check_cases [OF t] expr_function_check_cases [of env t e] over
    by (cases c) (auto simp: pre_visit_expr_def split: option.splits if_splits)
qed

lemma pre_visit_relation_cases:
  "pre_visit_relation env s n = (s', b) \<Longrightarrow> (b \<longrightarrow> \<not> scanner_clean s') \<and> (\<not> b \<longrightarrow> s' = s)"
  by (auto simp: pre_visit_relation_def scanner_clean_def split: if_splits option.splits)

lemma pre_visit_table_factor_cases:
  "pre_visit_table_factor env s tf = (s', b) \<Longrightarrow> (b \<longrightarrow> \<not> scanner_clean s') \<and> (\<not> b \<longrightarrow> s' = s)"
  by (auto simp: pre_visit_table_factor_def scanner_clean_def split: if_splits option.splits)

lemma security_step_cases:
  "security_step sp env s ev = (s', b) \<Longrightarrow> (b \<longrightarrow> \<not> scanner_clean s') \<and> (\<not> b \<longrightarrow> s' = s)"
  using pre_visit_query_cases pre_visit_expr_cases pre_visit_relation_cases
    pre_visit_table_factor_cases
  by (cases ev) (metis security_step.simps)+

interpretation sec: checking_visitor "security_step sp env" scanner_clean for sp env
  by unfold_locales (use security_step_cases in blast)+

definition row_ref_name :: "visit_event \<Rightarrow> string option" where
  "row_ref_name e =
     (case e of
        Pre_Relation n \<Rightarrow> Some (case last_part_name n of Some x \<Rightarrow> x | None \<Rightarrow> UNREADABLE_NAME)
      | Pre_TableFactor tf \<Rightarrow> map_option (\<lambda>a. to_lowercase (ta_name a)) (tf_alias tf)
      | _ \<Rightarrow> None)"

lemma row_ref_step_name:
  "row_ref_step s e = (case row_ref_name e of Some n \<Rightarrow> (List.insert n s, False) | None \<Rightarrow> (s, False))"
  by (cases "(s, e)" rule: row_ref_step.cases) (auto simp: row_ref_name_def split: option.splits)

interpretation rowrefs: collecting_visitor row_ref_step set "\<lambda>e. set_option (row_ref_name e)"
  by unfold_locales (auto simp: row_ref_step_name split: option.splits)

definition called_name :: "visit_event \<Rightarrow> string option" where
  "called_name e =
     (case e of
        Pre_Expr (E_Function f) \<Rightarrow>
          Some (case last_part_name (fn_name f) of Some x \<Rightarrow> x | None \<Rightarrow> UNREADABLE_NAME)
      | Pre_TableFactor tf \<Rightarrow>
          (case called_table_function tf of
             Some n \<Rightarrow> Some (case last_part_name n of Some x \<Rightarrow> x | None \<Rightarrow> UNREADABLE_NAME)
           | None \<Rightarrow> None)
      | _ \<Rightarrow> None)"

lemma function_step_called:
  "function_step s e = (case called_name e of Some n \<Rightarrow> (s @ [n], False) | None \<Rightarrow> (s, False))"
  by (cases "(s, e)" rule: function_step.cases) (auto simp: called_name_def split: option.splits)

interpretation funs: collecting_visitor function_step set "\<lambda>e. set_option (called_name e)"
  by unfold_locales (simp_all add: function_step_called split: option.splits)

interpretation rels: collecting_visitor relation_step set "\<lambda>e. set (relation_pairs e)"
  by unfold_locales (simp_all add: relation_step_def)

end
