(* ===== verification/Validate.thy ===== *)
theory Validate
  imports Validate_Scanner
begin

text \<open>
  \<open>validate_readonly\<close> of \<open>src/validate.rs\<close>, the helpers that read a statement for the surface
  check, and the properties of an accepted statement.
\<close>

section \<open>Parsing\<close>

definition MAX_SQL_LEN :: nat where
  "MAX_SQL_LEN = 100000"

definition PARSE_RECURSION_LIMIT :: nat where
  "PARSE_RECURSION_LIMIT = 64"

definition parse :: "sqlparser \<Rightarrow> string \<Rightarrow> validation_error + statement list" where
  "parse sp sql =
     (if MAX_SQL_LEN < length sql then
        Inl (NotParseable (''SQL too long ('' @ nat_str (length sql) @ '' bytes, limit '' @
                           nat_str MAX_SQL_LEN @ '')''))
      else (case sp_parse sp PARSE_RECURSION_LIMIT sql of
              Inl e \<Rightarrow> Inl (NotParseable e)
            | Inr ast \<Rightarrow> Inr ast))"

definition WRITE_KEYWORDS :: "string list" where
  "WRITE_KEYWORDS =
     [''REFRESH'', ''CLUSTER'', ''VACUUM'', ''ANALYZE'', ''REINDEX'', ''CHECKPOINT'', ''LOCK'',
      ''TRUNCATE'', ''GRANT'', ''REVOKE'', ''SECURITY'', ''LISTEN'', ''UNLISTEN'', ''NOTIFY'',
      ''DISCARD'', ''RESET'', ''DEALLOCATE'', ''PREPARE'', ''EXECUTE'', ''DECLARE'', ''FETCH'',
      ''MOVE'', ''CLOSE'', ''COPY'', ''IMPORT'', ''CALL'', ''DO'', ''BEGIN'', ''COMMIT'',
      ''ROLLBACK'', ''SAVEPOINT'', ''RELEASE'', ''SET'', ''ALTER'', ''CREATE'', ''DROP'',
      ''INSERT'', ''UPDATE'', ''DELETE'', ''MERGE'', ''COMMENT'', ''REASSIGN'']"

text \<open>\<open>split(|c| c.is_whitespace() || c == '(').next()\<close>.\<close>

fun until_space_or_paren :: "string \<Rightarrow> string" where
  "until_space_or_paren [] = []"
| "until_space_or_paren (c # s) =
     (if c = CHR ''('' \<or> List.find (\<lambda>w. prefix w (c # s)) white_space \<noteq> None then []
      else c # until_space_or_paren s)"

definition leading_write_keyword :: "string \<Rightarrow> string option" where
  "leading_write_keyword sql =
     (let first = to_ascii_uppercase (until_space_or_paren (trim_start sql)) in
      List.find (\<lambda>k. k = first) WRITE_KEYWORDS)"

definition is_query_stmt :: "sqlparser \<Rightarrow> string \<Rightarrow> bool" where
  "is_query_stmt sp sql = (case parse sp sql of Inr [S_Query q] \<Rightarrow> True | _ \<Rightarrow> False)"

section \<open>The statement shape\<close>

definition stmt_kind :: "sqlparser \<Rightarrow> statement \<Rightarrow> string" where
  "stmt_kind sp st =
     hd (split_on (\<lambda>c. c = CHR '' '' \<or> c = CHR ''('' \<or> c = CHR ''{'') (sp_debug sp st))"

fun structural_readonly :: "sqlparser \<Rightarrow> statement \<Rightarrow> validation_error + unit" where
  "structural_readonly sp (S_Query q) =
     (if query_is_readonly q then Inr ()
      else Inl (NotReadOnly ''non-read-only query (CTE / SELECT INTO / FOR UPDATE)''))"
| "structural_readonly sp (S_Explain analyze inner options h) =
     (let analyze_in_options =
        (case options of
           Some opts \<Rightarrow> list_ex (\<lambda>o'. eq_ignore_ascii_case o' ''analyze'') opts
         | None \<Rightarrow> False) in
      if analyze \<or> analyze_in_options then Inl (NotReadOnly ''EXPLAIN ANALYZE (executes the plan)'')
      else structural_readonly sp inner)"
| "structural_readonly sp (S_ExplainTable _) = Inr ()"
| "structural_readonly sp (S_ShowVariable variable) =
     (let name = join ''_'' (map to_lowercase variable) in
      if List.member SENSITIVE_SHOW_VARS name
      then Inl (NotReadOnly (''SHOW '' @ name @ '' (server layout)''))
      else Inr ())"
| "structural_readonly sp (S_ShowVariables _) = Inr ()"
| "structural_readonly sp (S_ShowColumns _) = Inr ()"
| "structural_readonly sp (S_ShowTables _) = Inr ()"
| "structural_readonly sp (S_ShowFunctions _) = Inr ()"
| "structural_readonly sp (S_Other h) = Inl (NotReadOnly (stmt_kind sp (S_Other h)))"

section \<open>The verdict\<close>

definition row_refs_of :: "sqlparser \<Rightarrow> env \<Rightarrow> statement \<Rightarrow> string list" where
  "row_refs_of sp env st =
     (if redaction_configured env then run_visitor row_ref_step [] (sp_visit sp st) else [])"

definition init_scanner :: "sqlparser \<Rightarrow> env \<Rightarrow> statement \<Rightarrow> scanner" where
  "init_scanner sp env st =
     \<lparr>sc_hit = None, sc_redacted = None, sc_row_refs = row_refs_of sp env st, sc_oversized = None,
      sc_evasion = None,
      sc_redaction_on = (row_refs_of sp env st \<noteq> [] \<or> redaction_configured env)\<rparr>"

definition scan_verdict :: "scanner \<Rightarrow> validation_error + unit" where
  "scan_verdict s =
     (case sc_oversized s of Some m \<Rightarrow> Inl (OversizedConstant m)
      | None \<Rightarrow> (case sc_redacted s of Some c \<Rightarrow> Inl (Redacted c)
      | None \<Rightarrow> (case sc_evasion s of Some e \<Rightarrow> Inl (RedactionEvasion e)
      | None \<Rightarrow> (case sc_hit s of Some f \<Rightarrow> Inl (NotReadOnly f)
      | None \<Rightarrow> Inr ()))))"

definition scan_statement :: "sqlparser \<Rightarrow> env \<Rightarrow> statement \<Rightarrow> validation_error + unit" where
  "scan_statement sp env st =
     scan_verdict (run_visitor (security_step sp env) (init_scanner sp env st) (sp_visit sp st))"

definition validate_readonly :: "sqlparser \<Rightarrow> env \<Rightarrow> string \<Rightarrow> validation_error + unit" where
  "validate_readonly sp env sql =
     (if has_trailing_statement sp sql then Inl MultiStatement
      else (case parse sp sql of
              Inl e \<Rightarrow>
                Inl (case leading_write_keyword sql of
                       Some kw \<Rightarrow> NotReadOnly (kw @ '' is a write operation'')
                     | None \<Rightarrow> e)
            | Inr ast \<Rightarrow>
                if 1 < length ast then Inl MultiStatement
                else if ast = [] then Inl (NotParseable ''empty statement'')
                else bindR (reject_invisible_outside_literals sp sql) (\<lambda>_.
                     bindR (structural_readonly sp (hd ast)) (\<lambda>_.
                     scan_statement sp env (hd ast)))))"

section \<open>Reading a statement for the surface check\<close>

definition relations_named :: "sqlparser \<Rightarrow> string \<Rightarrow> (string \<times> string) list" where
  "relations_named sp sql =
     (case parse sp sql of
        Inl _ \<Rightarrow> []
      | Inr ast \<Rightarrow> foldl (\<lambda>c st. run_visitor relation_step c (sp_visit sp st)) [] ast)"

definition functions_called :: "sqlparser \<Rightarrow> string \<Rightarrow> string list" where
  "functions_called sp sql =
     (case parse sp sql of
        Inl _ \<Rightarrow> []
      | Inr [] \<Rightarrow> []
      | Inr (st # _) \<Rightarrow> remdups_adj (sort (run_visitor function_step [] (sp_visit sp st))))"

text \<open>Slicing a string at a byte that is not a character boundary panics, and so does reading a column
  as a type it has not.\<close>

datatype panic = CharBoundaryPanic nat | ColumnPanic

definition is_char_boundary :: "string \<Rightarrow> nat \<Rightarrow> bool" where
  "is_char_boundary s i =
     (i = length s \<or> i < length s \<and> \<not> (0x80 \<le> (of_char (s ! i) :: nat) \<and> (of_char (s ! i) :: nat) < 0xC0))"

definition explain_words :: "string list" where
  "explain_words =
     [''verbose'', ''costs'', ''settings'', ''buffers'', ''format'', ''json'', ''text'', ''off'', ''on'']"

definition first_word :: "string \<Rightarrow> string" where
  "first_word s = (case split_whitespace s of [] \<Rightarrow> [] | w # _ \<Rightarrow> w)"

lemma trim_start_in_length: "length (trim_start_in ws s) \<le> length s"
proof (induction ws s rule: trim_start_in.induct)
  case (2 ws c s)
  then show ?case by (force split: option.splits)
qed simp

function skip_explain_words :: "string \<Rightarrow> string" where
  "skip_explain_words r =
     (let w = first_word r in
      if List.member explain_words (to_lowercase w)
      then skip_explain_words (trim_start (drop (length w) r))
      else r)"
  by pat_completeness auto
termination
proof (relation "measure length", goal_cases)
  case (2 r w)
  have "w \<noteq> []"
    using 2(2) by (auto simp: explain_words_def to_lowercase_def)
  moreover have "r \<noteq> []"
    using 2(1) calculation by (auto simp: first_word_def split_whitespace_def)
  ultimately have lt: "length r - length w < length r" by (cases w; cases r) auto
  have "length (trim_start (drop (length w) r)) \<le> length r - length w"
    using trim_start_in_length [of white_space "drop (length w) r"] by (simp add: trim_start_def)
  from le_less_trans [OF this lt] show ?case by simp
qed simp

declare skip_explain_words.simps [simp del]

definition explained_statement :: "string \<Rightarrow> panic + string option" where
  "explained_statement sql =
     (let t = trim_start sql in
      if length t < 7 then Inr None
      else if \<not> is_char_boundary t 7 then Inl (CharBoundaryPanic 7)
      else if \<not> eq_ignore_ascii_case (take 7 t) ''explain'' then Inr None
      else
        (let rest = trim_start (drop 7 t);
             inner = (case strip_prefix rest ''('' of
                        Some stripped \<Rightarrow>
                          (case find_str '')'' stripped of
                             None \<Rightarrow> None
                           | Some close \<Rightarrow> Some (trim_start (drop (close + 1) stripped)))
                      | None \<Rightarrow> Some (skip_explain_words rest)) in
         case inner of
           None \<Rightarrow> Inr None
         | Some r \<Rightarrow> Inr (if r = [] then None else Some r)))"

section \<open>What acceptance means\<close>

lemma scan_verdict_ok: "scan_verdict s = Inr () \<longleftrightarrow> scanner_clean s"
  by (auto simp: scan_verdict_def scanner_clean_def split: option.splits)

lemma init_scanner_clean [simp]: "scanner_clean (init_scanner sp env st)"
  by (simp add: init_scanner_def scanner_clean_def)

lemma init_scanner_redaction_on [simp]:
  "sc_redaction_on (init_scanner sp env st) = redaction_configured env"
  by (auto simp: init_scanner_def row_refs_of_def)

lemma scan_statement_ok:
  "scan_statement sp env st = Inr () \<longleftrightarrow>
     (\<forall>e \<in> set (sp_visit sp st).
        security_step sp env (init_scanner sp env st) e = (init_scanner sp env st, False))"
  by (simp add: scan_statement_def scan_verdict_ok sec.run_clean_iff)

text \<open>Acceptance, unfolded once for all properties.\<close>

lemma validate_accepts_iff:
  "validate_readonly sp env sql = Inr () \<longleftrightarrow>
     \<not> has_trailing_statement sp sql \<and>
     (\<exists>st. parse sp sql = Inr [st] \<and> reject_invisible_outside_literals sp sql = Inr ()
         \<and> structural_readonly sp st = Inr () \<and> scan_statement sp env st = Inr ())"
proof (cases "parse sp sql")
  case (Inl e)
  then show ?thesis by (simp add: validate_readonly_def)
next
  case (Inr ast)
  then show ?thesis
    by (cases ast rule: list.exhaust; cases "tl ast")
      (auto simp: validate_readonly_def bindR_eq_Inr)
qed

lemma accepted_event:
  assumes "validate_readonly sp env sql = Inr ()" and "parse sp sql = Inr [st]"
    and "e \<in> set (sp_visit sp st)"
  shows "security_step sp env (init_scanner sp env st) e = (init_scanner sp env st, False)"
  using assms by (auto simp: validate_accepts_iff scan_statement_ok)

lemma expr_ok:
  assumes "pre_visit_expr sp env s e = (s, False)" and "scanner_clean s"
  shows "expr_name_check env s e = (s, False)"
    and "expr_function_check env s e = (s, False)"
    and "folded_size_estimate sp e = Some n \<Longrightarrow> n \<le> MAX_RESULT_BYTES"
proof -
  obtain t c where t: "expr_name_check env s e = (t, c)" by fastforce
  with assms(1) have "\<not> c"
    by (cases c) (auto simp: pre_visit_expr_def split: option.splits if_splits)
  with t expr_name_check_cases [OF t] show n: "expr_name_check env s e = (s, False)" by simp
  show "expr_function_check env s e = (s, False)"
    using assms(1) n by (auto simp: pre_visit_expr_def split: option.splits if_splits)
  show "folded_size_estimate sp e = Some n \<Longrightarrow> n \<le> MAX_RESULT_BYTES"
    using assms(1) by (auto simp: pre_visit_expr_def split: if_splits)
qed

lemma accepted_call:
  assumes "expr_function_check env s (E_Function f) = (s, False)"
  shows "\<not> name_has_unreadable_part (fn_name f)"
    and "qualified_function_rejection env (fn_name f) = None"
  using assms
  by (auto simp: expr_function_check_def split: if_splits option.splits)

end
