(* ===== verification/Enforce_Limit.thy ===== *)
theory Enforce_Limit
  imports Validate
begin

text \<open>
  The row cap of \<open>src/validate.rs\<close>: \<open>cap_rows\<close> edits the LIMIT or FETCH of a query in place or asks
  for a wrapping, \<open>enforce_limit_inner\<close> renders the statement and sends it through the validator
  again, and \<open>enforce_limit_offset\<close> adds paging. A query mutated in place is a query returned.

  The lemmas: the cap a handled query carries is at most the requested one, nothing but the two
  limiting clauses is edited, and whatever text is returned has been accepted by the validator.
\<close>

section \<open>The code\<close>

definition number_expr :: "nat \<Rightarrow> expr" where
  "number_expr n = E_Value (V_Number (nat_str n) False)"

fun literal_u64 :: "expr \<Rightarrow> nat option" where
  "literal_u64 (E_Value (V_Number n b)) = parse_u64 n"
| "literal_u64 _ = None"

datatype cap = Handled | NeedsWrap

fun single_expr :: "select_item list \<Rightarrow> expr option" where
  "single_expr [SI_UnnamedExpr e] = Some e"
| "single_expr [SI_ExprWithAlias e a] = Some e"
| "single_expr _ = None"

definition is_count_or_exists :: "query \<Rightarrow> bool" where
  "is_count_or_exists q =
     (case q_body q of
        SE_Select s \<Rightarrow>
          (case single_expr (sel_projection s) of
             Some (E_Function f) \<Rightarrow> last_part_name (fn_name f) = Some ''count''
           | Some (E_Exists _) \<Rightarrow> True
           | _ \<Rightarrow> False)
      | _ \<Rightarrow> False)"

fun set_fetch :: "fetch option \<Rightarrow> query \<Rightarrow> query" where
  "set_fetch f (Query w b l f0 lc h) = Query w b l f lc h"

fun set_limit_clause :: "limit_clause option \<Rightarrow> query \<Rightarrow> query" where
  "set_limit_clause lc (Query w b l f lc0 h) = Query w b l f lc h"

definition cap_rows :: "query \<Rightarrow> nat \<Rightarrow> query \<times> cap" where
  "cap_rows q max_rows =
     (case q_fetch q of
        Some ft \<Rightarrow>
          (case Option.bind (fetch_quantity ft) literal_u64 of
             Some v \<Rightarrow>
               if v \<le> max_rows then (q, Handled)
               else (set_fetch (Some (Fetch (Some (number_expr max_rows)) (fetch_hidden ft))) q, Handled)
           | None \<Rightarrow> (q, NeedsWrap))
      | None \<Rightarrow>
          (case q_limit_clause q of
             Some (LC_LimitOffset limit offset limit_by) \<Rightarrow>
               (case limit of
                  Some existing \<Rightarrow>
                    (case literal_u64 existing of
                       Some v \<Rightarrow>
                         if v \<le> max_rows then (q, Handled)
                         else (set_limit_clause
                                 (Some (LC_LimitOffset (Some (number_expr max_rows)) offset limit_by)) q,
                               Handled)
                     | None \<Rightarrow> (q, NeedsWrap))
                | None \<Rightarrow> (q, NeedsWrap))
           | Some (LC_OffsetCommaLimit a b) \<Rightarrow> (q, NeedsWrap)
           | None \<Rightarrow>
               if \<not> is_count_or_exists q then
                 (set_limit_clause (Some (LC_LimitOffset (Some (number_expr max_rows)) None [])) q, Handled)
               else (q, Handled)))"

definition capped_text :: "sqlparser \<Rightarrow> statement \<Rightarrow> nat \<Rightarrow> string" where
  "capped_text sp st max_rows =
     (case st of
        S_Query q \<Rightarrow>
          (case cap_rows q max_rows of
             (q', Handled) \<Rightarrow> sp_render sp (S_Query q')
           | (q', NeedsWrap) \<Rightarrow>
               ''SELECT * FROM ('' @ sp_render sp (S_Query q') @ '') AS _mcp_cap LIMIT '' @ nat_str max_rows)
      | _ \<Rightarrow> sp_render sp st)"

definition enforce_limit_inner ::
  "sqlparser \<Rightarrow> env \<Rightarrow> string \<Rightarrow> nat \<Rightarrow> validation_error + string" where
  "enforce_limit_inner sp env sql max_rows =
     (case parse sp sql of
        Inl e \<Rightarrow> Inl e
      | Inr [] \<Rightarrow> Inr sql
      | Inr (st # _) \<Rightarrow>
          (let rendered = capped_text sp st max_rows; plain = sp_render sp st in
           if is_ok (validate_readonly sp env rendered) then Inr rendered
           else if is_ok (validate_readonly sp env plain) then Inr plain
           else Inl (NotParseable
             ''canonical form of this query is not re-validatable (rejected for safety)'')))"

definition enforce_limit_offset ::
  "sqlparser \<Rightarrow> env \<Rightarrow> string \<Rightarrow> nat \<Rightarrow> nat \<Rightarrow> validation_error + string" where
  "enforce_limit_offset sp env sql max_rows offset =
     (if 0 < offset then
        (case parse sp sql of
           Inl e \<Rightarrow> Inl e
         | Inr [] \<Rightarrow> Inr sql
         | Inr (st # _) \<Rightarrow>
             (let rendered = ''SELECT * FROM ('' @ sp_render sp st @ '') AS _mcp_page LIMIT '' @
                             nat_str max_rows @ '' OFFSET '' @ nat_str offset in
              if is_ok (validate_readonly sp env rendered) then Inr rendered
              else Inl (NotParseable
                ''this query cannot be paged safely (its canonical form does not re-validate)'')))
      else enforce_limit_inner sp env sql max_rows)"

definition enforce_limit ::
  "sqlparser \<Rightarrow> env \<Rightarrow> string \<Rightarrow> nat \<Rightarrow> validation_error + string" where
  "enforce_limit sp env sql max_rows = enforce_limit_offset sp env sql max_rows 0"

section \<open>The cap\<close>

text \<open>The number of rows a query's own limiting clause admits, where it is a readable literal.\<close>

definition static_row_cap :: "query \<Rightarrow> nat option" where
  "static_row_cap q =
     (case q_fetch q of
        Some ft \<Rightarrow> Option.bind (fetch_quantity ft) literal_u64
      | None \<Rightarrow>
          (case q_limit_clause q of
             Some (LC_LimitOffset (Some e) off lby) \<Rightarrow> literal_u64 e
           | _ \<Rightarrow> None))"

lemma literal_number [simp]: "n \<le> u64_max \<Longrightarrow> literal_u64 (number_expr n) = Some n"
  by (simp add: number_expr_def parse_u64_nat_str)

lemma set_fetch_sel [simp]:
  "q_fetch (set_fetch f q) = f" "q_limit_clause (set_fetch f q) = q_limit_clause q"
  "q_body (set_fetch f q) = q_body q" "q_with (set_fetch f q) = q_with q"
  "q_locks (set_fetch f q) = q_locks q" "q_hidden (set_fetch f q) = q_hidden q"
  by (cases q; simp)+

lemma set_limit_sel [simp]:
  "q_fetch (set_limit_clause lc q) = q_fetch q" "q_limit_clause (set_limit_clause lc q) = lc"
  "q_body (set_limit_clause lc q) = q_body q" "q_with (set_limit_clause lc q) = q_with q"
  "q_locks (set_limit_clause lc q) = q_locks q" "q_hidden (set_limit_clause lc q) = q_hidden q"
  by (cases q; simp)+

lemma cap_rows_wrap_unchanged: "cap_rows q n = (q', NeedsWrap) \<Longrightarrow> q' = q"
  by (auto simp: cap_rows_def split: option.splits limit_clause.splits if_splits)

lemma cap_rows_frame:
  "cap_rows q n = (q', c) \<Longrightarrow>
   q_body q' = q_body q \<and> q_with q' = q_with q \<and> q_locks q' = q_locks q \<and> q_hidden q' = q_hidden q"
  by (auto simp: cap_rows_def split: option.splits limit_clause.splits if_splits)

lemma query_is_readonly_sel:
  "query_is_readonly q \<longleftrightarrow>
     q_locks q = [] \<and> (case q_with q of Some ctes \<Rightarrow> list_all cte_is_readonly ctes | None \<Rightarrow> True)
     \<and> setexpr_is_readonly (q_body q)"
  by (cases q) auto

text \<open>Capping keeps the read-only shape.\<close>

lemma cap_rows_readonly:
  "cap_rows q n = (q', c) \<Longrightarrow> query_is_readonly q' = query_is_readonly q"
  using cap_rows_frame by (simp add: query_is_readonly_sel)

lemma cap_rows_handled:
  assumes "cap_rows q n = (q', Handled)" and "n \<le> u64_max"
  shows "(\<exists>v. static_row_cap q' = Some v \<and> v \<le> n) \<or> (q' = q \<and> is_count_or_exists q \<and> q_limit_clause q = None)"
  using assms
  by (auto simp: cap_rows_def static_row_cap_def bind_eq_Some_conv
      split: option.splits limit_clause.splits if_splits)

text \<open>A readable limit that is already small enough is left as it is: the cap only goes down.\<close>

lemma cap_rows_keeps_small:
  "static_row_cap q = Some v \<Longrightarrow> v \<le> n \<Longrightarrow> cap_rows q n = (q, Handled)"
  by (auto simp: cap_rows_def static_row_cap_def bind_eq_Some_conv
      split: option.splits limit_clause.splits)

section \<open>The round-trip gate\<close>

lemma is_ok_validate: "is_ok (validate_readonly sp env s) \<longleftrightarrow> validate_readonly sp env s = Inr ()"
  by (cases "validate_readonly sp env s") auto

lemma enforce_limit_inner_ok:
  assumes "enforce_limit_inner sp env sql n = Inr out" and "parse sp sql = Inr (st # sts)"
  shows "validate_readonly sp env out = Inr ()"
    and "out = capped_text sp st n \<or>
         (out = sp_render sp st \<and> validate_readonly sp env (capped_text sp st n) \<noteq> Inr ())"
  using assms
  by (auto simp: enforce_limit_inner_def Let_def is_ok_validate split: if_splits)

lemma enforce_limit_offset_ok:
  assumes "enforce_limit_offset sp env sql n off = Inr out" and "parse sp sql = Inr (st # sts)"
  shows "validate_readonly sp env out = Inr ()"
  using assms enforce_limit_inner_ok(1)
  by (auto simp: enforce_limit_offset_def Let_def is_ok_validate split: if_splits)

end
