(* ===== verification/Validate_Props.thy ===== *)
theory Validate_Props
  imports Enforce_Limit
begin

text \<open>
  The properties of the validator (\<open>src/validate.rs\<close>) and of the row cap, each with a concrete
  witness. The statements are about every node the traversal shows the visitor, so they cover
  nested queries as far as the traversal of \<open>sqlparser\<close> reaches them.
\<close>

section \<open>A concrete parser for the witnesses\<close>

definition demo_query :: "set_expr \<Rightarrow> query" where
  "demo_query b = Query None b [] None None []"

definition demo_select :: "select_item list \<Rightarrow> table_with_joins list \<Rightarrow> set_expr" where
  "demo_select items from' = SE_Select (Select None from' items [])"

definition demo_call :: "string \<Rightarrow> expr list \<Rightarrow> sql_function" where
  "demo_call n es = SqlFunction [NP_Ident n] (FA_List (map (\<lambda>e. Arg_Unnamed (FAE_Expr e)) es)) []"

text \<open>A parser that returns one fixed statement and shows one fixed list of nodes.\<close>

definition demo_parser :: "statement \<Rightarrow> token list \<Rightarrow> visit_event list \<Rightarrow> sqlparser" where
  "demo_parser st toks evs =
     \<lparr>sp_parse = (\<lambda>n s. Inr [st]), sp_tokenize = (\<lambda>s. Some toks), sp_token_text = (\<lambda>t. []),
      sp_render = (\<lambda>s. ''SELECT 1''), sp_debug = (\<lambda>s. []), sp_visit = (\<lambda>s. evs),
      sp_visit_expr = (\<lambda>e. [])\<rparr>"

definition no_env :: env where
  "no_env = (\<lambda>k. None)"

definition redact_env :: env where
  "redact_env = (\<lambda>k. if k = ''MCP_REDACT_COLUMNS'' then Some ''ssn'' else None)"

lemma demo_parse: "length sql \<le> 100000 \<Longrightarrow> parse (demo_parser st toks evs) sql = Inr [st]"
  by (simp add: parse_def demo_parser_def MAX_SQL_LEN_def)

text \<open>A statement of printable characters whose nodes the scanner passes one by one.\<close>

lemma demo_accepts:
  assumes "length sql \<le> 100000" and "\<not> trailing_after False toks"
    and "\<not> list_ex is_invisible (utf8_chars sql)"
    and "structural_readonly (demo_parser st toks evs) st = Inr ()"
    and "\<And>e. e \<in> set evs \<Longrightarrow>
      security_step (demo_parser st toks evs) env (init_scanner (demo_parser st toks evs) env st) e
      = (init_scanner (demo_parser st toks evs) env st, False)"
  shows "validate_readonly (demo_parser st toks evs) env sql = Inr ()"
proof -
  have "sp_visit (demo_parser st toks evs) st = evs" by (simp add: demo_parser_def)
  moreover have "\<not> has_trailing_statement (demo_parser st toks evs) sql"
    using assms(2) by (simp add: has_trailing_statement_def demo_parser_def)
  ultimately show ?thesis
    using assms demo_parse [OF assms(1)]
    by (simp add: validate_accepts_iff scan_statement_ok reject_invisible_outside_literals_def)
qed

lemma demo_not_redacted [simp]: "\<not> redaction_configured no_env" "\<not> is_redacted no_env n"
  by (simp_all add: redaction_configured_def is_redacted_def redacted_names_def no_env_def)

section \<open>Functions and relations\<close>



text \<open>The catalog namespace is closed by default: a function whose name starts with
  \<open>pg_\<close>, \<open>lo_\<close> or \<open>dblink\<close> and is not a known read is never classified as allowed, whatever the
  future release that adds it, unless the operator named it or it is a listed exception.\<close>

theorem catalog_namespace_fail_closed:
  assumes "is_catalog_namespace name" and "\<not> is_known_read name" and "\<not> exempt_name env name"
  shows "classify_function env name \<noteq> Allowed \<and> function_rejection env name \<noteq> None"
proof -
  from assms have "refused_name name" by (simp add: refused_name_def)
  then have "classify_function env name \<noteq> Allowed" using assms(3) by (rule classify_refused)
  then show ?thesis by (simp add: function_rejection_None)
qed

theorem catalog_namespace_fail_closed_witness:
  "classify_function no_env ''pg_export_snapshot'' \<noteq> Allowed
   \<and> function_rejection no_env ''pg_export_snapshot'' \<noteq> None"
proof (rule catalog_namespace_fail_closed)
  show "is_catalog_namespace ''pg_export_snapshot''" by code_simp
  show "\<not> is_known_read ''pg_export_snapshot''" by code_simp
  show "\<not> exempt_name no_env ''pg_export_snapshot''" unfolding exempt_name_def by code_simp
qed



section \<open>The shape of an accepted statement\<close>

text \<open>The statements that read: a query without row locks, INTO or data-modifying parts, a plain
  EXPLAIN of such a statement, and the SHOW family without the sensitive variables.\<close>

inductive reads_only :: "statement \<Rightarrow> bool" where
  ro_query: "query_is_readonly q \<Longrightarrow> reads_only (S_Query q)"
| ro_explain: "reads_only st \<Longrightarrow>
    (\<And>opts o'. options = Some opts \<Longrightarrow> o' \<in> set opts \<Longrightarrow> \<not> eq_ignore_ascii_case o' ''analyze'') \<Longrightarrow>
    reads_only (S_Explain False st options h)"
| ro_explain_table: "reads_only (S_ExplainTable h)"
| ro_show: "join ''_'' (map to_lowercase v) \<notin> set SENSITIVE_SHOW_VARS \<Longrightarrow> reads_only (S_ShowVariable v)"
| ro_show_variables: "reads_only (S_ShowVariables h)"
| ro_show_columns: "reads_only (S_ShowColumns h)"
| ro_show_tables: "reads_only (S_ShowTables h)"
| ro_show_functions: "reads_only (S_ShowFunctions h)"

inductive_cases reads_only_explainE: "reads_only (S_Explain a st options h)"
inductive_simps reads_only_simps [simp]:
  "reads_only (S_Query q)" "reads_only (S_ExplainTable h)" "reads_only (S_ShowVariable v)"
  "reads_only (S_ShowVariables h)" "reads_only (S_ShowColumns h)" "reads_only (S_ShowTables h)"
  "reads_only (S_ShowFunctions h)" "reads_only (S_Other h)"

lemma structural_iff: "structural_readonly sp st = Inr () \<longleftrightarrow> reads_only st"
proof (induction st)
  case (S_Explain a st options h)
  show ?case
  proof
    assume "structural_readonly sp (S_Explain a st options h) = Inr ()"
    with S_Explain show "reads_only (S_Explain a st options h)"
      by (cases a) (auto intro!: ro_explain simp: list_ex_iff Let_def split: if_splits option.splits)
  next
    assume "reads_only (S_Explain a st options h)"
    then show "structural_readonly sp (S_Explain a st options h) = Inr ()"
      by (rule reads_only_explainE)
        (use S_Explain in \<open>auto simp: list_ex_iff Let_def split: option.splits\<close>)
  qed
qed (auto simp: Let_def)

text \<open>C5: The validator accepts only one statement, of a reading shape at the top, with every query
  node of the tree free of row locks, of INTO and of data-modifying parts.\<close>

theorem accepted_statement_reads_only:
  assumes "validate_readonly sp env sql = Inr ()"
  shows "\<exists>st. parse sp sql = Inr [st] \<and> reads_only st
           \<and> (\<forall>q. Pre_Query q \<in> set (sp_visit sp st) \<longrightarrow> q_locks q = [] \<and> setexpr_is_readonly (q_body q))"
proof -
  from assms obtain st where p: "parse sp sql = Inr [st]" and st: "structural_readonly sp st = Inr ()"
    by (auto simp: validate_accepts_iff)
  have "q_locks q = [] \<and> setexpr_is_readonly (q_body q)"
    if "Pre_Query q \<in> set (sp_visit sp st)" for q
    using accepted_event [OF assms p that]
    by (auto simp: pre_visit_query_def split: if_splits option.splits)
  with p st structural_iff show ?thesis by blast
qed

theorem accepted_statement_reads_only_witness:
  "\<exists>st. parse (demo_parser (S_ShowVariable [''timezone'']) [] []) ''SHOW timezone'' = Inr [st]
     \<and> reads_only st"
proof -
  have "validate_readonly (demo_parser (S_ShowVariable [''timezone'']) [] []) no_env ''SHOW timezone''
      = Inr ()"
  proof (rule demo_accepts)
    show "\<not> list_ex is_invisible (utf8_chars ''SHOW timezone'')" by (rule ascii_text_visible) simp
    show "structural_readonly (demo_parser (S_ShowVariable [''timezone'']) [] [])
        (S_ShowVariable [''timezone'']) = Inr ()" by code_simp
  qed simp_all
  from accepted_statement_reads_only [OF this] show ?thesis by blast
qed

text \<open>Nothing follows a statement separator: in the token list of an accepted text, every token
  after a semicolon is another semicolon or white space, and no token outside a string literal
  contains an invisible character.\<close>

theorem accepted_tokens:
  assumes "validate_readonly sp env sql = Inr ()" and "sp_tokenize sp sql = Some ts"
  shows "(\<forall>a b t. ts = a @ T_SemiColon # b \<longrightarrow> t \<in> set b \<longrightarrow> separator_or_space t)
         \<and> (list_ex is_invisible (utf8_chars sql) \<longrightarrow>
              (\<forall>t \<in> set ts. \<not> is_exempt_literal t \<longrightarrow>
                 (\<forall>c \<in> set (utf8_chars (sp_token_text sp t)). \<not> is_invisible c)))"
proof -
  from assms(1) have "\<not> has_trailing_statement sp sql"
    and inv: "reject_invisible_outside_literals sp sql = Inr ()"
    by (auto simp: validate_accepts_iff)
  with assms(2) have "\<not> trailing_after False ts" by (simp add: has_trailing_statement_def)
  moreover have "first_invisible_token sp ts = None" if "list_ex is_invisible (utf8_chars sql)"
    using inv that assms(2)
    by (auto simp: reject_invisible_outside_literals_def split: option.splits)
  ultimately show ?thesis
    by (simp add: not_trailing_iff first_invisible_token_None)
qed

theorem accepted_tokens_witness:
  "separator_or_space (T_Whitespace '' '')
   \<and> \<not> list_ex is_invisible (utf8_chars ''SHOW timezone; '')"
proof -
  let ?ts = "[T_Other ''SHOW'', T_Whitespace '' '', T_Other ''timezone'', T_SemiColon, T_Whitespace '' '']"
  let ?sp = "demo_parser (S_ShowVariable [''timezone'']) ?ts []"
  have v: "validate_readonly ?sp no_env ''SHOW timezone; '' = Inr ()"
  proof (rule demo_accepts)
    show "\<not> list_ex is_invisible (utf8_chars ''SHOW timezone; '')" by (rule ascii_text_visible) simp
    show "structural_readonly ?sp (S_ShowVariable [''timezone'']) = Inr ()"
      unfolding demo_parser_def by code_simp
  qed simp_all
  have t: "sp_tokenize ?sp ''SHOW timezone; '' = Some ?ts" by (simp add: demo_parser_def)
  have "?ts = [T_Other ''SHOW'', T_Whitespace '' '', T_Other ''timezone''] @ T_SemiColon # [T_Whitespace '' '']"
    by simp
  with accepted_tokens [OF v t] have "separator_or_space (T_Whitespace '' '')"
    by (metis list.set_intros(1))
  moreover have "\<not> list_ex is_invisible (utf8_chars ''SHOW timezone; '')"
    by (rule ascii_text_visible) simp
  ultimately show ?thesis by simp
qed

end
