(* ===== verification/Redaction_Props.thy ===== *)
theory Redaction_Props
  imports Validate_Props
begin

text \<open>
  The properties of the validator that concern redaction, the size of constants and the row cap
  (\<open>src/validate.rs\<close>), and the places where the code does less than its comments say.
\<close>

section \<open>Redacted columns\<close>

lemma redact_env_names:
  "redacted_names redact_env = ''ssn'' # STATISTIC_VALUE_COLUMNS"
proof -
  have "map (\<lambda>s. last (split_char CHR ''.'' s)) (csv_lower ''ssn'') = [''ssn'']" by code_simp
  then show ?thesis
    by (simp add: redacted_names_def redact_env_def expand_with_statistic_columns_def STATISTIC_VALUE_COLUMNS_def)
qed

lemma redact_env_on [simp]: "redaction_configured redact_env"
  by (simp add: redaction_configured_def redact_env_names)

text \<open>The names under which a whole row of the statement can be referenced.\<close>

definition row_names :: "sqlparser \<Rightarrow> statement \<Rightarrow> string set" where
  "row_names sp st = (\<Union>e \<in> set (sp_visit sp st). set_option (row_ref_name e))"

lemma init_row_refs:
  "redaction_configured env \<Longrightarrow> set (sc_row_refs (init_scanner sp env st)) = row_names sp st"
  by (simp add: init_scanner_def row_refs_of_def row_names_def rowrefs.run_elems)

lemma accepted_expr:
  assumes "validate_readonly sp env sql = Inr ()" and "parse sp sql = Inr [st]"
    and "Pre_Expr e \<in> set (sp_visit sp st)"
  shows "pre_visit_expr sp env (init_scanner sp env st) e = (init_scanner sp env st, False)"
  using accepted_event [OF assms] by simp

lemma accepted_names:
  assumes "validate_readonly sp env sql = Inr ()" and "parse sp sql = Inr [st]"
    and "Pre_Expr e \<in> set (sp_visit sp st)"
  shows "expr_name_check env (init_scanner sp env st) e = (init_scanner sp env st, False)"
  using expr_ok(1) [OF accepted_expr [OF assms]] by simp

text \<open>The witnesses' statement: one unredacted column of a table while \<open>ssn\<close> is redacted.\<close>

definition demo_name_query :: query where
  "demo_name_query = demo_query (demo_select [SI_UnnamedExpr (E_Identifier ''name'')] [])"

definition demo_name_parser :: sqlparser where
  "demo_name_parser = demo_parser (S_Query demo_name_query) []
     [Pre_Query demo_name_query, Pre_Expr (E_Identifier ''name''),
      Pre_Expr (E_Value (V_SingleQuotedString ''x''))]"

lemma demo_name_accepted:
  "validate_readonly demo_name_parser redact_env ''SELECT name'' = Inr ()"
  unfolding demo_name_parser_def
proof (rule demo_accepts)
  let ?evs = "[Pre_Query demo_name_query, Pre_Expr (E_Identifier ''name''),
      Pre_Expr (E_Value (V_SingleQuotedString ''x''))]"
  let ?sp = "demo_parser (S_Query demo_name_query) [] ?evs"
  let ?s = "init_scanner ?sp redact_env (S_Query demo_name_query)"
  have low: "to_lowercase ''name'' = ''name''" "to_lowercase (unescape_sql_literal ''x'') = ''x''"
    by code_simp+
  show "\<not> list_ex is_invisible (utf8_chars ''SELECT name'')" by (rule ascii_text_visible) simp
  have rr: "sc_row_refs ?s = []" by (simp add: init_scanner_def row_refs_of_def demo_parser_def)
  have lit: "redacted_name_inside redact_env ''x'' = None"
    by (simp add: redacted_name_inside_def redact_env_names STATISTIC_VALUE_COLUMNS_def contains_def)
  have sz: "\<not> MAX_RESULT_BYTES < Suc 0" by (simp add: MAX_RESULT_BYTES_def)
  show "security_step ?sp redact_env ?s e = (?s, False)" if "e \<in> set ?evs" for e
    using that rr low lit sz
    by (auto simp: scanner_steps demo_name_query_def demo_query_def demo_select_def renaming_cte_def
        is_redacted_iff redact_env_names STATISTIC_VALUE_COLUMNS_def)
qed (simp_all add: demo_name_query_def demo_query_def demo_select_def)

lemma demo_name_parse: "parse demo_name_parser ''SELECT name'' = Inr [S_Query demo_name_query]"
  by (simp add: demo_name_parser_def demo_parse)

text \<open>C7: With redaction configured, no expression of an accepted statement names a redacted column in any of
  the ways the scanner reads: no identifier is one, no qualified identifier ends in one, no identifier
  stands for a whole row of a relation or alias of the statement, and no single-quoted, escape, national
  or double-quoted literal contains a redacted name once its escapes are decoded. Dollar-quoted and
  Unicode literals are not read (\<open>other_literals_not_inspected\<close>), and the column lists of
  USING are no expressions and are judged apart.\<close>

theorem redacted_columns_not_named:
  assumes "validate_readonly sp env sql = Inr ()" and "parse sp sql = Inr [st]"
    and "redaction_configured env"
  shows "(\<forall>i. Pre_Expr (E_Identifier i) \<in> set (sp_visit sp st) \<longrightarrow>
             to_lowercase i \<notin> set (redacted_names env) \<and> to_lowercase i \<notin> row_names sp st)
       \<and> (\<forall>parts. Pre_Expr (E_CompoundIdentifier parts) \<in> set (sp_visit sp st) \<longrightarrow> parts \<noteq> [] \<longrightarrow>
             to_lowercase (last parts) \<notin> set (redacted_names env))
       \<and> (\<forall>e t n. Pre_Expr e \<in> set (sp_visit sp st) \<longrightarrow> literal_text e = Some t \<longrightarrow>
             n \<in> set (redacted_names env) \<longrightarrow> \<not> contains (to_lowercase (unescape_sql_literal t)) n)"
proof -
  note chk = accepted_names [OF assms(1,2)]
  let ?s = "init_scanner sp env st"
  have ne: "(?s\<lparr>sc_redacted := Some x\<rparr>, True) \<noteq> (?s, False)" for x by simp
  show ?thesis
  proof (intro conjI allI impI)
    fix i assume "Pre_Expr (E_Identifier i) \<in> set (sp_visit sp st)"
    from chk [OF this] show "to_lowercase i \<notin> set (redacted_names env)"
      and "to_lowercase i \<notin> row_names sp st"
      using init_row_refs [OF assms(3), of sp st]
      by (auto simp: expr_name_check_def is_redacted_iff split: if_splits)
  next
    fix parts assume "Pre_Expr (E_CompoundIdentifier parts) \<in> set (sp_visit sp st)" "parts \<noteq> []"
    from chk [OF this(1)] this(2) show "to_lowercase (last parts) \<notin> set (redacted_names env)"
      by (auto simp: expr_name_check_def is_redacted_iff split: if_splits)
  next
    fix e t n
    assume e: "Pre_Expr e \<in> set (sp_visit sp st)" "literal_text e = Some t" "n \<in> set (redacted_names env)"
    have "redacted_name_inside env (to_lowercase (unescape_sql_literal t)) = None"
      using chk [OF e(1)] e(2)
      by (cases e rule: literal_text.cases) (auto simp: expr_name_check_def split: option.splits)
    with e(3) show "\<not> contains (to_lowercase (unescape_sql_literal t)) n"
      by (auto simp: redacted_name_inside_def find_None_iff)
  qed
qed

theorem redacted_columns_not_named_witness:
  "to_lowercase ''name'' \<notin> set (redacted_names redact_env)"
proof -
  have "Pre_Expr (E_Identifier ''name'') \<in> set (sp_visit demo_name_parser (S_Query demo_name_query))"
    by (simp add: demo_name_parser_def demo_parser_def)
  then show ?thesis
    using redacted_columns_not_named [OF demo_name_accepted demo_name_parse redact_env_on] by blast
qed



section \<open>Constants and the row cap\<close>



text \<open>C17: The rewrite is safe by round trip: whatever text the row cap or the paging returns for a
  statement that parses has itself been accepted by the validator, so it is again a single
  statement of a reading shape.\<close>

theorem capped_text_revalidated:
  assumes "enforce_limit_offset sp env sql n off = Inr out" and "parse sp sql = Inr (st # sts)"
  shows "validate_readonly sp env out = Inr () \<and> (\<exists>st'. parse sp out = Inr [st'] \<and> reads_only st')"
proof -
  from enforce_limit_offset_ok [OF assms] have "validate_readonly sp env out = Inr ()" .
  then show ?thesis by (auto simp: validate_accepts_iff structural_iff)
qed

theorem capped_text_revalidated_witness:
  "\<exists>st'. parse demo_name_parser ''SELECT 1'' = Inr [st'] \<and> reads_only st'"
proof -
  have r: "sp_render demo_name_parser st = ''SELECT 1''" for st
    by (simp add: demo_name_parser_def demo_parser_def)
  have v: "validate_readonly demo_name_parser redact_env ''SELECT 1'' = Inr ()"
    using demo_name_accepted demo_name_parse ascii_text_visible [of "''SELECT 1''"]
    by (simp add: validate_accepts_iff demo_name_parser_def demo_parse has_trailing_statement_def
        demo_parser_def reject_invisible_outside_literals_def parse_def MAX_SQL_LEN_def)
  have c: "cap_rows demo_name_query 100 =
      (set_limit_clause (Some (LC_LimitOffset (Some (number_expr 100)) None [])) demo_name_query, Handled)"
    by (simp add: cap_rows_def demo_name_query_def demo_query_def demo_select_def is_count_or_exists_def)
  have "enforce_limit_offset demo_name_parser redact_env ''SELECT name'' 100 0 = Inr ''SELECT 1''"
    using demo_name_parse v c
    by (simp add: enforce_limit_offset_def enforce_limit_inner_def capped_text_def r is_ok_validate)
  from capped_text_revalidated [OF this] demo_name_parse show ?thesis by simp
qed

text \<open>The parts of a query the cap may not touch: everything but the number in its LIMIT or FETCH.\<close>

fun count_erased :: "limit_clause option \<Rightarrow> limit_clause" where
  "count_erased None = LC_LimitOffset None None []"
| "count_erased (Some (LC_LimitOffset limit offset limit_by)) = LC_LimitOffset None offset limit_by"
| "count_erased (Some (LC_OffsetCommaLimit a b)) = LC_OffsetCommaLimit a b"

definition same_but_count :: "query \<Rightarrow> query \<Rightarrow> bool" where
  "same_but_count q q' \<longleftrightarrow>
     q_body q' = q_body q \<and> q_with q' = q_with q \<and> q_locks q' = q_locks q \<and> q_hidden q' = q_hidden q
     \<and> map_option fetch_hidden (q_fetch q') = map_option fetch_hidden (q_fetch q)
     \<and> (if q_fetch q = None then count_erased (q_limit_clause q') = count_erased (q_limit_clause q)
        else q_limit_clause q' = q_limit_clause q)"

text \<open>C21: The cap edits the count and nothing else. A query capped in place carries the smaller of its own
  literal count and the requested number of rows, or the requested number when it had no limit, in its
  FETCH or its LIMIT, and keeps its body, its common table expressions, its locks, its OFFSET, its LIMIT
  BY, the flags of its FETCH and the rest; the single-aggregate form without a limit is left alone; and a
  query whose count is no readable literal is not edited at all but marked to be wrapped. A FETCH with
  WITH TIES keeps that flag and is not wrapped, so the count does not bound its rows
  (\<open>fetch_with_ties_not_wrapped\<close>).\<close>

theorem row_cap_edits_only_the_count:
  assumes "cap_rows q n = (q', c)" and "n \<le> u64_max"
  shows "case c of
      NeedsWrap \<Rightarrow> q' = q \<and> static_row_cap q = None
    | Handled \<Rightarrow>
        q' = q \<and> is_count_or_exists q \<and> q_fetch q = None \<and> q_limit_clause q = None
        \<or> static_row_cap q' = Some (case static_row_cap q of Some v \<Rightarrow> min v n | None \<Rightarrow> n)
          \<and> (static_row_cap q = None \<longrightarrow> q_fetch q = None \<and> q_limit_clause q = None)
          \<and> same_but_count q q'"
proof (cases "q_fetch q")
  case (Some ft)
  with assms show ?thesis
    by (auto simp: cap_rows_def static_row_cap_def same_but_count_def bind_eq_Some_conv split: option.splits if_splits)
next
  case None
  with assms show ?thesis
    by (cases "q_limit_clause q")
      (auto simp: cap_rows_def static_row_cap_def same_but_count_def bind_eq_Some_conv
        split: option.splits limit_clause.splits if_splits)
qed

text \<open>A limit of 500 with an offset, and a cap of 100 rows.\<close>

theorem row_cap_edits_only_the_count_witness:
  "\<exists>q'. cap_rows (set_limit_clause (Some (LC_LimitOffset (Some (number_expr 500)) (Some (number_expr 7)) []))
        (demo_query (SE_Values ''1''))) 100 = (q', Handled)
     \<and> static_row_cap q' = Some 100
     \<and> count_erased (q_limit_clause q') = LC_LimitOffset None (Some (number_expr 7)) []"
proof -
  let ?q = "set_limit_clause (Some (LC_LimitOffset (Some (number_expr 500)) (Some (number_expr 7)) []))
        (demo_query (SE_Values ''1''))"
  let ?q' = "set_limit_clause (Some (LC_LimitOffset (Some (number_expr 100)) (Some (number_expr 7)) [])) ?q"
  have q: "q_fetch ?q = None" "static_row_cap ?q = Some 500"
    by (simp_all add: demo_query_def static_row_cap_def u64_max_def)
  then have c: "cap_rows ?q 100 = (?q', Handled)"
    by (simp add: cap_rows_def u64_max_def)
  have "static_row_cap ?q' = Some 100 \<and> same_but_count ?q ?q'"
    using row_cap_edits_only_the_count [OF c] q by (auto simp: u64_max_def)
  with c q(1) show ?thesis by (auto simp: same_but_count_def)
qed

section \<open>Where the code does less than its comments say\<close>

text \<open>The arms of a set operation are not query nodes, so their joins are never inspected: a USING
  on the redacted column in a UNION arm is accepted. The same join in a plain SELECT is refused.\<close>

definition using_ssn_arm :: set_expr where
  "using_ssn_arm = demo_select [SI_Other ''count(*)'']
     [TableWithJoins (TF_Table [NP_Ident ''people''] None None)
        [JoinItem (TF_Derived (Some (TableAlias ''g'' [])) ''SELECT''
           ) (J_Inner (JC_Using [[NP_Ident ''ssn'']]))]]"

definition union_query :: query where
  "union_query = demo_query (SE_SetOperation (SE_Values ''1'') using_ssn_arm ''UNION'')"

lemma union_arm_join_not_inspected:
  "pre_visit_query redact_env (s\<lparr>sc_redaction_on := True\<rparr>) union_query = (s\<lparr>sc_redaction_on := True\<rparr>, False)"
  "snd (pre_visit_query redact_env (s\<lparr>sc_redaction_on := True\<rparr>) (demo_query using_ssn_arm))"
proof -
  show "pre_visit_query redact_env (s\<lparr>sc_redaction_on := True\<rparr>) union_query
      = (s\<lparr>sc_redaction_on := True\<rparr>, False)"
    by (simp add: pre_visit_query_def join_constraint_evasion_def union_query_def demo_query_def
        using_ssn_arm_def demo_select_def renaming_cte_def)
  have "using_name [NP_Ident ''ssn''] = ''ssn''" by code_simp
  then have "first_join_evasion redact_env [JoinItem (TF_Derived (Some (TableAlias ''g'' [])) ''SELECT''
           ) (J_Inner (JC_Using [[NP_Ident ''ssn'']]))] \<noteq> None"
    by (simp add: constraint_evasion_def is_redacted_iff redact_env_names)
  then show "snd (pre_visit_query redact_env (s\<lparr>sc_redaction_on := True\<rparr>) (demo_query using_ssn_arm))"
    by (auto simp: pre_visit_query_def join_constraint_evasion_def demo_query_def
        using_ssn_arm_def demo_select_def renaming_cte_def split: option.splits)
qed

text \<open>Nor is a join in parentheses, which is a table of its own, although the query is a plain SELECT: neither
  the query nor the table is refused.\<close>

definition parenthesised_join :: table_factor where
  "parenthesised_join = TF_NestedJoin None (TableWithJoins (TF_Table [NP_Ident ''people''] None None)
     [JoinItem (TF_Derived (Some (TableAlias ''g'' [])) ''SELECT'') (J_Inner (JC_Using [[NP_Ident ''ssn'']]))])"

lemma parenthesised_join_not_inspected:
  "pre_visit_query redact_env (s\<lparr>sc_redaction_on := True\<rparr>)
     (demo_query (demo_select [SI_Other ''count(*)''] [TableWithJoins parenthesised_join []]))
   = (s\<lparr>sc_redaction_on := True\<rparr>, False)"
  "pre_visit_table_factor redact_env (s\<lparr>sc_redaction_on := True\<rparr>) parenthesised_join
   = (s\<lparr>sc_redaction_on := True\<rparr>, False)"
  by (simp_all add: pre_visit_query_def pre_visit_table_factor_def join_constraint_evasion_def demo_query_def
      demo_select_def renaming_cte_def parenthesised_join_def alias_renames_columns_def)

text \<open>A literal of another kind (dollar-quoted, Unicode, and what else the parser tells apart) passes whatever
  it holds, although the comment counts every spelling of a string literal.\<close>

lemma other_literals_not_inspected:
  "security_step sp env s (Pre_Expr (E_Value (V_Other text))) = (s, False)"
proof -
  have "folded_size_estimate sp (E_Value (V_Other text)) = None" by (subst folded_size_estimate.simps) simp
  then show ?thesis by (simp add: pre_visit_expr_def expr_name_check_def expr_function_check_def)
qed

text \<open>A grouped count is taken for a single aggregate: the projection alone decides, so a query with
  one \<open>count(*)\<close> column and a GROUP BY (kept in the hidden part of the SELECT) is returned without
  any limit.\<close>

lemma grouped_count_uncapped:
  "cap_rows (demo_query (SE_Select (Select None from'
       [SI_UnnamedExpr (E_Function (demo_call ''count'' []))] ''GROUP BY id''))) n
   = (demo_query (SE_Select (Select None from'
       [SI_UnnamedExpr (E_Function (demo_call ''count'' []))] ''GROUP BY id'')), Handled)"
proof -
  have "last_part_name [NP_Ident ''count''] = Some ''count''" by code_simp
  then show ?thesis by (simp add: cap_rows_def demo_query_def is_count_or_exists_def demo_call_def)
qed

text \<open>FETCH FIRST 5 ROWS WITH TIES has a readable literal, so it is left alone, although ties can
  exceed it; the comment in the code says that form is wrapped.\<close>

lemma fetch_with_ties_not_wrapped:
  "cap_rows (Query None b [] (Some (Fetch (Some (number_expr 5)) ''WITH TIES'')) None h) 1000
   = (Query None b [] (Some (Fetch (Some (number_expr 5)) ''WITH TIES'')) None h, Handled)"
  by (simp add: cap_rows_def u64_max_def)

text \<open>Slicing the first seven bytes of a text whose eighth byte continues a character panics: here
  \<open>SHOW a\<close> followed by U+00E9.\<close>

lemma explained_statement_panics:
  "explained_statement (''SHOW a'' @ [CHR 0xC3, CHR 0xA9]) = Inl (CharBoundaryPanic 7)"
proof -
  have "trim_start (''SHOW a'' @ [CHR 0xC3, CHR 0xA9]) = ''SHOW a'' @ [CHR 0xC3, CHR 0xA9]" by code_simp
  then show ?thesis by (simp add: explained_statement_def is_char_boundary_def)
qed

text \<open>An entry that ends in a dot leaves an empty name, which every string literal contains.\<close>

lemma push_missing_head: "\<exists>r. push_missing (x # v) cs = x # r"
  by (induction cs arbitrary: v) auto

lemma trailing_dot_refuses_literals:
  "redacted_name_inside (\<lambda>k. if k = ''MCP_REDACT_COLUMNS'' then Some ''people.'' else None) lit = Some []"
proof -
  have "csv_lower ''people.'' = [''people.'']" by (simp add: csv_lower_def string_ops)
  then have "redacted_names (\<lambda>k. if k = ''MCP_REDACT_COLUMNS'' then Some ''people.'' else None)
      = expand_with_statistic_columns [[]]"
    by (simp add: redacted_names_def split_char_def)
  moreover have "\<exists>r. expand_with_statistic_columns [[]] = [] # r"
    by (simp add: expand_with_statistic_columns_def push_missing_head)
  moreover have "contains lit []" by (cases lit) (simp_all add: contains_def)
  ultimately show ?thesis by (auto simp: redacted_name_inside_def)
qed
end
