(* ===== verification/Json.thy ===== *)
theory Json
  imports Complex_Main Prelude
begin

text \<open>
  The two value types the request handling shares: the 64-bit floats of the limits and thresholds,
  and the JSON values of \<open>serde_json\<close> (built with \<open>arbitrary_precision\<close>, so a number is its
  literal text).

  A float is a rational number, an infinity or NaN. Arithmetic on finite values is exact: rounding
  is not modelled, the special values, comparisons with NaN and overflow when parsing are. An
  object is the association list of its entries; a lookup takes the first entry of a key.
\<close>

section \<open>Floats\<close>

datatype f64 = Fin rat | PInf | NInf | NaN

fun f64_le :: "f64 \<Rightarrow> f64 \<Rightarrow> bool" where
  "f64_le (Fin a) (Fin b) = (a \<le> b)"
| "f64_le NaN _ = False"
| "f64_le _ NaN = False"
| "f64_le NInf _ = True"
| "f64_le _ PInf = True"
| "f64_le _ _ = False"

fun f64_lt :: "f64 \<Rightarrow> f64 \<Rightarrow> bool" where
  "f64_lt (Fin a) (Fin b) = (a < b)"
| "f64_lt NaN _ = False"
| "f64_lt _ NaN = False"
| "f64_lt NInf b = (b \<noteq> NInf)"
| "f64_lt a PInf = (a \<noteq> PInf)"
| "f64_lt _ _ = False"

fun f64_neg :: "f64 \<Rightarrow> f64" where
  "f64_neg (Fin a) = Fin (- a)"
| "f64_neg PInf = NInf"
| "f64_neg NInf = PInf"
| "f64_neg NaN = NaN"

fun f64_add :: "f64 \<Rightarrow> f64 \<Rightarrow> f64" where
  "f64_add (Fin a) (Fin b) = Fin (a + b)"
| "f64_add NaN _ = NaN"
| "f64_add _ NaN = NaN"
| "f64_add PInf b = (if b = NInf then NaN else PInf)"
| "f64_add NInf b = (if b = PInf then NaN else NInf)"
| "f64_add (Fin _) b = b"

definition f64_sub :: "f64 \<Rightarrow> f64 \<Rightarrow> f64" where
  "f64_sub a b = f64_add a (f64_neg b)"

definition inf_signed :: "rat \<Rightarrow> f64" where
  "inf_signed s = (if 0 < s then PInf else if s < 0 then NInf else NaN)"

definition f64_sign :: "f64 \<Rightarrow> rat" where
  "f64_sign x = (case x of Fin a \<Rightarrow> sgn a | PInf \<Rightarrow> 1 | NInf \<Rightarrow> -1 | NaN \<Rightarrow> 0)"

fun f64_mul :: "f64 \<Rightarrow> f64 \<Rightarrow> f64" where
  "f64_mul (Fin a) (Fin b) = Fin (a * b)"
| "f64_mul a b = inf_signed (f64_sign a * f64_sign b)"

text \<open>Division by a finite number other than zero, the only division the program makes.\<close>

definition f64_div :: "f64 \<Rightarrow> rat \<Rightarrow> f64" where
  "f64_div a b = f64_mul a (Fin (1 / b))"

text \<open>\<open>f64::max\<close> and \<open>f64::min\<close> ignore a NaN operand.\<close>

definition f64_max :: "f64 \<Rightarrow> f64 \<Rightarrow> f64" where
  "f64_max a b = (if a = NaN then b else if b = NaN then a else if f64_le a b then b else a)"

definition f64_min :: "f64 \<Rightarrow> f64 \<Rightarrow> f64" where
  "f64_min a b = (if a = NaN then b else if b = NaN then a else if f64_le a b then a else b)"

lemma f64_fin_ops [simp]:
  "f64_sub (Fin a) (Fin b) = Fin (a - b)" "f64_div (Fin a) b = Fin (a / b)"
  "f64_max (Fin a) (Fin b) = Fin (max a b)" "f64_min (Fin a) (Fin b) = Fin (min a b)"
  by (simp_all add: f64_sub_def f64_div_def f64_max_def f64_min_def max_def min_def)

subsection \<open>Parsing\<close>

text \<open>\<open>str::parse::<f64>()\<close>: \<open>split_digits\<close> takes the longest run of digits.\<close>

definition split_digits :: "string \<Rightarrow> string \<times> string" where
  "split_digits s = (takeWhile is_ascii_digit s, dropWhile is_ascii_digit s)"

definition parse_exponent :: "string \<Rightarrow> int option" where
  "parse_exponent s =
     (if s = [] then Some 0
      else if hd s \<noteq> CHR ''e'' \<and> hd s \<noteq> CHR ''E'' then None
      else (let t = tl s;
                neg = (t \<noteq> [] \<and> hd t = CHR ''-'');
                ds = (if t \<noteq> [] \<and> (hd t = CHR ''-'' \<or> hd t = CHR ''+'') then tl t else t) in
            if ds = [] \<or> \<not> list_all is_ascii_digit ds then None
            else Some ((if neg then -1 else 1) * int (digits_val 0 ds))))"

definition ten_power :: "int \<Rightarrow> rat" where
  "ten_power k = (if 0 \<le> k then 10 ^ nat k else 1 / 10 ^ nat (- k))"

text \<open>The magnitudes from here on round to infinity.\<close>

definition f64_overflow :: rat where
  "f64_overflow = 2 ^ 1024 - 2 ^ 970"

definition parse_decimal :: "string \<Rightarrow> rat option" where
  "parse_decimal s =
     (case split_digits s of (ip, r) \<Rightarrow>
       (let has_dot = (r \<noteq> [] \<and> hd r = CHR ''.'') in
        case (if has_dot then split_digits (tl r) else ([], r)) of (fp, e) \<Rightarrow>
          if ip = [] \<and> fp = [] then None
          else (case parse_exponent e of
                  None \<Rightarrow> None
                | Some k \<Rightarrow> Some (of_nat (digits_val 0 (ip @ fp)) * ten_power (k - int (length fp))))))"

definition parse_f64 :: "string \<Rightarrow> f64 option" where
  "parse_f64 s =
     (let neg = (s \<noteq> [] \<and> hd s = CHR ''-'');
          t = (if s \<noteq> [] \<and> (hd s = CHR ''-'' \<or> hd s = CHR ''+'') then tl s else s);
          low = to_ascii_lowercase t;
          sg = (if neg then f64_neg else id) in
      if low = ''inf'' \<or> low = ''infinity'' then Some (sg PInf)
      else if low = ''nan'' then Some NaN
      else map_option (\<lambda>v. sg (if f64_overflow \<le> v then PInf else Fin v)) (parse_decimal t))"

lemma parse_f64_nan: "parse_f64 ''nan'' = Some NaN" "parse_f64 ''NaN'' = Some NaN"
  by code_simp+

section \<open>JSON\<close>

datatype json =
    JNull
  | JBool bool
  | JNum string
  | JStr string
  | JArr "json list"
  | JObj "(string \<times> json) list"

fun as_str :: "json \<Rightarrow> string option" where
  "as_str (JStr s) = Some s"
| "as_str _ = None"

fun as_bool :: "json \<Rightarrow> bool option" where
  "as_bool (JBool b) = Some b"
| "as_bool _ = None"

fun as_array :: "json \<Rightarrow> json list option" where
  "as_array (JArr xs) = Some xs"
| "as_array _ = None"

fun as_object :: "json \<Rightarrow> (string \<times> json) list option" where
  "as_object (JObj kvs) = Some kvs"
| "as_object _ = None"

fun as_u64 :: "json \<Rightarrow> nat option" where
  "as_u64 (JNum n) = parse_u64 n"
| "as_u64 _ = None"

text \<open>\<open>str::parse::<i64>()\<close>, which reads the number's text.\<close>

definition i64_max :: nat where
  "i64_max = 9223372036854775807"

definition parse_i64 :: "string \<Rightarrow> int option" where
  "parse_i64 s =
     (if s \<noteq> [] \<and> hd s = CHR ''-'' then
        (if tl s \<noteq> [] \<and> hd (tl s) = CHR ''+'' then None
         else map_option (\<lambda>n. - int n) (parse_unsigned (i64_max + 1) (tl s)))
      else map_option int (parse_unsigned i64_max s))"

fun as_i64 :: "json \<Rightarrow> int option" where
  "as_i64 (JNum n) = parse_i64 n"
| "as_i64 _ = None"

fun as_f64 :: "json \<Rightarrow> f64 option" where
  "as_f64 (JNum n) = (case parse_f64 n of Some (Fin v) \<Rightarrow> Some (Fin v) | _ \<Rightarrow> None)"
| "as_f64 _ = None"

definition is_object :: "json \<Rightarrow> bool" where
  "is_object v = (as_object v \<noteq> None)"

definition is_array :: "json \<Rightarrow> bool" where
  "is_array v = (as_array v \<noteq> None)"

fun jget :: "string \<Rightarrow> json \<Rightarrow> json option" where
  "jget k (JObj kvs) = map_of kvs k"
| "jget k _ = None"

fun jat :: "nat \<Rightarrow> json \<Rightarrow> json option" where
  "jat i (JArr xs) = (if i < length xs then Some (xs ! i) else None)"
| "jat i _ = None"

text \<open>\<open>value[k]\<close> reads null for a missing key.\<close>

definition jidx :: "json \<Rightarrow> string \<Rightarrow> json" where
  "jidx v k = (case jget k v of Some x \<Rightarrow> x | None \<Rightarrow> JNull)"

text \<open>\<open>serde_json::Map\<close> is a \<open>BTreeMap\<close>: insertion keeps the keys sorted.\<close>

fun bt_insert :: "string \<Rightarrow> json \<Rightarrow> (string \<times> json) list \<Rightarrow> (string \<times> json) list" where
  "bt_insert k v [] = [(k, v)]"
| "bt_insert k v ((k', v') # r) =
     (if k = k' then (k, v) # r
      else if k < k' then (k, v) # (k', v') # r
      else (k', v') # bt_insert k v r)"

definition bt_remove :: "string \<Rightarrow> (string \<times> json) list \<Rightarrow> (string \<times> json) list" where
  "bt_remove k kvs = filter (\<lambda>(k', v). k' \<noteq> k) kvs"

definition bt_map :: "(string \<times> json) list \<Rightarrow> bool" where
  "bt_map kvs = sorted_wrt (<) (map fst kvs)"

fun jinsert :: "string \<Rightarrow> json \<Rightarrow> json \<Rightarrow> json" where
  "jinsert k x (JObj kvs) = JObj (bt_insert k x kvs)"
| "jinsert k x v = v"

text \<open>The object the macro \<open>json!\<close> builds from its entries.\<close>

definition jobj :: "(string \<times> json) list \<Rightarrow> json" where
  "jobj kvs = JObj (foldl (\<lambda>m (k, v). bt_insert k v m) [] kvs)"

definition get_str :: "string \<Rightarrow> json \<Rightarrow> string option" where
  "get_str k v = Option.bind (jget k v) as_str"

lemma map_of_bt_insert [simp]: "map_of (bt_insert k v kvs) = (map_of kvs)(k \<mapsto> v)"
  by (induction k v kvs rule: bt_insert.induct) (auto simp: fun_eq_iff)

lemma keys_bt_insert: "fst ` set (bt_insert k v kvs) = insert k (fst ` set kvs)"
  by (induction k v kvs rule: bt_insert.induct) auto

lemma bt_map_insert: "bt_map kvs \<Longrightarrow> bt_map (bt_insert k v kvs)"
proof (induction k v kvs rule: bt_insert.induct)
  case (2 k v k' v' r)
  then show ?case
    using keys_bt_insert [of k v r] by (auto simp: bt_map_def dest: less_trans)
qed (simp add: bt_map_def)

lemma bt_remove_insert:
  "k \<notin> fst ` set kvs \<Longrightarrow> bt_remove k (bt_insert k v kvs) = kvs"
  by (induction k v kvs rule: bt_insert.induct) (force simp: bt_remove_def filter_id_conv)+

lemma bt_remove_comm: "bt_remove a (bt_remove b kvs) = bt_remove b (bt_remove a kvs)"
  unfolding bt_remove_def by (simp add: conj_commute)

lemma map_of_foldl_insert:
  "map_of (foldl (\<lambda>m (k, v). bt_insert k v m) acc kvs) = map_of acc ++ map_of (rev kvs)"
  by (induction kvs arbitrary: acc) auto

lemma jget_jobj [simp]: "jget k (jobj kvs) = map_of (rev kvs) k"
  by (simp add: jobj_def map_of_foldl_insert)

lemma bt_map_foldl: "bt_map acc \<Longrightarrow> bt_map (foldl (\<lambda>m (k, v). bt_insert k v m) acc kvs)"
  by (induction kvs arbitrary: acc) (auto intro: bt_map_insert)

lemma jget_jinsert [simp]:
  "jget k' (jinsert k x (JObj kvs)) = (if k' = k then Some x else jget k' (JObj kvs))"
  by simp

end
