(* ===== verification/Auth.thy ===== *)
theory Auth
  imports Json
begin

text \<open>
  Who may call what: \<open>src/authz.rs\<close> and \<open>src/auth.rs\<close>.

  The HTTP headers are a function from a name to the header's text (a header that is not readable
  text is absent). Decoding and verifying a JWT is the crate \<open>jsonwebtoken\<close>: the argument
  \<open>decode_jwt\<close> takes the token, the key and the validation settings the code builds, and
  returns the claims. The keyed digest is an argument too.
\<close>

type_synonym headers = "string \<Rightarrow> string option"

section \<open>Tokens (\<open>auth.rs\<close>)\<close>

record claims =
  cl_sub :: string
  cl_exp :: nat
  cl_aud :: string
  cl_iss :: string
  cl_scope :: string

record auth_context =
  ac_tenant :: string
  ac_scopes :: "string list"

definition has_scope :: "auth_context \<Rightarrow> string \<Rightarrow> bool" where
  "has_scope ctx s = list_ex (\<lambda>scope. scope = s) (ac_scopes ctx)"

text \<open>The settings handed to \<open>jsonwebtoken\<close>.\<close>

record validation =
  v_algorithm :: string
  v_audience :: "string list option"
  v_validate_aud :: bool
  v_issuer :: "string list option"
  v_required :: "string list"
  v_validate_exp :: bool
  v_validate_nbf :: bool

definition validation_for :: "string \<Rightarrow> string \<Rightarrow> validation" where
  "validation_for expected_aud expected_iss =
     \<lparr>v_algorithm = ''RS256'',
      v_audience = (if expected_aud \<noteq> [] then Some [expected_aud] else None),
      v_validate_aud = (expected_aud \<noteq> []),
      v_issuer = (if expected_iss \<noteq> [] then Some [expected_iss] else None),
      v_required = [''exp''] @ (if expected_aud \<noteq> [] then [''aud''] else [])
                            @ (if expected_iss \<noteq> [] then [''iss''] else []),
      v_validate_exp = True, v_validate_nbf = True\<rparr>"

type_synonym decode_jwt = "string \<Rightarrow> string \<Rightarrow> validation \<Rightarrow> string + claims"

definition validate_token ::
  "(string \<Rightarrow> string + unit) \<Rightarrow> decode_jwt \<Rightarrow> string \<Rightarrow> string \<Rightarrow> string \<Rightarrow> string \<Rightarrow> string + auth_context" where
  "validate_token rsa_key decode token pubkey expected_aud expected_iss =
     (case rsa_key pubkey of
        Inl e \<Rightarrow> Inl (''bad key: '' @ e)
      | Inr _ \<Rightarrow>
          (case decode token pubkey (validation_for expected_aud expected_iss) of
             Inl e \<Rightarrow> Inl (''token invalid: '' @ e)
           | Inr c \<Rightarrow> Inr \<lparr>ac_tenant = cl_sub c, ac_scopes = split_whitespace (cl_scope c)\<rparr>))"

section \<open>Requests (\<open>authz.rs\<close>)\<close>

record auth_config =
  cfg_pubkey :: string
  cfg_aud :: string
  cfg_iss :: string

text \<open>\<open>read_file\<close> is \<open>std::fs::read\<close>.\<close>

definition jwt_pubkey_pem :: "env \<Rightarrow> (string \<Rightarrow> string option) \<Rightarrow> string option" where
  "jwt_pubkey_pem env read_file =
     (case env ''JWT_PUBKEY_PEM'' of
        None \<Rightarrow> None
      | Some raw0 \<Rightarrow>
          (let raw = trim raw0 in
           if raw = [] then None
           else if contains raw ''-----BEGIN'' then Some raw
           else read_file raw))"

definition auth_config_of :: "env \<Rightarrow> (string \<Rightarrow> string option) \<Rightarrow> auth_config option" where
  "auth_config_of env read_file =
     map_option (\<lambda>pem. \<lparr>cfg_pubkey = pem, cfg_aud = env_or env ''JWT_AUD'' [],
                        cfg_iss = env_or env ''JWT_ISS'' []\<rparr>)
       (jwt_pubkey_pem env read_file)"

definition bearer_token :: "string \<Rightarrow> string option" where
  "bearer_token value =
     (case value of
        [] \<Rightarrow> None
      | b # rest \<Rightarrow>
          if ascii_lower b \<noteq> CHR ''b'' then None
          else (let n = min (length rest) 5 in
                if \<not> eq_ignore_ascii_case (take n rest) ''earer'' then None
                else (case drop n rest of
                        [] \<Rightarrow> None
                      | c # t \<Rightarrow> if c = CHR '' '' then Some (dropWhile (\<lambda>c. c = CHR '' '') t)
                                 else None)))"

text \<open>The comparison folds the bytes of two digests; \<open>hmac\<close> is the keyed digest in hexadecimal.\<close>

definition xor_byte :: "char \<Rightarrow> char \<Rightarrow> nat" where
  "xor_byte x y = xor (of_char x) (of_char y)"

definition secret_eq :: "(string \<Rightarrow> string) \<Rightarrow> string \<Rightarrow> string \<Rightarrow> bool" where
  "secret_eq hmac given expected =
     (let a = hmac given; b = hmac expected in
      foldl (\<lambda>acc (x, y). or acc (xor_byte x y)) 0 (zip a b) = 0 \<and> length a = length b)"

definition required_scope :: "string \<Rightarrow> string" where
  "required_scope tool =
     (if List.member [''query'', ''explain_query'', ''simulate_index''] tool then ''mcp:query''
      else if List.member [''list_tables'', ''list_schemas'', ''describe_table'', ''database_health'',
                           ''analyze_indexes'', ''top_queries''] tool then ''mcp:read''
      else if tool = ''security_posture'' then ''mcp:read''
      else ''mcp:admin'')"

definition scope_satisfied :: "auth_context \<Rightarrow> string \<Rightarrow> bool" where
  "scope_satisfied ctx needed = (has_scope ctx needed \<or> has_scope ctx ''mcp:admin'')"

text \<open>What the request handling uses of the outside: the RSA key parser, the JWT library, the
  per-process keyed digest of \<open>secret_eq\<close> and the fingerprint digest.\<close>

record auth_libs =
  al_rsa_key :: "string \<Rightarrow> string + unit"
  al_decode :: decode_jwt
  al_hmac :: "string \<Rightarrow> string"
  al_fingerprint :: "string \<Rightarrow> string"

type_synonym auth_error = "nat \<times> string \<times> string option"

definition scope_needed :: "json \<Rightarrow> string option" where
  "scope_needed req =
     (let method = (case get_str ''method'' req of Some m \<Rightarrow> m | None \<Rightarrow> []) in
      if method = ''tools/call'' then
        Some (required_scope
          (case Option.bind (jget ''params'' req) (get_str ''name'') of Some n \<Rightarrow> n | None \<Rightarrow> []))
      else if method = ''resources/read'' \<or> method = ''resources/list''
              \<or> method = ''resources/templates/list'' then Some ''mcp:read''
      else None)"

definition shared_token_auth :: "auth_libs \<Rightarrow> env \<Rightarrow> headers \<Rightarrow> auth_error + string option" where
  "shared_token_auth L env hs =
     (case env ''MCP_BEARER_TOKEN'' of
        None \<Rightarrow> Inr None
      | Some expected \<Rightarrow>
          if expected = [] then Inr None
          else (let given = (case Option.bind (hs ''authorization'') bearer_token of
                               Some t \<Rightarrow> t | None \<Rightarrow> []) in
                if \<not> secret_eq (al_hmac L) given expected then
                  Inl (401, ''invalid or missing bearer token'', None)
                else Inr (Some (''bearer:'' @ take 8 (al_fingerprint L expected)))))"

definition oauth_auth ::
  "auth_libs \<Rightarrow> auth_config \<Rightarrow> headers \<Rightarrow> json \<Rightarrow> auth_error + string option" where
  "oauth_auth L cfg hs req =
     (if cfg_aud cfg = [] \<or> cfg_iss cfg = [] then
        Inl (500, ''server auth misconfigured: JWT_AUD and JWT_ISS are required when auth is enabled'', None)
      else (case Option.bind (hs ''authorization'') bearer_token of
              None \<Rightarrow> Inl (401, ''missing bearer token'', None)
            | Some token \<Rightarrow>
                (case validate_token (al_rsa_key L) (al_decode L) token (cfg_pubkey cfg)
                        (cfg_aud cfg) (cfg_iss cfg) of
                   Inl e \<Rightarrow> Inl (401, e, None)
                 | Inr ctx \<Rightarrow>
                     (case scope_needed req of
                        Some needed \<Rightarrow>
                          if \<not> scope_satisfied ctx needed then
                            Inl (403, ''insufficient scope: '' @ needed @ '' required'', Some (ac_tenant ctx))
                          else Inr (Some (ac_tenant ctx))
                      | None \<Rightarrow> Inr (Some (ac_tenant ctx))))))"

definition enforce_auth ::
  "auth_libs \<Rightarrow> env \<Rightarrow> auth_config option \<Rightarrow> headers \<Rightarrow> json \<Rightarrow> auth_error + string option" where
  "enforce_auth L env config hs req =
     (if get_str ''method'' req = Some ''server/discover'' then Inr None
      else (case config of
              None \<Rightarrow> shared_token_auth L env hs
            | Some cfg \<Rightarrow> oauth_auth L cfg hs req))"

section \<open>Properties\<close>

lemma or_eq_0_nat: "or a b = 0 \<longleftrightarrow> a = 0 \<and> b = (0::nat)"
  by (metis or.right_neutral or.left_neutral or_eq_0_iff)

lemma xor_eq_0_nat: "xor a b = 0 \<longleftrightarrow> a = (b::nat)"
  by (metis xor_self_eq xor.assoc xor.left_neutral xor.right_neutral)

lemma xor_byte_0: "xor_byte x y = 0 \<longleftrightarrow> x = y"
  by (simp add: xor_byte_def xor_eq_0_nat)

lemma fold_or_0:
  "foldl (\<lambda>acc (x, y). or acc (xor_byte x y)) n ps = 0 \<longleftrightarrow> n = 0 \<and> (\<forall>(x, y) \<in> set ps. x = y)"
  by (induction ps arbitrary: n) (auto simp: or_eq_0_nat xor_byte_0)

text \<open>The constant-time comparison is equality of the two digests.\<close>

lemma secret_eq_iff: "secret_eq hmac a b \<longleftrightarrow> hmac a = hmac b"
proof
  assume "secret_eq hmac a b"
  then have all: "\<forall>(x, y) \<in> set (zip (hmac a) (hmac b)). x = y" and len: "length (hmac a) = length (hmac b)"
    by (auto simp: secret_eq_def Let_def fold_or_0)
  show "hmac a = hmac b"
  proof (rule nth_equalityI [OF len])
    fix i assume "i < length (hmac a)"
    with len have "(hmac a ! i, hmac b ! i) \<in> set (zip (hmac a) (hmac b))"
      by (auto simp: set_zip)
    from bspec [OF all this] show "hmac a ! i = hmac b ! i" by simp
  qed
next
  assume "hmac a = hmac b"
  then show "secret_eq hmac a b"
    by (auto simp: secret_eq_def Let_def fold_or_0 set_zip)
qed

lemma lower_eq_b: "ascii_lower b = CHR ''b'' \<longleftrightarrow> eq_ignore_ascii_case [b] ''b''"
proof -
  have "ascii_lower CHR ''b'' = CHR ''b''" by code_simp
  then show ?thesis by (simp add: eq_ignore_ascii_case_def to_ascii_lowercase_def)
qed

lemma eq_ignore_ascii_case_append:
  "length a = length c \<Longrightarrow>
   eq_ignore_ascii_case (a @ b) (c @ d) \<longleftrightarrow> eq_ignore_ascii_case a c \<and> eq_ignore_ascii_case b d"
  by (simp add: eq_ignore_ascii_case_def to_ascii_lowercase_def)

lemma eq_ignore_ascii_case_length: "eq_ignore_ascii_case a b \<Longrightarrow> length a = length b"
  unfolding eq_ignore_ascii_case_def to_ascii_lowercase_def by (metis length_map)

lemma bearer_token_form:
  "bearer_token v = Some t \<longleftrightarrow>
     (\<exists>scheme n. v = scheme @ replicate (Suc n) CHR '' '' @ t \<and> eq_ignore_ascii_case scheme ''bearer''
        \<and> (t = [] \<or> hd t \<noteq> CHR '' ''))"
    (is "_ \<longleftrightarrow> ?rhs")
proof
  assume "bearer_token v = Some t"
  then obtain b rest u where v: "v = b # rest" and b: "ascii_lower b = CHR ''b''"
    and e: "eq_ignore_ascii_case (take (min (length rest) 5) rest) ''earer''"
    and d: "drop (min (length rest) 5) rest = CHR '' '' # u" and t: "t = dropWhile (\<lambda>c. c = CHR '' '') u"
    by (auto simp: bearer_token_def Let_def split: list.splits if_splits)
  let ?sc = "b # take (min (length rest) 5) rest"
  have "u = takeWhile (\<lambda>c. c = CHR '' '') u @ t" using t by simp
  moreover have "takeWhile (\<lambda>c. c = CHR '' '') u = replicate (length (takeWhile (\<lambda>c. c = CHR '' '') u)) CHR '' ''"
    by (rule replicate_length_same [symmetric]) (auto dest: set_takeWhileD)
  ultimately obtain n where "u = replicate n CHR '' '' @ t" by metis
  with d v have "v = ?sc @ replicate (Suc n) CHR '' '' @ t"
    by (metis append_Cons append_take_drop_id replicate_Suc)
  moreover have "eq_ignore_ascii_case ?sc ''bearer''"
    using e b eq_ignore_ascii_case_append [of "[b]" "''b''"] by (simp add: lower_eq_b)
  moreover have "t = [] \<or> hd t \<noteq> CHR '' ''"
    unfolding t using hd_dropWhile [of "\<lambda>c. c = CHR '' ''" u] by blast
  ultimately show ?rhs by blast
next
  assume ?rhs
  then obtain scheme n where v: "v = scheme @ replicate (Suc n) CHR '' '' @ t"
    and s: "eq_ignore_ascii_case scheme ''bearer''" and t: "t = [] \<or> hd t \<noteq> CHR '' ''" by blast
  from eq_ignore_ascii_case_length [OF s] obtain b tl5 where sc: "scheme = b # tl5" "length tl5 = 5"
    by (cases scheme) auto
  from s sc have "eq_ignore_ascii_case [b] ''b''" "eq_ignore_ascii_case tl5 ''earer''"
    using eq_ignore_ascii_case_append [of "[b]" "''b''" tl5 "''earer''"] by auto
  moreover have "dropWhile (\<lambda>c. c = CHR '' '') (replicate n CHR '' '' @ t) = t"
    using t by (cases t) (auto simp: dropWhile_append)
  ultimately show "bearer_token v = Some t"
    using sc by (simp add: bearer_token_def v lower_eq_b)
qed

text \<open>A header carries a bearer token exactly in the form of RFC 7235 and RFC 6750: the scheme in any
  case, at least one space, and the token without leading spaces.\<close>

theorem bearer_token_iff:
  "bearer_token v = Some t \<longleftrightarrow>
     (\<exists>scheme n. v = scheme @ replicate (Suc n) CHR '' '' @ t \<and> eq_ignore_ascii_case scheme ''bearer''
        \<and> dropWhile (\<lambda>c. c = CHR '' '') t = t)"
proof -
  have "dropWhile (\<lambda>c. c = CHR '' '') t = t \<longleftrightarrow> t = [] \<or> hd t \<noteq> CHR '' ''"
    by (simp add: dropWhile_eq_self_iff)
  then show ?thesis by (simp add: bearer_token_form)
qed

text \<open>C14: With OAuth configured, a request other than the discovery probe is let through only with a
  token that validates against a non-empty audience and issuer with expiry required, under the tenant the
  token names, and with the scope its method needs (or the administrative one). The shared token plays no
  part: the outcome does not depend on the environment.\<close>

theorem oauth_requires_validated_scope:
  assumes "enforce_auth L env (Some cfg) hs req = Inr who"
    and "get_str ''method'' req \<noteq> Some ''server/discover''"
  shows "\<exists>h token ctx. hs ''authorization'' = Some h \<and> bearer_token h = Some token
      \<and> cfg_aud cfg \<noteq> [] \<and> cfg_iss cfg \<noteq> []
      \<and> validate_token (al_rsa_key L) (al_decode L) token (cfg_pubkey cfg) (cfg_aud cfg) (cfg_iss cfg) = Inr ctx
      \<and> set (v_required (validation_for (cfg_aud cfg) (cfg_iss cfg))) = {''exp'', ''aud'', ''iss''}
      \<and> who = Some (ac_tenant ctx)
      \<and> (\<forall>needed. scope_needed req = Some needed \<longrightarrow> scope_satisfied ctx needed)
      \<and> (\<forall>env'. enforce_auth L env' (Some cfg) hs req = Inr who)"
  using assms
  by (fastforce simp: enforce_auth_def oauth_auth_def validation_for_def bind_eq_Some_conv
      split: if_splits option.splits sum.splits)

definition demo_auth_libs :: auth_libs where
  "demo_auth_libs = \<lparr>al_rsa_key = (\<lambda>k. Inr ()),
     al_decode = (\<lambda>t k v. if t = ''tok'' then
        Inr \<lparr>cl_sub = ''alice'', cl_exp = 99, cl_aud = ''mcp'', cl_iss = ''idp'', cl_scope = ''mcp:read''\<rparr>
        else Inl ''signature''),
     al_hmac = id, al_fingerprint = id\<rparr>"

definition demo_headers :: headers where
  "demo_headers = (\<lambda>n. if n = ''authorization'' then Some ''Bearer tok'' else None)"

definition demo_request :: "string \<Rightarrow> string \<Rightarrow> json" where
  "demo_request m tool = JObj [(''method'', JStr m), (''params'', JObj [(''name'', JStr tool)])]"

lemma demo_bearer: "bearer_token ''Bearer tok'' = Some ''tok''"
  by code_simp

theorem oauth_requires_validated_scope_witness:
  "\<exists>ctx. scope_needed (demo_request ''tools/call'' ''list_tables'') = Some ''mcp:read''
     \<and> scope_satisfied ctx ''mcp:read'' \<and> ac_tenant ctx = ''alice''"
proof -
  let ?req = "demo_request ''tools/call'' ''list_tables''"
  let ?cfg = "\<lparr>cfg_pubkey = ''pem'', cfg_aud = ''mcp'', cfg_iss = ''idp''\<rparr>"
  have n: "scope_needed ?req = Some ''mcp:read''"
    by (simp add: scope_needed_def demo_request_def get_str_def required_scope_def)
  have sp: "split_whitespace ''mcp:read'' = [''mcp:read'']" by code_simp
  have "enforce_auth demo_auth_libs (\<lambda>k. None) (Some ?cfg) demo_headers ?req = Inr (Some ''alice'')"
    using n by (simp add: enforce_auth_def oauth_auth_def demo_headers_def demo_bearer validate_token_def
        demo_auth_libs_def scope_satisfied_def has_scope_def sp) (simp add: demo_request_def get_str_def)
  moreover have "get_str ''method'' ?req \<noteq> Some ''server/discover''"
    by (simp add: demo_request_def get_str_def)
  ultimately obtain ctx where "Some ''alice'' = Some (ac_tenant ctx)"
    "\<forall>needed. scope_needed ?req = Some needed \<longrightarrow> scope_satisfied ctx needed"
    using oauth_requires_validated_scope by blast
  with n show ?thesis by auto
qed

text \<open>Without OAuth, a configured shared token is required of every request but the discovery
  probe: the request is let through exactly when the digest of the presented token (of the empty text
  when none is presented) is the digest of the configured one, under that token's fingerprint, and is
  answered 401 otherwise.\<close>

theorem shared_token_required:
  assumes "env ''MCP_BEARER_TOKEN'' = Some expected" and "expected \<noteq> []"
    and "get_str ''method'' req \<noteq> Some ''server/discover''"
  shows "enforce_auth L env None hs req =
    (if al_hmac L (case Option.bind (hs ''authorization'') bearer_token of Some t \<Rightarrow> t | None \<Rightarrow> [])
        = al_hmac L expected
     then Inr (Some (''bearer:'' @ take 8 (al_fingerprint L expected)))
     else Inl (401, ''invalid or missing bearer token'', None))"
  using assms by (auto simp: enforce_auth_def shared_token_auth_def Let_def secret_eq_iff split: option.splits)

theorem shared_token_required_witness:
  "enforce_auth demo_auth_libs (\<lambda>k. Some ''other'') None demo_headers (demo_request ''tools/call'' ''query'')
   = Inl (401, ''invalid or missing bearer token'', None)"
  by (subst shared_token_required [of "\<lambda>k. Some ''other''" "''other''"])
    (simp_all add: demo_request_def get_str_def demo_auth_libs_def demo_headers_def demo_bearer)

text \<open>Scopes fail closed: a tool outside the ten classified ones needs the administrative scope,
  running SQL needs the query scope, and a context without scopes satisfies none.\<close>

lemma scopes_fail_closed:
  "(required_scope tool \<noteq> ''mcp:admin'' \<longrightarrow>
      tool \<in> {''query'', ''explain_query'', ''simulate_index'', ''list_tables'', ''list_schemas'',
              ''describe_table'', ''database_health'', ''analyze_indexes'', ''top_queries'',
              ''security_posture''})
   \<and> required_scope ''query'' = ''mcp:query''
   \<and> (ac_scopes ctx = [] \<longrightarrow> \<not> scope_satisfied ctx (required_scope tool))"
  by (auto simp: required_scope_def scope_satisfied_def has_scope_def)

lemma unknown_tool_needs_admin: "required_scope ''drop_everything'' = ''mcp:admin''"
  using scopes_fail_closed [of "''drop_everything''"] by auto

end
