(* ===== verification/Audit_Log.thy ===== *)
theory Audit_Log
  imports Auth
begin

text \<open>
  \<open>src/audit_log.rs\<close>: the hash chain, the writer, the verifier and the state a process resumes from.

  SHA-256 and the JSON text functions of \<open>serde_json\<close> are arguments (the record \<open>audit_libs\<close>); HMAC is
  written out in the source and is a definition here. A file is its content, or absent. The writer is two
  steps, as in the code: the sequence number is drawn from an atomic counter, then, under the lock of the
  previous hash, the entry is linked and appended.
\<close>

record audit_libs =
  lib_sha256 :: "string \<Rightarrow> string"
  lib_to_string :: "json \<Rightarrow> string"
  lib_from_str :: "string \<Rightarrow> string + json"

section \<open>Digests\<close>

definition hex_digit :: "nat \<Rightarrow> char" where
  "hex_digit d = char_of (if d < 10 then 48 + d else 87 + d)"

fun hex :: "string \<Rightarrow> string" where
  "hex [] = []"
| "hex (b # bs) = hex_digit (of_char b div 16) # hex_digit (of_char b mod 16) # hex bs"

definition sha256_hex :: "audit_libs \<Rightarrow> string \<Rightarrow> string" where
  "sha256_hex L s = hex (lib_sha256 L s)"

definition sql_fingerprint :: "audit_libs \<Rightarrow> string \<Rightarrow> string" where
  "sql_fingerprint L sql = take 16 (sha256_hex L sql)"

definition key_fingerprint :: "audit_libs \<Rightarrow> string \<Rightarrow> string" where
  "key_fingerprint L k = take 8 (sha256_hex L k)"

definition xor_with :: "nat \<Rightarrow> char \<Rightarrow> char" where
  "xor_with m c = char_of (xor (of_char c) m)"

definition hmac_sha256_hex :: "audit_libs \<Rightarrow> string \<Rightarrow> string \<Rightarrow> string" where
  "hmac_sha256_hex L key msg =
     (let k0 = (if 64 < length key then lib_sha256 L key else key);
          k = take 64 (k0 @ replicate (64 - length k0) (char_of (0::nat)));
          ipad = map (xor_with 0x36) k; opad = map (xor_with 0x5c) k;
          inner = lib_sha256 L (ipad @ msg) in
      hex (lib_sha256 L (opad @ inner)))"

section \<open>The key\<close>

type_synonym audit_key = "string \<times> string"

definition strip_newlines_end :: "string \<Rightarrow> string" where
  "strip_newlines_end s = rev (dropWhile (\<lambda>c. c = CHR 0x0A \<or> c = CHR 0x0D) (rev s))"

definition audit_key_of :: "audit_libs \<Rightarrow> env \<Rightarrow> (string \<Rightarrow> string option) \<Rightarrow> audit_key option" where
  "audit_key_of L env read_file =
     (let raw = (case env ''MCP_AUDIT_HMAC_KEY'' of
                   Some k \<Rightarrow> if k \<noteq> [] then Some k else None
                 | None \<Rightarrow>
                     (case env ''MCP_AUDIT_HMAC_KEY_FILE'' of
                        Some p \<Rightarrow>
                          (case read_file p of
                             Some b0 \<Rightarrow> (let b = strip_newlines_end b0 in if b \<noteq> [] then Some b else None)
                           | None \<Rightarrow> None)
                      | None \<Rightarrow> None)) in
      map_option (\<lambda>k. (k, key_fingerprint L k)) raw)"

definition chain_digest :: "audit_libs \<Rightarrow> string option \<Rightarrow> string \<Rightarrow> string" where
  "chain_digest L key payload =
     (case key of Some k \<Rightarrow> hmac_sha256_hex L k payload | None \<Rightarrow> sha256_hex L payload)"

section \<open>Writing\<close>

record audit_state =
  au_seq :: nat
  au_prev :: string
  au_log :: "string option"
  au_hwm :: "string option"
  au_failed :: nat

text \<open>The arguments of one call and what it reads: the time, the caller and the fields.\<close>

record audit_call =
  ac_ts :: nat
  ac_tool :: string
  ac_decision :: string
  ac_sql :: "string option"
  ac_caller :: "string option"
  ac_extra :: "(string \<times> json) list"

definition alloc_seq :: "audit_state \<Rightarrow> audit_state \<times> nat" where
  "alloc_seq st = (st\<lparr>au_seq := au_seq st + 1\<rparr>, au_seq st + 1)"

definition audit_entry :: "audit_libs \<Rightarrow> audit_key option \<Rightarrow> nat \<Rightarrow> audit_call \<Rightarrow> (string \<times> json) list" where
  "audit_entry L key seq c =
     (let base = foldl (\<lambda>m (k, v). bt_insert k v m) []
                   [(''seq'', JNum (nat_str seq)), (''ts'', JNum (nat_str (ac_ts c))),
                    (''tool'', JStr (ac_tool c)), (''decision'', JStr (ac_decision c)),
                    (''sql_fp'', JStr (case ac_sql c of Some s \<Rightarrow> sql_fingerprint L s | None \<Rightarrow> [])),
                    (''caller'', JStr (case ac_caller c of Some i \<Rightarrow> i | None \<Rightarrow> ''-''))];
          keyed = (case key of Some (k, fp) \<Rightarrow> bt_insert ''key_fp'' (JStr fp) base | None \<Rightarrow> base) in
      foldl (\<lambda>m (k, v). bt_insert k v m) keyed (ac_extra c))"

definition newline :: char where
  "newline = CHR 0x0A"

definition append_line :: "string \<Rightarrow> string option \<Rightarrow> string option" where
  "append_line l f = Some ((case f of Some c \<Rightarrow> c | None \<Rightarrow> []) @ l @ [newline])"

definition hwm_body :: "audit_libs \<Rightarrow> nat \<Rightarrow> string \<Rightarrow> string" where
  "hwm_body L seq h = lib_to_string L (jobj [(''seq'', JNum (nat_str seq)), (''hash'', JStr h)])"

text \<open>The locked section: link the entry to the previous hash, append the line, and move the mark.
  \<open>configured\<close> says that \<open>MCP_AUDIT_LOG\<close> is set, \<open>writable\<close> that the append succeeds.\<close>

definition link_entry ::
  "audit_libs \<Rightarrow> audit_key option \<Rightarrow> bool \<Rightarrow> bool \<Rightarrow> nat \<Rightarrow> (string \<times> json) list \<Rightarrow> audit_state \<Rightarrow> audit_state" where
  "link_entry L key configured writable seq entry st =
     (let payload = au_prev st @ lib_to_string L (JObj entry);
          h = chain_digest L (map_option fst key) payload;
          full = bt_insert ''hash'' (JStr h) (bt_insert ''prev'' (JStr (au_prev st)) entry);
          line = lib_to_string L (JObj full);
          st1 = st\<lparr>au_prev := h\<rparr> in
      if \<not> configured then st1
      else if \<not> writable then st1\<lparr>au_failed := au_failed st1 + 1\<rparr>
      else st1\<lparr>au_log := append_line line (au_log st1), au_hwm := Some (hwm_body L seq h)\<rparr>)"

definition audit_extra ::
  "audit_libs \<Rightarrow> audit_key option \<Rightarrow> bool \<Rightarrow> bool \<Rightarrow> audit_call \<Rightarrow> audit_state \<Rightarrow> audit_state" where
  "audit_extra L key configured writable c st =
     (case alloc_seq st of
        (st1, seq) \<Rightarrow> link_entry L key configured writable seq (audit_entry L key seq c) st1)"

section \<open>Verifying\<close>

text \<open>\<open>str::lines\<close>: a final newline ends the last line, and a carriage return before one is dropped.\<close>

definition strip_cr :: "string \<Rightarrow> string" where
  "strip_cr s = (if s \<noteq> [] \<and> last s = CHR 0x0D then butlast s else s)"

fun lines_of :: "string \<Rightarrow> string \<Rightarrow> string list" where
  "lines_of acc [] = (if acc = [] then [] else [rev acc])"
| "lines_of acc (c # s) =
     (if c = newline then strip_cr (rev acc) # lines_of [] s else lines_of (c # acc) s)"

definition str_lines :: "string \<Rightarrow> string list" where
  "str_lines s = lines_of [] s"

record vstate =
  vs_prev :: string
  vs_seq :: "nat option"
  vs_n :: nat
  vs_rot :: nat
  vs_fp :: "string option"

definition vstart :: vstate where
  "vstart = \<lparr>vs_prev = ''GENESIS'', vs_seq = None, vs_n = 0, vs_rot = 0, vs_fp = None\<rparr>"

datatype verify_error =
    Unreadable_File
  | Bad_Json nat string
  | Not_Object nat
  | Broken_Chain nat
  | Seq_Gap nat nat nat
  | Unknown_Key nat string
  | Hash_Mismatch nat
  | Tail_Mismatch string string

definition check_seq :: "nat \<Rightarrow> (string \<times> json) list \<Rightarrow> vstate \<Rightarrow> verify_error + vstate" where
  "check_seq lno obj st =
     (case Option.bind (map_of obj ''seq'') as_u64 of
        None \<Rightarrow> Inr st
      | Some sq \<Rightarrow>
          (case vs_seq st of
             Some p \<Rightarrow> if sq \<noteq> p + 1 then Inl (Seq_Gap lno (p + 1) sq) else Inr (st\<lparr>vs_seq := Some sq\<rparr>)
           | None \<Rightarrow> Inr (st\<lparr>vs_seq := Some sq\<rparr>)))"

definition entry_key ::
  "audit_key list \<Rightarrow> nat \<Rightarrow> (string \<times> json) list \<Rightarrow> vstate \<Rightarrow> verify_error + (vstate \<times> string option)" where
  "entry_key keys lno obj st =
     (case Option.bind (map_of obj ''key_fp'') as_str of
        None \<Rightarrow> Inr (st, None)
      | Some fp \<Rightarrow>
          (let st1 = st\<lparr>vs_rot := vs_rot st + (case vs_fp st of Some l \<Rightarrow> if l \<noteq> fp then 1 else 0 | None \<Rightarrow> 0),
                        vs_fp := Some fp\<rparr> in
           case List.find (\<lambda>(k, kfp). kfp = fp) keys of
             None \<Rightarrow> Inl (Unknown_Key lno fp)
           | Some (k, _) \<Rightarrow> Inr (st1, Some k)))"

definition str_field :: "(string \<times> json) list \<Rightarrow> string \<Rightarrow> string" where
  "str_field obj k = (case Option.bind (map_of obj k) as_str of Some s \<Rightarrow> s | None \<Rightarrow> [])"

definition verify_entry ::
  "audit_libs \<Rightarrow> audit_key list \<Rightarrow> nat \<Rightarrow> (string \<times> json) list \<Rightarrow> vstate \<Rightarrow> verify_error + vstate" where
  "verify_entry L keys lno obj st =
     (let got_prev = str_field obj ''prev''; got_hash = str_field obj ''hash'' in
      if got_prev \<noteq> vs_prev st then Inl (Broken_Chain lno)
      else bindR (check_seq lno obj st) (\<lambda>st1.
           let entry = bt_remove ''hash'' (bt_remove ''prev'' obj);
               payload = vs_prev st1 @ lib_to_string L (JObj entry) in
           bindR (entry_key keys lno obj st1) (\<lambda>(st2, k).
           if got_hash \<noteq> chain_digest L k payload then Inl (Hash_Mismatch lno)
           else Inr (st2\<lparr>vs_prev := got_hash, vs_n := vs_n st2 + 1\<rparr>))))"

definition verify_line ::
  "audit_libs \<Rightarrow> audit_key list \<Rightarrow> nat \<Rightarrow> string \<Rightarrow> vstate \<Rightarrow> verify_error + vstate" where
  "verify_line L keys lno line st =
     (if trim line = [] then Inr st
      else (case lib_from_str L line of
              Inl e \<Rightarrow> Inl (Bad_Json lno e)
            | Inr v \<Rightarrow>
                (case as_object v of
                   None \<Rightarrow> Inl (Not_Object lno)
                 | Some obj \<Rightarrow> verify_entry L keys lno obj st)))"

fun verify_lines ::
  "audit_libs \<Rightarrow> audit_key list \<Rightarrow> nat \<Rightarrow> string list \<Rightarrow> vstate \<Rightarrow> verify_error + vstate" where
  "verify_lines L keys lno [] st = Inr st"
| "verify_lines L keys lno (l # ls) st =
     bindR (verify_line L keys lno l st) (\<lambda>st'. verify_lines L keys (lno + 1) ls st')"

definition verify_keys :: "audit_libs \<Rightarrow> audit_key option \<Rightarrow> string option \<Rightarrow> audit_key list" where
  "verify_keys L current olds =
     (case current of Some k \<Rightarrow> [k] | None \<Rightarrow> []) @
     (case olds of
        Some v \<Rightarrow> map (\<lambda>k. (k, key_fingerprint L k)) (filter (\<lambda>s. s \<noteq> []) (map trim (split_char CHR '','' v)))
      | None \<Rightarrow> [])"

text \<open>The summary is the number of entries, the last sequence number, the rotations and the last hash.\<close>

definition verify_audit_file ::
  "audit_libs \<Rightarrow> audit_key list \<Rightarrow> string option \<Rightarrow> string option \<Rightarrow> verify_error + (nat \<times> nat option \<times> nat \<times> string)" where
  "verify_audit_file L keys content expect_last =
     (case content of
        None \<Rightarrow> Inl Unreadable_File
      | Some c \<Rightarrow>
          bindR (verify_lines L keys 1 (str_lines c) vstart) (\<lambda>st.
            case expect_last of
              Some want \<Rightarrow>
                if want \<noteq> vs_prev st then Inl (Tail_Mismatch (vs_prev st) want)
                else Inr (vs_n st, vs_seq st, vs_rot st, vs_prev st)
            | None \<Rightarrow> Inr (vs_n st, vs_seq st, vs_rot st, vs_prev st)))"

section \<open>Resuming\<close>

datatype file_state = Absent | Not_Readable | Content string

definition last_entry_of :: "audit_libs \<Rightarrow> file_state \<Rightarrow> (nat \<times> string) option option" where
  "last_entry_of L f =
     (case f of
        Absent \<Rightarrow> None
      | Not_Readable \<Rightarrow> Some None
      | Content c \<Rightarrow>
          (case List.find (\<lambda>l. trim l \<noteq> []) (rev (str_lines c)) of
             None \<Rightarrow> Some None
           | Some l \<Rightarrow>
               (case lib_from_str L l of
                  Inl e \<Rightarrow> Some None
                | Inr v \<Rightarrow>
                    (case (Option.bind (jget ''seq'' v) as_u64, get_str ''hash'' v) of
                       (Some s, Some h) \<Rightarrow> Some (Some (s, h))
                     | _ \<Rightarrow> Some None))))"

definition hwm_of :: "audit_libs \<Rightarrow> string option \<Rightarrow> (nat \<times> string) option" where
  "hwm_of L f =
     (case f of
        None \<Rightarrow> None
      | Some c \<Rightarrow>
          (case lib_from_str L c of
             Inl e \<Rightarrow> None
           | Inr v \<Rightarrow>
               (case (Option.bind (jget ''seq'' v) as_u64, get_str ''hash'' v) of
                  (Some s, Some h) \<Rightarrow> Some (s, h)
                | _ \<Rightarrow> None)))"

datatype anomaly = Log_Gone nat | Unusable_Last | Missing_Entries nat nat | Last_Rewritten nat

record resume =
  rs_seq :: nat
  rs_hash :: string
  rs_anomaly :: "anomaly option"

definition resume_state_of :: "audit_libs \<Rightarrow> file_state \<Rightarrow> string option \<Rightarrow> resume" where
  "resume_state_of L lg hwm_file =
     (case (last_entry_of L lg, hwm_of L hwm_file) of
        (None, None) \<Rightarrow> \<lparr>rs_seq = 0, rs_hash = ''GENESIS'', rs_anomaly = None\<rparr>
      | (None, Some (s, _)) \<Rightarrow> \<lparr>rs_seq = s, rs_hash = ''GENESIS'', rs_anomaly = Some (Log_Gone s)\<rparr>
      | (Some None, h) \<Rightarrow>
          \<lparr>rs_seq = (case h of Some (s, _) \<Rightarrow> s | None \<Rightarrow> 0), rs_hash = ''GENESIS'',
           rs_anomaly = Some Unusable_Last\<rparr>
      | (Some (Some (s, h)), None) \<Rightarrow> \<lparr>rs_seq = s, rs_hash = h, rs_anomaly = None\<rparr>
      | (Some (Some (s_log, h_log)), Some (s_hwm, h_hwm)) \<Rightarrow>
          \<lparr>rs_seq = max s_log s_hwm, rs_hash = h_log,
           rs_anomaly =
             (if s_log < s_hwm then Some (Missing_Entries s_log s_hwm)
              else if s_log = s_hwm \<and> h_log \<noteq> h_hwm then Some (Last_Rewritten s_log)
              else None)\<rparr>)"

definition resumed_audit :: "resume \<Rightarrow> string option \<Rightarrow> string option \<Rightarrow> audit_state" where
  "resumed_audit r lg hwm =
     \<lparr>au_seq = rs_seq r, au_prev = rs_hash r, au_log = lg, au_hwm = hwm, au_failed = 0\<rparr>"

end
