(* ===== verification/Audit_Props.thy ===== *)
theory Audit_Props
  imports Audit_Log
begin

text \<open>
  The properties of the audit trail: what the writer writes, the verifier accepts; a restart continues the
  chain; a shortened log is reported; two verified logs with the same last hash are the same log; and the
  order in which concurrent writers number and link their entries.
\<close>

section \<open>Lines of a file\<close>

definition file_of :: "string list \<Rightarrow> string" where
  "file_of ls = concat (map (\<lambda>l. l @ [newline]) ls)"

definition line_ok :: "string \<Rightarrow> bool" where
  "line_ok l \<longleftrightarrow> newline \<notin> set l \<and> (l = [] \<or> last l \<noteq> CHR 0x0D)"

lemma lines_of_line:
  "newline \<notin> set l \<Longrightarrow> lines_of acc (l @ newline # s) = strip_cr (rev acc @ l) # lines_of [] s"
  by (induction l arbitrary: acc) auto

lemma str_lines_file_of: "(\<And>l. l \<in> set ls \<Longrightarrow> line_ok l) \<Longrightarrow> str_lines (file_of ls) = ls"
proof (induction ls)
  case Nil
  then show ?case by (simp add: file_of_def str_lines_def)
next
  case (Cons l ls)
  then have "line_ok l" by simp
  then have n: "newline \<notin> set l" and c: "strip_cr l = l" by (auto simp: line_ok_def strip_cr_def)
  have "str_lines (file_of (l # ls)) = lines_of [] (l @ newline # file_of ls)"
    by (simp add: str_lines_def file_of_def)
  also have "\<dots> = l # str_lines (file_of ls)"
    unfolding lines_of_line [OF n] by (simp add: c str_lines_def)
  finally show ?case using Cons by simp
qed

lemma append_line_file: "append_line l (Some (file_of ls)) = Some (file_of (ls @ [l]))"
  by (simp add: append_line_def file_of_def)

section \<open>What one call writes\<close>

text \<open>What the writer and the verifier need of \<open>serde_json\<close> on one value: the text is one line with
  something on it, and it reads back.\<close>

definition codec_ok :: "audit_libs \<Rightarrow> json \<Rightarrow> bool" where
  "codec_ok L v \<longleftrightarrow> line_ok (lib_to_string L v) \<and> trim (lib_to_string L v) \<noteq> []
     \<and> lib_from_str L (lib_to_string L v) = Inr v"

text \<open>The additional fields do not shadow the fields of the chain.\<close>

definition plain_extra :: "audit_call \<Rightarrow> bool" where
  "plain_extra c \<longleftrightarrow> fst ` set (ac_extra c) \<inter> {''seq'', ''key_fp'', ''prev'', ''hash''} = {}"

definition entry_hash :: "audit_libs \<Rightarrow> audit_key option \<Rightarrow> string \<Rightarrow> (string \<times> json) list \<Rightarrow> string" where
  "entry_hash L key prev entry = chain_digest L (map_option fst key) (prev @ lib_to_string L (JObj entry))"

definition full_entry :: "audit_libs \<Rightarrow> audit_key option \<Rightarrow> string \<Rightarrow> (string \<times> json) list \<Rightarrow> (string \<times> json) list" where
  "full_entry L key prev entry =
     bt_insert ''hash'' (JStr (entry_hash L key prev entry)) (bt_insert ''prev'' (JStr prev) entry)"

lemma audit_extra_state:
  fixes st :: audit_state
  defines "e \<equiv> \<lambda>L key c. audit_entry L key (au_seq st + 1) c"
  shows "au_seq (audit_extra L key True True c st) = au_seq st + 1"
    and "au_prev (audit_extra L key True True c st) = entry_hash L key (au_prev st) (e L key c)"
    and "au_log (audit_extra L key True True c st) =
         append_line (lib_to_string L (JObj (full_entry L key (au_prev st) (e L key c)))) (au_log st)"
    and "au_hwm (audit_extra L key True True c st) =
         Some (hwm_body L (au_seq st + 1) (entry_hash L key (au_prev st) (e L key c)))"
  by (simp_all add: audit_extra_def alloc_seq_def link_entry_def entry_hash_def full_entry_def e_def Let_def)

lemma foldl_insert_keys:
  "fst ` set (foldl (\<lambda>m (k, v). bt_insert k v m) acc kvs) = fst ` set acc \<union> fst ` set kvs"
proof (induction kvs arbitrary: acc)
  case (Cons p kvs)
  then show ?case by (cases p) (simp add: keys_bt_insert)
qed simp

lemma audit_entry_fields:
  assumes "plain_extra c"
  shows "map_of (audit_entry L key seq c) ''seq'' = Some (JNum (nat_str seq))"
    and "map_of (audit_entry L key seq c) ''key_fp'' = map_option (\<lambda>(k, fp). JStr fp) key"
    and "''prev'' \<notin> fst ` set (audit_entry L key seq c)" and "''hash'' \<notin> fst ` set (audit_entry L key seq c)"
proof -
  have no: "map_of (rev (ac_extra c)) k = None" if "k \<in> {''seq'', ''key_fp''}" for k
  proof -
    have "k \<notin> fst ` set (ac_extra c)" using assms that unfolding plain_extra_def by blast
    then show ?thesis by (simp add: map_of_eq_None_iff)
  qed
  show "map_of (audit_entry L key seq c) ''seq'' = Some (JNum (nat_str seq))"
    and "map_of (audit_entry L key seq c) ''key_fp'' = map_option (\<lambda>(k, fp). JStr fp) key"
    using no by (auto simp: audit_entry_def Let_def map_of_foldl_insert map_add_def simp del: foldl_Cons foldl_Nil
        split: option.splits)
  show "''prev'' \<notin> fst ` set (audit_entry L key seq c)" "''hash'' \<notin> fst ` set (audit_entry L key seq c)"
    using assms by (auto simp: audit_entry_def Let_def foldl_insert_keys keys_bt_insert plain_extra_def
        simp del: foldl_Cons foldl_Nil split: option.splits prod.splits)
qed

text \<open>The verifier strips exactly what the writer added.\<close>

lemma strip_full_entry:
  assumes "''prev'' \<notin> fst ` set entry" and "''hash'' \<notin> fst ` set entry"
  shows "bt_remove ''hash'' (bt_remove ''prev'' (full_entry L key prev entry)) = entry"
proof -
  have "''hash'' \<notin> fst ` set (bt_insert ''prev'' (JStr prev) entry)"
    using assms(2) by (simp add: keys_bt_insert)
  then have "bt_remove ''hash'' (full_entry L key prev entry) = bt_insert ''prev'' (JStr prev) entry"
    unfolding full_entry_def by (rule bt_remove_insert)
  then show ?thesis
    using bt_remove_insert [OF assms(1)] by (simp add: bt_remove_comm [of "''hash''"])
qed

text \<open>The verifier holds the key a writer signs with.\<close>

definition key_known :: "audit_key list \<Rightarrow> audit_key option \<Rightarrow> bool" where
  "key_known keys key \<longleftrightarrow>
     (case key of None \<Rightarrow> True | Some (k, fp) \<Rightarrow> \<exists>g. List.find (\<lambda>(k', f). f = fp) keys = Some (k, g))"

lemma verify_entry_written:
  assumes "plain_extra c" and "seq \<le> u64_max" and "key_known keys key"
    and "vs_seq st = None \<or> vs_seq st = Some (seq - 1)" and "0 < seq"
  shows "\<exists>st'. verify_entry L keys lno (full_entry L key (vs_prev st) (audit_entry L key seq c)) st = Inr st'
     \<and> vs_prev st' = entry_hash L key (vs_prev st) (audit_entry L key seq c)
     \<and> vs_seq st' = Some seq \<and> vs_n st' = vs_n st + 1"
proof -
  let ?e = "audit_entry L key seq c" and ?p = "vs_prev st"
  let ?f = "full_entry L key ?p ?e" and ?h = "entry_hash L key ?p ?e"
  note fields = audit_entry_fields [OF assms(1), of L key seq]
  have get: "map_of ?f k = (if k = ''hash'' then Some (JStr ?h) else if k = ''prev'' then Some (JStr ?p) else map_of ?e k)"
    for k by (simp add: full_entry_def)
  have prev: "str_field ?f ''prev'' = ?p" and hash: "str_field ?f ''hash'' = ?h"
    by (simp_all add: str_field_def get)
  have seq: "check_seq lno ?f st = Inr (st\<lparr>vs_seq := Some seq\<rparr>)"
    using assms(2,4,5) by (auto simp: check_seq_def get fields parse_u64_nat_str)
  have kfp: "map_of ?f ''key_fp'' = map_option (\<lambda>(k, fp). JStr fp) key" by (simp add: get fields)
  obtain st2 where key: "entry_key keys lno ?f (st\<lparr>vs_seq := Some seq\<rparr>) = Inr (st2, map_option fst key)"
    and st2: "vs_seq st2 = Some seq" "vs_n st2 = vs_n st"
  proof (cases key)
    case None
    with that kfp show thesis by (simp add: entry_key_def)
  next
    case (Some kf)
    obtain k fp where kf: "kf = (k, fp)" by fastforce
    obtain g where "List.find (\<lambda>(k', f). f = fp) keys = Some (k, g)"
      using assms(3) by (auto simp: key_known_def Some kf)
    with that kfp Some kf show thesis by (simp add: entry_key_def Let_def)
  qed
  show ?thesis
    using st2 by (simp add: verify_entry_def Let_def prev hash seq key strip_full_entry fields entry_hash_def)
qed

section \<open>A run of the writer\<close>

fun audit_run :: "audit_libs \<Rightarrow> audit_key option \<Rightarrow> audit_call list \<Rightarrow> audit_state \<Rightarrow> audit_state" where
  "audit_run L key [] st = st"
| "audit_run L key (c # cs) st = audit_run L key cs (audit_extra L key True True c st)"

text \<open>The values a run turns into text: the entries and the marks.\<close>

fun written :: "audit_libs \<Rightarrow> audit_key option \<Rightarrow> audit_call list \<Rightarrow> audit_state \<Rightarrow> json list" where
  "written L key [] st = []"
| "written L key (c # cs) st =
     JObj (full_entry L key (au_prev st) (audit_entry L key (au_seq st + 1) c))
     # jobj [(''seq'', JNum (nat_str (au_seq st + 1))),
             (''hash'', JStr (entry_hash L key (au_prev st) (audit_entry L key (au_seq st + 1) c)))]
     # written L key cs (audit_extra L key True True c st)"

definition fresh_audit :: audit_state where
  "fresh_audit = \<lparr>au_seq = 0, au_prev = ''GENESIS'', au_log = Some [], au_hwm = None, au_failed = 0\<rparr>"

lemma verify_lines_append:
  "verify_lines L keys lno (ls @ ls') st =
   bindR (verify_lines L keys lno ls st) (\<lambda>st'. verify_lines L keys (lno + length ls) ls' st')"
proof (induction ls arbitrary: lno st)
  case (Cons l ls)
  show ?case by (cases "verify_line L keys lno l st") (simp_all add: Cons)
qed simp

text \<open>The invariant of a run: the file is a list of good lines, the verifier accepts it and ends at the
  writer's hash and number, and the last line and the mark hold that hash and number.\<close>

definition audit_inv :: "audit_libs \<Rightarrow> audit_key list \<Rightarrow> string list \<Rightarrow> audit_state \<Rightarrow> bool" where
  "audit_inv L keys ls st \<longleftrightarrow>
     au_log st = Some (file_of ls) \<and> (\<forall>l \<in> set ls. line_ok l) \<and> au_seq st = length ls
     \<and> (\<exists>v. verify_lines L keys 1 ls vstart = Inr v \<and> vs_prev v = au_prev st
            \<and> vs_seq v = (if ls = [] then None else Some (au_seq st)) \<and> vs_n v = length ls)
     \<and> (ls \<noteq> [] \<longrightarrow> trim (last ls) \<noteq> [] \<and> last_entry_of L (Content (file_of ls)) = Some (Some (au_seq st, au_prev st))
            \<and> hwm_of L (au_hwm st) = Some (au_seq st, au_prev st))"

lemma audit_inv_fresh: "audit_inv L keys [] fresh_audit"
  by (simp add: audit_inv_def fresh_audit_def file_of_def vstart_def)

lemma last_entry_written:
  assumes "\<And>l. l \<in> set (ls @ [l']) \<Longrightarrow> line_ok l" and "trim l' \<noteq> []" and "lib_from_str L l' = Inr v"
    and "Option.bind (jget ''seq'' v) as_u64 = Some s" and "get_str ''hash'' v = Some h"
  shows "last_entry_of L (Content (file_of (ls @ [l']))) = Some (Some (s, h))"
  using assms str_lines_file_of [of "ls @ [l']"] by (simp add: last_entry_of_def)

lemma audit_inv_step:
  assumes inv: "audit_inv L keys ls st" and pe: "plain_extra c" and kk: "key_known keys key"
    and bound: "au_seq st + 1 \<le> u64_max"
    and codec: "\<And>v. v \<in> set (written L key [c] st) \<Longrightarrow> codec_ok L v"
  shows "\<exists>l. audit_inv L keys (ls @ [l]) (audit_extra L key True True c st)"
proof -
  let ?n = "au_seq st + 1" and ?e = "audit_entry L key (au_seq st + 1) c"
  let ?f = "full_entry L key (au_prev st) ?e" and ?h = "entry_hash L key (au_prev st) ?e"
  let ?l = "lib_to_string L (JObj ?f)" and ?st = "audit_extra L key True True c st"
  obtain v where v: "verify_lines L keys 1 ls vstart = Inr v" "vs_prev v = au_prev st"
    "vs_seq v = (if ls = [] then None else Some (au_seq st))" "vs_n v = length ls"
    and len: "au_seq st = length ls" and ok: "\<forall>l \<in> set ls. line_ok l" and lg: "au_log st = Some (file_of ls)"
    using inv by (auto simp: audit_inv_def)
  have pn: "parse_u64 (nat_str (Suc (au_seq st))) = Some (Suc (au_seq st))"
    using parse_u64_nat_str [OF bound] by simp
  have c1: "codec_ok L (JObj ?f)" and c2: "codec_ok L (jobj [(''seq'', JNum (nat_str ?n)), (''hash'', JStr ?h)])"
    using codec by simp_all
  obtain v' where v': "verify_entry L keys (1 + length ls) ?f v = Inr v'" "vs_prev v' = ?h"
    "vs_seq v' = Some ?n" "vs_n v' = vs_n v + 1"
  proof -
    have "vs_seq v = None \<or> vs_seq v = Some (?n - 1)" using v by simp
    from verify_entry_written [OF pe bound kk this, of L "1 + length ls"] that show thesis
      unfolding v(2) by auto
  qed
  have "verify_line L keys (1 + length ls) ?l v = Inr v'"
    using c1 v'(1) by (simp add: verify_line_def codec_ok_def)
  then have ver: "verify_lines L keys 1 (ls @ [?l]) vstart = Inr v'"
    using v(1) by (simp add: verify_lines_append)
  have le: "last_entry_of L (Content (file_of (ls @ [?l]))) = Some (Some (?n, ?h))"
    using c1 ok audit_entry_fields(1) [OF pe, of L key ?n]
    by (intro last_entry_written [where v = "JObj ?f"])
      (auto simp: codec_ok_def get_str_def full_entry_def pn)
  have hw: "hwm_of L (au_hwm ?st) = Some (?n, ?h)"
    using c2 by (simp add: audit_extra_state hwm_of_def hwm_body_def codec_ok_def get_str_def pn)
  have "audit_inv L keys (ls @ [?l]) ?st"
    unfolding audit_inv_def
    using c1 ok ver v' le hw len v(4) lg
    by (auto simp: audit_extra_state append_line_file codec_ok_def)
  then show ?thesis ..
qed

lemma audit_run_inv:
  assumes "audit_inv L keys ls st" and "\<And>c. c \<in> set cs \<Longrightarrow> plain_extra c" and "key_known keys key"
    and "au_seq st + length cs \<le> u64_max" and "\<And>v. v \<in> set (written L key cs st) \<Longrightarrow> codec_ok L v"
  shows "\<exists>ls'. length ls' = length cs \<and> audit_inv L keys (ls @ ls') (audit_run L key cs st)"
  using assms
proof (induction cs arbitrary: ls st)
  case Nil
  then show ?case by simp
next
  case (Cons c cs)
  let ?st = "audit_extra L key True True c st"
  obtain l where l: "audit_inv L keys (ls @ [l]) ?st"
    using audit_inv_step [OF Cons.prems(1) _ Cons.prems(3), of c] Cons.prems(2,4,5) by force
  have "\<exists>ls'. length ls' = length cs \<and> audit_inv L keys ((ls @ [l]) @ ls') (audit_run L key cs ?st)"
    using Cons.prems by (intro Cons.IH [OF l]) (auto simp: audit_extra_state)
  then obtain ls' where "length ls' = length cs" "audit_inv L keys (ls @ l # ls') (audit_run L key cs ?st)"
    by auto
  then show ?case by (intro exI [of _ "l # ls'"]) simp
qed

lemma writer_verifies:
  assumes "\<And>c. c \<in> set cs \<Longrightarrow> plain_extra c" and "key_known keys key" and "length cs \<le> u64_max"
    and "\<And>v. v \<in> set (written L key cs fresh_audit) \<Longrightarrow> codec_ok L v"
  shows "\<exists>rot. verify_audit_file L keys (au_log (audit_run L key cs fresh_audit))
             (Some (au_prev (audit_run L key cs fresh_audit)))
       = Inr (length cs, (if cs = [] then None else Some (length cs)), rot,
              au_prev (audit_run L key cs fresh_audit))"
proof -
  let ?st = "audit_run L key cs fresh_audit"
  have b: "au_seq fresh_audit + length cs \<le> u64_max" using assms(3) by (simp add: fresh_audit_def)
  obtain ls where "length ls = length cs" and inv: "audit_inv L keys ls ?st"
    using audit_run_inv [OF audit_inv_fresh assms(1,2) b assms(4)] by auto
  then show ?thesis
    by (auto simp: audit_inv_def verify_audit_file_def str_lines_file_of)
qed

text \<open>C24: What the writer writes, the verifier accepts: from a fresh log, any sequence of audit calls made
  one after the other under one key verifies, with one entry per call, the last sequence number and the
  writer's last hash.\<close>

theorem honest_log_verifies:
  assumes "\<And>c. c \<in> set cs \<Longrightarrow> plain_extra c" and "key_known keys key" and "length cs \<le> u64_max"
    and "\<And>v. v \<in> set (written L key cs fresh_audit) \<Longrightarrow> codec_ok L v"
  shows "\<exists>rot. verify_audit_file L keys (au_log (audit_run L key cs fresh_audit))
             (Some (au_prev (audit_run L key cs fresh_audit)))
       = Inr (length cs, (if cs = [] then None else Some (length cs)), rot,
              au_prev (audit_run L key cs fresh_audit))"
  by (rule writer_verifies) (fact assms)+

text \<open>A restart continues the chain and a shortened or removed log is reported: after a run of \<open>n\<close>
  calls, resuming from the log and the mark gives the writer's number and hash with nothing to report;
  resuming from the log as it was after \<open>k < n\<close> of them reports the entries missing from the end, and
  resuming with no log reports that the trail is gone.\<close>

theorem restart_and_truncation:
  assumes "\<And>c. c \<in> set cs \<Longrightarrow> plain_extra c" and "key_known keys key" and "length cs \<le> u64_max"
    and "\<And>v. v \<in> set (written L key cs fresh_audit) \<Longrightarrow> codec_ok L v"
    and "cs = before @ after" and "before \<noteq> []"
  shows "let full = audit_run L key cs fresh_audit; cut = audit_run L key before fresh_audit in
     \<exists>c_full c_cut. au_log full = Some c_full \<and> au_log cut = Some c_cut
       \<and> resume_state_of L (Content c_full) (au_hwm full)
           = \<lparr>rs_seq = length cs, rs_hash = au_prev full, rs_anomaly = None\<rparr>
       \<and> (after \<noteq> [] \<longrightarrow> rs_anomaly (resume_state_of L (Content c_cut) (au_hwm full))
             = Some (Missing_Entries (length before) (length cs)))
       \<and> rs_anomaly (resume_state_of L Absent (au_hwm full)) = Some (Log_Gone (length cs))"
proof -
  let ?full = "audit_run L key cs fresh_audit" and ?cut = "audit_run L key before fresh_audit"
  have wr: "set (written L key before st) \<subseteq> set (written L key (before @ after) st)" for st
    by (induction before arbitrary: st) auto
  have f0: "au_seq fresh_audit = 0" by (simp add: fresh_audit_def)
  obtain ls where ls: "length ls = length cs" "audit_inv L keys ls ?full"
    using audit_run_inv [OF audit_inv_fresh assms(1,2) _ assms(4)] assms(3) f0 by auto
  obtain ks where ks: "length ks = length before" "audit_inv L keys ks ?cut"
    using audit_run_inv [OF audit_inv_fresh, where cs = before and key = key and keys = keys and L = L]
      assms wr f0 by fastforce
  have ne: "ls \<noteq> []" "ks \<noteq> []" using ls(1) ks(1) assms(5,6) by auto
  show ?thesis
    unfolding Let_def
    using ls ks ne assms(5)
    by (intro exI [of _ "file_of ls"] exI [of _ "file_of ks"])
      (auto simp: audit_inv_def resume_state_of_def last_entry_of_def [of L Absent])
qed

section \<open>A concrete log\<close>

definition demo_call0 :: audit_call where
  "demo_call0 = \<lparr>ac_ts = 7, ac_tool = ''list_schemas'', ac_decision = ''allowed'', ac_sql = None, ac_caller = None, ac_extra = []\<rparr>"

definition demo_to_string :: "json \<Rightarrow> string" where
  "demo_to_string v =
     (if jget ''prev'' v \<noteq> None then ''{full}'' else if jget ''tool'' v \<noteq> None then ''{entry}'' else ''{mark}'')"

definition demo_sha :: "string \<Rightarrow> string" where
  "demo_sha s = replicate 32 CHR ''a''"

definition demo_base_libs :: audit_libs where
  "demo_base_libs = \<lparr>lib_sha256 = demo_sha, lib_to_string = demo_to_string, lib_from_str = (\<lambda>s. Inl [])\<rparr>"

definition demo_full :: "(string \<times> json) list" where
  "demo_full = full_entry demo_base_libs None ''GENESIS'' (audit_entry demo_base_libs None 1 demo_call0)"

definition demo_mark :: json where
  "demo_mark = jobj [(''seq'', JNum (nat_str 1)),
     (''hash'', JStr (entry_hash demo_base_libs None ''GENESIS'' (audit_entry demo_base_libs None 1 demo_call0)))]"

definition demo_libs :: audit_libs where
  "demo_libs = demo_base_libs\<lparr>lib_from_str := (\<lambda>s. if s = ''{full}'' then Inr (JObj demo_full)
      else if s = ''{mark}'' then Inr demo_mark else Inl ''syntax'')\<rparr>"

lemma demo_libs_same:
  "audit_entry demo_libs None n demo_call0 = audit_entry demo_base_libs None n demo_call0"
  "full_entry demo_libs None p e = full_entry demo_base_libs None p e"
  "entry_hash demo_libs None p e = entry_hash demo_base_libs None p e"
  by (simp_all add: audit_entry_def demo_call0_def full_entry_def entry_hash_def chain_digest_def sha256_hex_def
      demo_libs_def demo_base_libs_def)

lemma demo_written: "set (written demo_libs None [demo_call0] fresh_audit) = {JObj demo_full, demo_mark}"
  by (simp add: fresh_audit_def demo_libs_same demo_full_def demo_mark_def)

lemma demo_codec: "v \<in> set (written demo_libs None [demo_call0] fresh_audit) \<Longrightarrow> codec_ok demo_libs v"
proof -
  have t: "trim ''{full}'' = ''{full}''" "trim ''{mark}'' = ''{mark}''" by code_simp+
  have f: "demo_to_string (JObj demo_full) = ''{full}''" "demo_to_string demo_mark = ''{mark}''"
    by (simp_all add: demo_to_string_def demo_full_def demo_mark_def full_entry_def)
  assume "v \<in> set (written demo_libs None [demo_call0] fresh_audit)"
  then show "codec_ok demo_libs v"
    unfolding demo_written using t f
    by (auto simp: codec_ok_def line_ok_def newline_def demo_libs_def demo_base_libs_def)
qed

lemma demo_plain: "c \<in> set [demo_call0] \<Longrightarrow> plain_extra c"
  by (simp add: plain_extra_def demo_call0_def)

theorem honest_log_verifies_witness:
  "\<exists>rot. verify_audit_file demo_libs [] (au_log (audit_run demo_libs None [demo_call0] fresh_audit))
       (Some (au_prev (audit_run demo_libs None [demo_call0] fresh_audit)))
     = Inr (1, Some 1, rot, au_prev (audit_run demo_libs None [demo_call0] fresh_audit))"
  using honest_log_verifies [of "[demo_call0]" "[]" None demo_libs, OF demo_plain _ _ demo_codec]
  by (simp add: key_known_def u64_max_def)

theorem restart_and_truncation_witness:
  "rs_anomaly (resume_state_of demo_libs Absent (au_hwm (audit_run demo_libs None [demo_call0] fresh_audit)))
   = Some (Log_Gone 1)"
  using restart_and_truncation [of "[demo_call0]" "[]" None demo_libs "[demo_call0]" "[]", OF demo_plain _ _ demo_codec]
  by (auto simp: key_known_def u64_max_def Let_def)

section \<open>The last hash anchors the whole log\<close>

text \<open>The links of a verified log: the key and the text of each entry, in order.\<close>

definition line_link :: "audit_libs \<Rightarrow> audit_key list \<Rightarrow> string \<Rightarrow> (string option \<times> string) option" where
  "line_link L keys l =
     (if trim l = [] then None
      else (case lib_from_str L l of
              Inr (JObj obj) \<Rightarrow>
                Some (case Option.bind (map_of obj ''key_fp'') as_str of
                        None \<Rightarrow> None
                      | Some fp \<Rightarrow> map_option fst (List.find (\<lambda>(k, kfp). kfp = fp) keys),
                      lib_to_string L (JObj (bt_remove ''hash'' (bt_remove ''prev'' obj))))
            | _ \<Rightarrow> None))"

definition links_of :: "audit_libs \<Rightarrow> audit_key list \<Rightarrow> string \<Rightarrow> (string option \<times> string) list" where
  "links_of L keys content = List.map_filter (line_link L keys) (str_lines content)"

fun digest_chain :: "audit_libs \<Rightarrow> (string option \<times> string) list \<Rightarrow> string \<Rightarrow> string" where
  "digest_chain L [] prev = prev"
| "digest_chain L ((k, t) # ls) prev = digest_chain L ls (chain_digest L k (prev @ t))"

text \<open>The inputs the digest is applied to along a chain.\<close>

fun digest_inputs :: "audit_libs \<Rightarrow> (string option \<times> string) list \<Rightarrow> string \<Rightarrow> (string option \<times> string) set" where
  "digest_inputs L [] prev = {}"
| "digest_inputs L ((k, t) # ls) prev =
     insert (k, prev @ t) (digest_inputs L ls (chain_digest L k (prev @ t)))"

lemma verify_line_link:
  assumes "verify_line L keys lno l st = Inr st'"
  shows "case line_link L keys l of
           None \<Rightarrow> st' = st
         | Some (k, t) \<Rightarrow> vs_prev st' = chain_digest L k (vs_prev st @ t)"
proof (cases "trim l = []")
  case True
  with assms show ?thesis by (simp add: verify_line_def line_link_def)
next
  case False
  with assms obtain obj where v: "lib_from_str L l = Inr (JObj obj)"
    and e: "verify_entry L keys lno obj st = Inr st'"
    by (auto simp: verify_line_def split: sum.splits option.splits elim: as_object.elims)
  from e obtain st1 st2 k where c: "check_seq lno obj st = Inr st1" and k: "entry_key keys lno obj st1 = Inr (st2, k)"
    and p: "vs_prev st' = chain_digest L k (vs_prev st1 @ lib_to_string L (JObj (bt_remove ''hash'' (bt_remove ''prev'' obj))))"
    by (auto simp: verify_entry_def Let_def bindR_eq_Inr split: if_splits)
  have "vs_prev st1 = vs_prev st" using c by (auto simp: check_seq_def split: option.splits if_splits)
  moreover have "k = (case Option.bind (map_of obj ''key_fp'') as_str of None \<Rightarrow> None
      | Some fp \<Rightarrow> map_option fst (List.find (\<lambda>(k, kfp). kfp = fp) keys))"
    using k by (auto simp: entry_key_def Let_def split: option.splits)
  ultimately show ?thesis using False v p by (simp add: line_link_def)
qed

lemma verify_lines_links:
  "verify_lines L keys lno ls st = Inr st' \<Longrightarrow>
   vs_prev st' = digest_chain L (List.map_filter (line_link L keys) ls) (vs_prev st)"
proof (induction ls arbitrary: lno st)
  case Nil
  then show ?case by (simp add: map_filter_simps)
next
  case (Cons l ls)
  then obtain st1 where l: "verify_line L keys lno l st = Inr st1"
    and r: "verify_lines L keys (lno + 1) ls st1 = Inr st'" by (auto simp: bindR_eq_Inr)
  from verify_line_link [OF l] Cons.IH [OF r] show ?case
    by (auto simp: map_filter_simps split: option.splits)
qed

lemma digest_chain_snoc:
  "digest_chain L (ls @ [(k, t)]) prev = chain_digest L k (digest_chain L ls prev @ t)"
  by (induction ls arbitrary: prev) auto

lemma digest_inputs_snoc:
  "digest_inputs L (ls @ [(k, t)]) prev = insert (k, digest_chain L ls prev @ t) (digest_inputs L ls prev)"
  by (induction ls arbitrary: prev) auto

lemma hex_length: "length (hex s) = 2 * length s"
  by (induction s) simp_all

lemma hex_digit_lower: "d < 16 \<Longrightarrow> hex_digit d \<noteq> CHR ''G''"
proof
  assume "d < 16" and "hex_digit d = CHR ''G''"
  then have "(of_char (hex_digit d) :: nat) = 71" by simp
  with \<open>d < 16\<close> show False by (auto simp: hex_digit_def split: if_splits)
qed

lemma hex_no_G: "CHR ''G'' \<notin> set (hex s)"
proof (induction s)
  case (Cons b s)
  have "(of_char b :: nat) mod 256 = of_char b" by simp
  then have "(of_char b :: nat) < 256" by (metis mod_less_divisor zero_less_numeral)
  then have "of_char b div 16 < (16 :: nat)" by (intro less_mult_imp_div_less) simp
  then show ?case using Cons hex_digit_lower [of "of_char b div 16"] hex_digit_lower [of "of_char b mod 16"]
    by fastforce
qed simp

text \<open>A SHA-256 digest has 32 bytes.\<close>

definition digest_size_32 :: "audit_libs \<Rightarrow> bool" where
  "digest_size_32 L \<longleftrightarrow> (\<forall>s. length (lib_sha256 L s) = 32)"

lemma chain_digest_props:
  assumes "digest_size_32 L"
  shows "length (chain_digest L k p) = 64" and "CHR ''G'' \<notin> set (chain_digest L k p)"
  using assms hex_no_G
  by (auto simp: chain_digest_def sha256_hex_def hmac_sha256_hex_def Let_def hex_length digest_size_32_def
      split: option.splits)

lemma digest_chain_cases:
  assumes "digest_size_32 L"
  shows "(ls = [] \<and> digest_chain L ls ''GENESIS'' = ''GENESIS'')
       \<or> (ls \<noteq> [] \<and> length (digest_chain L ls ''GENESIS'') = 64 \<and> CHR ''G'' \<notin> set (digest_chain L ls ''GENESIS''))"
  using chain_digest_props [OF assms] by (cases ls rule: rev_cases) (auto simp: digest_chain_snoc)

lemma genesis_no_digest: "''GENESIS'' @ t = p @ t' \<Longrightarrow> length p = 64 \<Longrightarrow> CHR ''G'' \<in> set p"
  by (cases p) auto

lemma chain_injective:
  assumes sz: "digest_size_32 L"
  shows "digest_chain L a ''GENESIS'' = digest_chain L b ''GENESIS'' \<Longrightarrow>
     inj_on (\<lambda>(k, p). chain_digest L k p) (digest_inputs L a ''GENESIS'' \<union> digest_inputs L b ''GENESIS'') \<Longrightarrow> a = b"
proof (induction a arbitrary: b rule: rev_induct)
  case Nil
  then show ?case using digest_chain_cases [OF sz, of b] by auto
next
  case (snoc x a)
  obtain k t where x: "x = (k, t)" by fastforce
  have "b \<noteq> []"
    using snoc.prems(1) digest_chain_cases [OF sz, of "a @ [x]"] digest_chain_cases [OF sz, of b] by auto
  then obtain b' k' t' where b: "b = b' @ [(k', t')]" by (metis rev_exhaust surj_pair)
  let ?pa = "digest_chain L a ''GENESIS''" and ?pb = "digest_chain L b' ''GENESIS''"
  have "(k, ?pa @ t) = (k', ?pb @ t')"
  proof (rule inj_onD [OF snoc.prems(2)])
    show "(case (k, ?pa @ t) of (k, p) \<Rightarrow> chain_digest L k p) = (case (k', ?pb @ t') of (k, p) \<Rightarrow> chain_digest L k p)"
      using snoc.prems(1) by (simp add: x b digest_chain_snoc)
  qed (simp_all add: x b digest_inputs_snoc)
  then have eq: "k = k'" "?pa @ t = ?pb @ t'" by simp_all
  have "?pa = ?pb"
    using digest_chain_cases [OF sz, of a] digest_chain_cases [OF sz, of b']
  proof (elim disjE conjE)
    assume "?pa = ''GENESIS''" "length ?pb = 64" "CHR ''G'' \<notin> set ?pb"
    with eq(2) genesis_no_digest [of t ?pb t'] show ?thesis by simp
  next
    assume "?pb = ''GENESIS''" "length ?pa = 64" "CHR ''G'' \<notin> set ?pa"
    with eq(2) genesis_no_digest [of t' ?pa t] show ?thesis by simp
  next
    assume "length ?pa = 64" "length ?pb = 64"
    with eq(2) show ?thesis by simp
  qed simp
  moreover from this eq have "t = t'" by simp
  moreover have "a = b'"
  proof (rule snoc.IH)
    show "?pa = ?pb" by fact
    show "inj_on (\<lambda>(k, p). chain_digest L k p) (digest_inputs L a ''GENESIS'' \<union> digest_inputs L b' ''GENESIS'')"
      using snoc.prems(2) by (rule inj_on_subset) (auto simp: x b digest_inputs_snoc)
  qed
  ultimately show ?case using eq(1) by (simp add: x b)
qed

text \<open>C25: An external copy of the last hash anchors the whole trail: two logs that both verify with the
  same last hash contain the same entries, signed with the same keys, in the same order, provided the
  digest has no collision among the inputs of the two verifications.\<close>

theorem last_hash_anchors_log:
  assumes "verify_audit_file L keys (Some c1) None = Inr (n1, s1, r1, h)"
    and "verify_audit_file L keys (Some c2) (Some h) = Inr (n2, s2, r2, h')"
    and "digest_size_32 L"
    and "inj_on (\<lambda>(k, p). chain_digest L k p)
           (digest_inputs L (links_of L keys c1) ''GENESIS'' \<union> digest_inputs L (links_of L keys c2) ''GENESIS'')"
  shows "links_of L keys c1 = links_of L keys c2"
proof (rule chain_injective [OF assms(3) _ assms(4)])
  have "digest_chain L (links_of L keys c) ''GENESIS'' = vs_prev v"
    if "verify_lines L keys 1 (str_lines c) vstart = Inr v" for c v
    using verify_lines_links [OF that] by (simp add: links_of_def vstart_def)
  then show "digest_chain L (links_of L keys c1) ''GENESIS'' = digest_chain L (links_of L keys c2) ''GENESIS''"
    using assms(1,2) by (auto simp: verify_audit_file_def bindR_eq_Inr split: if_splits)
qed

text \<open>The demo log and the same log with an empty line in front.\<close>

lemma demo_verify:
  "\<exists>v. verify_entry demo_libs [] lno demo_full vstart = Inr v
     \<and> vs_prev v = entry_hash demo_libs None ''GENESIS'' (audit_entry demo_base_libs None 1 demo_call0)"
  using verify_entry_written [of demo_call0 1 "[]" None vstart demo_libs lno] demo_plain
  by (auto simp: u64_max_def key_known_def vstart_def demo_full_def demo_libs_same)

lemma demo_lines:
  "str_lines (''{full}'' @ [newline]) = [''{full}'']"
  "str_lines (newline # ''{full}'' @ [newline]) = [[], ''{full}'']"
  by (simp_all add: str_lines_def newline_def strip_cr_def)

lemma demo_trim: "trim ''{full}'' = ''{full}''" "trim [] = []"
  by code_simp+

lemma demo_link: "line_link demo_libs [] ''{full}'' = Some (None, ''{entry}'')"
proof -
  have f: "map_of demo_full ''key_fp'' = None"
    using audit_entry_fields(2) [of demo_call0 demo_base_libs None 1] demo_plain
    by (simp add: demo_full_def full_entry_def)
  have "bt_remove ''hash'' (bt_remove ''prev'' demo_full) = audit_entry demo_base_libs None 1 demo_call0"
    unfolding demo_full_def using audit_entry_fields(3,4) demo_plain by (intro strip_full_entry) auto
  moreover have "demo_to_string (JObj (audit_entry demo_base_libs None 1 demo_call0)) = ''{entry}''"
    by (simp add: demo_to_string_def audit_entry_def demo_call0_def)
  ultimately show ?thesis
    by (simp add: line_link_def demo_trim f) (simp add: demo_libs_def demo_base_libs_def f)
qed

theorem last_hash_anchors_log_witness:
  "links_of demo_libs [] (''{full}'' @ [newline]) = links_of demo_libs [] (newline # ''{full}'' @ [newline])"
proof -
  let ?c1 = "''{full}'' @ [newline]" and ?c2 = "newline # ''{full}'' @ [newline]"
  let ?h = "entry_hash demo_libs None ''GENESIS'' (audit_entry demo_base_libs None 1 demo_call0)"
  have fs: "lib_from_str demo_libs ''{full}'' = Inr (JObj demo_full)" by (simp add: demo_libs_def)
  have ln: "\<exists>v. verify_line demo_libs [] lno ''{full}'' vstart = Inr v \<and> vs_prev v = ?h" for lno
    using demo_verify [of lno] by (simp add: verify_line_def demo_trim fs)
  have v1: "\<exists>n s r. verify_audit_file demo_libs [] (Some ?c1) None = Inr (n, s, r, ?h)"
    using ln [of 1] by (auto simp: verify_audit_file_def demo_lines [simplified])
  have v2: "\<exists>n s r. verify_audit_file demo_libs [] (Some ?c2) (Some ?h) = Inr (n, s, r, ?h)"
    using ln [of 2] by (auto simp: verify_audit_file_def demo_lines [simplified] verify_line_def [of _ _ _ "[]"] demo_trim
        simp del: One_nat_def)
  have "line_link demo_libs [] [] = None" by (simp add: line_link_def demo_trim)
  then have l: "links_of demo_libs [] ?c1 = [(None, ''{entry}'')]" "links_of demo_libs [] ?c2 = [(None, ''{entry}'')]"
    by (simp_all add: links_of_def demo_lines map_filter_simps demo_link [simplified] demo_lines [simplified])
  have d: "digest_size_32 demo_libs" by (simp add: digest_size_32_def demo_libs_def demo_base_libs_def demo_sha_def)
  have i: "inj_on (\<lambda>(k, p). chain_digest demo_libs k p)
      (digest_inputs demo_libs (links_of demo_libs [] ?c1) ''GENESIS'' \<union> digest_inputs demo_libs (links_of demo_libs [] ?c2) ''GENESIS'')"
    unfolding l by simp
  from v1 v2 obtain n1 s1 r1 n2 s2 r2
    where "verify_audit_file demo_libs [] (Some ?c1) None = Inr (n1, s1, r1, ?h)"
      and "verify_audit_file demo_libs [] (Some ?c2) (Some ?h) = Inr (n2, s2, r2, ?h)" by blast
  from last_hash_anchors_log [OF this d i] show ?thesis .
qed

section \<open>Concurrent writers\<close>

text \<open>The two halves of a call as steps of the whole server: drawing a number, and linking under the
  lock. Between them any other writer may run.\<close>

inductive writer_step ::
  "audit_libs \<Rightarrow> audit_key option \<Rightarrow> audit_state \<times> (nat \<times> audit_call) list \<Rightarrow> audit_state \<times> (nat \<times> audit_call) list \<Rightarrow> bool"
  for L key where
  draw: "alloc_seq st = (st', seq) \<Longrightarrow> writer_step L key (st, ps) (st', ps @ [(seq, c)])"
| link: "writer_step L key (st, xs @ (seq, c) # ys)
    (link_entry L key True True seq (audit_entry L key seq c) st, xs @ ys)"

text \<open>The chain is not safe against its own concurrency: two calls that draw their numbers in one
  order and link in the other leave a log that the verifier rejects with a sequence gap, although nothing
  was removed.\<close>

theorem concurrent_writers_break_sequence:
  assumes "plain_extra a" and "plain_extra b"
    and "\<And>v. v \<in> {JObj (full_entry L None ''GENESIS'' (audit_entry L None 2 b)),
                   JObj (full_entry L None (entry_hash L None ''GENESIS'' (audit_entry L None 2 b)) (audit_entry L None 1 a))}
           \<Longrightarrow> codec_ok L v"
  shows "\<exists>st. (writer_step L None)\<^sup>*\<^sup>* (fresh_audit, []) (st, [])
       \<and> verify_audit_file L [] (au_log st) None = Inl (Seq_Gap 2 3 1)"
proof -
  let ?s2 = "fresh_audit\<lparr>au_seq := 2\<rparr>"
  let ?e2 = "audit_entry L None 2 b" and ?e1 = "audit_entry L None 1 a"
  let ?s3 = "link_entry L None True True 2 ?e2 ?s2"
  let ?s4 = "link_entry L None True True 1 ?e1 ?s3"
  let ?h = "entry_hash L None ''GENESIS'' ?e2"
  let ?f2 = "full_entry L None ''GENESIS'' ?e2" and ?f1 = "full_entry L None ?h ?e1"
  have d1: "writer_step L None (fresh_audit, []) (fresh_audit\<lparr>au_seq := 1\<rparr>, [] @ [(1, a)])"
    by (rule draw) (simp add: alloc_seq_def fresh_audit_def)
  have d2: "writer_step L None (fresh_audit\<lparr>au_seq := 1\<rparr>, [(1, a)]) (?s2, [(1, a)] @ [(2, b)])"
    by (rule draw) (simp add: alloc_seq_def)
  have l2: "writer_step L None (?s2, [(1, a)] @ (2, b) # []) (?s3, [(1, a)] @ [])" by (rule link)
  have l1: "writer_step L None (?s3, [] @ (1, a) # []) (?s4, [] @ [])" by (rule link)
  have run: "(writer_step L None)\<^sup>*\<^sup>* (fresh_audit, []) (?s4, [])"
    using d1 d2 l2 l1 by (auto intro: converse_rtranclp_into_rtranclp)
  have lg: "au_log ?s4 = Some (file_of [lib_to_string L (JObj ?f2), lib_to_string L (JObj ?f1)])"
    by (simp add: link_entry_def fresh_audit_def append_line_def file_of_def full_entry_def entry_hash_def Let_def)
  have c: "codec_ok L (JObj ?f2)" "codec_ok L (JObj ?f1)" using assms(3) by simp_all
  have ls: "str_lines (file_of [lib_to_string L (JObj ?f2), lib_to_string L (JObj ?f1)])
      = [lib_to_string L (JObj ?f2), lib_to_string L (JObj ?f1)]"
    by (rule str_lines_file_of) (use c in \<open>auto simp: codec_ok_def\<close>)
  have "(2::nat) \<le> u64_max" by (simp add: u64_max_def)
  from verify_entry_written [OF assms(2) this, of "[]" None vstart L 1] obtain v where
    v: "verify_entry L [] 1 ?f2 vstart = Inr v" "vs_prev v = ?h" "vs_seq v = Some 2"
    by (auto simp: key_known_def vstart_def)
  have "check_seq 2 ?f1 v = Inl (Seq_Gap 2 3 1)"
    using audit_entry_fields(1) [OF assms(1), of L None 1] parse_u64_nat_str [of 1] v(3)
    by (simp add: check_seq_def full_entry_def u64_max_def)
  then have "verify_entry L [] 2 ?f1 v = Inl (Seq_Gap 2 3 1)"
    using v(2) by (simp add: verify_entry_def str_field_def full_entry_def)
  then have "verify_audit_file L [] (au_log ?s4) None = Inl (Seq_Gap 2 3 1)"
    unfolding lg using c v(1)
    by (simp add: verify_audit_file_def ls verify_line_def codec_ok_def del: One_nat_def)
  with run show ?thesis by blast
qed

text \<open>The same call twice.\<close>

definition demo2_base :: audit_libs where
  "demo2_base = \<lparr>lib_sha256 = demo_sha,
     lib_to_string = (\<lambda>v. if get_str ''prev'' v = Some ''GENESIS'' then ''{2}''
                           else if jget ''prev'' v \<noteq> None then ''{1}'' else ''{e}''),
     lib_from_str = (\<lambda>s. Inl [])\<rparr>"

definition demo2_entry :: "nat \<Rightarrow> (string \<times> json) list" where
  "demo2_entry n = audit_entry demo2_base None n demo_call0"

definition demo2_libs :: audit_libs where
  "demo2_libs = demo2_base\<lparr>lib_from_str := (\<lambda>s.
     if s = ''{2}'' then Inr (JObj (full_entry demo2_base None ''GENESIS'' (demo2_entry 2)))
     else if s = ''{1}'' then Inr (JObj (full_entry demo2_base None
            (entry_hash demo2_base None ''GENESIS'' (demo2_entry 2)) (demo2_entry 1)))
     else Inl ''syntax'')\<rparr>"

lemma demo2_same:
  "audit_entry demo2_libs None n demo_call0 = demo2_entry n"
  "full_entry demo2_libs None p e = full_entry demo2_base None p e"
  "entry_hash demo2_libs None p e = entry_hash demo2_base None p e"
  by (simp_all add: audit_entry_def demo_call0_def full_entry_def entry_hash_def chain_digest_def sha256_hex_def
      demo2_libs_def demo2_base_def demo2_entry_def del: foldl_Cons foldl_Nil)

theorem concurrent_writers_break_sequence_witness:
  "\<exists>st :: audit_state. verify_audit_file demo2_libs [] (au_log st) None = Inl (Seq_Gap 2 3 1)"
proof -
  have t: "trim ''{2}'' = ''{2}''" "trim ''{1}'' = ''{1}''" by code_simp+
  have h: "entry_hash demo2_base None ''GENESIS'' e \<noteq> ''GENESIS''" for e
    using hex_no_G [of "demo_sha (''GENESIS'' @ lib_to_string demo2_base (JObj e))"]
    by (auto simp: entry_hash_def chain_digest_def sha256_hex_def demo2_base_def)
  have f: "codec_ok demo2_libs (JObj (full_entry demo2_base None ''GENESIS'' (demo2_entry 2)))"
    "codec_ok demo2_libs (JObj (full_entry demo2_base None (entry_hash demo2_base None ''GENESIS'' (demo2_entry 2)) (demo2_entry 1)))"
    using h t by (simp_all add: codec_ok_def line_ok_def newline_def demo2_libs_def)
      (simp_all add: demo2_base_def get_str_def full_entry_def)
  have pl: "plain_extra demo_call0" using demo_plain by simp
  have "\<exists>st. (writer_step demo2_libs None)\<^sup>*\<^sup>* (fresh_audit, []) (st, [])
      \<and> verify_audit_file demo2_libs [] (au_log st) None = Inl (Seq_Gap 2 3 1)"
  proof (rule concurrent_writers_break_sequence [OF pl pl])
    show "codec_ok demo2_libs v" if "v \<in> {JObj (full_entry demo2_libs None ''GENESIS'' (audit_entry demo2_libs None 2 demo_call0)),
        JObj (full_entry demo2_libs None (entry_hash demo2_libs None ''GENESIS'' (audit_entry demo2_libs None 2 demo_call0))
          (audit_entry demo2_libs None 1 demo_call0))}" for v
      using that f unfolding demo2_same by blast
  qed
  then show ?thesis by blast
qed

end
