(* ===== verification/Surface.thy ===== *)
theory Surface
  imports Json "HOL-Library.Product_Lexorder"
begin

text \<open>
  \<open>src/surface.rs\<close>: the configured surface. The patterns come from the environment; the relations a
  query reaches come from the plan PostgreSQL returns for it, a JSON document that is walked with a
  stack. Both walks of the source are \<open>walk\<close> with the yield of their loop body; \<open>subvalues\<close> is the
  reference: every value anywhere in the document.
\<close>

section \<open>Patterns\<close>

datatype surface_pattern = PatSchema string | PatRelation string string

definition allow_list :: "string option \<Rightarrow> string list" where
  "allow_list v = (case v of
     Some s \<Rightarrow> filter (\<lambda>x. x \<noteq> []) (map trim (split_char CHR '','' s)) | None \<Rightarrow> [])"

definition table_pattern :: "string \<Rightarrow> surface_pattern" where
  "table_pattern t =
     (case split_once_char CHR ''.'' t of
        Some (s, r) \<Rightarrow>
          if r = ''*'' then PatSchema (to_lowercase s) else PatRelation (to_lowercase s) (to_lowercase r)
      | None \<Rightarrow> PatRelation ''public'' (to_lowercase t))"

definition parse_patterns :: "env \<Rightarrow> surface_pattern list" where
  "parse_patterns env =
     map (\<lambda>s. PatSchema (to_lowercase s)) (allow_list (env ''MCP_ALLOW_SCHEMAS'')) @
     map table_pattern (allow_list (env ''MCP_ALLOW_TABLES''))"

definition surface_active :: "env \<Rightarrow> bool" where
  "surface_active env = (parse_patterns env \<noteq> [])"

definition catalog_allowed :: "env \<Rightarrow> bool" where
  "catalog_allowed env = env_flag env ''MCP_ALLOW_CATALOG''"

definition permitted_in :: "env \<Rightarrow> surface_pattern list \<Rightarrow> string \<Rightarrow> string \<Rightarrow> bool" where
  "permitted_in env pats schema relation =
     (let s = to_lowercase schema; r = to_lowercase relation in
      if s = ''pg_catalog'' \<or> s = ''information_schema'' then catalog_allowed env
      else list_ex (\<lambda>p. case p of PatSchema ps \<Rightarrow> ps = s | PatRelation ps pr \<Rightarrow> ps = s \<and> pr = r) pats)"

definition relation_visible :: "env \<Rightarrow> string \<Rightarrow> string \<Rightarrow> bool" where
  "relation_visible env schema relation =
     (if parse_patterns env = [] then True else permitted_in env (parse_patterns env) schema relation)"

definition schema_visible :: "env \<Rightarrow> string \<Rightarrow> bool" where
  "schema_visible env schema =
     (if parse_patterns env = [] then True
      else (let s = to_lowercase schema in
            if s = ''pg_catalog'' \<or> s = ''information_schema'' then catalog_allowed env
            else list_ex (\<lambda>p. case p of PatSchema ps \<Rightarrow> ps = s | PatRelation ps _ \<Rightarrow> ps = s)
                   (parse_patterns env)))"

definition pattern_text :: "surface_pattern \<Rightarrow> string" where
  "pattern_text p = (case p of PatSchema s \<Rightarrow> s @ ''.*'' | PatRelation s r \<Rightarrow> s @ ''.'' @ r)"

definition describe :: "env \<Rightarrow> string" where
  "describe env =
     (if parse_patterns env = [] then ''everything the database role can read''
      else join '', '' (sort (map pattern_text (parse_patterns env))))"

definition dash :: string where
  "dash = [CHR 0xE2, CHR 0x80, CHR 0x94]"

definition hidden_message :: "env \<Rightarrow> string \<Rightarrow> string \<Rightarrow> string" where
  "hidden_message env schema relation =
     ''outside the configured surface: '' @ schema @ ''.'' @ relation @ ''. This server is limited to '' @
     describe env @ '' '' @ dash @
     '' the same limit applies to describing a table as to reading it, because a column list is knowledge about data somebody chose not to expose''"

section \<open>The plan\<close>

fun subvalues :: "json \<Rightarrow> json list" where
  "subvalues (JArr xs) = JArr xs # concat (map subvalues xs)"
| "subvalues (JObj kvs) = JObj kvs # concat (map (\<lambda>kv. subvalues (snd kv)) kvs)"
| "subvalues v = [v]"

fun children :: "json \<Rightarrow> json list" where
  "children (JArr xs) = xs"
| "children (JObj kvs) = map snd kvs"
| "children _ = []"

lemma subvalues_children: "subvalues v = v # concat (map subvalues (children v))"
  by (cases v) (simp_all add: comp_def)

text \<open>The loop over the stack, whose top is the head of the list.\<close>

function walk :: "(json \<Rightarrow> 'a list) \<Rightarrow> json list \<Rightarrow> 'a list \<Rightarrow> 'a list" where
  "walk f [] out = out"
| "walk f (node # stack) out = walk f (rev (children node) @ stack) (out @ f node)"
  by pat_completeness auto
termination
proof (relation "measure (\<lambda>(f, stack, out). length (concat (map subvalues stack)))", goal_cases)
  case (2 f node stack out)
  have "length (concat (map subvalues (rev (children node)))) = length (concat (map subvalues (children node)))"
    by (simp add: length_concat rev_map [symmetric] comp_def)
  moreover have "length (subvalues node) = Suc (length (concat (map subvalues (children node))))"
    by (subst subvalues_children) simp
  ultimately show ?case by simp
qed simp

definition relation_yield :: "json \<Rightarrow> (string \<times> string) list" where
  "relation_yield v =
     (case (get_str ''Schema'' v, get_str ''Relation Name'' v) of
        (Some s, Some r) \<Rightarrow> [(s, r)] | _ \<Rightarrow> [])"

definition function_yield :: "json \<Rightarrow> (string \<times> string) list" where
  "function_yield v =
     (case get_str ''Function Name'' v of
        Some f \<Rightarrow> if starts_with f ''pg_'' then [(''pg_catalog'', f)] else []
      | None \<Rightarrow> [])"

definition catalog_functions_in_plan :: "json \<Rightarrow> (string \<times> string) list" where
  "catalog_functions_in_plan plan = walk function_yield [plan] []"

definition relations_in_plan :: "json \<Rightarrow> (string \<times> string) list" where
  "relations_in_plan plan =
     (let root = (case Option.bind (jat 0 plan) (jget ''Plan'') of Some r \<Rightarrow> [r] | None \<Rightarrow> []);
          out = walk relation_yield (plan # root) [] in
      remdups_adj (sort (out @ catalog_functions_in_plan plan)))"

type_synonym parent_lookup = "string \<Rightarrow> string \<Rightarrow> (string \<times> string) option"

definition refused_in ::
  "env \<Rightarrow> surface_pattern list \<Rightarrow> (string \<times> string) list \<Rightarrow> parent_lookup \<Rightarrow> (string \<times> string) list" where
  "refused_in env pats found parents =
     filter (\<lambda>(s, r).
       if permitted_in env pats s r then False
       else (case parents s r of
               Some (ps, pr) \<Rightarrow> \<not> permitted_in env pats ps pr
             | None \<Rightarrow> True)) found"

definition refused :: "env \<Rightarrow> (string \<times> string) list \<Rightarrow> parent_lookup \<Rightarrow> (string \<times> string) list" where
  "refused env found parents = refused_in env (parse_patterns env) found parents"

definition refusal_message :: "env \<Rightarrow> (string \<times> string) list \<Rightarrow> string" where
  "refusal_message env refs =
     ''outside the configured surface: '' @ join '', '' (map (\<lambda>(s, r). s @ ''.'' @ r) refs) @
     ''. This server is limited to '' @ describe env @ '' '' @ dash @
     '' ask the operator to extend MCP_ALLOW_SCHEMAS or MCP_ALLOW_TABLES if you need it''"

section \<open>The walk finds everything\<close>

lemma walk_set:
  "set (walk f stack out) = set out \<union> (\<Union>v \<in> set (concat (map subvalues stack)). set (f v))"
proof (induction f stack out rule: walk.induct)
  case (2 f node stack out)
  have "set (subvalues node) = insert node (set (concat (map subvalues (children node))))"
    by (subst subvalues_children) simp
  then show ?case using 2 by auto
qed simp

lemma root_subvalue:
  "Option.bind (jat 0 plan) (jget ''Plan'') = Some r \<Longrightarrow> set (subvalues r) \<subseteq> set (subvalues plan)"
proof -
  assume "Option.bind (jat 0 plan) (jget ''Plan'') = Some r"
  then obtain x where x: "jat 0 plan = Some x" and r: "jget ''Plan'' x = Some r"
    by (auto simp: bind_eq_Some_conv)
  from x obtain xs where "plan = JArr xs" "xs \<noteq> []" "x = xs ! 0"
    by (cases plan) (auto split: if_splits)
  then have "set (subvalues x) \<subseteq> set (subvalues plan)" by (cases xs) auto
  moreover from r have "set (subvalues r) \<subseteq> set (subvalues x)"
    by (cases x) (auto dest: map_of_SomeD intro!: bexI)
  ultimately show ?thesis by blast
qed

lemma set_relations_in_plan:
  "set (relations_in_plan plan) =
     (\<Union>v \<in> set (subvalues plan). set (relation_yield v) \<union> set (function_yield v))"
proof -
  define root where "root = (case Option.bind (jat 0 plan) (jget ''Plan'') of Some r \<Rightarrow> [r] | None \<Rightarrow> [])"
  have "set (concat (map subvalues (plan # root))) = set (subvalues plan)"
    using root_subvalue [of plan]
    by (cases "Option.bind (jat 0 plan) (jget ''Plan'')") (auto simp: root_def)
  then have "set (walk relation_yield (plan # root) []) = (\<Union>v \<in> set (subvalues plan). set (relation_yield v))"
    by (simp only: walk_set) simp
  moreover have "set (catalog_functions_in_plan plan) = (\<Union>v \<in> set (subvalues plan). set (function_yield v))"
    by (simp add: catalog_functions_in_plan_def walk_set del: walk.simps)
  ultimately show ?thesis by (auto simp: relations_in_plan_def root_def [symmetric] Let_def simp del: walk.simps)
qed

text \<open>The plan walk misses nothing: a relation is reported exactly when some object anywhere in the
  plan names it as a scan node does, or names a catalog function.\<close>

theorem plan_walk_complete:
  "(s, r) \<in> set (relations_in_plan plan) \<longleftrightarrow>
     (\<exists>v \<in> set (subvalues plan). get_str ''Schema'' v = Some s \<and> get_str ''Relation Name'' v = Some r)
     \<or> (s = ''pg_catalog'' \<and> (\<exists>v \<in> set (subvalues plan). get_str ''Function Name'' v = Some r \<and> prefix ''pg_'' r))"
  unfolding set_relations_in_plan
  by (fastforce simp: relation_yield_def function_yield_def starts_with_def split: option.splits if_splits)

section \<open>The walk ends\<close>

text \<open>The stack the walk starts with, and one turn of its loop.\<close>

definition plan_stack :: "json \<Rightarrow> json list" where
  "plan_stack plan = plan # (case Option.bind (jat 0 plan) (jget ''Plan'') of Some r \<Rightarrow> [r] | None \<Rightarrow> [])"

fun walk_turn :: "(json \<Rightarrow> 'a list) \<Rightarrow> json list \<times> 'a list \<Rightarrow> json list \<times> 'a list" where
  "walk_turn f (node # stack, out) = (rev (children node) @ stack, out @ f node)"
| "walk_turn f ([], out) = ([], out)"

definition walk_size :: "json list \<Rightarrow> nat" where
  "walk_size stack = length (concat (map subvalues stack))"

lemma walk_size_turn: "walk_size (node # stack) = Suc (walk_size (rev (children node) @ stack))"
  unfolding walk_size_def by (subst list.map, subst subvalues_children) (simp add: length_concat rev_map [symmetric] comp_def)

lemma walk_turns: "(walk_turn f ^^ walk_size stack) (stack, out) = ([], walk f stack out)"
proof (induction f stack out rule: walk.induct)
  case (2 f node stack out)
  then show ?case by (simp add: walk_size_turn funpow_Suc_right del: funpow.simps)
qed (simp add: walk_size_def)

lemma walk_busy: "k < walk_size stack \<Longrightarrow> fst ((walk_turn f ^^ k) (stack, out)) \<noteq> []"
proof (induction k arbitrary: stack out)
  case (Suc k)
  then obtain node rest where s: "stack = node # rest" by (cases stack) (auto simp: walk_size_def)
  with Suc.prems have "k < walk_size (rev (children node) @ rest)" by (simp add: walk_size_turn)
  with Suc.IH show ?case by (simp add: s funpow_Suc_right del: funpow.simps)
qed (auto simp: walk_size_def)

text \<open>C39: The plan walk ends on every plan: its loop turns exactly once for each value that is reachable from its
  stack, has work at every turn before that, and leaves with the list that is sorted and reported.\<close>

theorem plan_walk_ends:
  "list_all (\<lambda>k. fst ((walk_turn relation_yield ^^ k) (plan_stack plan, [])) \<noteq> []) [0..<walk_size (plan_stack plan)]
   \<and> (\<exists>out. (walk_turn relation_yield ^^ walk_size (plan_stack plan)) (plan_stack plan, []) = ([], out)
        \<and> relations_in_plan plan = remdups_adj (sort (out @ catalog_functions_in_plan plan)))"
  by (simp add: list_all_iff walk_busy walk_turns relations_in_plan_def plan_stack_def Let_def del: walk.simps)

section \<open>What the settings allow\<close>

text \<open>What the two lists say of a relation, read off the settings themselves: its schema is listed, or the
  list of tables names it, names its schema with a star, or names it without a schema and it is in
  \<open>public\<close>. The two catalogs have a switch of their own and no list can name them.\<close>

definition table_entry_names :: "string \<Rightarrow> string \<Rightarrow> string \<Rightarrow> bool" where
  "table_entry_names t s r =
     (case split_once_char CHR ''.'' t of
        Some (a, b) \<Rightarrow> to_lowercase a = to_lowercase s \<and> (b = ''*'' \<or> to_lowercase b = to_lowercase r)
      | None \<Rightarrow> to_lowercase s = ''public'' \<and> to_lowercase t = to_lowercase r)"

definition settings_allow :: "env \<Rightarrow> string \<Rightarrow> string \<Rightarrow> bool" where
  "settings_allow env s r =
     (if to_lowercase s \<in> {''pg_catalog'', ''information_schema''} then env_flag env ''MCP_ALLOW_CATALOG''
      else (\<exists>x \<in> set (allow_list (env ''MCP_ALLOW_SCHEMAS'')). to_lowercase x = to_lowercase s)
         \<or> (\<exists>t \<in> set (allow_list (env ''MCP_ALLOW_TABLES'')). table_entry_names t s r))"

lemma permitted_in_settings: "permitted_in env (parse_patterns env) s r \<longleftrightarrow> settings_allow env s r"
proof -
  have "(case table_pattern t of PatSchema ps \<Rightarrow> ps = to_lowercase s
      | PatRelation ps pr \<Rightarrow> ps = to_lowercase s \<and> pr = to_lowercase r) \<longleftrightarrow> table_entry_names t s r" for t
    by (auto simp: table_pattern_def table_entry_names_def split: option.splits)
  then show ?thesis
    by (simp add: permitted_in_def settings_allow_def parse_patterns_def catalog_allowed_def Let_def list_ex_iff
        bex_Un)
qed

text \<open>Itself, or the table it is a partition of.\<close>

definition on_surface :: "env \<Rightarrow> parent_lookup \<Rightarrow> string \<Rightarrow> string \<Rightarrow> bool" where
  "on_surface env parents s r \<longleftrightarrow>
     settings_allow env s r \<or> (\<exists>ps pr. parents s r = Some (ps, pr) \<and> settings_allow env ps pr)"

lemma refused_empty:
  "refused env found parents = [] \<longleftrightarrow> (\<forall>(s, r) \<in> set found. on_surface env parents s r)"
  by (auto simp: refused_def refused_in_def filter_empty_conv on_surface_def permitted_in_settings
      split: option.splits if_splits)

text \<open>C20: The surface is closed: nothing in a plan is refused exactly when every node of it, at any depth,
  that names a relation names one the settings allow, itself or as a partition of an allowed parent, and
  every node that names a function with the prefix of the server's own functions finds the catalog
  allowed by its switch (or the same parent lookup answers with an allowed relation for it, which a
  database does not do for a function). Both kinds of node are judged whether or not the other occurs:
  \<open>SELECT * FROM pg_settings\<close>, whose plan is one function and no relation, is refused on a surface
  without the catalog. Functions without the prefix are not judged by the plan.\<close>

theorem unrefused_plan_within_surface:
  "refused env (relations_in_plan plan) parents = [] \<longleftrightarrow>
     (\<forall>v \<in> set (subvalues plan).
        (\<forall>s r. get_str ''Schema'' v = Some s \<longrightarrow> get_str ''Relation Name'' v = Some r \<longrightarrow> on_surface env parents s r)
      \<and> (\<forall>f. get_str ''Function Name'' v = Some f \<longrightarrow> prefix ''pg_'' f \<longrightarrow>
           env_flag env ''MCP_ALLOW_CATALOG''
           \<or> (\<exists>ps pr. parents ''pg_catalog'' f = Some (ps, pr) \<and> settings_allow env ps pr)))"
proof -
  have pc: "to_lowercase ''pg_catalog'' = ''pg_catalog''" by code_simp
  have cat: "on_surface env parents ''pg_catalog'' f \<longleftrightarrow> env_flag env ''MCP_ALLOW_CATALOG''
      \<or> (\<exists>ps pr. parents ''pg_catalog'' f = Some (ps, pr) \<and> settings_allow env ps pr)" for f
    by (simp add: on_surface_def settings_allow_def pc)
  have "(\<forall>(s, r) \<in> set (relations_in_plan plan). on_surface env parents s r) \<longleftrightarrow>
      (\<forall>s r. (s, r) \<in> set (relations_in_plan plan) \<longrightarrow> on_surface env parents s r)" by blast
  then show ?thesis unfolding refused_empty cat [symmetric] plan_walk_complete by blast
qed

definition demo_plan :: json where
  "demo_plan = JArr [JObj [(''Plan'', JObj [(''Node Type'', JStr ''Limit''),
     (''Plans'', JArr [JObj [(''Schema'', JStr ''app''), (''Relation Name'', JStr ''orders'')]])])]]"

definition demo_surface_env :: env where
  "demo_surface_env = (\<lambda>k. if k = ''MCP_ALLOW_SCHEMAS'' then Some ''app'' else None)"

text \<open>The plan of \<open>SELECT * FROM pg_settings\<close>.\<close>

definition settings_plan :: json where
  "settings_plan = JArr [JObj [(''Plan'', JObj [(''Node Type'', JStr ''Function Scan''),
     (''Function Name'', JStr ''pg_show_all_settings'')])]]"

theorem unrefused_plan_within_surface_witness:
  "refused demo_surface_env (relations_in_plan demo_plan) (\<lambda>s r. None) = []
   \<and> refused demo_surface_env (relations_in_plan settings_plan) (\<lambda>s r. None) \<noteq> []"
proof
  have allow: "settings_allow demo_surface_env ''app'' ''orders''" by code_simp
  then have "on_surface demo_surface_env (\<lambda>s r. None) ''app'' ''orders''" by (simp add: on_surface_def)
  then show "refused demo_surface_env (relations_in_plan demo_plan) (\<lambda>s r. None) = []"
    unfolding unrefused_plan_within_surface by (simp add: demo_plan_def get_str_def)
  have "JObj [(''Node Type'', JStr ''Function Scan''), (''Function Name'', JStr ''pg_show_all_settings'')]
      \<in> set (subvalues settings_plan)"
    by (simp add: settings_plan_def)
  moreover have "\<not> env_flag demo_surface_env ''MCP_ALLOW_CATALOG''"
    by (simp add: env_flag_def demo_surface_env_def)
  ultimately show "refused demo_surface_env (relations_in_plan settings_plan) (\<lambda>s r. None) \<noteq> []"
    unfolding unrefused_plan_within_surface by (auto simp: get_str_def prefix_def intro!: bexI)
qed

text \<open>A relation of a visible surface has a visible schema.\<close>

lemma visible_relation_schema: "relation_visible env s r \<Longrightarrow> schema_visible env s"
  by (auto simp: relation_visible_def schema_visible_def permitted_in_def Let_def list_ex_iff
      split: if_splits surface_pattern.splits)

end
