(* ===== verification/Protocol.thy ===== *)
theory Protocol
  imports Json
begin

text \<open>
  \<open>src/protocol.rs\<close>: the revisions of the protocol, negotiation, agreement of the routing headers with the
  body, and the shape of results and refusals per revision. The two places a revision is remembered (per
  request on a thread, per session in the process) are the record \<open>rev_state\<close>; \<open>RevScope\<close> restores the
  previous request value when it is dropped.
\<close>

section \<open>Revisions\<close>

datatype rev = V20250618 | V20251125 | V20260728

fun rev_rank :: "rev \<Rightarrow> nat" where
  "rev_rank V20250618 = 0" | "rev_rank V20251125 = 1" | "rev_rank V20260728 = 2"

lemma rev_rank_inject: "rev_rank a = rev_rank b \<longleftrightarrow> a = b"
  by (cases a; cases b) simp_all

instantiation rev :: linorder
begin

definition less_eq_rev :: "rev \<Rightarrow> rev \<Rightarrow> bool" where
  "less_eq_rev a b = (rev_rank a \<le> rev_rank b)"

definition less_rev :: "rev \<Rightarrow> rev \<Rightarrow> bool" where
  "less_rev a b = (rev_rank a < rev_rank b)"

instance
proof
  fix a b c :: rev
  show "a < b \<longleftrightarrow> a \<le> b \<and> \<not> b \<le> a" by (auto simp: less_eq_rev_def less_rev_def)
  show "a \<le> a" by (simp add: less_eq_rev_def)
  show "a \<le> b \<Longrightarrow> b \<le> c \<Longrightarrow> a \<le> c" by (simp add: less_eq_rev_def)
  show "a \<le> b \<Longrightarrow> b \<le> a \<Longrightarrow> a = b" by (simp add: less_eq_rev_def rev_rank_inject [symmetric])
  show "a \<le> b \<or> b \<le> a" by (auto simp: less_eq_rev_def)
qed

end

fun rev_as_str :: "rev \<Rightarrow> string" where
  "rev_as_str V20250618 = ''2025-06-18''"
| "rev_as_str V20251125 = ''2025-11-25''"
| "rev_as_str V20260728 = ''2026-07-28''"

definition rev_parse :: "string \<Rightarrow> rev option" where
  "rev_parse s =
     (let t = trim s in
      if t = ''2025-06-18'' then Some V20250618
      else if t = ''2025-11-25'' then Some V20251125
      else if t = ''2026-07-28'' then Some V20260728
      else None)"

definition rev_latest :: rev where
  "rev_latest = V20260728"

definition rev_supported :: "string list" where
  "rev_supported = [''2026-07-28'', ''2025-11-25'', ''2025-06-18'']"

definition preview_switch_still_set :: "env \<Rightarrow> bool" where
  "preview_switch_still_set env =
     (case env ''MCP_PROTOCOL_PREVIEW'' of Some v \<Rightarrow> v = ''1'' \<or> v = ''true'' \<or> v = ''yes'' | None \<Rightarrow> False)"

section \<open>Versions in requests\<close>

definition ERR_HEADER_MISMATCH :: int where
  "ERR_HEADER_MISMATCH = -32020"

definition ERR_UNSUPPORTED_PROTOCOL_VERSION :: int where
  "ERR_UNSUPPORTED_PROTOCOL_VERSION = -32022"

definition int_str :: "int \<Rightarrow> string" where
  "int_str i = (if i < 0 then CHR ''-'' # nat_str (nat (- i)) else nat_str (nat i))"

definition meta_version :: "json \<Rightarrow> string option" where
  "meta_version params =
     Option.bind (jget ''_meta'' params) (get_str ''io.modelcontextprotocol/protocolVersion'')"

definition rev_from_meta :: "json \<Rightarrow> rev option" where
  "rev_from_meta params = Option.bind (meta_version params) rev_parse"

definition unsupported_body :: "string \<Rightarrow> json" where
  "unsupported_body asked =
     jobj [(''error'', jobj [(''code'', JNum (int_str ERR_UNSUPPORTED_PROTOCOL_VERSION)),
       (''message'', JStr ''Unsupported protocol version''),
       (''data'', jobj [(''supported'', JArr (map JStr rev_supported)), (''requested'', JStr asked)])])]"

definition unsupported_version_error :: "json \<Rightarrow> json option" where
  "unsupported_version_error params =
     (case meta_version params of
        None \<Rightarrow> None
      | Some asked \<Rightarrow> if rev_parse asked \<noteq> None then None else Some (unsupported_body asked))"

definition unsupported_header_error :: "string \<Rightarrow> json" where
  "unsupported_header_error asked = unsupported_body asked"

section \<open>Results\<close>

definition cache_hint :: "string \<Rightarrow> (nat \<times> string) option" where
  "cache_hint m =
     (if m = ''tools/list'' \<or> m = ''prompts/list'' then Some (300000, ''private'')
      else if m = ''resources/list'' \<or> m = ''resources/templates/list'' \<or> m = ''resources/read''
        then Some (60000, ''private'')
      else None)"

definition decorate_object ::
  "string \<Rightarrow> string \<Rightarrow> string \<Rightarrow> (string \<times> json) list \<Rightarrow> (string \<times> json) list" where
  "decorate_object m label version kvs =
     (let k1 = bt_insert ''resultType'' (JStr ''complete'') kvs;
          k2 = (case cache_hint m of
                  Some (ttl, sc) \<Rightarrow> bt_insert ''cacheScope'' (JStr sc) (bt_insert ''ttlMs'' (JNum (nat_str ttl)) k1)
                | None \<Rightarrow> k1);
          meta = (case map_of k2 ''_meta'' of Some v \<Rightarrow> v | None \<Rightarrow> jobj []);
          info = jobj [(''name'', JStr label), (''version'', JStr version)] in
      bt_insert ''_meta'' (jinsert ''io.modelcontextprotocol/serverInfo'' info meta) k2)"

definition decorate_result :: "json \<Rightarrow> rev \<Rightarrow> string \<Rightarrow> string \<Rightarrow> string \<Rightarrow> json" where
  "decorate_result resp r m label version =
     (if r < V20260728 then resp
      else (case Option.bind (jget ''result'' resp) as_object of
              None \<Rightarrow> resp
            | Some kvs \<Rightarrow> jinsert ''result'' (JObj (decorate_object m label version kvs)) resp))"

definition is_tool_execution_error :: "int \<Rightarrow> bool" where
  "is_tool_execution_error code = (code = -32602 \<or> code = -32000 \<or> code = -32001)"

definition meta_ns :: string where
  "meta_ns = ''io.github.eszetael.postgres-mcp-hardened''"

definition shape_tool_result :: "json \<Rightarrow> rev \<Rightarrow> json" where
  "shape_tool_result resp r =
     (if r < V20251125 then resp
      else (case jget ''error'' resp of
              None \<Rightarrow> resp
            | Some err \<Rightarrow>
                (let code = (case Option.bind (jget ''code'' err) as_i64 of Some c \<Rightarrow> c | None \<Rightarrow> 0) in
                 if \<not> is_tool_execution_error code then resp
                 else (let message = (case get_str ''message'' err of Some m \<Rightarrow> m | None \<Rightarrow> ''tool call failed'') in
                       jobj [(''result'', jobj [(''isError'', JBool True),
                         (''content'', JArr [jobj [(''type'', JStr ''text''), (''text'', JStr message)]]),
                         (''_meta'', jobj [(meta_ns @ ''/errorCode'', JNum (int_str code)),
                                           (meta_ns @ ''/retriable'', JBool False)])])]))))"

section \<open>Headers\<close>

definition quote :: "string \<Rightarrow> string" where
  "quote s = CHR 0x22 # s @ [CHR 0x22]"

text \<open>The messages quote with \<open>{:?}\<close>; escapes inside the quotes are not reproduced.\<close>

definition check_header_agreement ::
  "rev \<Rightarrow> string \<Rightarrow> string option \<Rightarrow> string option \<Rightarrow> string option \<Rightarrow> (int \<times> string) + unit" where
  "check_header_agreement r body_method body_name hdr_method hdr_name =
     (let headers_absent = (hdr_method = None \<and> hdr_name = None) in
      if r < V20260728 \<and> headers_absent then Inr ()
      else if body_method = ''initialize'' \<and> headers_absent then Inr ()
      else bindR
        (case hdr_method of
           None \<Rightarrow> if r < V20260728 then Inr ()
                   else Inl (ERR_HEADER_MISMATCH, ''missing Mcp-Method header (required from 2026-07-28)'')
         | Some h \<Rightarrow> if h \<noteq> body_method
             then Inl (ERR_HEADER_MISMATCH, ''Mcp-Method header says '' @ quote h @ '' but the body calls '' @ quote body_method)
             else Inr ())
        (\<lambda>_. case body_name of
           None \<Rightarrow> Inr ()
         | Some expected \<Rightarrow>
             (case hdr_name of
                None \<Rightarrow> if r < V20260728 then Inr ()
                        else Inl (ERR_HEADER_MISMATCH, ''missing Mcp-Name header for '' @ body_method)
              | Some h \<Rightarrow> if h \<noteq> expected
                  then Inl (ERR_HEADER_MISMATCH, ''Mcp-Name header says '' @ quote h @ '' but the body targets '' @ quote expected)
                  else Inr ())))"

definition body_target_name :: "string \<Rightarrow> json \<Rightarrow> string option" where
  "body_target_name m params =
     (if m = ''tools/call'' \<or> m = ''prompts/get'' then get_str ''name'' params
      else if m = ''resources/read'' then get_str ''uri'' params
      else None)"

section \<open>The revision in force\<close>

record rev_state =
  request_rev :: "rev option"
  session_rev :: "rev option"

text \<open>\<open>set_request_rev\<close> returns the scope, which holds the previous value.\<close>

definition set_request_rev :: "rev option \<Rightarrow> rev_state \<Rightarrow> rev_state \<times> rev option" where
  "set_request_rev r s = (s\<lparr>request_rev := r\<rparr>, request_rev s)"

definition drop_rev_scope :: "rev option \<Rightarrow> rev_state \<Rightarrow> rev_state" where
  "drop_rev_scope saved s = s\<lparr>request_rev := saved\<rparr>"

definition remember_session_rev :: "rev \<Rightarrow> rev_state \<Rightarrow> rev_state" where
  "remember_session_rev r s = s\<lparr>session_rev := Some r\<rparr>"

definition current_rev :: "rev_state \<Rightarrow> rev" where
  "current_rev s =
     (case request_rev s of
        Some r \<Rightarrow> r
      | None \<Rightarrow> (case session_rev s of Some r \<Rightarrow> r | None \<Rightarrow> V20250618))"

definition negotiate_initialize :: "json \<Rightarrow> rev_state \<Rightarrow> rev_state \<times> rev" where
  "negotiate_initialize params s =
     (let chosen = (case Option.bind (get_str ''protocolVersion'' params) rev_parse of
                      Some r \<Rightarrow> r | None \<Rightarrow> rev_latest) in
      (remember_session_rev chosen s, chosen))"

section \<open>Properties\<close>

lemma rev_roundtrip: "rev_parse (rev_as_str r) = Some r"
proof -
  have "trim ''2025-06-18'' = ''2025-06-18''" "trim ''2025-11-25'' = ''2025-11-25''"
    "trim ''2026-07-28'' = ''2026-07-28''" by code_simp+
  then show ?thesis by (cases r) (simp_all add: rev_parse_def)
qed

lemma rev_as_str_inject [simp]: "rev_as_str a = rev_as_str b \<longleftrightarrow> a = b"
  by (metis rev_roundtrip option.inject)

lemma rev_supported_parses: "s \<in> set rev_supported \<longleftrightarrow> (\<exists>r. s = rev_as_str r)"
proof
  assume "s \<in> set rev_supported"
  then show "\<exists>r. s = rev_as_str r"
    by (auto simp: rev_supported_def intro: exI [of _ V20250618] exI [of _ V20251125] exI [of _ V20260728])
next
  assume "\<exists>r. s = rev_as_str r"
  then obtain r where "s = rev_as_str r" ..
  then show "s \<in> set rev_supported" by (cases r) (simp_all add: rev_supported_def)
qed

text \<open>What a gateway reads is what runs: when the headers are accepted under the newest revision, and
  the request is not a handshake without headers, the method header equals the method of the body and,
  where the body names a target, the name header equals that name. Under older revisions every header
  that is compared agrees.\<close>

theorem accepted_headers_agree:
  assumes "check_header_agreement r m n hm hn = Inr ()"
  shows "(r = V20260728 \<longrightarrow> (m = ''initialize'' \<and> hm = None \<and> hn = None) \<or> hm = Some m \<and> (n \<noteq> None \<longrightarrow> hn = n))
       \<and> (\<forall>h. hm = Some h \<longrightarrow> h = m)
       \<and> (\<forall>h x. hn = Some h \<longrightarrow> n = Some x \<longrightarrow> h = x)"
  using assms
  by (cases r) (auto simp: check_header_agreement_def less_rev_def bindR_eq_Inr Let_def
      split: if_splits option.splits)

theorem accepted_headers_agree_witness:
  "check_header_agreement V20260728 ''tools/call'' (Some ''query'') (Some ''tools/call'') (Some ''query'') = Inr ()
   \<and> Some ''query'' = Some ''query''"
proof -
  have c: "check_header_agreement V20260728 ''tools/call'' (Some ''query'') (Some ''tools/call'') (Some ''query'') = Inr ()"
    by (simp add: check_header_agreement_def less_rev_def)
  with accepted_headers_agree [OF c] show ?thesis by blast
qed

text \<open>A name header on a call whose body names no target is not compared with anything.\<close>

lemma name_header_unchecked_without_target:
  "check_header_agreement r m None (Some m) (Some anything) = Inr ()"
  by (simp add: check_header_agreement_def)

text \<open>Shaping loses no refusal: a tool failure the caller can act on becomes, from 2025-11-25 on, a
  result marked as an error with the same message and code; every other response, and every response
  under the older revision, is passed through unchanged.\<close>

theorem refusal_survives_shaping:
  "(r < V20251125 \<longrightarrow> shape_tool_result resp r = resp)
   \<and> (jget ''error'' resp = None \<longrightarrow> shape_tool_result resp r = resp)
   \<and> (\<forall>err code msg. \<not> r < V20251125 \<longrightarrow> jget ''error'' resp = Some err \<longrightarrow>
        Option.bind (jget ''code'' err) as_i64 = Some code \<longrightarrow> get_str ''message'' err = Some msg \<longrightarrow>
        (if is_tool_execution_error code
         then jget ''error'' (shape_tool_result resp r) = None
              \<and> (\<exists>res item. jget ''result'' (shape_tool_result resp r) = Some res
                   \<and> jget ''isError'' res = Some (JBool True)
                   \<and> jget ''content'' res = Some (JArr [item]) \<and> get_str ''text'' item = Some msg)
         else shape_tool_result resp r = resp))"
  by (auto simp: shape_tool_result_def get_str_def Let_def)

theorem refusal_survives_shaping_witness:
  "jget ''error'' (shape_tool_result (jobj [(''error'', jobj [(''code'', JNum ''-32000''), (''message'', JStr ''no'')])]) V20260728)
   = None"
proof -
  have "parse_i64 ''-32000'' = Some (- 32000)"
    by (simp add: parse_i64_def parse_unsigned_def i64_max_def is_ascii_digit_def digit_val_def)
  then show ?thesis
    using refusal_survives_shaping [of V20260728 "jobj [(''error'', jobj [(''code'', JNum ''-32000''), (''message'', JStr ''no'')])]"]
    by (simp add: less_rev_def get_str_def is_tool_execution_error_def)
qed

text \<open>A request's revision cannot leak: whatever a request sets is what is in force during it, and
  dropping its scope gives back the value before it, so a thread that served one client serves the next
  under that client's own revision.\<close>

theorem request_rev_scoped:
  "set_request_rev r s = (s', saved) \<Longrightarrow>
     (\<forall>x. r = Some x \<longrightarrow> current_rev s' = x)
     \<and> drop_rev_scope saved (remember_session_rev y s') = s\<lparr>session_rev := Some y\<rparr>
     \<and> drop_rev_scope saved s' = s"
  by (auto simp: set_request_rev_def drop_rev_scope_def remember_session_rev_def current_rev_def)

theorem request_rev_scoped_witness:
  "drop_rev_scope None (\<lparr>request_rev = Some V20251125, session_rev = None\<rparr>) = \<lparr>request_rev = None, session_rev = None\<rparr>"
  using request_rev_scoped [of "Some V20251125" "\<lparr>request_rev = None, session_rev = None\<rparr>"
      "\<lparr>request_rev = Some V20251125, session_rev = None\<rparr>" None V20250618]
  by (simp add: set_request_rev_def)

text \<open>Negotiation answers with a revision that is implemented, the client's own where it is.\<close>

lemma negotiate_answers:
  "negotiate_initialize params s = (s', r) \<Longrightarrow>
   session_rev s' = Some r \<and> rev_as_str r \<in> set rev_supported
   \<and> (\<forall>x. get_str ''protocolVersion'' params = Some (rev_as_str x) \<longrightarrow> r = x)"
  using rev_supported_parses [of "rev_as_str r"]
  by (auto simp: negotiate_initialize_def remember_session_rev_def rev_roundtrip Let_def)

lemma decorate_keeps_errors: "jget ''result'' resp = None \<Longrightarrow> decorate_result resp r m l v = resp"
  by (simp add: decorate_result_def)

end
