(* ===== verification/Http.thy ===== *)
theory Http
  imports Audit_Log Protocol
begin

text \<open>
  \<open>src/http.rs\<close>: the origin and host check, the metrics endpoint, the probes and the discovery documents.
  A header map is a function from lower-case names to the texts of readable headers.
\<close>

section \<open>Responses\<close>

datatype http_body = BodyText string | BodyJson json | BodyEmpty

record http_response =
  hr_status :: nat
  hr_headers :: "(string \<times> string) list"
  hr_body :: http_body

section \<open>Origin and host\<close>

definition csv_trimmed :: "string \<Rightarrow> string list" where
  "csv_trimmed v = filter (\<lambda>s. s \<noteq> []) (map trim (split_char CHR '','' v))"

definition loopback_names :: "string list" where
  "loopback_names = [''localhost'', ''127.0.0.1'', ''[::1]'', ''::1'']"

definition origin_is_loopback :: "string \<Rightarrow> bool" where
  "origin_is_loopback origin =
     (let rest = (case strip_prefix origin ''http://'' of
                    Some r \<Rightarrow> r
                  | None \<Rightarrow> (case strip_prefix origin ''https://'' of Some r \<Rightarrow> r | None \<Rightarrow> []));
          host = trim_end_char CHR ''/'' rest;
          bare = (case rsplit_once_char CHR '':'' host of
                    Some (h, port) \<Rightarrow> if h \<noteq> [] \<and> list_all is_ascii_digit port then h else host
                  | None \<Rightarrow> host) in
      List.member loopback_names bare)"

definition listens_on_loopback :: "string \<Rightarrow> bool" where
  "listens_on_loopback listen =
     (starts_with listen ''127.'' \<or> starts_with listen ''[::1]'' \<or> starts_with listen ''localhost'')"

datatype origin_error = Origin_Refused string | Host_Refused string

definition origin_ok :: "env \<Rightarrow> string \<Rightarrow> string \<Rightarrow> bool" where
  "origin_ok env listen origin =
     (list_ex (\<lambda>a. eq_ignore_ascii_case a (trim_end_char CHR ''/'' origin))
        (csv_trimmed (env_or env ''MCP_ALLOWED_ORIGINS'' []))
      \<or> listens_on_loopback listen \<and> origin_is_loopback origin)"

definition host_ok :: "env \<Rightarrow> string \<Rightarrow> bool" where
  "host_ok env host =
     (let bare = hd (split_char CHR '':'' host) in
      List.member loopback_names bare
      \<or> list_ex (\<lambda>a. eq_ignore_ascii_case a bare) (csv_trimmed (env_or env ''MCP_ALLOWED_HOSTS'' [])))"

definition check_origin :: "env \<Rightarrow> headers \<Rightarrow> string \<Rightarrow> origin_error + unit" where
  "check_origin env hs listen =
     bindR
       (case hs ''origin'' of
          Some origin \<Rightarrow> if \<not> origin_ok env listen origin then Inl (Origin_Refused origin) else Inr ()
        | None \<Rightarrow> Inr ())
       (\<lambda>_.
          if listens_on_loopback listen then
            (case hs ''host'' of
               Some host \<Rightarrow> if \<not> host_ok env host then Inl (Host_Refused host) else Inr ()
             | None \<Rightarrow> Inr ())
          else Inr ())"

section \<open>Metrics\<close>

record metrics =
  m_requests :: nat
  m_query_allowed :: nat
  m_denied_validation :: nat
  m_denied_cost :: nat
  m_denied_auth :: nat
  m_denied_rate :: nat
  m_denied_origin :: nat
  m_audit_write_failed :: nat
  m_errors :: nat

definition metric_lines :: "string \<Rightarrow> nat \<Rightarrow> string" where
  "metric_lines name v =
     ''# HELP '' @ name @ '' Total count'' @ [newline] @ ''# TYPE '' @ name @ '' counter'' @ [newline] @
     name @ '' '' @ nat_str v @ [newline]"

definition render_metrics :: "metrics \<Rightarrow> string" where
  "render_metrics m =
     metric_lines ''mcp_requests_total'' (m_requests m) @
     metric_lines ''mcp_query_allowed_total'' (m_query_allowed m) @
     metric_lines ''mcp_denied_validation_total'' (m_denied_validation m) @
     metric_lines ''mcp_denied_cost_total'' (m_denied_cost m) @
     metric_lines ''mcp_denied_auth_total'' (m_denied_auth m) @
     metric_lines ''mcp_denied_rate_total'' (m_denied_rate m) @
     metric_lines ''mcp_denied_origin_total'' (m_denied_origin m) @
     metric_lines ''mcp_audit_write_failed_total'' (m_audit_write_failed m) @
     metric_lines ''mcp_errors_total'' (m_errors m)"

definition nonempty_env :: "env \<Rightarrow> string \<Rightarrow> string option" where
  "nonempty_env env k = (case env k of Some t \<Rightarrow> if t \<noteq> [] then Some t else None | None \<Rightarrow> None)"

definition metrics_token :: "env \<Rightarrow> auth_config option \<Rightarrow> string option" where
  "metrics_token env config =
     (case nonempty_env env ''MCP_METRICS_TOKEN'' of
        Some t \<Rightarrow> Some t
      | None \<Rightarrow> if config \<noteq> None then None else nonempty_env env ''MCP_BEARER_TOKEN'')"

definition metrics_deny :: "string \<Rightarrow> http_response" where
  "metrics_deny msg =
     \<lparr>hr_status = 401, hr_headers = [(''content-type'', ''text/plain'')], hr_body = BodyText (msg @ [newline])\<rparr>"

definition metrics_handler ::
  "auth_libs \<Rightarrow> env \<Rightarrow> auth_config option \<Rightarrow> metrics \<Rightarrow> headers \<Rightarrow> http_response" where
  "metrics_handler L env config m hs =
     (let ok = \<lparr>hr_status = 200, hr_headers = [(''content-type'', ''text/plain; version=0.0.4'')],
                hr_body = BodyText (render_metrics m)\<rparr> in
      case metrics_token env config of
        Some expected \<Rightarrow>
          (let given = (case Option.bind (hs ''authorization'') bearer_token of Some t \<Rightarrow> t | None \<Rightarrow> []) in
           if \<not> secret_eq (al_hmac L) given expected then metrics_deny ''unauthorized'' else ok)
      | None \<Rightarrow>
          if config \<noteq> None then metrics_deny (''unauthorized: this server requires authentication, so /metrics is closed ''
            @ [CHR 0xE2, CHR 0x80, CHR 0x94] @ '' set MCP_METRICS_TOKEN to a token your scraper can present'')
          else ok)"

section \<open>Probes and discovery\<close>

definition health_handler :: http_response where
  "health_handler = \<lparr>hr_status = 200, hr_headers = [], hr_body = BodyText ''ok''\<rparr>"

text \<open>The outcome of the database check on the blocking thread: the task may have failed, the pool may
  have none to give within a second.\<close>

datatype ready_check = Pool_Ok | Pool_Failed | Task_Failed

definition ready_handler :: "ready_check \<Rightarrow> http_response" where
  "ready_handler c =
     (case c of
        Pool_Ok \<Rightarrow> \<lparr>hr_status = 200, hr_headers = [], hr_body = BodyText ''ready''\<rparr>
      | Pool_Failed \<Rightarrow> \<lparr>hr_status = 503, hr_headers = [], hr_body = BodyText ''db unavailable''\<rparr>
      | Task_Failed \<Rightarrow> \<lparr>hr_status = 503, hr_headers = [], hr_body = BodyText ''internal error''\<rparr>)"

definition oauth_protected_resource_handler :: "env \<Rightarrow> json" where
  "oauth_protected_resource_handler env =
     jobj [(''resource'', JStr (trim_end_char CHR ''/'' (env_or env ''MCP_PUBLIC_URL'' []))),
           (''authorization_servers'', JArr (map JStr (csv_trimmed (env_or env ''MCP_AUTH_SERVERS'' [])))),
           (''scopes_supported'', JArr [JStr ''mcp:query'']),
           (''bearer_methods_supported'', JArr [JStr ''header''])]"

definition nonblank_env :: "env \<Rightarrow> string \<Rightarrow> bool" where
  "nonblank_env env k = (case env k of Some v \<Rightarrow> trim v \<noteq> [] | None \<Rightarrow> False)"

text \<open>The fields of the server card that depend on the configuration; \<open>platform\<close> is
  \<open>platform_authenticates\<close>.\<close>

definition card_authentication :: "env \<Rightarrow> bool \<Rightarrow> json" where
  "card_authentication env platform =
     jobj [(''required'', JBool (nonblank_env env ''JWT_PUBKEY_PEM'' \<or> nonblank_env env ''MCP_BEARER_TOKEN'' \<or> platform)),
           (''type'', JStr (if nonblank_env env ''JWT_PUBKEY_PEM'' then ''oauth2.1''
              else if nonblank_env env ''MCP_BEARER_TOKEN'' then ''bearer''
              else if platform then ''apify-platform'' else ''none'')),
           (''protectedResourceMetadata'', JStr ''/.well-known/oauth-protected-resource'')]"

section \<open>Properties\<close>

lemma trim_end_char_slashes: "\<exists>tail. s = trim_end_char d s @ tail \<and> set tail \<subseteq> {d}"
proof (intro exI conjI)
  show "s = trim_end_char d s @ rev (takeWhile (\<lambda>c. c = d) (rev s))"
    unfolding trim_end_char_def by (metis rev_append rev_rev_ident takeWhile_dropWhile_id)
  show "set (rev (takeWhile (\<lambda>c. c = d) (rev s))) \<subseteq> {d}" by (auto dest: set_takeWhileD)
qed

lemma split_once_char_parts: "split_once_char d s = Some (a, b) \<Longrightarrow> s = a @ d # b"
  by (induction s arbitrary: a) (auto simp: split_once_char_def split: if_splits list.splits)

lemma rsplit_once_char_parts:
  assumes "rsplit_once_char d s = Some (a, b)"
  shows "s = a @ d # b"
proof -
  from assms have "split_once_char d (rev s) = Some (rev b, rev a)"
    by (auto simp: rsplit_once_char_def split: option.splits)
  from split_once_char_parts [OF this] have "rev (rev s) = rev (rev b @ d # rev a)" by (rule arg_cong)
  then show ?thesis by simp
qed

lemma strip_prefix_parts: "strip_prefix s p = Some r \<Longrightarrow> s = p @ r"
  by (auto simp: strip_prefix_def prefix_def split: if_splits)

lemma first_piece: "\<exists>rest. s = hd (split_char d s) @ rest \<and> (rest = [] \<or> hd rest = d) \<and> d \<notin> set (hd (split_char d s))"
proof (induction s)
  case (Cons c s)
  then obtain rest where "s = hd (split_char d s) @ rest" "rest = [] \<or> hd rest = d" "d \<notin> set (hd (split_char d s))"
    by blast
  then show ?case by (cases "c = d") (auto simp: split_char_def)
qed (simp add: split_char_def)

text \<open>A loopback origin is a scheme, one of the four names, perhaps a port, and slashes: nothing else.\<close>

definition loopback_shape :: "string \<Rightarrow> bool" where
  "loopback_shape origin \<longleftrightarrow>
     (\<exists>scheme \<in> {''http://'', ''https://''}. \<exists>name \<in> {''localhost'', ''127.0.0.1'', ''[::1]'', ''::1''}. \<exists>port slashes.
        origin = scheme @ name @ port @ slashes
        \<and> (port = [] \<or> (\<exists>digits. port = CHR '':'' # digits \<and> list_all is_ascii_digit digits))
        \<and> set slashes \<subseteq> {CHR ''/''})"

lemma loopback_origin_shape: "origin_is_loopback origin \<Longrightarrow> loopback_shape origin"
proof -
  assume l: "origin_is_loopback origin"
  define host where "host rest = trim_end_char CHR ''/'' rest" for rest
  define bare where "bare h = (case rsplit_once_char CHR '':'' h of
      Some (n, port) \<Rightarrow> if n \<noteq> [] \<and> list_all is_ascii_digit port then n else h | None \<Rightarrow> h)" for h
  have "bare (host []) \<notin> set loopback_names" by (simp add: bare_def host_def) code_simp
  moreover define rest where "rest = (case strip_prefix origin ''http://'' of Some r \<Rightarrow> r
      | None \<Rightarrow> (case strip_prefix origin ''https://'' of Some r \<Rightarrow> r | None \<Rightarrow> []))"
  have b: "bare (host rest) \<in> set loopback_names"
    using l by (simp add: origin_is_loopback_def Let_def host_def bare_def rest_def)
  ultimately have "rest \<noteq> []" by metis
  then obtain scheme where sch: "scheme \<in> {''http://'', ''https://''}" and o': "origin = scheme @ rest"
    by (auto simp: rest_def dest: strip_prefix_parts split: option.splits)
  obtain slashes where s: "rest = host rest @ slashes" "set slashes \<subseteq> {CHR ''/''}"
    using trim_end_char_slashes [of rest "CHR ''/''"] by (auto simp: host_def)
  have "\<exists>port. host rest = bare (host rest) @ port
      \<and> (port = [] \<or> (\<exists>digits. port = CHR '':'' # digits \<and> list_all is_ascii_digit digits))"
    using rsplit_once_char_parts [of "CHR '':''" "host rest"]
    by (auto simp: bare_def split: option.splits)
  then obtain port where p: "host rest = bare (host rest) @ port"
    "port = [] \<or> (\<exists>digits. port = CHR '':'' # digits \<and> list_all is_ascii_digit digits)" by blast
  have "bare (host rest) \<in> {''localhost'', ''127.0.0.1'', ''[::1]'', ''::1''}" using b by (simp add: loopback_names_def)
  moreover have "origin = scheme @ bare (host rest) @ port @ slashes" using o' s(1) p(1) by (metis append.assoc)
  ultimately show ?thesis using sch s(2) p(2) unfolding loopback_shape_def by blast
qed

text \<open>C34: A page in a browser cannot reach a loopback server: whatever passes the check carries no origin,
  an origin that is listed exactly (but for case and slashes at its end), or, on a loopback server only,
  one that is an http scheme, one of the four names of this machine and perhaps a port, with nothing
  before, between or after, so that no origin that merely contains such a name passes unlisted. Its host
  header, on a loopback server, is up to its first colon \<open>localhost\<close>, \<open>127.0.0.1\<close> or a listed name.\<close>

theorem origin_check_sound:
  assumes "check_origin env hs listen = Inr ()"
  shows "(\<forall>origin. hs ''origin'' = Some origin \<longrightarrow>
            (\<exists>a \<in> set (csv_trimmed (env_or env ''MCP_ALLOWED_ORIGINS'' [])). \<exists>slashes.
               to_ascii_lowercase origin = to_ascii_lowercase (a @ slashes) \<and> set slashes \<subseteq> {CHR ''/''})
            \<or> listens_on_loopback listen \<and> loopback_shape origin)
       \<and> (listens_on_loopback listen \<longrightarrow> (\<forall>host. hs ''host'' = Some host \<longrightarrow>
            (\<exists>name rest. host = name @ rest \<and> CHR '':'' \<notin> set name \<and> (rest = [] \<or> hd rest = CHR '':'')
               \<and> (name = ''localhost'' \<or> name = ''127.0.0.1''
                  \<or> (\<exists>a \<in> set (csv_trimmed (env_or env ''MCP_ALLOWED_HOSTS'' [])).
                       to_ascii_lowercase a = to_ascii_lowercase name)))))"
proof (intro conjI allI impI)
  fix origin
  assume o': "hs ''origin'' = Some origin"
  obtain slashes where s: "origin = trim_end_char CHR ''/'' origin @ slashes" "set slashes \<subseteq> {CHR ''/''}"
    using trim_end_char_slashes by blast
  have "origin_ok env listen origin"
    using assms o' by (auto simp: check_origin_def bindR_eq_Inr split: if_splits)
  then have "(\<exists>a \<in> set (csv_trimmed (env_or env ''MCP_ALLOWED_ORIGINS'' [])).
        to_ascii_lowercase a = to_ascii_lowercase (trim_end_char CHR ''/'' origin))
      \<or> listens_on_loopback listen \<and> loopback_shape origin"
    using loopback_origin_shape by (auto simp: origin_ok_def list_ex_iff eq_ignore_ascii_case_def)
  moreover have "to_ascii_lowercase origin = to_ascii_lowercase (a @ slashes)"
    if "to_ascii_lowercase a = to_ascii_lowercase (trim_end_char CHR ''/'' origin)" for a
    using that by (subst s(1)) (simp add: to_ascii_lowercase_def)
  ultimately show "(\<exists>a \<in> set (csv_trimmed (env_or env ''MCP_ALLOWED_ORIGINS'' [])). \<exists>slashes.
        to_ascii_lowercase origin = to_ascii_lowercase (a @ slashes) \<and> set slashes \<subseteq> {CHR ''/''})
      \<or> listens_on_loopback listen \<and> loopback_shape origin"
    using s(2) by blast
next
  fix host
  assume l: "listens_on_loopback listen" and h: "hs ''host'' = Some host"
  let ?name = "hd (split_char CHR '':'' host)"
  have "host_ok env host" using assms l h by (auto simp: check_origin_def bindR_eq_Inr split: if_splits)
  then have ok: "?name \<in> set loopback_names \<or> (\<exists>a \<in> set (csv_trimmed (env_or env ''MCP_ALLOWED_HOSTS'' [])).
      to_ascii_lowercase a = to_ascii_lowercase ?name)"
    by (simp add: host_ok_def Let_def list_ex_iff eq_ignore_ascii_case_def)
  obtain rest where r: "host = ?name @ rest" "rest = [] \<or> hd rest = CHR '':''" "CHR '':'' \<notin> set ?name"
    using first_piece by blast
  have "?name = ''localhost'' \<or> ?name = ''127.0.0.1'' \<or> ?name \<notin> set loopback_names"
    using r(3) by (auto simp: loopback_names_def)
  with ok r show "\<exists>name rest. host = name @ rest \<and> CHR '':'' \<notin> set name \<and> (rest = [] \<or> hd rest = CHR '':'')
      \<and> (name = ''localhost'' \<or> name = ''127.0.0.1''
         \<or> (\<exists>a \<in> set (csv_trimmed (env_or env ''MCP_ALLOWED_HOSTS'' [])).
              to_ascii_lowercase a = to_ascii_lowercase name))"
    by blast
qed

theorem origin_check_sound_witness:
  "check_origin (\<lambda>k. None) ((\<lambda>k. None)(''origin'' := Some ''http://localhost:3000'')) ''127.0.0.1:8080'' = Inr ()
   \<and> loopback_shape ''http://localhost:3000''"
proof -
  have o': "origin_is_loopback ''http://localhost:3000''" "listens_on_loopback ''127.0.0.1:8080''" by code_simp+
  have c: "check_origin (\<lambda>k. None) ((\<lambda>k. None)(''origin'' := Some ''http://localhost:3000'')) ''127.0.0.1:8080'' = Inr ()"
    by (simp add: check_origin_def origin_ok_def o')
  have "csv_trimmed (env_or (\<lambda>k. None) ''MCP_ALLOWED_ORIGINS'' []) = []" by code_simp
  with origin_check_sound [OF c] c show ?thesis by auto
qed

lemma lookalike_origin_refused:
  "\<not> origin_is_loopback ''https://evil-localhost.com''" "\<not> origin_is_loopback ''http://localhost.evil.com''"
  "\<not> origin_is_loopback ''http://evil.com/localhost''"
  by code_simp+

text \<open>A host header with a bracketed IPv6 address is cut at its first colon, so a client that addresses the
  loopback server by \<open>[::1]:8080\<close> is refused although the code lists that name.\<close>

lemma ipv6_loopback_host_refused:
  "check_origin (\<lambda>k. None) ((\<lambda>k. None)(''host'' := Some ''[::1]:8080'')) ''[::1]:8080'' = Inl (Host_Refused ''[::1]:8080'')"
proof -
  have "\<not> host_ok (\<lambda>k. None) ''[::1]:8080''" "listens_on_loopback ''[::1]:8080''" by code_simp+
  then show ?thesis by (simp add: check_origin_def)
qed

text \<open>The metrics are no weaker than the server: with OAuth configured they are served only against the
  metrics token, with a shared token only against that token or the metrics token, and they are open only
  when the server itself requires no credential.\<close>

theorem metrics_follow_authentication:
  assumes "hr_status (metrics_handler L env config m hs) = 200"
  shows "(\<exists>expected. metrics_token env config = Some expected
            \<and> al_hmac L (case Option.bind (hs ''authorization'') bearer_token of Some t \<Rightarrow> t | None \<Rightarrow> [])
              = al_hmac L expected)
       \<or> (config = None \<and> nonempty_env env ''MCP_METRICS_TOKEN'' = None \<and> nonempty_env env ''MCP_BEARER_TOKEN'' = None)"
  using assms
  by (auto simp: metrics_handler_def metrics_deny_def metrics_token_def Let_def secret_eq_iff
      split: option.splits if_splits)

definition demo_metrics :: metrics where
  "demo_metrics = \<lparr>m_requests = 0, m_query_allowed = 0, m_denied_validation = 0, m_denied_cost = 0,
     m_denied_auth = 0, m_denied_rate = 0, m_denied_origin = 0, m_audit_write_failed = 0, m_errors = 0\<rparr>"

theorem metrics_follow_authentication_witness:
  "hr_status (metrics_handler demo_auth_libs (\<lambda>k. None) None demo_metrics demo_headers) = 200
   \<and> nonempty_env (\<lambda>k. None) ''MCP_BEARER_TOKEN'' = None"
proof -
  have s: "hr_status (metrics_handler demo_auth_libs (\<lambda>k. None) None demo_metrics demo_headers) = 200"
    by (simp add: metrics_handler_def metrics_token_def nonempty_env_def)
  have "metrics_token (\<lambda>k. None) None = None" by (simp add: metrics_token_def nonempty_env_def)
  with metrics_follow_authentication [OF s] s show ?thesis by auto
qed

end
