(* ===== verification/Ratelimit.thy ===== *)
theory Ratelimit
  imports Json "HOL-Library.Multiset"
begin

text \<open>
  \<open>src/ratelimit.rs\<close>: the token bucket per client, the bounded table of buckets, the in-flight
  slots and the client key.

  The hash map of buckets is an association list with distinct keys, in the order an iteration
  would visit it; the clock reading \<open>now\<close> is an argument (seconds since start, a rational). The
  configured limits are floats as parsed, NaN included. Locks are not modelled here: every
  operation holds the mutex for its whole body, so operations are steps.
\<close>

section \<open>The bucket\<close>

definition MAX_KEYS :: nat where
  "MAX_KEYS = 20000"

definition IDLE_SECS :: rat where
  "IDLE_SECS = 600"

record bucket =
  bk_tokens :: f64
  bk_last :: rat

definition take_token :: "bucket \<Rightarrow> rat \<Rightarrow> f64 \<Rightarrow> f64 \<Rightarrow> bucket \<times> bool" where
  "take_token b now rate_per_s cap =
     (let elapsed = max (now - bk_last b) 0;
          tokens = f64_min (f64_add (bk_tokens b) (f64_mul (Fin elapsed) rate_per_s)) cap in
      if f64_le (Fin 1) tokens
      then (\<lparr>bk_tokens = f64_sub tokens (Fin 1), bk_last = now\<rparr>, True)
      else (\<lparr>bk_tokens = tokens, bk_last = now\<rparr>, False))"

section \<open>The table\<close>

definition parse_env_f64 :: "env \<Rightarrow> string \<Rightarrow> f64 option" where
  "parse_env_f64 env k = Option.bind (env k) parse_f64"

definition rpm :: "env \<Rightarrow> f64" where
  "rpm env = (case parse_env_f64 env ''MCP_RATE_RPM'' of Some v \<Rightarrow> v | None \<Rightarrow> Fin 120)"

definition burst :: "env \<Rightarrow> f64 \<Rightarrow> f64" where
  "burst env r = (case parse_env_f64 env ''MCP_RATE_BURST'' of
                    Some v \<Rightarrow> v | None \<Rightarrow> f64_max (f64_div r 4) (Fin 5))"

type_synonym buckets = "(string \<times> bucket) list"

definition remove_keys :: "string list \<Rightarrow> buckets \<Rightarrow> buckets" where
  "remove_keys ks bs = filter (\<lambda>(k, b). \<not> List.member ks k) bs"

definition oldest_keys :: "buckets \<Rightarrow> string list" where
  "oldest_keys bs = map fst (take (MAX_KEYS div 4) (sort_key (\<lambda>(k, b). bk_last b) bs))"

definition make_room :: "rat \<Rightarrow> buckets \<Rightarrow> buckets" where
  "make_room now bs =
     (if length bs < MAX_KEYS then bs
      else (let fresh = filter (\<lambda>(k, b). now - bk_last b < IDLE_SECS) bs in
            if length fresh < MAX_KEYS then fresh else remove_keys (oldest_keys fresh) fresh))"

definition transport_rpm :: "env \<Rightarrow> string \<Rightarrow> f64" where
  "transport_rpm env transport =
     (if transport = ''stdio'' then
        (case parse_env_f64 env ''MCP_RATE_RPM_STDIO'' of Some v \<Rightarrow> v | None \<Rightarrow> Fin 600)
      else rpm env)"

definition allow_for :: "env \<Rightarrow> string \<Rightarrow> string \<Rightarrow> rat \<Rightarrow> buckets \<Rightarrow> buckets \<times> bool" where
  "allow_for env key transport now bs =
     (let r = transport_rpm env transport in
      if f64_le r (Fin 0) then (bs, True)
      else (let cap = burst env r; rate = f64_div r 60;
                bs1 = make_room now bs;
                b = (case map_of bs1 key of Some b \<Rightarrow> b | None \<Rightarrow> \<lparr>bk_tokens = cap, bk_last = now\<rparr>) in
            case take_token b now rate cap of
              (b', ok) \<Rightarrow> (AList.update key b' bs1, ok)))"

definition allow :: "env \<Rightarrow> string \<Rightarrow> rat \<Rightarrow> buckets \<Rightarrow> buckets \<times> bool" where
  "allow env key now bs = allow_for env key ''http'' now bs"

section \<open>In-flight slots\<close>

type_synonym slots = "string \<Rightarrow> nat option"
type_synonym slot_guard = string

definition u32_max :: nat where
  "u32_max = 4294967295"

definition max_in_flight :: "env \<Rightarrow> nat" where
  "max_in_flight env =
     (case Option.bind (env ''MCP_MAX_INFLIGHT_PER_CLIENT'') parse_u32 of Some n \<Rightarrow> n | None \<Rightarrow> 4)"

definition acquire_slot_capped :: "string \<Rightarrow> nat \<Rightarrow> slots \<Rightarrow> slots \<times> slot_guard option" where
  "acquire_slot_capped key cap0 m =
     (if cap0 = 0 then (m, Some [])
      else (let cap = max cap0 1;
                n = (case m key of Some n \<Rightarrow> n | None \<Rightarrow> 0) in
            if cap \<le> n then (m(key \<mapsto> n), None)
            else (m(key \<mapsto> n + 1), Some key)))"

definition drop_slot :: "slot_guard \<Rightarrow> slots \<Rightarrow> slots" where
  "drop_slot g m =
     (case m g of
        None \<Rightarrow> m
      | Some n \<Rightarrow> if saturating_sub n 1 = 0 then m(g := None) else m(g \<mapsto> saturating_sub n 1))"

section \<open>The client key\<close>

definition client_key_with :: "string \<Rightarrow> string option \<Rightarrow> bool \<Rightarrow> string" where
  "client_key_with peer xff trust =
     (if trust then
        (case xff of
           Some v \<Rightarrow> (let l = trim (last (split_char CHR '','' v)) in if l \<noteq> [] then l else peer)
         | None \<Rightarrow> peer)
      else peer)"

definition client_key :: "env \<Rightarrow> string \<Rightarrow> string option \<Rightarrow> string" where
  "client_key env peer xff = client_key_with peer xff (env_flag env ''MCP_TRUST_PROXY'')"

section \<open>The rate: an interface and its bound\<close>

text \<open>
  What a token bucket promises, over an abstract state: the level is never negative nor above the
  capacity; a request at time \<open>now\<close> is admitted only against a token, and the level grows by at most
  the rate times the time passed.
\<close>

locale token_bucket =
  fixes serve :: "'b \<Rightarrow> rat \<Rightarrow> 'b \<times> bool"
    and level :: "'b \<Rightarrow> rat"
    and stamp :: "'b \<Rightarrow> rat"
    and ok :: "'b \<Rightarrow> bool"
    and rate :: rat
    and capacity :: rat
  assumes rate_nonneg: "0 \<le> rate"
    and ok_level: "ok b \<Longrightarrow> 0 \<le> level b \<and> level b \<le> capacity"
    and serve_ok: "ok b \<Longrightarrow> ok (fst (serve b now))"
    and serve_at: "stamp (fst (serve b now)) = now"
    and serve_level: "ok b \<Longrightarrow> stamp b \<le> now \<Longrightarrow>
      level (fst (serve b now)) + (if snd (serve b now) then 1 else 0) \<le> level b + rate * (now - stamp b)"
    and serve_admits: "ok b \<Longrightarrow> stamp b \<le> now \<Longrightarrow>
      1 \<le> min (level b + rate * (now - stamp b)) capacity \<Longrightarrow> snd (serve b now)"
begin

fun admitted :: "'b \<Rightarrow> rat list \<Rightarrow> nat" where
  "admitted b [] = 0"
| "admitted b (t # ts) = (if snd (serve b t) then 1 else 0) + admitted (fst (serve b t)) ts"

lemma admitted_bound:
  "ok b \<Longrightarrow> sorted (stamp b # ts) \<Longrightarrow> of_nat (admitted b ts) \<le> level b + rate * (last (stamp b # ts) - stamp b)"
proof (induction ts arbitrary: b)
  case Nil
  then show ?case using ok_level by simp
next
  case (Cons t ts)
  let ?b = "fst (serve b t)"
  have le: "stamp b \<le> t" using Cons.prems(2) by simp
  have "of_nat (admitted ?b ts) \<le> level ?b + rate * (last (t # ts) - t)"
    using Cons.IH [of ?b] Cons.prems serve_ok serve_at by simp
  moreover have "level ?b + (if snd (serve b t) then 1 else 0) \<le> level b + rate * (t - stamp b)"
    using serve_level [OF Cons.prems(1) le] .
  moreover have "rate * (last (t # ts) - t) + rate * (t - stamp b) = rate * (last (t # ts) - stamp b)"
    by (simp add: algebra_simps)
  ultimately show ?case by (auto split: if_splits)
qed

text \<open>In any window the number of admitted requests is at most the capacity plus the rate times
  the length of the window.\<close>

lemma window_bound:
  "ok b \<Longrightarrow> sorted (stamp b # ts) \<Longrightarrow> of_nat (admitted b ts) \<le> capacity + rate * (last (stamp b # ts) - stamp b)"
  using admitted_bound [of b ts] ok_level [of b] by simp

end

definition finite_bucket :: "rat \<Rightarrow> bucket \<Rightarrow> bool" where
  "finite_bucket cap b \<longleftrightarrow> (\<exists>x. bk_tokens b = Fin x \<and> 0 \<le> x \<and> x \<le> cap)"

definition bucket_level :: "bucket \<Rightarrow> rat" where
  "bucket_level b = (case bk_tokens b of Fin x \<Rightarrow> x | _ \<Rightarrow> 0)"

lemma take_token_fin:
  "take_token \<lparr>bk_tokens = Fin x, bk_last = l\<rparr> now (Fin r) (Fin c) =
     (let t = min (x + max (now - l) 0 * r) c in
      if 1 \<le> t then (\<lparr>bk_tokens = Fin (t - 1), bk_last = now\<rparr>, True)
      else (\<lparr>bk_tokens = Fin t, bk_last = now\<rparr>, False))"
  by (simp add: take_token_def Let_def)

lemma token_bucket_take:
  assumes "0 \<le> r" and "0 \<le> c"
  shows "token_bucket (\<lambda>b now. take_token b now (Fin r) (Fin c)) bucket_level bk_last (finite_bucket c) r c"
proof
  fix b now
  show "0 \<le> r" by fact
  show "bk_last (fst (take_token b now (Fin r) (Fin c))) = now"
    by (simp add: take_token_def Let_def)
  assume "finite_bucket c b"
  then obtain x where tk: "bk_tokens b = Fin x" and x: "0 \<le> x" "x \<le> c"
    by (auto simp: finite_bucket_def)
  then have b: "b = \<lparr>bk_tokens = Fin x, bk_last = bk_last b\<rparr>" by simp
  show "0 \<le> bucket_level b \<and> bucket_level b \<le> c"
    using x by (simp add: bucket_level_def tk)
  define t where "t = min (x + max (now - bk_last b) 0 * r) c"
  have t0: "0 \<le> t" "t \<le> c" using x assms by (simp_all add: t_def)
  have st: "take_token b now (Fin r) (Fin c) =
      (if 1 \<le> t then (\<lparr>bk_tokens = Fin (t - 1), bk_last = now\<rparr>, True)
       else (\<lparr>bk_tokens = Fin t, bk_last = now\<rparr>, False))"
    unfolding t_def by (subst b) (simp only: take_token_fin Let_def)
  show "finite_bucket c (fst (take_token b now (Fin r) (Fin c)))"
    using t0 by (simp add: st finite_bucket_def)
  have lv: "bucket_level b = x" by (simp add: bucket_level_def tk)
  assume le: "bk_last b \<le> now"
  then have m: "t = min (x + r * (now - bk_last b)) c" by (simp add: t_def mult.commute)
  show "bucket_level (fst (take_token b now (Fin r) (Fin c)))
      + (if snd (take_token b now (Fin r) (Fin c)) then 1 else 0)
      \<le> bucket_level b + r * (now - bk_last b)"
    unfolding st lv m by (simp add: bucket_level_def)
  assume "1 \<le> min (bucket_level b + r * (now - bk_last b)) c"
  then show "snd (take_token b now (Fin r) (Fin c))"
    unfolding st lv m by simp
qed

text \<open>The rates and capacities that are not negative, as the parameters of the interpretation.\<close>

interpretation bucket: token_bucket
  "\<lambda>b now. take_token b now (Fin (max r 0)) (Fin (max c 0))" bucket_level bk_last
  "finite_bucket (max c 0)" "max r 0" "max c 0" for r c
  by (rule token_bucket_take) simp_all

fun admitted_count :: "f64 \<Rightarrow> f64 \<Rightarrow> bucket \<Rightarrow> rat list \<Rightarrow> nat" where
  "admitted_count r c b [] = 0"
| "admitted_count r c b (t # ts) =
     (if snd (take_token b t r c) then 1 else 0) + admitted_count r c (fst (take_token b t r c)) ts"

lemma admitted_count_bucket:
  "admitted_count (Fin (max r 0)) (Fin (max c 0)) b ts = bucket.admitted r c b ts"
  by (induction ts arbitrary: b) simp_all

text \<open>C27: The rate limit: whatever the arrival times, in any window one bucket admits at most its
  capacity plus the rate times the length of the window.\<close>

theorem rate_window_bound:
  assumes "0 \<le> r" and "0 \<le> c" and "finite_bucket c b" and "sorted (bk_last b # ts)"
  shows "of_nat (admitted_count (Fin r) (Fin c) b ts) \<le> c + r * (last (bk_last b # ts) - bk_last b)"
proof -
  have "max r 0 = r" "max c 0 = c" using assms by simp_all
  then show ?thesis
    using bucket.window_bound [of c b ts r] assms(3,4) admitted_count_bucket [of r c b ts] by simp
qed

theorem rate_window_bound_witness:
  "of_nat (admitted_count (Fin 2) (Fin 5) \<lparr>bk_tokens = Fin 5, bk_last = 0\<rparr> [0, 0, 1]) \<le> (7::rat)"
  using rate_window_bound [of 2 5 "\<lparr>bk_tokens = Fin 5, bk_last = 0\<rparr>" "[0, 0, 1]"]
  by (simp add: finite_bucket_def)

text \<open>A bucket that has had time to earn a token admits the next request.\<close>

lemma rested_bucket_admits:
  assumes "0 \<le> r" and "1 \<le> c" and "finite_bucket c b" and "bk_last b \<le> now" and "1 \<le> r * (now - bk_last b)"
  shows "snd (take_token b now (Fin r) (Fin c))"
proof -
  have "0 \<le> bucket_level b" using assms(3) by (auto simp: finite_bucket_def bucket_level_def)
  then show ?thesis
    using bucket.serve_admits [of c b now r] assms by (simp add: max_def)
qed

section \<open>The table stays bounded\<close>

lemma map_fst_filter: "distinct (map fst bs) \<Longrightarrow> distinct (map fst (filter P bs))"
  by (simp add: distinct_map_filter)

lemma oldest_keys_sub: "set (oldest_keys bs) \<subseteq> set (map fst bs)"
proof -
  have "set (oldest_keys bs) \<subseteq> fst ` set (sort_key (\<lambda>(k, b). bk_last b) bs)"
    by (auto simp: oldest_keys_def dest: in_set_takeD simp del: set_sort)
  then show ?thesis by simp
qed

lemma oldest_keys_length:
  "distinct (map fst bs) \<Longrightarrow> MAX_KEYS div 4 \<le> length bs \<Longrightarrow>
   card (set (oldest_keys bs)) = MAX_KEYS div 4"
proof -
  assume d: "distinct (map fst bs)" and l: "MAX_KEYS div 4 \<le> length bs"
  have "mset (map fst (sort_key (\<lambda>(k, b). bk_last b) bs)) = mset (map fst bs)" by simp
  with d have "distinct (map fst (sort_key (\<lambda>(k, b). bk_last b) bs))"
    by (metis mset_eq_imp_distinct_iff)
  then have "distinct (oldest_keys bs)" by (simp add: oldest_keys_def take_map [symmetric])
  then have "card (set (oldest_keys bs)) = length (oldest_keys bs)" by (rule distinct_card)
  with l show ?thesis by (simp add: oldest_keys_def)
qed

lemma remove_keys_length:
  assumes "distinct (map fst bs)" and "set ks \<subseteq> set (map fst bs)"
  shows "length (remove_keys ks bs) + card (set ks) = length bs"
proof -
  have "length (remove_keys ks bs) = card (set (map fst (remove_keys ks bs)))"
    using assms(1) distinct_card [of "map fst (remove_keys ks bs)"]
    by (simp add: remove_keys_def map_fst_filter)
  also have "set (map fst (remove_keys ks bs)) = set (map fst bs) - set ks"
    by (force simp: remove_keys_def)
  also have "card (set (map fst bs) - set ks) = length bs - card (set ks)"
    using assms distinct_card [of "map fst bs"] by (simp add: card_Diff_subset)
  finally show ?thesis
    using card_mono [of "set (map fst bs)" "set ks"] assms distinct_card [of "map fst bs"] by simp
qed

lemma make_room_bound:
  assumes "distinct (map fst bs)" and "length bs \<le> MAX_KEYS"
  shows "length (make_room now bs) < MAX_KEYS" and "distinct (map fst (make_room now bs))"
proof -
  let ?fresh = "filter (\<lambda>(k, b). now - bk_last b < IDLE_SECS) bs"
  have d: "distinct (map fst ?fresh)" using assms(1) by (rule map_fst_filter)
  have l: "length ?fresh \<le> MAX_KEYS" using assms(2) le_trans [OF length_filter_le] by blast
  have rm: "length (remove_keys (oldest_keys ?fresh) ?fresh) < MAX_KEYS" if "\<not> length ?fresh < MAX_KEYS"
  proof -
    from that have "card (set (oldest_keys ?fresh)) = MAX_KEYS div 4"
      by (intro oldest_keys_length [OF d]) simp
    with remove_keys_length [OF d oldest_keys_sub] l show ?thesis by (simp add: MAX_KEYS_def)
  qed
  then show "length (make_room now bs) < MAX_KEYS" by (simp add: make_room_def Let_def)
  show "distinct (map fst (make_room now bs))"
    using assms(1) d by (simp add: make_room_def remove_keys_def map_fst_filter Let_def)
qed

lemma length_update: "length (AList.update k v xs) \<le> Suc (length xs)"
  by (induction xs) auto

text \<open>The table of buckets cannot be grown past its limit by varying the client key: it stays
  within twenty thousand entries, one per key, across any request.\<close>

theorem bucket_table_bounded:
  assumes "distinct (map fst bs)" and "length bs \<le> MAX_KEYS"
  shows "distinct (map fst (fst (allow_for env key tr now bs)))
       \<and> length (fst (allow_for env key tr now bs)) \<le> MAX_KEYS"
proof -
  have "length (AList.update k v (make_room now bs)) \<le> MAX_KEYS" for k v
    using make_room_bound(1) [OF assms, of now] length_update [of k v "make_room now bs"] by simp
  moreover have "distinct (map fst (AList.update k v (make_room now bs)))" for k v
    using make_room_bound(2) [OF assms] by (rule distinct_update)
  ultimately show ?thesis
    using assms by (auto simp: allow_for_def Let_def split: prod.splits)
qed

theorem bucket_table_bounded_witness:
  "length (fst (allow_for (\<lambda>k. None) ''10.0.0.9'' ''http'' 7 [(''10.0.0.1'', \<lparr>bk_tokens = Fin 3, bk_last = 1\<rparr>)]))
   \<le> MAX_KEYS"
  using bucket_table_bounded [of "[(''10.0.0.1'', \<lparr>bk_tokens = Fin 3, bk_last = 1\<rparr>)]"]
  by (simp add: MAX_KEYS_def)

text \<open>Eviction takes the oldest entries: what is removed when the table is full was last used no
  later than anything that stays.\<close>

lemma sorted_take_drop_le:
  "sorted xs \<Longrightarrow> x \<in> set (take n xs) \<Longrightarrow> y \<in> set (drop n xs) \<Longrightarrow> x \<le> y"
  by (metis append_take_drop_id sorted_append)

lemma evicts_oldest:
  assumes "distinct (map fst bs)" and "(k, b) \<in> set bs" and "k \<in> set (oldest_keys bs)"
    and "(k', b') \<in> set bs" and "k' \<notin> set (oldest_keys bs)"
  shows "bk_last b \<le> bk_last b'"
proof -
  let ?s = "sort_key (\<lambda>(k, b). bk_last b) bs" and ?n = "MAX_KEYS div 4"
  have "(k', b') \<in> set ?s" using assms(4) by simp
  then have "(k', b') \<in> set (take ?n ?s) \<or> (k', b') \<in> set (drop ?n ?s)"
    by (metis Un_iff append_take_drop_id set_append)
  with assms(5) have y: "(k', b') \<in> set (drop ?n ?s)"
    by (auto simp: oldest_keys_def image_iff)
  from assms(3) obtain b0 where b0: "(k, b0) \<in> set (take ?n ?s)" by (auto simp: oldest_keys_def)
  then have "(k, b0) \<in> set bs" by (metis in_set_takeD set_sort)
  with assms(1,2) have "b0 = b" by (metis eq_key_imp_eq_value)
  with b0 have x: "(k, b) \<in> set (take ?n ?s)" by simp
  have "sorted (map (\<lambda>(k, b). bk_last b) ?s)" by (rule sorted_sort_key)
  then show ?thesis
  proof (rule sorted_take_drop_le)
    show "bk_last b \<in> set (take ?n (map (\<lambda>(k, b). bk_last b) ?s))"
      using x by (force simp: take_map)
    show "bk_last b' \<in> set (drop ?n (map (\<lambda>(k, b). bk_last b) ?s))"
      using y by (force simp: drop_map)
  qed
qed

text \<open>A limit that parses as NaN is no limit: every request refills the bucket.\<close>

lemma nan_rate_admits:
  "take_token b now NaN (Fin 5) = (\<lparr>bk_tokens = Fin 4, bk_last = now\<rparr>, True)"
proof -
  have "f64_mul (Fin e) NaN = NaN" for e by (simp add: inf_signed_def f64_sign_def)
  moreover have "f64_add x NaN = NaN" for x by (cases x) simp_all
  ultimately show ?thesis by (simp add: take_token_def f64_min_def)
qed

text \<open>A configured rate of NaN switches the limiter off: with \<open>MCP_RATE_RPM=nan\<close> every HTTP
  request of every client is admitted, whatever is in the table.\<close>

theorem nan_rpm_disables_limit:
  assumes "env ''MCP_RATE_RPM'' = Some ''nan''" and "env ''MCP_RATE_BURST'' = None"
  shows "snd (allow_for env key ''http'' now bs)"
proof -
  have r: "rpm env = NaN" using assms(1) by (simp add: rpm_def parse_env_f64_def parse_f64_nan)
  have "burst env NaN = Fin 5" using assms(2)
    by (simp add: burst_def parse_env_f64_def f64_max_def f64_div_def inf_signed_def f64_sign_def)
  moreover have "f64_div NaN 60 = NaN" by (simp add: f64_div_def inf_signed_def f64_sign_def)
  ultimately show ?thesis
    by (simp add: allow_for_def transport_rpm_def r nan_rate_admits)
qed

theorem nan_rpm_disables_limit_witness:
  "snd (allow_for ((\<lambda>k. None)(''MCP_RATE_RPM'' := Some ''nan'')) ''10.0.0.1'' ''http'' 1 [])"
  by (rule nan_rpm_disables_limit) simp_all

section \<open>The client key\<close>

lemma split_on_last: "P d \<Longrightarrow> \<forall>c \<in> set l. \<not> P c \<Longrightarrow> last (split_on P (a @ d # l)) = l"
proof (induction a)
  case Nil
  then show ?case by (simp add: split_on_none)
next
  case (Cons x a)
  have two: "tl (split_on P (a @ d # l)) \<noteq> []" if "\<not> P x"
  proof -
    have "length (split_on P (a @ d # l)) \<ge> 2" using Cons.prems(1)
      by (induction a) (auto simp: Suc_le_eq length_greater_0_conv)
    then show ?thesis by (cases "split_on P (a @ d # l)") auto
  qed
  then show ?case using Cons by (auto simp: last_tl)
qed

text \<open>Behind a trusted proxy the client is the entry the proxy appended: nothing a client writes
  into \<open>X-Forwarded-For\<close> before that entry changes the key, and without trust the header is
  ignored altogether.\<close>

theorem client_key_rightmost:
  assumes "CHR '','' \<notin> set entry" and "trim entry \<noteq> []"
  shows "client_key_with peer (Some (forged @ CHR '','' # entry)) True = trim entry
       \<and> client_key_with peer xff False = peer"
proof -
  have "last (split_char CHR '','' (forged @ CHR '','' # entry)) = entry"
    unfolding split_char_def by (rule split_on_last) (use assms(1) in auto)
  then show ?thesis using assms(2) by (simp add: client_key_with_def)
qed

theorem client_key_rightmost_witness:
  "client_key_with ''10.0.0.1'' (Some (''6.6.6.6'' @ CHR '','' # '' 10.2.3.4'')) True = ''10.2.3.4''"
proof -
  have "trim '' 10.2.3.4'' = ''10.2.3.4''" by code_simp
  then show ?thesis using client_key_rightmost [of "'' 10.2.3.4''" "''10.0.0.1''" "''6.6.6.6''"] by simp
qed

section \<open>Slots\<close>

definition slot_count :: "slots \<Rightarrow> string \<Rightarrow> nat" where
  "slot_count m k = (case m k of Some n \<Rightarrow> n | None \<Rightarrow> 0)"

definition no_zero :: "slots \<Rightarrow> bool" where
  "no_zero m \<longleftrightarrow> (\<forall>k. m k \<noteq> Some 0)"

lemma acquire_slot_Some:
  "acquire_slot_capped key cap m = (m', Some g) \<Longrightarrow> cap \<noteq> 0 \<Longrightarrow>
   g = key \<and> m' = m(key \<mapsto> slot_count m key + 1) \<and> slot_count m key < cap"
  by (auto simp: acquire_slot_capped_def slot_count_def Let_def split: if_splits)

lemma acquire_slot_None:
  "acquire_slot_capped key cap m = (m', None) \<Longrightarrow> m' = m \<and> cap \<le> slot_count m key"
  by (auto simp: acquire_slot_capped_def slot_count_def Let_def split: if_splits option.splits)

lemma acquire_slot_keeps_no_zero:
  "acquire_slot_capped key cap m = (m', g) \<Longrightarrow> no_zero m \<Longrightarrow> no_zero m'"
  by (auto simp: acquire_slot_capped_def no_zero_def Let_def split: if_splits option.splits)

lemma drop_slot_keeps_no_zero: "no_zero m \<Longrightarrow> no_zero (drop_slot g m)"
  by (auto simp: drop_slot_def no_zero_def split: option.splits)

lemma drop_slot_count: "slot_count (drop_slot g m) k = slot_count m k - (if k = g then 1 else 0)"
  by (auto simp: drop_slot_def slot_count_def saturating_sub_def split: option.splits)

text \<open>Dropping the guard just acquired gives back the table as it was: no entry is left behind.\<close>

lemma drop_after_acquire:
  assumes "acquire_slot_capped key cap m = (m', Some g)" and "no_zero m" and "m [] = None"
  shows "drop_slot g m' = m"
proof (cases "cap = 0")
  case True
  with assms(1,3) show ?thesis by (auto simp: acquire_slot_capped_def drop_slot_def)
next
  case False
  from acquire_slot_Some [OF assms(1) this]
  have g: "g = key" "m' = m(key \<mapsto> slot_count m key + 1)" by auto
  show ?thesis
    using assms(2) unfolding g
    by (auto simp: drop_slot_def saturating_sub_def slot_count_def no_zero_def fun_eq_iff split: option.splits)
      (metis not_gr_zero)
qed

end
