(* ===== verification/Pipeline.thy ===== *)
theory Pipeline
  imports Ratelimit
begin

text \<open>
  \<open>src/pipeline.rs\<close>: the gates every request passes. The state holds what the gates share: the
  buckets, the in-flight table, the free permits of the database semaphore, the counter of refused
  requests and the audit calls in order.

  A guard is released when it is dropped. In \<open>gate\<close> the slot taken by the second gate is dropped when
  the third refuses, because the guard goes out of scope with the early return.

  The gates run by many requests at once are the step relation \<open>gate_step\<close>, in which every gate and
  every drop of a guard is one step: over HTTP authentication lies between the second gate and the third,
  so requests that hold only a slot and requests that hold a slot and a permit interleave in any order.
\<close>

section \<open>The code\<close>

definition MAX_DB_CONNS :: nat where
  "MAX_DB_CONNS = 16"

datatype rejection = RateLimit | InFlight | Busy

fun rejection_message :: "rejection \<Rightarrow> string" where
  "rejection_message RateLimit = ''rate limit exceeded, slow down''"
| "rejection_message InFlight = ''too many requests in flight from this client''"
| "rejection_message Busy = ''server busy, retry shortly''"

fun rejection_decision :: "rejection \<Rightarrow> string" where
  "rejection_decision RateLimit = ''denied_rate''"
| "rejection_decision InFlight = ''denied_busy''"
| "rejection_decision Busy = ''denied_busy''"

record gates =
  g_buckets :: buckets
  g_slots :: slots
  g_permits :: nat
  g_denied_rate :: nat
  g_audit :: "(string \<times> string) list"

definition audit_gate :: "string \<Rightarrow> rejection \<Rightarrow> gates \<Rightarrow> gates" where
  "audit_gate transport r s = s\<lparr>g_audit := g_audit s @ [(transport, rejection_decision r)]\<rparr>"

definition gate_rate :: "env \<Rightarrow> string \<Rightarrow> string \<Rightarrow> rat \<Rightarrow> gates \<Rightarrow> gates \<times> (rejection + unit)" where
  "gate_rate env key transport now s =
     (case allow_for env key transport now (g_buckets s) of
        (bs, ok) \<Rightarrow>
          (let s1 = s\<lparr>g_buckets := bs\<rparr> in
           if ok then (s1, Inr ())
           else (audit_gate transport RateLimit (s1\<lparr>g_denied_rate := g_denied_rate s1 + 1\<rparr>),
                 Inl RateLimit)))"

definition slot_cap :: "env \<Rightarrow> gates \<Rightarrow> nat" where
  "slot_cap env s = (if g_permits s \<le> MAX_DB_CONNS div 4 then 1 else max_in_flight env)"

definition gate_in_flight :: "env \<Rightarrow> string \<Rightarrow> string \<Rightarrow> gates \<Rightarrow> gates \<times> (rejection + slot_guard)" where
  "gate_in_flight env key transport s =
     (case acquire_slot_capped key (slot_cap env s) (g_slots s) of
        (m, Some g) \<Rightarrow> (s\<lparr>g_slots := m\<rparr>, Inr g)
      | (m, None) \<Rightarrow> (audit_gate transport InFlight (s\<lparr>g_slots := m\<rparr>), Inl InFlight))"

definition gate_pool :: "string \<Rightarrow> gates \<Rightarrow> gates \<times> (rejection + unit)" where
  "gate_pool transport s =
     (if 0 < g_permits s then (s\<lparr>g_permits := g_permits s - 1\<rparr>, Inr ())
      else (audit_gate transport Busy s, Inl Busy))"

definition release_slot :: "slot_guard \<Rightarrow> gates \<Rightarrow> gates" where
  "release_slot g s = s\<lparr>g_slots := drop_slot g (g_slots s)\<rparr>"

definition release_permit :: "gates \<Rightarrow> gates" where
  "release_permit s = s\<lparr>g_permits := g_permits s + 1\<rparr>"

text \<open>Dropping \<open>Guards\<close> drops its fields in order.\<close>

definition release_guards :: "slot_guard \<Rightarrow> gates \<Rightarrow> gates" where
  "release_guards g s = release_permit (release_slot g s)"

definition gate :: "env \<Rightarrow> string \<Rightarrow> string \<Rightarrow> rat \<Rightarrow> gates \<Rightarrow> gates \<times> (rejection + slot_guard)" where
  "gate env key transport now s =
     (case gate_rate env key transport now s of
        (s1, Inl r) \<Rightarrow> (s1, Inl r)
      | (s1, Inr _) \<Rightarrow>
          (case gate_in_flight env key transport s1 of
             (s2, Inl r) \<Rightarrow> (s2, Inl r)
           | (s2, Inr slot) \<Rightarrow>
               (case gate_pool transport s2 of
                  (s3, Inl r) \<Rightarrow> (release_slot slot s3, Inl r)
                | (s3, Inr _) \<Rightarrow> (s3, Inr slot))))"

definition rejection_response :: "rejection \<Rightarrow> json \<Rightarrow> json" where
  "rejection_response r i =
     jobj [(''jsonrpc'', JStr ''2.0''), (''id'', i),
           (''error'', jobj [(''code'', JNum ''-32000''), (''message'', JStr (rejection_message r))])]"

section \<open>Scoped resources: an interface\<close>

text \<open>
  What a guard promises: acquiring either fails and leaves the state as it was, or succeeds and
  dropping the guard at once gives the state back. \<open>inv\<close> is the provider's own invariant.
\<close>

locale scoped_resource =
  fixes acquire :: "'s \<Rightarrow> 's \<times> 'g option"
    and release :: "'g \<Rightarrow> 's \<Rightarrow> 's"
    and inv :: "'s \<Rightarrow> bool"
  assumes fail_unchanged: "inv s \<Longrightarrow> acquire s = (s', None) \<Longrightarrow> s' = s"
    and release_restores: "inv s \<Longrightarrow> acquire s = (s', Some g) \<Longrightarrow> release g s' = s"
    and acquire_inv: "inv s \<Longrightarrow> acquire s = (s', r) \<Longrightarrow> inv s'"
begin

text \<open>A body run under the guard that returns to the state it found leaves no trace, whether or not
  the resource was there.\<close>

definition scoped :: "('s \<Rightarrow> 's \<times> 'a) \<Rightarrow> 's \<Rightarrow> 's \<times> 'a option" where
  "scoped body s =
     (case acquire s of
        (s1, None) \<Rightarrow> (s1, None)
      | (s1, Some g) \<Rightarrow> (case body s1 of (s2, x) \<Rightarrow> (release g s2, Some x)))"

lemma scoped_restores:
  "inv s \<Longrightarrow> (\<And>t. inv t \<Longrightarrow> fst (body t) = t) \<Longrightarrow> fst (scoped body s) = s"
  using acquire_inv [of s] fail_unchanged [of s] release_restores [of s]
  by (fastforce simp: scoped_def split: prod.splits option.splits)

end

definition slots_inv :: "slots \<Rightarrow> bool" where
  "slots_inv m \<longleftrightarrow> no_zero m \<and> m [] = None"

text \<open>The in-flight table of a real client and the semaphore both provide the interface.\<close>

interpretation slot_res: scoped_resource "acquire_slot_capped (c # ks) cap" drop_slot slots_inv for c ks cap
proof
  fix s s' :: slots and g r
  assume inv: "slots_inv s"
  show "acquire_slot_capped (c # ks) cap s = (s', None) \<Longrightarrow> s' = s"
    using acquire_slot_None by blast
  show "acquire_slot_capped (c # ks) cap s = (s', Some g) \<Longrightarrow> drop_slot g s' = s"
    using inv drop_after_acquire by (simp add: slots_inv_def)
  assume a: "acquire_slot_capped (c # ks) cap s = (s', r)"
  have "s' [] = None"
    using a inv by (auto simp: acquire_slot_capped_def slots_inv_def Let_def split: if_splits)
  with a inv acquire_slot_keeps_no_zero show "slots_inv s'" by (simp add: slots_inv_def)
qed

definition acquire_permit :: "nat \<Rightarrow> nat \<times> unit option" where
  "acquire_permit n = (if 0 < n then (n - 1, Some ()) else (n, None))"

interpretation permit_res: scoped_resource acquire_permit "\<lambda>_ n. n + 1" "\<lambda>n. True"
  by unfold_locales (auto simp: acquire_permit_def split: if_splits)

section \<open>No guard leaks\<close>

lemma gate_rate_frame:
  "gate_rate env key tr now s = (s1, r) \<Longrightarrow> g_slots s1 = g_slots s \<and> g_permits s1 = g_permits s"
  by (auto simp: gate_rate_def audit_gate_def Let_def split: prod.splits if_splits)

lemma gate_in_flight_cases:
  assumes "gate_in_flight env key tr s = (s2, r)"
  shows "g_permits s2 = g_permits s"
    and "r = Inr g \<Longrightarrow> acquire_slot_capped key (slot_cap env s) (g_slots s) = (g_slots s2, Some g)"
    and "r = Inl e \<Longrightarrow> acquire_slot_capped key (slot_cap env s) (g_slots s) = (g_slots s2, None)"
  using assms by (auto simp: gate_in_flight_def audit_gate_def split: prod.splits option.splits)

lemma gate_pool_cases:
  assumes "gate_pool tr s = (s3, r)"
  shows "g_slots s3 = g_slots s"
    and "r = Inr u \<Longrightarrow> g_permits s = g_permits s3 + 1"
    and "r = Inl e \<Longrightarrow> g_permits s3 = g_permits s \<and> g_permits s = 0"
  using assms by (auto simp: gate_pool_def audit_gate_def split: if_splits)

text \<open>A refused request holds nothing: when any of the gates turns a request away, the in-flight
  table and the free permits are what they were before it arrived, and the refusal is audited.\<close>

theorem refused_request_holds_nothing:
  assumes "gate env key tr now s = (s', Inl r)" and "slots_inv (g_slots s)" and "key \<noteq> []"
  shows "g_slots s' = g_slots s \<and> g_permits s' = g_permits s
       \<and> g_audit s' = g_audit s @ [(tr, rejection_decision r)]"
proof -
  from assms(3) obtain c ks where key: "key = c # ks" by (cases key) auto
  note res = slot_res.fail_unchanged [OF assms(2)] slot_res.release_restores [OF assms(2)]
  show ?thesis
    using assms(1) res unfolding key
    by (auto simp: gate_def gate_rate_def gate_in_flight_def gate_pool_def audit_gate_def release_slot_def
        Let_def split: prod.splits sum.splits option.splits if_splits)
qed

definition demo_gates :: gates where
  "demo_gates = \<lparr>g_buckets = [], g_slots = (\<lambda>k. if k = ''10.0.0.1'' then Some 1 else None), g_permits = 3,
     g_denied_rate = 0, g_audit = []\<rparr>"

theorem refused_request_holds_nothing_witness:
  "\<exists>s'. gate (\<lambda>k. None) ''10.0.0.1'' ''http'' 0 demo_gates = (s', Inl InFlight)
     \<and> g_slots s' = g_slots demo_gates \<and> g_audit s' = [(''http'', ''denied_busy'')]"
proof -
  let ?env = "\<lambda>k::string. None :: string option"
  have ok: "snd (allow_for ?env ''10.0.0.1'' ''http'' 0 [])"
    by (simp add: allow_for_def transport_rpm_def rpm_def parse_env_f64_def burst_def make_room_def MAX_KEYS_def
        take_token_def Let_def)
  have "\<exists>s'. gate ?env ''10.0.0.1'' ''http'' 0 demo_gates = (s', Inl InFlight)"
    using ok by (cases "allow_for ?env ''10.0.0.1'' ''http'' 0 []")
      (simp add: gate_def gate_rate_def gate_in_flight_def demo_gates_def slot_cap_def
        MAX_DB_CONNS_def acquire_slot_capped_def Let_def)
  then obtain s' where g: "gate ?env ''10.0.0.1'' ''http'' 0 demo_gates = (s', Inl InFlight)" ..
  have "slots_inv (g_slots demo_gates)" by (simp add: slots_inv_def no_zero_def demo_gates_def)
  from refused_request_holds_nothing [OF g this] g show ?thesis by (auto simp: demo_gates_def)
qed

section \<open>All interleavings of requests\<close>

text \<open>
  What a request holds while it is on its way: over HTTP the slot alone while it is authenticated and
  shaped, the slot and a permit while it works, and one of the two for a moment while its guards are
  dropped one after the other. Over the standard streams the same things in the same order.
\<close>

datatype holding = Slot_Only slot_guard | Slot_And_Permit slot_guard | Permit_Only

fun slot_held :: "holding \<Rightarrow> slot_guard list" where
  "slot_held (Slot_Only g) = [g]"
| "slot_held (Slot_And_Permit g) = [g]"
| "slot_held Permit_Only = []"

fun permit_held :: "holding \<Rightarrow> nat" where
  "permit_held (Slot_Only g) = 0"
| "permit_held (Slot_And_Permit g) = 1"
| "permit_held Permit_Only = 1"

definition slots_held :: "holding list \<Rightarrow> slot_guard list" where
  "slots_held held = concat (map slot_held held)"

definition permits_held :: "holding list \<Rightarrow> nat" where
  "permits_held held = sum_list (map permit_held held)"

text \<open>
  One step is one access to what the gates share, by any of the requests: each gate is a step of its own,
  and so is the drop of each guard, so requests meet between any two of them. The number of free permits
  that tightens the cap is read before the in-flight table is locked, so the step that takes a slot may
  use the permits of any other moment (\<open>seen\<close>).
\<close>

inductive gate_step :: "env \<Rightarrow> gates \<times> holding list \<Rightarrow> gates \<times> holding list \<Rightarrow> bool"
  for env :: env where
  rate: "gate_rate env key tr now s = (s', r) \<Longrightarrow> gate_step env (s, held) (s', held)"
| slot_taken:
    "key \<noteq> [] \<Longrightarrow> acquire_slot_capped key (slot_cap env seen) (g_slots s) = (m, Some g) \<Longrightarrow>
     gate_step env (s, held) (s\<lparr>g_slots := m\<rparr>, Slot_Only g # held)"
| slot_refused:
    "key \<noteq> [] \<Longrightarrow> acquire_slot_capped key (slot_cap env seen) (g_slots s) = (m, None) \<Longrightarrow>
     gate_step env (s, held) (audit_gate tr InFlight (s\<lparr>g_slots := m\<rparr>), held)"
| permit_taken:
    "gate_pool tr s = (s', Inr ()) \<Longrightarrow>
     gate_step env (s, pre @ Slot_Only g # post) (s', pre @ Slot_And_Permit g # post)"
| permit_refused: "gate_pool tr s = (s', Inl r) \<Longrightarrow> gate_step env (s, held) (s', held)"
| slot_dropped: "gate_step env (s, pre @ Slot_Only g # post) (release_slot g s, pre @ post)"
| slot_dropped_first:
    "gate_step env (s, pre @ Slot_And_Permit g # post) (release_slot g s, pre @ Permit_Only # post)"
| permit_dropped: "gate_step env (s, pre @ Permit_Only # post) (release_permit s, pre @ post)"
| permit_dropped_first:
    "gate_step env (s, pre @ Slot_And_Permit g # post) (release_permit s, pre @ Slot_Only g # post)"
| recorded: "gate_step env (s, held) (s\<lparr>g_audit := a\<rparr>, held)"

definition gates_start :: "gates \<Rightarrow> bool" where
  "gates_start s \<longleftrightarrow> g_slots s = (\<lambda>k. None) \<and> g_permits s = MAX_DB_CONNS"

inductive gates_reachable :: "env \<Rightarrow> gates \<times> holding list \<Rightarrow> bool" for env :: env where
  start: "gates_start s \<Longrightarrow> gates_reachable env (s, [])"
| step: "gates_reachable env c \<Longrightarrow> gate_step env c c' \<Longrightarrow> gates_reachable env c'"

definition gates_inv :: "env \<Rightarrow> gates \<times> holding list \<Rightarrow> bool" where
  "gates_inv env c \<longleftrightarrow>
     slots_inv (g_slots (fst c)) \<and> g_permits (fst c) + permits_held (snd c) = MAX_DB_CONNS
     \<and> (\<forall>k. k \<noteq> [] \<longrightarrow> slot_count (g_slots (fst c)) k = count_list (slots_held (snd c)) k)
     \<and> (\<forall>k. k \<noteq> [] \<longrightarrow> count_list (slots_held (snd c)) k \<le> max (max_in_flight env) 1)"

lemma held_simps [simp]:
  "slots_held [] = []" "slots_held (x # xs) = slot_held x @ slots_held xs"
  "slots_held (xs @ ys) = slots_held xs @ slots_held ys"
  "permits_held [] = 0" "permits_held (x # xs) = permit_held x + permits_held xs"
  "permits_held (xs @ ys) = permits_held xs + permits_held ys"
  by (simp_all add: slots_held_def permits_held_def)

lemma gate_admits:
  assumes "gate env key tr now s = (s', Inr g)"
  shows "acquire_slot_capped key (slot_cap env s) (g_slots s) = (g_slots s', Some g)"
    and "g_permits s = g_permits s' + 1"
proof -
  obtain s1 where r: "gate_rate env key tr now s = (s1, Inr ())"
    using assms by (auto simp: gate_def split: prod.splits sum.splits)
  from gate_rate_frame [OF r] have f: "g_slots s1 = g_slots s" "g_permits s1 = g_permits s" by auto
  obtain s2 where i: "gate_in_flight env key tr s1 = (s2, Inr g)" and p: "gate_pool tr s2 = (s', Inr ())"
    using assms r by (auto simp: gate_def split: prod.splits sum.splits)
  have "slot_cap env s1 = slot_cap env s" by (simp add: slot_cap_def f)
  then show "acquire_slot_capped key (slot_cap env s) (g_slots s) = (g_slots s', Some g)"
    using gate_in_flight_cases(2) [OF i refl] gate_pool_cases(1) [OF p] f by simp
  show "g_permits s = g_permits s' + 1"
    using gate_in_flight_cases(1) [OF i] gate_pool_cases(2) [OF p refl] f by simp
qed

lemma slot_cap_bound: "slot_cap env s \<le> max (max_in_flight env) 1"
  by (simp add: slot_cap_def)

lemma gates_inv_frame:
  "gates_inv env (s, held) \<Longrightarrow> g_slots s' = g_slots s \<Longrightarrow> g_permits s' = g_permits s \<Longrightarrow> gates_inv env (s', held)"
  by (simp add: gates_inv_def)

lemma gates_inv_slot:
  assumes inv: "gates_inv env (s, held)" and key: "key \<noteq> []"
    and a: "acquire_slot_capped key (slot_cap env seen) (g_slots s) = (m, Some g)"
  shows "gates_inv env (s\<lparr>g_slots := m\<rparr>, Slot_Only g # held)"
proof -
  have sl: "slots_inv (g_slots s)" using inv by (simp add: gates_inv_def)
  obtain c ks where k: "key = c # ks" using key by (cases key) auto
  have sl': "slots_inv m" using slot_res.acquire_inv [OF sl, of c ks] a k by blast
  have "slot_count m x = count_list (g # slots_held held) x
      \<and> count_list (g # slots_held held) x \<le> max (max_in_flight env) 1"
    if x: "x \<noteq> []" for x
  proof (cases "slot_cap env seen = 0")
    case True
    with a have "g = []" "m = g_slots s" by (auto simp: acquire_slot_capped_def)
    with inv x show ?thesis by (auto simp: gates_inv_def)
  next
    case False
    note acq = acquire_slot_Some [OF a this]
    have old: "slot_count (g_slots s) y = count_list (slots_held held) y"
      "count_list (slots_held held) y \<le> max (max_in_flight env) 1"
      if "y \<noteq> []" for y using inv that by (auto simp: gates_inv_def)
    have new: "slot_count m y = (if y = key then slot_count (g_slots s) key + 1 else slot_count (g_slots s) y)"
      for y using acq by (simp add: slot_count_def)
    have "slot_count (g_slots s) key + 1 \<le> max (max_in_flight env) 1"
      using acq slot_cap_bound [of env seen] by simp
    then show ?thesis using acq old [OF x] old [OF key] new [of x] by auto
  qed
  with inv sl' show ?thesis by (auto simp: gates_inv_def)
qed

lemma drop_empty_inv: "slots_inv m \<Longrightarrow> slots_inv (drop_slot g m)"
  using drop_slot_keeps_no_zero by (auto simp: slots_inv_def drop_slot_def split: option.splits if_splits)

lemma gates_inv_drop_slot:
  assumes "gates_inv env (s, pre @ h # post)" and "slot_held h = [g]" and "slot_held h' = []"
    and "permit_held h' = permit_held h"
  shows "gates_inv env (release_slot g s, pre @ h' # post)"
proof -
  have "slot_count (drop_slot g (g_slots s)) x = count_list (slots_held (pre @ h' # post)) x" if "x \<noteq> []" for x
    using assms that by (auto simp: gates_inv_def drop_slot_count)
  moreover have "count_list (slots_held (pre @ h' # post)) x \<le> max (max_in_flight env) 1" if "x \<noteq> []" for x
    using assms that by (force simp: gates_inv_def split: if_splits)
  ultimately show ?thesis
    using assms drop_empty_inv [of "g_slots s" g] by (auto simp: gates_inv_def release_slot_def)
qed

lemma gates_inv_drop_only:
  assumes "gates_inv env (s, pre @ Slot_Only g # post)"
  shows "gates_inv env (release_slot g s, pre @ post)"
proof -
  have "slot_count (drop_slot g (g_slots s)) x = count_list (slots_held (pre @ post)) x" if "x \<noteq> []" for x
    using assms that by (auto simp: gates_inv_def drop_slot_count)
  moreover have "count_list (slots_held (pre @ post)) x \<le> max (max_in_flight env) 1" if "x \<noteq> []" for x
    using assms that by (force simp: gates_inv_def split: if_splits)
  ultimately show ?thesis
    using assms drop_empty_inv [of "g_slots s" g] by (auto simp: gates_inv_def release_slot_def)
qed

lemma gate_step_inv:
  assumes "gate_step env c c'" and "gates_inv env c"
  shows "gates_inv env c'"
  using assms
proof (cases rule: gate_step.cases)
  case (rate key tr now s s' r held)
  with assms(2) show ?thesis using gate_rate_frame [OF rate(3)] by (auto intro: gates_inv_frame)
next
  case (slot_taken key seen s m g held)
  with assms(2) show ?thesis by (auto intro: gates_inv_slot)
next
  case (slot_refused key seen s m held tr)
  with assms(2) acquire_slot_None [OF slot_refused(4)] show ?thesis
    by (auto simp: audit_gate_def intro!: gates_inv_frame [of env s held])
next
  case (permit_taken tr s s' pre g post)
  with assms(2) gate_pool_cases(1) [OF permit_taken(3)] gate_pool_cases(2) [OF permit_taken(3) refl]
  show ?thesis by (simp add: gates_inv_def)
next
  case (permit_refused tr s s' r held)
  with assms(2) gate_pool_cases(1) [OF permit_refused(3)] gate_pool_cases(3) [OF permit_refused(3) refl]
  show ?thesis by (auto intro: gates_inv_frame)
next
  case (slot_dropped s pre g post)
  with assms(2) show ?thesis by (auto intro: gates_inv_drop_only)
next
  case (slot_dropped_first s pre g post)
  with assms(2) show ?thesis by (auto intro!: gates_inv_drop_slot)
next
  case (permit_dropped s pre post)
  with assms(2) show ?thesis by (simp add: gates_inv_def release_permit_def)
next
  case (permit_dropped_first s pre g post)
  with assms(2) show ?thesis by (simp add: gates_inv_def release_permit_def)
next
  case (recorded s held a)
  with assms(2) show ?thesis by (auto intro: gates_inv_frame)
qed

lemma gates_reachable_inv: "gates_reachable env c \<Longrightarrow> gates_inv env c"
proof (induction rule: gates_reachable.induct)
  case (start s)
  then show ?case by (simp add: gates_inv_def gates_start_def slots_inv_def no_zero_def slot_count_def)
next
  case (step c c')
  from gate_step_inv [OF step.hyps(2) step.IH] show ?case .
qed

lemma gates_reachable_steps: "(gate_step env)\<^sup>*\<^sup>* c c' \<Longrightarrow> gates_reachable env c \<Longrightarrow> gates_reachable env c'"
  by (induction rule: rtranclp_induct) (auto intro: gates_reachable.step)

text \<open>The gates as the code calls them are runs of these steps.\<close>

lemma gate_in_flight_steps:
  assumes "gate_in_flight env key tr s = (s', r)" and "key \<noteq> []"
  shows "gate_step env (s, held) (s', case r of Inl e \<Rightarrow> held | Inr g \<Rightarrow> Slot_Only g # held)"
proof (cases "acquire_slot_capped key (slot_cap env s) (g_slots s)")
  case (Pair m a)
  with assms show ?thesis
    by (cases a) (auto simp: gate_in_flight_def intro: gate_step.slot_taken gate_step.slot_refused)
qed

lemma gate_pool_steps:
  "gate_pool tr s = (s', r) \<Longrightarrow>
   gate_step env (s, Slot_Only g # held)
     (s', (case r of Inl e \<Rightarrow> Slot_Only g | Inr u \<Rightarrow> Slot_And_Permit g) # held)"
  using gate_step.permit_taken [of tr s s' env "[]" g held]
  by (cases r) (auto intro: gate_step.permit_refused)

lemma release_slot_steps: "gate_step env (s, Slot_Only g # held) (release_slot g s, held)"
  using gate_step.slot_dropped [of env s "[]"] by simp

lemma release_guards_steps:
  "(gate_step env)\<^sup>*\<^sup>* (s, pre @ Slot_And_Permit g # post) (release_guards g s, pre @ post)"
  unfolding release_guards_def
  by (rule rtranclp.rtrancl_into_rtrancl [OF r_into_rtranclp [where r="gate_step env", OF gate_step.slot_dropped_first]
        gate_step.permit_dropped])

text \<open>\<open>gate\<close>, for the standard streams: three gates in a row, and the slot dropped when the pool is busy.\<close>

lemma gate_steps:
  assumes "gate env key tr now s = (s', r)" and key: "key \<noteq> []"
  shows "(gate_step env)\<^sup>*\<^sup>* (s, held) (s', case r of Inl e \<Rightarrow> held | Inr g \<Rightarrow> Slot_And_Permit g # held)"
proof -
  obtain s1 r1 where g1: "gate_rate env key tr now s = (s1, r1)" by fastforce
  note st1 = r_into_rtranclp [where r="gate_step env", OF gate_step.rate [OF g1, where held=held]]
  obtain s2 r2 where g2: "gate_in_flight env key tr s1 = (s2, r2)" by fastforce
  note st2 = rtranclp.rtrancl_into_rtrancl [OF st1 gate_in_flight_steps [OF g2 key]]
  show ?thesis
  proof (cases "r1 \<noteq> Inr () \<or> (\<exists>e. r2 = Inl e)")
    case True
    then show ?thesis using st1 st2 g1 g2 assms(1) by (cases r1; cases r2) (auto simp: gate_def)
  next
    case False
    then obtain slot where r: "r1 = Inr ()" "r2 = Inr slot" by (cases r2) auto
    obtain s3 r3 where g3: "gate_pool tr s2 = (s3, r3)" by fastforce
    note st3 = rtranclp.rtrancl_into_rtrancl [OF st2 [unfolded r sum.case] gate_pool_steps [OF g3]]
    show ?thesis
      using st3 rtranclp.rtrancl_into_rtrancl [OF st3, of "(release_slot slot s3, held)"]
        release_slot_steps [of env s3 slot held] g1 g2 g3 r assms(1)
      by (cases r3) (auto simp: gate_def)
  qed
qed

text \<open>C26: Under every interleaving of requests, each gate and each drop of a guard a step of its own,
  the permits are conserved: the free permits and the permits that requests hold always add up to the
  pool, so at most sixteen requests work at once; the in-flight table counts for every client exactly the
  requests that hold a slot, with or without a permit, and never more than its cap; and when no slot is
  held the table is empty. The standard streams and the HTTP path run such steps (\<open>gate_steps\<close>,
  \<open>http_admission_steps\<close> and \<open>http_finish_steps\<close> in \<open>Transport\<close>).\<close>

theorem permits_conserved:
  assumes "gates_reachable env (s, held)"
  shows "g_permits s + permits_held held = MAX_DB_CONNS
       \<and> (\<forall>k. k \<noteq> [] \<longrightarrow> slot_count (g_slots s) k = count_list (slots_held held) k
              \<and> count_list (slots_held held) k \<le> max (max_in_flight env) 1)
       \<and> (slots_held held = [] \<longrightarrow> g_slots s = (\<lambda>k. None))"
proof -
  from gates_reachable_inv [OF assms] have inv: "gates_inv env (s, held)" .
  have "g_slots s k = None" if "slots_held held = []" for k
  proof (cases "k = []")
    case True
    with inv show ?thesis by (simp add: gates_inv_def slots_inv_def)
  next
    case False
    with inv that have "slot_count (g_slots s) k = 0" by (simp add: gates_inv_def)
    with inv show ?thesis
      by (cases "g_slots s k") (auto simp: gates_inv_def slots_inv_def no_zero_def slot_count_def)
  qed
  with inv show ?thesis by (auto simp: gates_inv_def)
qed

text \<open>Two clients: one works, the other holds a slot and is being authenticated, and the first drops its
  slot before its permit.\<close>

definition idle_gates :: gates where
  "idle_gates = \<lparr>g_buckets = [], g_slots = (\<lambda>k. None), g_permits = 16, g_denied_rate = 0, g_audit = []\<rparr>"

lemma two_clients:
  "\<exists>s. gates_reachable (\<lambda>k. None) (s, [Slot_Only ''10.0.0.8'', Permit_Only]) \<and> g_permits s = 15"
proof -
  let ?env = "\<lambda>k::string. None :: string option"
  let ?m1 = "(\<lambda>k. None)(''10.0.0.7'' \<mapsto> 1) :: slots" and ?m2 = "[''10.0.0.7'' \<mapsto> 1, ''10.0.0.8'' \<mapsto> 1] :: slots"
  let ?s1 = "idle_gates\<lparr>g_slots := ?m1\<rparr>"
  let ?s2 = "?s1\<lparr>g_permits := 15\<rparr>" and ?s3 = "idle_gates\<lparr>g_slots := ?m2, g_permits := 15\<rparr>"
  have r0: "gates_reachable ?env (idle_gates, [])"
    by (rule gates_reachable.start) (simp add: gates_start_def MAX_DB_CONNS_def idle_gates_def)
  have "gate_step ?env (idle_gates, []) (?s1, [Slot_Only ''10.0.0.7''])"
    by (rule gate_step.slot_taken [where key="''10.0.0.7''" and seen=idle_gates])
      (simp_all add: acquire_slot_capped_def slot_cap_def MAX_DB_CONNS_def max_in_flight_def idle_gates_def)
  note r1 = gates_reachable.step [OF r0 this]
  have "gate_step ?env (?s1, [] @ Slot_Only ''10.0.0.7'' # []) (?s2, [] @ Slot_And_Permit ''10.0.0.7'' # [])"
    by (rule gate_step.permit_taken [where tr="''http''"]) (simp add: gate_pool_def idle_gates_def)
  note r2 = gates_reachable.step [OF r1 this [simplified append_Nil]]
  have "gate_step ?env (?s2, [Slot_And_Permit ''10.0.0.7''])
      (?s2\<lparr>g_slots := ?m2\<rparr>, Slot_Only ''10.0.0.8'' # [Slot_And_Permit ''10.0.0.7''])"
    by (rule gate_step.slot_taken [where key="''10.0.0.8''" and seen=idle_gates])
      (simp_all add: acquire_slot_capped_def slot_cap_def MAX_DB_CONNS_def max_in_flight_def idle_gates_def)
  note r3 = gates_reachable.step [OF r2 this]
  have "gate_step ?env (?s2\<lparr>g_slots := ?m2\<rparr>, [Slot_Only ''10.0.0.8''] @ Slot_And_Permit ''10.0.0.7'' # [])
      (release_slot ''10.0.0.7'' (?s2\<lparr>g_slots := ?m2\<rparr>), [Slot_Only ''10.0.0.8''] @ Permit_Only # [])"
    by (rule gate_step.slot_dropped_first)
  from gates_reachable.step [OF r3 this [simplified append_Cons append_Nil]]
  show ?thesis by (intro exI conjI) (assumption, simp add: release_slot_def)
qed

theorem permits_conserved_witness:
  "\<exists>s. gates_reachable (\<lambda>k. None) (s, [Slot_Only ''10.0.0.8'', Permit_Only]) \<and> g_permits s = 15
     \<and> g_permits s + 1 = MAX_DB_CONNS \<and> slot_count (g_slots s) ''10.0.0.8'' = 1 \<and> slot_count (g_slots s) ''10.0.0.7'' = 0"
proof -
  obtain s where s: "gates_reachable (\<lambda>k. None) (s, [Slot_Only ''10.0.0.8'', Permit_Only])" "g_permits s = 15"
    using two_clients by blast
  from permits_conserved [OF s(1)] s show ?thesis by auto
qed

end
