(* ===== verification/Transport.thy ===== *)
theory Transport
  imports Http Pipeline
begin

text \<open>
  \<open>src/transport.rs\<close>: the two ways a request reaches the handlers, and the session table of \<open>src/main.rs\<close>.

  A request over HTTP is the composition of the stages of \<open>mcp_handler\<close>, each with the early returns of
  the code; a guard held by a stage that returns early is dropped. \<open>mcp_admit\<close> ends where the work is
  handed to its own thread, \<open>mcp_finish\<close> starts when that work has an answer, so requests interleave
  between the two. What the work itself does is the argument \<open>resp\<close>.
\<close>

section \<open>The server\<close>

definition MAX_SESSIONS :: nat where
  "MAX_SESSIONS = 10000"

definition SESSION_IDLE_SECS :: nat where
  "SESSION_IDLE_SECS = 3600"

type_synonym sessions = "(string \<times> nat \<times> rev) list"

record server =
  sv_gates :: gates
  sv_sessions :: sessions
  sv_requests :: nat
  sv_denied_origin :: nat
  sv_denied_auth :: nat

text \<open>What is fixed for the process: environment, authentication, and the start-up check that may hold
  serving back.\<close>

record deployment =
  dp_env :: env
  dp_auth_libs :: auth_libs
  dp_auth_config :: "auth_config option"

record http_request =
  rq_peer :: string
  rq_headers :: headers
  rq_body :: json
  rq_now :: rat
  rq_uptime :: nat
  rq_blocked :: "string option"

definition audit_http :: "string \<Rightarrow> string \<Rightarrow> server \<Rightarrow> server" where
  "audit_http tool decision s =
     s\<lparr>sv_gates := (sv_gates s)\<lparr>g_audit := g_audit (sv_gates s) @ [(tool, decision)]\<rparr>\<rparr>"

section \<open>The address\<close>

definition listen_addr :: "env \<Rightarrow> string" where
  "listen_addr env =
     (let fallback = env_or env ''MCP_ADDR'' ''127.0.0.1:8080'' in
      case env ''ACTOR_WEB_SERVER_PORT'' of
        Some p \<Rightarrow> (let port = trim p in
                   if port \<noteq> [] \<and> list_all is_ascii_digit port then ''0.0.0.0:'' @ port else fallback)
      | None \<Rightarrow> fallback)"

definition root_handler :: "headers \<Rightarrow> http_response" where
  "root_handler hs =
     (if hs ''x-apify-container-server-readiness-probe'' \<noteq> None
      then \<lparr>hr_status = 200, hr_headers = [], hr_body = BodyText ''ready''\<rparr>
      else \<lparr>hr_status = 200, hr_headers = [], hr_body = BodyText
        (''postgres-mcp-hardened '' @ [CHR 0xE2, CHR 0x80, CHR 0x94] @
         '' MCP endpoint is POST /mcp (Streamable HTTP). Probes: GET /health, GET /ready. Metrics: GET /metrics.''
         @ [newline])\<rparr>)"

section \<open>Stages of a request\<close>

definition request_id :: "json \<Rightarrow> json" where
  "request_id req = (case jget ''id'' req of Some i \<Rightarrow> i | None \<Rightarrow> JNull)"

definition rpc_error :: "json \<Rightarrow> string \<Rightarrow> string \<Rightarrow> json" where
  "rpc_error i code msg =
     jobj [(''jsonrpc'', JStr ''2.0''), (''id'', i),
           (''error'', jobj [(''code'', JNum code), (''message'', JStr msg)])]"

definition json_response :: "nat \<Rightarrow> json \<Rightarrow> http_response" where
  "json_response status b = \<lparr>hr_status = status, hr_headers = [], hr_body = BodyJson b\<rparr>"

definition retry_response :: "nat \<Rightarrow> json \<Rightarrow> http_response" where
  "retry_response status b = \<lparr>hr_status = status, hr_headers = [(''Retry-After'', ''1'')], hr_body = BodyJson b\<rparr>"

definition origin_message :: "origin_error \<Rightarrow> string" where
  "origin_message e = (case e of
     Origin_Refused o' \<Rightarrow> ''origin '' @ quote o' @ '' is not allowed '' @ [CHR 0xE2, CHR 0x80, CHR 0x94] @
       '' a browser page may not talk to this server unless its origin is listed in MCP_ALLOWED_ORIGINS''
   | Host_Refused h \<Rightarrow> ''host header '' @ quote h @ '' does not name this loopback server '' @ [CHR 0xE2, CHR 0x80, CHR 0x94] @
       '' a name that resolves to 127.0.0.1 is how DNS rebinding reaches it; add it to MCP_ALLOWED_HOSTS if it is yours'')"

definition client_key_of :: "deployment \<Rightarrow> http_request \<Rightarrow> string" where
  "client_key_of d q = client_key (dp_env d) (rq_peer q) (rq_headers q ''x-forwarded-for'')"

text \<open>Origin, the start-up check, the rate and the session.\<close>

definition lookup_session :: "http_request \<Rightarrow> server \<Rightarrow> server \<times> (http_response + rev option)" where
  "lookup_session q s =
     (case rq_headers q ''mcp-session-id'' of
        None \<Rightarrow> (s, Inr None)
      | Some sid \<Rightarrow>
          (case map_of (sv_sessions s) sid of
             Some (used, r) \<Rightarrow> (s\<lparr>sv_sessions := AList.update sid (rq_uptime q, r) (sv_sessions s)\<rparr>, Inr (Some r))
           | None \<Rightarrow> (s, Inl (json_response 404 (rpc_error (request_id (rq_body q)) ''-32001''
               (''unknown or expired session '' @ [CHR 0xE2, CHR 0x80, CHR 0x94] @ '' reinitialize''))))))"

definition mcp_front :: "deployment \<Rightarrow> http_request \<Rightarrow> server \<Rightarrow> server \<times> (http_response + rev option)" where
  "mcp_front d q s0 =
     (let s = s0\<lparr>sv_requests := sv_requests s0 + 1\<rparr> in
      case check_origin (dp_env d) (rq_headers q) (listen_addr (dp_env d)) of
        Inl e \<Rightarrow>
          (audit_http ''http'' ''denied_origin'' (s\<lparr>sv_denied_origin := sv_denied_origin s + 1\<rparr>),
           Inl \<lparr>hr_status = 403, hr_headers = [], hr_body = BodyText (origin_message e)\<rparr>)
      | Inr _ \<Rightarrow>
          (case rq_blocked q of
             Some why \<Rightarrow> (s, Inl (json_response 503 (rpc_error (request_id (rq_body q)) ''-32000'' why)))
           | None \<Rightarrow>
               (case gate_rate (dp_env d) (client_key_of d q) ''http'' (rq_now q) (sv_gates s) of
                  (g, Inl rej) \<Rightarrow>
                    (s\<lparr>sv_gates := g\<rparr>, Inl (retry_response 429 (rejection_response rej (request_id (rq_body q)))))
                | (g, Inr _) \<Rightarrow> lookup_session q (s\<lparr>sv_gates := g\<rparr>))))"

text \<open>The in-flight slot, then authentication under it.\<close>

definition auth_failure :: "deployment \<Rightarrow> http_request \<Rightarrow> auth_error \<Rightarrow> http_response" where
  "auth_failure d q e =
     (case e of (status, msg, tenant) \<Rightarrow>
       (let code = (if status = 401 then ''-32001'' else ''-32003'');
            base = env_or (dp_env d) ''MCP_PUBLIC_URL'' [];
            wa = (if base = [] then ''Bearer''
                  else ''Bearer resource_metadata='' @
                       quote (trim_end_char CHR ''/'' base @ ''/.well-known/oauth-protected-resource'')) in
        \<lparr>hr_status = status, hr_headers = (if status = 401 then [(''WWW-Authenticate'', wa)] else []),
         hr_body = BodyJson (rpc_error (request_id (rq_body q)) code msg)\<rparr>))"

definition drop_slot_sv :: "slot_guard \<Rightarrow> server \<Rightarrow> server" where
  "drop_slot_sv g s = s\<lparr>sv_gates := release_slot g (sv_gates s)\<rparr>"

definition mcp_auth ::
  "deployment \<Rightarrow> http_request \<Rightarrow> server \<Rightarrow> server \<times> (http_response + slot_guard \<times> string option)" where
  "mcp_auth d q s =
     (case gate_in_flight (dp_env d) (client_key_of d q) ''http'' (sv_gates s) of
        (g, Inl rej) \<Rightarrow>
          (s\<lparr>sv_gates := g\<rparr>, Inl (retry_response 503 (rejection_response rej (request_id (rq_body q)))))
      | (g, Inr slot) \<Rightarrow>
          (let s1 = s\<lparr>sv_gates := g\<rparr> in
           case enforce_auth (dp_auth_libs d) (dp_env d) (dp_auth_config d) (rq_headers q) (rq_body q) of
             Inl e \<Rightarrow>
               (let s2 = audit_http ''http'' (if snd (snd e) \<noteq> None then ''denied_scope'' else ''denied_auth'')
                           (s1\<lparr>sv_denied_auth := sv_denied_auth s1 + 1\<rparr>) in
                (drop_slot_sv slot s2, Inl (auth_failure d q e)))
           | Inr caller \<Rightarrow> (s1, Inr (slot, caller))))"

text \<open>Batches, the reserved slots, notifications.\<close>

definition reserved_slots :: "env \<Rightarrow> nat" where
  "reserved_slots env =
     (case Option.bind (env ''MCP_RESERVED_AUTH_SLOTS'') parse_u64 of
        Some n \<Rightarrow> n | None \<Rightarrow> MAX_DB_CONNS div 4)"

definition mcp_shape ::
  "deployment \<Rightarrow> http_request \<Rightarrow> string option \<Rightarrow> server \<Rightarrow> http_response option" where
  "mcp_shape d q caller s =
     (let req = rq_body q in
      if is_array req then
        Some (json_response 400 (rpc_error JNull ''-32600''
          (''JSON-RPC batching is not supported in MCP 2025-06-18 '' @ [CHR 0xE2, CHR 0x80, CHR 0x94] @
           '' send one request per message'')))
      else if caller = None \<and> dp_auth_config d \<noteq> None \<and> g_permits (sv_gates s) \<le> reserved_slots (dp_env d) then
        Some (json_response 503 (rpc_error (request_id req) ''-32000''
          (''server busy '' @ [CHR 0xE2, CHR 0x80, CHR 0x94] @ '' remaining capacity is reserved for authenticated clients'')))
      else if is_object req \<and> jget ''id'' req = None then Some (json_response 202 JNull)
      else None)"

text \<open>The revision of the request and the agreement of its headers.\<close>

definition request_method :: "json \<Rightarrow> string" where
  "request_method req = (case get_str ''method'' req of Some m \<Rightarrow> m | None \<Rightarrow> [])"

definition request_params :: "json \<Rightarrow> json" where
  "request_params req = (case jget ''params'' req of Some p \<Rightarrow> p | None \<Rightarrow> jobj [])"

definition bad_version :: "http_request \<Rightarrow> string option" where
  "bad_version q =
     (if get_str ''method'' (rq_body q) = Some ''initialize'' then None
      else (case rq_headers q ''mcp-protocol-version'' of
              Some asked \<Rightarrow> if rev_parse asked = None then Some asked else None
            | None \<Rightarrow> None))"

definition rev_for_request :: "http_request \<Rightarrow> rev option \<Rightarrow> rev" where
  "rev_for_request q sess =
     (case rev_from_meta (request_params (rq_body q)) of
        Some r \<Rightarrow> r
      | None \<Rightarrow>
          (case Option.bind (rq_headers q ''mcp-protocol-version'') rev_parse of
             Some r \<Rightarrow> r
           | None \<Rightarrow> (case sess of Some r \<Rightarrow> r | None \<Rightarrow> V20250618)))"

definition mcp_version :: "http_request \<Rightarrow> rev option \<Rightarrow> (http_response \<times> bool) + rev" where
  "mcp_version q sess =
     (let req = rq_body q in
      case bad_version q of
        Some asked \<Rightarrow>
          Inl (json_response 400 (jinsert ''id'' (request_id req)
                (jinsert ''jsonrpc'' (JStr ''2.0'') (unsupported_header_error asked))), False)
      | None \<Rightarrow>
          (let r = rev_for_request q sess; m = request_method req in
           case check_header_agreement r m (body_target_name m (request_params req))
                  (rq_headers q ''mcp-method'') (rq_headers q ''mcp-name'') of
             Inl (code, msg) \<Rightarrow> Inl (json_response 400 (rpc_error (request_id req) (int_str code) msg), True)
           | Inr _ \<Rightarrow> Inr r))"

text \<open>What travels to the working thread.\<close>

record work =
  wk_slot :: slot_guard
  wk_caller :: "string option"
  wk_rev :: rev

definition mcp_admit :: "deployment \<Rightarrow> http_request \<Rightarrow> server \<Rightarrow> server \<times> (http_response + work)" where
  "mcp_admit d q s0 =
     (case mcp_front d q s0 of
        (s1, Inl resp) \<Rightarrow> (s1, Inl resp)
      | (s1, Inr sess) \<Rightarrow>
          (case mcp_auth d q s1 of
             (s2, Inl resp) \<Rightarrow> (s2, Inl resp)
           | (s2, Inr (slot, caller)) \<Rightarrow>
               (case mcp_shape d q caller s2 of
                  Some resp \<Rightarrow> (drop_slot_sv slot s2, Inl resp)
                | None \<Rightarrow>
                    (case gate_pool ''http'' (sv_gates s2) of
                       (g, Inl rej) \<Rightarrow>
                         (drop_slot_sv slot (s2\<lparr>sv_gates := g\<rparr>),
                          Inl (json_response 503 (rejection_response rej (request_id (rq_body q)))))
                     | (g, Inr _) \<Rightarrow>
                         (let s3 = s2\<lparr>sv_gates := g\<rparr> in
                          case mcp_version q sess of
                            Inl (resp, audited) \<Rightarrow>
                              (let s4 = (if audited then audit_http ''http/header_mismatch'' ''refused'' s3 else s3) in
                               (s4\<lparr>sv_gates := release_guards slot (sv_gates s4)\<rparr>, Inl resp))
                          | Inr r \<Rightarrow> (s3, Inr \<lparr>wk_slot = slot, wk_caller = caller, wk_rev = r\<rparr>))))))"

section \<open>The answer and the session\<close>

definition make_session_room :: "nat \<Rightarrow> sessions \<Rightarrow> sessions" where
  "make_session_room now ss =
     (if length ss < MAX_SESSIONS then ss
      else (let kept = filter (\<lambda>(k, used, r). now - used < SESSION_IDLE_SECS) ss in
            if length kept < MAX_SESSIONS then kept else []))"

definition negotiated_in :: "string \<Rightarrow> json \<Rightarrow> rev option" where
  "negotiated_in m resp =
     (if m = ''initialize'' then
        Option.bind (Option.bind (jget ''result'' resp) (get_str ''protocolVersion'')) rev_parse
      else None)"

definition store_session ::
  "string \<Rightarrow> string option \<Rightarrow> json \<Rightarrow> string \<Rightarrow> nat \<Rightarrow> sessions \<Rightarrow> sessions \<times> string" where
  "store_session m sid resp new_id now ss =
     (let negotiated = negotiated_in m resp in
      if m = ''initialize'' \<and> sid = None \<and> jget ''result'' resp \<noteq> None then
        (AList.update new_id (now, case negotiated of Some r \<Rightarrow> r | None \<Rightarrow> V20250618) (make_session_room now ss),
         new_id)
      else (let known = (case sid of Some x \<Rightarrow> x | None \<Rightarrow> []) in
            (case negotiated of
               Some r \<Rightarrow>
                 (case map_of ss known of
                    Some (used, r0) \<Rightarrow> AList.update known (used, r) ss
                  | None \<Rightarrow> ss)
             | None \<Rightarrow> ss, known)))"

definition mcp_finish ::
  "http_request \<Rightarrow> work \<Rightarrow> json \<Rightarrow> string \<Rightarrow> nat \<Rightarrow> server \<Rightarrow> server \<times> http_response" where
  "mcp_finish q w resp new_id now s =
     (let s1 = s\<lparr>sv_gates := release_guards (wk_slot w) (sv_gates s)\<rparr>;
          full = jinsert ''id'' (jidx (rq_body q) ''id'') (jinsert ''jsonrpc'' (JStr ''2.0'') resp) in
      case store_session (request_method (rq_body q)) (rq_headers q ''mcp-session-id'') full new_id now (sv_sessions s1) of
        (ss, sid) \<Rightarrow>
          (s1\<lparr>sv_sessions := ss\<rparr>,
           \<lparr>hr_status = 200, hr_headers = (if sid \<noteq> [] then [(''mcp-session-id'', sid)] else []),
            hr_body = BodyJson full\<rparr>))"

section \<open>Ending a session\<close>

definition delete_session_handler :: "deployment \<Rightarrow> http_request \<Rightarrow> server \<Rightarrow> server \<times> http_response" where
  "delete_session_handler d q s =
     (let text = (\<lambda>st t. \<lparr>hr_status = st, hr_headers = [], hr_body = BodyText t\<rparr>) in
      case check_origin (dp_env d) (rq_headers q) (listen_addr (dp_env d)) of
        Inl e \<Rightarrow>
          (audit_http ''http'' ''denied_origin'' (s\<lparr>sv_denied_origin := sv_denied_origin s + 1\<rparr>),
           text 403 (origin_message e))
      | Inr _ \<Rightarrow>
          (case allow (dp_env d) (client_key_of d q) (rq_now q) (g_buckets (sv_gates s)) of
             (bs, ok) \<Rightarrow>
               (let s1 = s\<lparr>sv_gates := (sv_gates s)\<lparr>g_buckets := bs\<rparr>\<rparr> in
                if \<not> ok then
                  (audit_http ''http'' ''denied_rate''
                     (s1\<lparr>sv_gates := (sv_gates s1)\<lparr>g_denied_rate := g_denied_rate (sv_gates s1) + 1\<rparr>\<rparr>),
                   text 429 ''rate limit exceeded'')
                else (case enforce_auth (dp_auth_libs d) (dp_env d) (dp_auth_config d) (rq_headers q)
                             (jobj [(''method'', JStr ''session/delete'')]) of
                        Inl (code, msg, t) \<Rightarrow>
                          (audit_http ''http'' ''denied_auth'' (s1\<lparr>sv_denied_auth := sv_denied_auth s1 + 1\<rparr>),
                           text code msg)
                      | Inr _ \<Rightarrow>
                          (case rq_headers q ''mcp-session-id'' of
                             Some sid \<Rightarrow>
                               if map_of (sv_sessions s1) sid \<noteq> None
                               then (s1\<lparr>sv_sessions := AList.delete sid (sv_sessions s1)\<rparr>, text 204 [])
                               else (s1, text 404 ''unknown session'')
                           | None \<Rightarrow> (s1, text 400 ''missing Mcp-Session-Id''))))))"

section \<open>The standard streams\<close>

definition MAX_MSG_BYTES :: nat where
  "MAX_MSG_BYTES = 4 * 1024 * 1024"

text \<open>Reading a JSON text tells an incomplete text from a wrong one.\<close>

datatype json_read = Json_Value json | Json_Eof | Json_Error string

record stdio_state =
  st_buf :: string
  st_gates :: gates
  st_out :: "json list"

definition emit :: "json \<Rightarrow> stdio_state \<Rightarrow> stdio_state" where
  "emit v s = s\<lparr>st_out := st_out s @ [v]\<rparr>"

definition stdio_answer :: "json \<Rightarrow> json \<Rightarrow> json" where
  "stdio_answer i resp = jinsert ''id'' i (jinsert ''jsonrpc'' (JStr ''2.0'') resp)"

definition stdio_request ::
  "env \<Rightarrow> string \<Rightarrow> (json \<Rightarrow> json) \<Rightarrow> rat \<Rightarrow> json \<Rightarrow> stdio_state \<Rightarrow> stdio_state" where
  "stdio_request env key handle now req s =
     (if is_array req then
        emit (rpc_error JNull ''-32600'' (''JSON-RPC batching is not supported in MCP 2025-06-18 '' @
          [CHR 0xE2, CHR 0x80, CHR 0x94] @ '' send one request per message'')) s
      else if is_object req \<and> jget ''id'' req = None then s
      else (case gate env key ''stdio'' now (st_gates s) of
              (g, Inr slot) \<Rightarrow>
                emit (stdio_answer (request_id req) (handle req)) (s\<lparr>st_gates := release_guards slot g\<rparr>)
            | (g, Inl rej) \<Rightarrow>
                emit (stdio_answer (request_id req) (rejection_response rej (request_id req))) (s\<lparr>st_gates := g\<rparr>)))"

definition stdio_line ::
  "env \<Rightarrow> string \<Rightarrow> (string \<Rightarrow> json_read) \<Rightarrow> (json \<Rightarrow> json) \<Rightarrow> rat \<Rightarrow> string \<Rightarrow> stdio_state \<Rightarrow> stdio_state" where
  "stdio_line env key read handle now line s =
     (if st_buf s = [] \<and> trim line = [] then s
      else (let buf = st_buf s @ line @ [newline] in
            if MAX_MSG_BYTES < length buf then
              emit (rpc_error JNull ''-32600'' ''message too large'') (s\<lparr>st_buf := []\<rparr>)
            else (case read buf of
                    Json_Eof \<Rightarrow> s\<lparr>st_buf := buf\<rparr>
                  | Json_Error e \<Rightarrow> emit (rpc_error JNull ''-32700'' (''parse error: '' @ e)) (s\<lparr>st_buf := []\<rparr>)
                  | Json_Value v \<Rightarrow> stdio_request env key handle now v (s\<lparr>st_buf := []\<rparr>))))"

fun run_stdio ::
  "env \<Rightarrow> string \<Rightarrow> (string \<Rightarrow> json_read) \<Rightarrow> (json \<Rightarrow> json) \<Rightarrow> (rat \<times> string) list \<Rightarrow> stdio_state \<Rightarrow> stdio_state" where
  "run_stdio env key read handle [] s = s"
| "run_stdio env key read handle ((now, l) # ls) s =
     run_stdio env key read handle ls (stdio_line env key read handle now l s)"

section \<open>Properties\<close>

lemma client_key_nonempty: "rq_peer q \<noteq> [] \<Longrightarrow> client_key_of d q \<noteq> []"
  by (auto simp: client_key_of_def client_key_def client_key_with_def Let_def split: option.splits)

lemma mcp_front_frame:
  "mcp_front d q s = (s', r) \<Longrightarrow>
   g_slots (sv_gates s') = g_slots (sv_gates s) \<and> g_permits (sv_gates s') = g_permits (sv_gates s)"
  by (auto simp: mcp_front_def audit_http_def lookup_session_def Let_def dest!: gate_rate_frame
      split: sum.splits option.splits prod.splits)

lemma mcp_auth_ok:
  assumes "mcp_auth d q s = (s', Inr (slot, caller))"
  shows "enforce_auth (dp_auth_libs d) (dp_env d) (dp_auth_config d) (rq_headers q) (rq_body q) = Inr caller"
    and "g_permits (sv_gates s') = g_permits (sv_gates s)"
    and "acquire_slot_capped (client_key_of d q) (slot_cap (dp_env d) (sv_gates s)) (g_slots (sv_gates s))
       = (g_slots (sv_gates s'), Some slot)"
  using assms gate_in_flight_cases
  by (fastforce simp: mcp_auth_def Let_def split: prod.splits sum.splits)+

lemma mcp_auth_refused:
  assumes "mcp_auth d q s = (s', Inl resp)" and "slots_inv (g_slots (sv_gates s))" and "client_key_of d q \<noteq> []"
  shows "g_slots (sv_gates s') = g_slots (sv_gates s) \<and> g_permits (sv_gates s') = g_permits (sv_gates s)"
proof -
  from assms(3) obtain c ks where k: "client_key_of d q = c # ks" by (cases "client_key_of d q") auto
  note res = slot_res.fail_unchanged [OF assms(2)] slot_res.release_restores [OF assms(2)]
  show ?thesis
    using assms(1) res k
    by (auto simp: mcp_auth_def gate_in_flight_def audit_gate_def audit_http_def drop_slot_sv_def release_slot_def
        Let_def split: prod.splits sum.splits option.splits)
qed

text \<open>C12: No work without the whole gate: a request reaches the working thread only when its origin is
  acceptable, the start-up check is done, its session (if it names one) is known, authentication and
  scope passed under the identity it runs with, its version is implemented, its routing headers agree
  with its body, and it holds a slot and exactly one permit.\<close>

theorem work_passed_every_gate:
  assumes "mcp_admit d q s = (s', Inr w)"
  shows "check_origin (dp_env d) (rq_headers q) (listen_addr (dp_env d)) = Inr ()
       \<and> rq_blocked q = None
       \<and> (\<forall>sid. rq_headers q ''mcp-session-id'' = Some sid \<longrightarrow> map_of (sv_sessions s) sid \<noteq> None)
       \<and> enforce_auth (dp_auth_libs d) (dp_env d) (dp_auth_config d) (rq_headers q) (rq_body q) = Inr (wk_caller w)
       \<and> bad_version q = None
       \<and> check_header_agreement (wk_rev w) (request_method (rq_body q))
            (body_target_name (request_method (rq_body q)) (request_params (rq_body q)))
            (rq_headers q ''mcp-method'') (rq_headers q ''mcp-name'') = Inr ()
       \<and> \<not> is_array (rq_body q)
       \<and> g_permits (sv_gates s) = g_permits (sv_gates s') + 1"
proof -
  obtain s1 sess where f: "mcp_front d q s = (s1, Inr sess)"
    using assms by (auto simp: mcp_admit_def split: prod.splits sum.splits)
  obtain s2 slot caller where a: "mcp_auth d q s1 = (s2, Inr (slot, caller))"
    using assms f by (auto simp: mcp_admit_def split: prod.splits sum.splits)
  have sh: "mcp_shape d q caller s2 = None"
    using assms f a by (auto simp: mcp_admit_def split: option.splits)
  obtain g where p: "gate_pool ''http'' (sv_gates s2) = (g, Inr ())"
    using assms f a sh by (auto simp: mcp_admit_def split: prod.splits sum.splits)
  obtain r where v: "mcp_version q sess = Inr r" and w: "w = \<lparr>wk_slot = slot, wk_caller = caller, wk_rev = r\<rparr>"
    and s': "s' = s2\<lparr>sv_gates := g\<rparr>"
    using assms f a sh p by (auto simp: mcp_admit_def Let_def split: sum.splits)
  have front: "check_origin (dp_env d) (rq_headers q) (listen_addr (dp_env d)) = Inr ()" "rq_blocked q = None"
    "\<forall>sid. rq_headers q ''mcp-session-id'' = Some sid \<longrightarrow> map_of (sv_sessions s) sid \<noteq> None"
    using f by (auto simp: mcp_front_def lookup_session_def Let_def split: sum.splits option.splits prod.splits)
  have ver: "bad_version q = None"
    "check_header_agreement r (request_method (rq_body q))
       (body_target_name (request_method (rq_body q)) (request_params (rq_body q)))
       (rq_headers q ''mcp-method'') (rq_headers q ''mcp-name'') = Inr ()"
    using v by (auto simp: mcp_version_def Let_def split: option.splits sum.splits)
  have "\<not> is_array (rq_body q)" using sh by (auto simp: mcp_shape_def Let_def split: if_splits)
  moreover have "g_permits (sv_gates s) = g_permits (sv_gates s') + 1"
    using mcp_front_frame [OF f] mcp_auth_ok(2) [OF a] gate_pool_cases(2) [OF p refl] s' by simp
  ultimately show ?thesis using front mcp_auth_ok(1) [OF a] ver w by simp
qed

text \<open>A refused request leaves nothing behind: whichever stage of the HTTP path answers early, the
  in-flight table and the free permits are as they were; and a request refused for its origin does not
  even touch the rate limit.\<close>

theorem refused_http_holds_nothing:
  assumes "mcp_admit d q s = (s', Inl resp)" and "slots_inv (g_slots (sv_gates s))" and "rq_peer q \<noteq> []"
  shows "g_slots (sv_gates s') = g_slots (sv_gates s) \<and> g_permits (sv_gates s') = g_permits (sv_gates s)
       \<and> (check_origin (dp_env d) (rq_headers q) (listen_addr (dp_env d)) \<noteq> Inr () \<longrightarrow>
            g_buckets (sv_gates s') = g_buckets (sv_gates s) \<and> hr_status resp = 403)"
proof -
  have origin: "g_buckets (sv_gates s') = g_buckets (sv_gates s) \<and> hr_status resp = 403"
    if "check_origin (dp_env d) (rq_headers q) (listen_addr (dp_env d)) \<noteq> Inr ()"
    using assms(1) that
    by (auto simp: mcp_admit_def mcp_front_def audit_http_def Let_def split: sum.splits)
  note key = client_key_nonempty [OF assms(3), of d]
  obtain s1 r1 where f: "mcp_front d q s = (s1, r1)" by fastforce
  note fr = mcp_front_frame [OF f]
  have "g_slots (sv_gates s') = g_slots (sv_gates s) \<and> g_permits (sv_gates s') = g_permits (sv_gates s)"
  proof (cases r1)
    case (Inl x)
    with assms(1) f fr show ?thesis by (simp add: mcp_admit_def)
  next
    case (Inr sess)
    obtain s2 r2 where a: "mcp_auth d q s1 = (s2, r2)" by fastforce
    have inv1: "slots_inv (g_slots (sv_gates s1))" using fr assms(2) by simp
    show ?thesis
    proof (cases r2)
      case (Inl x)
      with assms(1) f Inr a mcp_auth_refused [OF _ inv1 key] fr show ?thesis
        by (auto simp: mcp_admit_def)
    next
      case r2: (Inr sc)
      obtain slot caller where sc: "sc = (slot, caller)" by fastforce
      note ok = mcp_auth_ok [OF a [unfolded r2 sc]]
      obtain c ks where k: "client_key_of d q = c # ks" using key by (cases "client_key_of d q") auto
      have dr: "drop_slot slot (g_slots (sv_gates s2)) = g_slots (sv_gates s)"
        using slot_res.release_restores [OF inv1 ok(3) [unfolded k]] fr by simp
      show ?thesis
        using assms(1) f Inr a r2 sc dr ok(2) fr
        by (auto simp: mcp_admit_def Let_def drop_slot_sv_def release_slot_def release_guards_def release_permit_def
            gate_pool_def audit_gate_def audit_http_def split: option.splits sum.splits prod.splits if_splits)
    qed
  qed
  with origin show ?thesis by blast
qed

section \<open>The HTTP path runs the steps of the gates\<close>

text \<open>Every stage of a request over HTTP is a run of \<open>gate_step\<close>: admission ends with nothing held or with
  the slot and the permit that travel to the working thread, and \<open>mcp_finish\<close> gives both back.\<close>

lemma record_step: "gate_step env (sv_gates s, held) (sv_gates (audit_http tool decision s), held)"
  by (auto simp: audit_http_def intro: gate_step.recorded)

lemma mcp_front_steps:
  assumes "mcp_front d q s = (s', r)"
  shows "(gate_step (dp_env d))\<^sup>*\<^sup>* (sv_gates s, held) (sv_gates s', held)"
proof -
  have rec: "gate_step (dp_env d) (sv_gates s, held) (sv_gates s\<lparr>g_audit := a\<rparr>, held)" for a
    by (rule gate_step.recorded)
  obtain g rg where g: "gate_rate (dp_env d) (client_key_of d q) ''http'' (rq_now q) (sv_gates s) = (g, rg)"
    by fastforce
  note st = gate_step.rate [OF g, where held=held]
  from assms g st rec show ?thesis
    by (auto simp: mcp_front_def lookup_session_def audit_http_def Let_def
        split: sum.splits option.splits prod.splits)
qed

lemma mcp_auth_steps:
  assumes "mcp_auth d q s = (s', r)" and "client_key_of d q \<noteq> []"
  shows "(gate_step (dp_env d))\<^sup>*\<^sup>* (sv_gates s, held)
     (sv_gates s', case r of Inl resp \<Rightarrow> held | Inr (slot, caller) \<Rightarrow> Slot_Only slot # held)"
proof -
  obtain g rg where g: "gate_in_flight (dp_env d) (client_key_of d q) ''http'' (sv_gates s) = (g, rg)" by fastforce
  note st = gate_in_flight_steps [OF g assms(2), of held]
  show ?thesis
  proof (cases rg)
    case (Inl e)
    with assms(1) g st show ?thesis by (auto simp: mcp_auth_def)
  next
    case (Inr slot)
    note st1 = r_into_rtranclp [where r="gate_step (dp_env d)", OF st [unfolded Inr sum.case]]
    have failed: "(gate_step (dp_env d))\<^sup>*\<^sup>* (sv_gates s, held) (release_slot slot (g\<lparr>g_audit := a\<rparr>), held)" for a
      by (rule rtranclp.rtrancl_into_rtrancl [OF rtranclp.rtrancl_into_rtrancl [OF st1 gate_step.recorded]
            release_slot_steps])
    from assms(1) g Inr st1 failed show ?thesis
      by (auto simp: mcp_auth_def audit_http_def drop_slot_sv_def Let_def split: sum.splits)
  qed
qed

lemma http_admission_steps:
  assumes "mcp_admit d q s = (s', r)" and "rq_peer q \<noteq> []"
  shows "(gate_step (dp_env d))\<^sup>*\<^sup>* (sv_gates s, held)
     (sv_gates s', case r of Inl resp \<Rightarrow> held | Inr w \<Rightarrow> Slot_And_Permit (wk_slot w) # held)"
proof -
  obtain s1 r1 where f: "mcp_front d q s = (s1, r1)" by fastforce
  note st1 = mcp_front_steps [OF f, of held]
  show ?thesis
  proof (cases r1)
    case (Inl resp)
    with assms(1) f st1 show ?thesis by (auto simp: mcp_admit_def)
  next
    case r1: (Inr sess)
    obtain s2 r2 where a: "mcp_auth d q s1 = (s2, r2)" by fastforce
    note st2 = rtranclp_trans [OF st1 mcp_auth_steps [OF a client_key_nonempty [OF assms(2)], of held]]
    show ?thesis
    proof (cases r2)
      case (Inl resp)
      with assms(1) f r1 a st2 show ?thesis by (auto simp: mcp_admit_def)
    next
      case r2: (Inr sc)
      obtain slot caller where sc: "sc = (slot, caller)" by fastforce
      note st3 = st2 [unfolded r2 sc sum.case prod.case]
      have drop: "(gate_step (dp_env d))\<^sup>*\<^sup>* (sv_gates s, held) (release_slot slot x, held)"
        if "(gate_step (dp_env d))\<^sup>*\<^sup>* (sv_gates s, held) (x, Slot_Only slot # held)" for x
        by (rule rtranclp.rtrancl_into_rtrancl [OF that release_slot_steps])
      obtain g rg where g: "gate_pool ''http'' (sv_gates s2) = (g, rg)" by fastforce
      note st4 = rtranclp.rtrancl_into_rtrancl [OF st3 gate_pool_steps [OF g]]
      have late: "(gate_step (dp_env d))\<^sup>*\<^sup>* (sv_gates s, held) (release_guards slot g, held)"
        "(gate_step (dp_env d))\<^sup>*\<^sup>* (sv_gates s, held) (release_guards slot (g\<lparr>g_audit := a\<rparr>), held)"
        if "rg = Inr ()" for a
        using st4 [unfolded that sum.case] release_guards_steps [of "dp_env d" _ "[]" slot held]
          gate_step.recorded [of "dp_env d" g "Slot_And_Permit slot # held" a]
        by (auto intro: rtranclp_trans rtranclp.rtrancl_into_rtrancl)
      show ?thesis
        using assms(1) f r1 a r2 sc g drop [OF st3] drop [of g] st4 late
        by (auto simp: mcp_admit_def drop_slot_sv_def audit_http_def Let_def
            split: option.splits sum.splits)
    qed
  qed
qed

lemma http_finish_steps:
  "(gate_step env)\<^sup>*\<^sup>* (sv_gates s, pre @ Slot_And_Permit (wk_slot w) # post)
     (sv_gates (fst (mcp_finish q w resp new_id now s)), pre @ post)"
  using release_guards_steps [of env "sv_gates s" pre "wk_slot w" post]
  by (auto simp: mcp_finish_def Let_def split: prod.splits)

section \<open>The session table\<close>

lemma make_session_room_length: "length ss \<le> MAX_SESSIONS \<Longrightarrow> length (make_session_room now ss) < MAX_SESSIONS"
  by (auto simp: make_session_room_def Let_def MAX_SESSIONS_def)

lemma make_session_room_distinct:
  "distinct (map fst ss) \<Longrightarrow> distinct (map fst (make_session_room now ss))"
  by (auto simp: make_session_room_def Let_def intro: distinct_map_filter)

lemma update_known_length: "map_of ss k \<noteq> None \<Longrightarrow> length (AList.update k v ss) = length ss"
  by (induction ss) auto

definition sessions_ok :: "sessions \<Rightarrow> bool" where
  "sessions_ok ss \<longleftrightarrow> distinct (map fst ss) \<and> length ss \<le> MAX_SESSIONS"

lemma sessions_ok_update: "sessions_ok ss \<Longrightarrow> map_of ss k = Some v0 \<Longrightarrow> sessions_ok (AList.update k v ss)"
  using distinct_update [of ss k v] update_known_length [of ss k v] by (simp add: sessions_ok_def)

lemma sessions_ok_insert: "sessions_ok ss \<Longrightarrow> sessions_ok (AList.update k v (make_session_room now ss))"
  using make_session_room_length [of ss now] make_session_room_distinct [of ss now]
    length_update [of k v "make_session_room now ss"] distinct_update [of "make_session_room now ss" k v]
  by (simp add: sessions_ok_def)

lemma sessions_ok_delete: "sessions_ok ss \<Longrightarrow> sessions_ok (AList.delete k ss)"
  using distinct_delete [of ss k] le_trans [OF length_filter_le, of ss MAX_SESSIONS]
  by (simp add: sessions_ok_def AList.delete_eq)

lemma mcp_front_sessions: "mcp_front d q s = (s', r) \<Longrightarrow> sessions_ok (sv_sessions s) \<Longrightarrow> sessions_ok (sv_sessions s')"
  by (auto simp: mcp_front_def lookup_session_def audit_http_def Let_def simp del: AList.update.simps
      intro: sessions_ok_update split: sum.splits option.splits prod.splits)

lemma mcp_auth_sessions: "mcp_auth d q s = (s', r) \<Longrightarrow> sv_sessions s' = sv_sessions s"
  by (auto simp: mcp_auth_def audit_http_def drop_slot_sv_def Let_def split: sum.splits prod.splits)

lemma mcp_admit_sessions:
  assumes "sessions_ok (sv_sessions s)"
  shows "sessions_ok (sv_sessions (fst (mcp_admit d q s)))"
proof -
  obtain s1 r1 where f: "mcp_front d q s = (s1, r1)" by fastforce
  note ok1 = mcp_front_sessions [OF f assms]
  obtain s2 r2 where a: "mcp_auth d q s1 = (s2, r2)" by fastforce
  have ok2: "sessions_ok (sv_sessions s2)" using ok1 mcp_auth_sessions [OF a] by simp
  show ?thesis
    using f a ok1 ok2
    by (auto simp: mcp_admit_def Let_def drop_slot_sv_def audit_http_def
        split: sum.splits option.splits prod.splits)
qed

lemma store_session_ok: "sessions_ok ss \<Longrightarrow> sessions_ok (fst (store_session m sid resp i now ss))"
  by (auto simp: store_session_def Let_def simp del: AList.update.simps
      intro: sessions_ok_update sessions_ok_insert split: option.splits)

text \<open>The session table is bounded although anyone may open a session: every stage of every request
  keeps one entry per session and at most ten thousand of them.\<close>

theorem session_table_bounded:
  assumes "sessions_ok (sv_sessions s)"
  shows "sessions_ok (sv_sessions (fst (mcp_admit d q s)))
       \<and> sessions_ok (sv_sessions (fst (mcp_finish q w resp new_id now s)))
       \<and> sessions_ok (sv_sessions (fst (delete_session_handler d q s)))"
proof (intro conjI)
  show "sessions_ok (sv_sessions (fst (mcp_admit d q s)))" using assms by (rule mcp_admit_sessions)
  show "sessions_ok (sv_sessions (fst (mcp_finish q w resp new_id now s)))"
    using store_session_ok [OF assms]
    by (simp add: mcp_finish_def Let_def split: prod.splits) (metis fst_conv)
  show "sessions_ok (sv_sessions (fst (delete_session_handler d q s)))"
    using assms
    by (auto simp: delete_session_handler_def audit_http_def Let_def
        intro: sessions_ok_delete split: sum.splits option.splits prod.splits)
qed

section \<open>The standard streams\<close>

lemma gate_guard_released:
  assumes "gate env key tr now s = (s', r)" and "slots_inv (g_slots s)" and "key \<noteq> []"
  shows "case r of
           Inl e \<Rightarrow> g_slots s' = g_slots s \<and> g_permits s' = g_permits s
         | Inr g \<Rightarrow> g_slots (release_guards g s') = g_slots s \<and> g_permits (release_guards g s') = g_permits s"
proof (cases r)
  case (Inl e)
  from assms(3) obtain c ks where key: "key = c # ks" by (cases key) auto
  note res = slot_res.fail_unchanged [OF assms(2)] slot_res.release_restores [OF assms(2)]
  show ?thesis
    using assms(1) res unfolding Inl key
    by (auto simp: gate_def gate_rate_def gate_in_flight_def gate_pool_def audit_gate_def release_slot_def
        Let_def split: prod.splits sum.splits option.splits if_splits)
next
  case (Inr g)
  from assms(3) obtain c ks where key: "key = c # ks" by (cases key) auto
  from gate_admits [OF assms(1) [unfolded Inr]] slot_res.release_restores [OF assms(2)] show ?thesis
    unfolding Inr key by (auto simp: release_guards_def release_slot_def release_permit_def)
qed

definition stdio_inv :: "gates \<Rightarrow> stdio_state \<Rightarrow> bool" where
  "stdio_inv g0 s \<longleftrightarrow> length (st_buf s) \<le> MAX_MSG_BYTES \<and> g_slots (st_gates s) = g_slots g0
     \<and> g_permits (st_gates s) = g_permits g0"

lemma stdio_request_inv:
  assumes "stdio_inv g0 s" and "slots_inv (g_slots g0)" and "key \<noteq> []"
  shows "stdio_inv g0 (stdio_request env key handle now req s)"
proof -
  obtain g r where gt: "gate env key ''stdio'' now (st_gates s) = (g, r)" by fastforce
  have "slots_inv (g_slots (st_gates s))" using assms(1,2) by (simp add: stdio_inv_def)
  from gate_guard_released [OF gt this assms(3)] assms(1) gt show ?thesis
    by (auto simp: stdio_request_def stdio_inv_def emit_def split: sum.splits)
qed

text \<open>Over the standard streams the server stays bounded and returns what it takes: however the input is
  cut into lines, the buffer never exceeds four megabytes, every slot and permit is back after each
  message, and a message produces at most one answer.\<close>

theorem stdio_bounded_and_balanced:
  assumes "slots_inv (g_slots g0)" and "key \<noteq> []"
  shows "stdio_inv g0 (run_stdio env key read handle input \<lparr>st_buf = [], st_gates = g0, st_out = []\<rparr>)
       \<and> length (st_out (run_stdio env key read handle input \<lparr>st_buf = [], st_gates = g0, st_out = []\<rparr>)) \<le> length input"
proof -
  have line: "stdio_inv g0 (stdio_line env key read handle now l s)" if "stdio_inv g0 s" for now l s
  proof -
    have e: "stdio_inv g0 (s\<lparr>st_buf := []\<rparr>)" using that by (simp add: stdio_inv_def)
    show ?thesis
      using that e stdio_request_inv [OF e assms]
      by (auto simp: stdio_line_def Let_def stdio_inv_def emit_def split: json_read.splits)
  qed
  have out: "length (st_out (stdio_line env key read handle now l s)) \<le> Suc (length (st_out s))" for now l s
    by (auto simp: stdio_line_def stdio_request_def emit_def Let_def
        split: json_read.splits sum.splits prod.splits)
  have "stdio_inv g0 s \<Longrightarrow> stdio_inv g0 (run_stdio env key read handle input s)
      \<and> length (st_out (run_stdio env key read handle input s)) \<le> length (st_out s) + length input" for s
  proof (induction input arbitrary: s)
    case Nil
    then show ?case by simp
  next
    case (Cons x xs)
    obtain now l where x: "x = (now, l)" by fastforce
    from Cons.IH [OF line [OF Cons.prems, of now l]] out [of now l s] show ?case by (simp add: x)
  qed
  from this [of "\<lparr>st_buf = [], st_gates = g0, st_out = []\<rparr>"] show ?thesis by (simp add: stdio_inv_def)
qed

section \<open>Concrete requests\<close>

definition demo_deployment :: deployment where
  "demo_deployment = \<lparr>dp_env = (\<lambda>k. None), dp_auth_libs = demo_auth_libs, dp_auth_config = None\<rparr>"

definition demo_http_request :: http_request where
  "demo_http_request = \<lparr>rq_peer = ''10.0.0.7'', rq_headers = (\<lambda>k. None),
     rq_body = JObj [(''id'', JNum ''1''), (''method'', JStr ''ping'')], rq_now = 0, rq_uptime = 0, rq_blocked = None\<rparr>"

definition demo_server :: server where
  "demo_server = \<lparr>sv_gates = \<lparr>g_buckets = [], g_slots = (\<lambda>k. None), g_permits = 16, g_denied_rate = 0, g_audit = []\<rparr>,
     sv_sessions = [], sv_requests = 0, sv_denied_origin = 0, sv_denied_auth = 0\<rparr>"

lemma demo_admit: "\<exists>s' w. mcp_admit demo_deployment demo_http_request demo_server = (s', Inr w)"
proof -
  let ?env = "\<lambda>k::string. None :: string option"
  have ok: "snd (allow_for ?env key ''http'' 0 [])" for key
    by (simp add: allow_for_def transport_rpm_def rpm_def parse_env_f64_def burst_def make_room_def MAX_KEYS_def
        take_token_def Let_def)
  have ad: "listen_addr ?env = ''127.0.0.1:8080''" by (simp add: listen_addr_def env_or_def)
  have ck: "client_key_of demo_deployment demo_http_request = ''10.0.0.7''"
    by (simp add: client_key_of_def demo_deployment_def demo_http_request_def client_key_def client_key_with_def env_flag_def)
  show ?thesis
    using ok [of "''10.0.0.7''"]
    by (cases "allow_for ?env ''10.0.0.7'' ''http'' 0 []")
      (simp add: mcp_admit_def mcp_front_def mcp_auth_def mcp_shape_def mcp_version_def bad_version_def
        ck [unfolded demo_deployment_def demo_http_request_def]
        rev_for_request_def rev_from_meta_def meta_version_def request_params_def check_header_agreement_def
        check_origin_def gate_rate_def gate_in_flight_def gate_pool_def lookup_session_def slot_cap_def
        acquire_slot_capped_def max_in_flight_def MAX_DB_CONNS_def enforce_auth_def shared_token_auth_def
        demo_deployment_def demo_http_request_def demo_server_def is_array_def get_str_def Let_def ad less_rev_def)
qed

theorem work_passed_every_gate_witness:
  "check_origin (dp_env demo_deployment) (rq_headers demo_http_request) (listen_addr (dp_env demo_deployment)) = Inr ()
   \<and> bad_version demo_http_request = None"
proof -
  obtain s' w where "mcp_admit demo_deployment demo_http_request demo_server = (s', Inr w)"
    using demo_admit by blast
  from work_passed_every_gate [OF this] show ?thesis by blast
qed

text \<open>The same request from a page of another origin.\<close>

definition evil_request :: http_request where
  "evil_request = demo_http_request\<lparr>rq_headers := (\<lambda>k. if k = ''origin'' then Some ''http://evil.com'' else None)\<rparr>"

theorem refused_http_holds_nothing_witness:
  "\<exists>s' resp. mcp_admit demo_deployment evil_request demo_server = (s', Inl resp) \<and> hr_status resp = 403
     \<and> g_permits (sv_gates s') = 16"
proof -
  have "\<not> origin_ok (\<lambda>k. None) ''127.0.0.1:8080'' ''http://evil.com''" by code_simp
  then have c: "check_origin (dp_env demo_deployment) (rq_headers evil_request) (listen_addr (dp_env demo_deployment))
      = Inl (Origin_Refused ''http://evil.com'')"
    by (simp add: check_origin_def listen_addr_def env_or_def demo_deployment_def evil_request_def demo_http_request_def)
  then obtain s' resp where a: "mcp_admit demo_deployment evil_request demo_server = (s', Inl resp)"
    by (auto simp: mcp_admit_def mcp_front_def Let_def)
  have "slots_inv (g_slots (sv_gates demo_server))" "rq_peer evil_request \<noteq> []"
    by (simp_all add: demo_server_def slots_inv_def no_zero_def evil_request_def demo_http_request_def)
  from refused_http_holds_nothing [OF a this] c a show ?thesis by (auto simp: demo_server_def)
qed

theorem session_table_bounded_witness:
  "sessions_ok (sv_sessions (fst (mcp_admit demo_deployment demo_http_request demo_server)))"
proof -
  have "sessions_ok (sv_sessions demo_server)" by (simp add: demo_server_def sessions_ok_def MAX_SESSIONS_def)
  from session_table_bounded [OF this] show ?thesis by blast
qed

theorem stdio_bounded_and_balanced_witness:
  "length (st_out (run_stdio (\<lambda>k. None) ''stdio:uid=1'' (\<lambda>s. Json_Error ''expected value'') id [(0, ''?''), (1, ''?'')]
      \<lparr>st_buf = [], st_gates = sv_gates demo_server, st_out = []\<rparr>)) \<le> 2"
proof -
  have "slots_inv (g_slots (sv_gates demo_server))" by (simp add: demo_server_def slots_inv_def no_zero_def)
  from stdio_bounded_and_balanced [OF this, of "''stdio:uid=1''" "\<lambda>k. None" "\<lambda>s. Json_Error ''expected value''" id "[(0, ''?''), (1, ''?'')]"]
  show ?thesis by simp
qed

end
