(* ===== verification/World.thy ===== *)
theory World
  imports Json
begin

text \<open>
  The outside of the request handling: the connection pool, the database behind it and the audit log,
  seen as a sequence of events. An action takes the events so far and returns its result with the
  events it added; the answers of the pool and the database are functions of the events so far, so a
  statement about all worlds covers every behaviour of the database, failures included.
\<close>

section \<open>Events and answers\<close>

datatype param = P_Text string | P_Bool bool | P_Texts "string list"

type_synonym command = "string \<times> param list"

text \<open>An error the database reported (its SQLSTATE, its message, its display) or a failure below it.\<close>

datatype pg_error = Pg_Db string string string | Pg_Transport string

fun pg_error_text :: "pg_error \<Rightarrow> string" where
  "pg_error_text (Pg_Db code msg txt) = txt"
| "pg_error_text (Pg_Transport txt) = txt"

text \<open>A value of a result row, by the one Rust type the driver converts it to. A float that is not
  finite has no JSON number.\<close>

datatype cell =
    Cell_Json "json option"
  | Cell_Text "string option"
  | Cell_Int4 "int option"
  | Cell_Int8 "int option"
  | Cell_Float8 "string option option"
  | Cell_Bool "bool option"
  | Cell_Other

type_synonym row = "(string \<times> cell) list"

text \<open>Rows arrive one by one; the stream may break off with an error.\<close>

datatype row_event = Row row | Row_Failed pg_error

datatype reply = Rows "row_event list" | Failed pg_error

datatype event =
    Got_Conn string nat
  | No_Conn string
  | Probed
  | Sent nat command
  | Audited string string "string option"
  | Counted string

text \<open>What the direct connection attempt of the diagnosis reports.\<close>

datatype attempt = Attempt_Ok | Attempt_Db string string | Attempt_Transport string string

record world =
  w_conn :: "event list \<Rightarrow> string \<Rightarrow> nat option"
  w_reply :: "event list \<Rightarrow> nat \<Rightarrow> command \<Rightarrow> reply"
  w_attempt :: "event list \<Rightarrow> attempt"
  w_parse :: "string \<Rightarrow> json option"
  w_print :: "json \<Rightarrow> string"

section \<open>Actions\<close>

type_synonym 'a act = "event list \<Rightarrow> 'a \<times> event list"

definition ret :: "'a \<Rightarrow> 'a act" where
  "ret x = (\<lambda>l. (x, l))"

definition andthen :: "'a act \<Rightarrow> ('a \<Rightarrow> 'b act) \<Rightarrow> 'b act" where
  "andthen m f = (\<lambda>l. case m l of (x, l') \<Rightarrow> f x l')"

text \<open>The question mark operator on an action that may fail.\<close>

definition attempted :: "('e + 'a) act \<Rightarrow> ('a \<Rightarrow> ('e + 'b) act) \<Rightarrow> ('e + 'b) act" where
  "attempted m f = andthen m (\<lambda>r. case r of Inl e \<Rightarrow> ret (Inl e) | Inr x \<Rightarrow> f x)"

definition emit :: "event \<Rightarrow> unit act" where
  "emit e = (\<lambda>l. ((), l @ [e]))"

definition audit_as :: "string \<Rightarrow> string \<Rightarrow> string option \<Rightarrow> unit act" where
  "audit_as tool decision sql = emit (Audited tool decision sql)"

definition count_as :: "string \<Rightarrow> unit act" where
  "count_as metric = emit (Counted metric)"

definition send :: "world \<Rightarrow> nat \<Rightarrow> command \<Rightarrow> reply act" where
  "send w c cmd = (\<lambda>l. (w_reply w l c cmd, l @ [Sent c cmd]))"

text \<open>\<open>batch_execute\<close>: statements whose rows are dropped; only the first failure matters.\<close>

fun first_failure :: "row_event list \<Rightarrow> pg_error option" where
  "first_failure [] = None"
| "first_failure (Row_Failed e # es) = Some e"
| "first_failure (Row r # es) = first_failure es"

definition batch :: "world \<Rightarrow> nat \<Rightarrow> string \<Rightarrow> (pg_error + unit) act" where
  "batch w c sql = andthen (send w c (sql, []))
     (\<lambda>r. ret (case r of
         Failed e \<Rightarrow> Inl e
       | Rows es \<Rightarrow> (case first_failure es of Some e \<Rightarrow> Inl e | None \<Rightarrow> Inr ())))"

definition take_conn :: "world \<Rightarrow> string \<Rightarrow> nat option act" where
  "take_conn w name = (\<lambda>l. case w_conn w l name of
      Some c \<Rightarrow> (Some c, l @ [Got_Conn name c])
    | None \<Rightarrow> (None, l @ [No_Conn name]))"

definition probe :: "world \<Rightarrow> attempt act" where
  "probe w = (\<lambda>l. (w_attempt w l, l @ [Probed]))"

section \<open>What an action adds\<close>

text \<open>Every action only appends; \<open>emits m P\<close> says that the events it adds and its result satisfy \<open>P\<close>,
  whatever came before.\<close>

definition emits :: "'a act \<Rightarrow> (event list \<Rightarrow> 'a \<Rightarrow> bool) \<Rightarrow> bool" where
  "emits m P = (\<forall>l. \<exists>d. snd (m l) = l @ d \<and> P d (fst (m l)))"

named_theorems emits_rules \<open>rules for the events of an action\<close>

lemma emits_weaken: "emits m P \<Longrightarrow> (\<And>d x. P d x \<Longrightarrow> Q d x) \<Longrightarrow> emits m Q"
  unfolding emits_def by blast

lemma emits_ret [emits_rules]: "P [] x \<Longrightarrow> emits (ret x) P"
  by (simp add: emits_def ret_def)

lemma emits_emit [emits_rules]: "P [e] () \<Longrightarrow> emits (emit e) P"
  by (simp add: emits_def emit_def)

lemma emits_audit [emits_rules]: "P [Audited t d s] () \<Longrightarrow> emits (audit_as t d s) P"
  by (simp add: audit_as_def emits_emit)

lemma emits_count [emits_rules]: "P [Counted m] () \<Longrightarrow> emits (count_as m) P"
  by (simp add: count_as_def emits_emit)

lemma emits_send [emits_rules]: "(\<And>r. P [Sent c cmd] r) \<Longrightarrow> emits (send w c cmd) P"
  by (simp add: emits_def send_def)

lemma emits_probe [emits_rules]: "(\<And>r. P [Probed] r) \<Longrightarrow> emits (probe w) P"
  by (simp add: emits_def probe_def)

lemma emits_take_conn [emits_rules]:
  "(\<And>c. P [Got_Conn name c] (Some c)) \<Longrightarrow> P [No_Conn name] None \<Longrightarrow> emits (take_conn w name) P"
  unfolding emits_def take_conn_def by (auto split: option.splits)

lemma emits_andthen:
  assumes "emits m P" "\<And>d x. P d x \<Longrightarrow> emits (f x) (\<lambda>d' y. Q (d @ d') y)"
  shows "emits (andthen m f) Q"
  unfolding emits_def
proof
  fix l
  from assms(1) obtain d where d: "snd (m l) = l @ d" "P d (fst (m l))" unfolding emits_def by blast
  from assms(2) [OF d(2)] obtain d' where "snd (f (fst (m l)) (snd (m l))) = snd (m l) @ d'"
    "Q (d @ d') (fst (f (fst (m l)) (snd (m l))))"
    unfolding emits_def by blast
  then show "\<exists>d. snd (andthen m f l) = l @ d \<and> Q d (fst (andthen m f l))"
    using d(1) by (auto simp: andthen_def split_beta)
qed

lemma emits_attempted:
  assumes "emits m P" "\<And>d e. P d (Inl e) \<Longrightarrow> Q d (Inl e)"
    and "\<And>d x. P d (Inr x) \<Longrightarrow> emits (f x) (\<lambda>d' y. Q (d @ d') y)"
  shows "emits (attempted m f) Q"
  unfolding attempted_def
proof (rule emits_andthen [OF assms(1)])
  fix d x assume "P d x"
  then show "emits (case x of Inl e \<Rightarrow> ret (Inl e) | Inr x \<Rightarrow> f x) (\<lambda>d' y. Q (d @ d') y)"
    using assms(2,3) by (cases x) (auto intro: emits_ret)
qed

lemma emits_batch [emits_rules]:
  "(\<And>r. P [Sent c (sql, [])] r) \<Longrightarrow> emits (batch w c sql) P"
  unfolding batch_def by (rule emits_andthen [where P = "\<lambda>d x. d = [Sent c (sql, [])]"]) (auto intro: emits_rules)

text \<open>The commands sent over one connection.\<close>

definition commands :: "nat \<Rightarrow> event list \<Rightarrow> command list" where
  "commands c l = concat (map (\<lambda>e. case e of Sent c' cmd \<Rightarrow> if c' = c then [cmd] else [] | _ \<Rightarrow> []) l)"

lemma commands_simps [simp]:
  "commands c [] = []" "commands c (a @ b) = commands c a @ commands c b"
  "commands c (Sent c' cmd # l) = (if c' = c then cmd # commands c l else commands c l)"
  "commands c (Audited t d s # l) = commands c l"
  "commands c (Got_Conn n k # l) = commands c l" "commands c (No_Conn n # l) = commands c l"
  "commands c (Probed # l) = commands c l" "commands c (Counted m # l) = commands c l"
  by (simp_all add: commands_def)

end
