(* ===== verification/Db_Url.thy ===== *)
theory Db_Url
  imports Prelude
begin

text \<open>
  Connection strings: the first half of \<open>src/db.rs\<close>. Which host a string names, whether that host is
  on a trusted network, the TLS mode the driver is given, and the password taken from a file. Both
  dialects are read: URLs, recognised by \<open>://\<close>, and keyword strings.
\<close>

section \<open>Hosts\<close>

text \<open>\<open>split(p).nth(1)\<close>: the text between the first and the second occurrence.\<close>

definition split_nth1 :: "string \<Rightarrow> string \<Rightarrow> string option" where
  "split_nth1 p s =
     (case split_once_str p s of
        None \<Rightarrow> None
      | Some (_, r) \<Rightarrow> (case split_once_str p r of None \<Rightarrow> Some r | Some (x, _) \<Rightarrow> Some x))"

definition is_url :: "string \<Rightarrow> bool" where
  "is_url url = contains url ''://''"

definition path_or_query :: "char \<Rightarrow> bool" where
  "path_or_query c = (c = CHR ''/'' \<or> c = CHR ''?'')"

text \<open>The authority, after its last at sign, without brackets and port.\<close>

definition authority :: "string \<Rightarrow> string" where
  "authority after_scheme = hd (split_on path_or_query after_scheme)"

definition strip_port :: "string \<Rightarrow> string" where
  "strip_port host_port =
     (case Option.bind (strip_prefix host_port ''['') (split_once_char CHR '']'') of
        Some (inner, _) \<Rightarrow> inner
      | None \<Rightarrow> hd (split_char CHR '':'' host_port))"

definition url_host :: "string \<Rightarrow> string" where
  "url_host after_scheme =
     (let a = authority after_scheme in
      strip_port (case rsplit_once_char CHR ''@'' a of Some (_, h) \<Rightarrow> h | None \<Rightarrow> a))"

definition host_of :: "string \<Rightarrow> string option" where
  "host_of url =
     (if \<not> is_url url then
        (case split_nth1 ''host='' url of
           None \<Rightarrow> None
         | Some r \<Rightarrow> (case split_whitespace r of
                        [] \<Rightarrow> None
                      | h # _ \<Rightarrow> Some (to_ascii_lowercase h)))
      else (case split_once_str ''://'' url of
              None \<Rightarrow> None
            | Some (_, after) \<Rightarrow> Some (to_ascii_lowercase (url_host after))))"

definition db_is_local :: "string \<Rightarrow> bool" where
  "db_is_local url =
     (if \<not> is_url url then
        (case split_nth1 ''host='' url of
           None \<Rightarrow> False
         | Some rest \<Rightarrow>
             (let h = (case split_whitespace rest of [] \<Rightarrow> [] | h # _ \<Rightarrow> h) in
              List.member [''localhost'', ''127.0.0.1'', ''::1'', ''[::1]''] h \<or> starts_with h ''/''))
      else (let after_scheme = (case split_once_str ''://'' url of Some (_, rest) \<Rightarrow> rest | None \<Rightarrow> url) in
            List.member [''localhost'', ''127.0.0.1'', ''::1''] (url_host after_scheme)))"

definition authority_has_extra_at :: "string \<Rightarrow> bool" where
  "authority_has_extra_at url =
     (case split_once_str ''://'' url of
        Some (_, rest) \<Rightarrow> 1 < length (filter (\<lambda>c. c = CHR ''@'') (authority rest))
      | None \<Rightarrow> False)"

definition private_suffixes :: "string list" where
  "private_suffixes = [''.local'', ''.internal'', ''.lan'', ''.home.arpa'', ''.svc'', ''.cluster.local'', ''.localdomain'']"

definition private_ipv4 :: "nat \<Rightarrow> nat \<Rightarrow> bool" where
  "private_ipv4 a b =
     (a = 10 \<or> a = 172 \<and> 16 \<le> b \<and> b \<le> 31 \<or> a = 192 \<and> b = 168
      \<or> a = 169 \<and> b = 254 \<or> a = 100 \<and> 64 \<le> b \<and> b \<le> 127)"

definition trusted_host :: "string \<Rightarrow> bool" where
  "trusted_host host =
     (if host = [] then False
      else if starts_with host ''/'' \<or> starts_with host ''%2f'' \<or> starts_with host ''%2F'' then True
      else if \<not> contains_char host CHR ''.'' \<and> \<not> contains_char host CHR '':'' then True
      else if list_ex (ends_with host) private_suffixes then True
      else (let o4 = List.map_filter parse_u32 (split_char CHR ''.'' host) in
            if length o4 = 4 \<and> list_all (\<lambda>n. n \<le> 255) o4 then private_ipv4 (o4 ! 0) (o4 ! 1)
            else (let h = to_ascii_lowercase host in
                  starts_with h ''fc'' \<or> starts_with h ''fd'' \<or> starts_with h ''fe80'')))"

definition db_on_trusted_network :: "string \<Rightarrow> bool" where
  "db_on_trusted_network url =
     (if db_is_local url then True
      else trusted_host (case host_of url of Some h \<Rightarrow> h | None \<Rightarrow> []))"

section \<open>The TLS mode\<close>

definition has_sslmode :: "string \<Rightarrow> bool" where
  "has_sslmode url = contains (to_ascii_lowercase url) ''sslmode=''"

text \<open>The separator depends on the dialect.\<close>

definition with_require :: "string \<Rightarrow> string" where
  "with_require url =
     (if is_url url then
        url @ (if contains_char url CHR ''?'' then ''&'' else ''?'') @ ''sslmode=require''
      else url @ '' sslmode=require'')"

text \<open>The first occurrence is searched in the lowered text and replaced in the original.\<close>

definition replace_first :: "string \<Rightarrow> string \<Rightarrow> string \<Rightarrow> string option" where
  "replace_first needle repl url =
     map_option (\<lambda>pos. take pos url @ repl @ drop (pos + length needle) url)
       (find_str needle (to_ascii_lowercase url))"

fun rewrite_with :: "(string \<times> string) list \<Rightarrow> string \<Rightarrow> string option" where
  "rewrite_with [] url = None"
| "rewrite_with ((needle, repl) # rs) url =
     (case replace_first needle repl url of Some out \<Rightarrow> Some out | None \<Rightarrow> rewrite_with rs url)"

definition mode_rewrites :: "(string \<times> string) list" where
  "mode_rewrites = [(''sslmode=verify-full'', ''sslmode=require''), (''sslmode=verify-ca'', ''sslmode=require''),
                    (''sslmode=allow'', ''sslmode=prefer'')]"

definition weak_rewrites :: "(string \<times> string) list" where
  "weak_rewrites = [(''sslmode=prefer'', ''sslmode=require''), (''sslmode=allow'', ''sslmode=require'')]"

text \<open>The recursion ends: a rewriting step removes the \<open>y\<close> of \<open>verify\<close> or the \<open>w\<close> of \<open>allow\<close>,
  and appending happens only while no mode is named.\<close>

definition wy_count :: "string \<Rightarrow> nat" where
  "wy_count url = length (filter (\<lambda>c. c = CHR ''w'' \<or> c = CHR ''y'') (to_ascii_lowercase url))"

lemma to_ascii_lowercase_append [simp]:
  "to_ascii_lowercase (a @ b) = to_ascii_lowercase a @ to_ascii_lowercase b"
  by (simp add: to_ascii_lowercase_def)

lemma length_to_ascii_lowercase [simp]: "length (to_ascii_lowercase s) = length s"
  by (simp add: to_ascii_lowercase_def)

lemma take_to_ascii_lowercase: "take n (to_ascii_lowercase s) = to_ascii_lowercase (take n s)"
  by (simp add: to_ascii_lowercase_def take_map)

lemma drop_to_ascii_lowercase: "drop n (to_ascii_lowercase s) = to_ascii_lowercase (drop n s)"
  by (simp add: to_ascii_lowercase_def drop_map)

lemma wy_count_append: "wy_count (a @ b) = wy_count a + wy_count b"
  by (simp add: wy_count_def)

text \<open>What replacing an occurrence does: the text around it stays.\<close>

lemma replace_first_Some:
  assumes "replace_first needle repl url = Some out"
  obtains pre mid post where "url = pre @ mid @ post" "to_ascii_lowercase mid = needle" "out = pre @ repl @ post"
proof -
  from assms obtain pos where f: "find_str needle (to_ascii_lowercase url) = Some pos"
    and out: "out = take pos url @ repl @ drop (pos + length needle) url"
    by (auto simp: replace_first_def)
  let ?mid = "take (length needle) (drop pos url)"
  have "to_ascii_lowercase ?mid = needle"
    using find_str_Some [OF f] by (simp add: drop_to_ascii_lowercase take_to_ascii_lowercase)
  moreover have "url = take pos url @ ?mid @ drop (pos + length needle) url"
    by (metis append_take_drop_id drop_drop add.commute)
  ultimately show thesis using out that by blast
qed

lemma to_ascii_lowercase_idem: "to_ascii_lowercase (to_ascii_lowercase s) = to_ascii_lowercase s"
proof -
  have "ascii_lower (ascii_lower c) = ascii_lower c" for c
    by (cases "65 \<le> (of_char c :: nat) \<and> (of_char c :: nat) \<le> 90") (auto simp: ascii_lower_def)
  then show ?thesis by (simp add: to_ascii_lowercase_def)
qed

lemma wy_count_lowered: "wy_count (to_ascii_lowercase s) = wy_count s"
  by (simp add: wy_count_def to_ascii_lowercase_idem)

lemma rewrite_with_Some:
  "rewrite_with rs url = Some out \<Longrightarrow> \<exists>needle repl. (needle, repl) \<in> set rs \<and> replace_first needle repl url = Some out"
  by (induction rs url rule: rewrite_with.induct) (auto split: option.splits)

lemma mode_rewrites_props:
  "list_all (\<lambda>(needle, repl). wy_count repl < wy_count needle \<and> starts_with (to_ascii_lowercase repl) ''sslmode='')
     mode_rewrites"
  by code_simp

lemma mode_rewrite_decreases:
  assumes "rewrite_with mode_rewrites url = Some out"
  shows "wy_count out < wy_count url"
proof -
  from rewrite_with_Some [OF assms] obtain needle repl where m: "(needle, repl) \<in> set mode_rewrites"
    and r: "replace_first needle repl url = Some out" by blast
  from r obtain pre mid post where parts: "url = pre @ mid @ post" "out = pre @ repl @ post"
    and mid: "to_ascii_lowercase mid = needle" by (rule replace_first_Some)
  have "wy_count mid = wy_count needle" using mid wy_count_lowered by metis
  moreover from m have "wy_count repl < wy_count needle"
    using mode_rewrites_props by (auto simp: list_all_iff)
  ultimately show ?thesis by (simp add: parts wy_count_append)
qed

lemma mode_rewrite_names_mode:
  assumes "rewrite_with mode_rewrites url = Some out"
  shows "has_sslmode out"
proof -
  from rewrite_with_Some [OF assms] obtain needle repl where m: "(needle, repl) \<in> set mode_rewrites"
    and r: "replace_first needle repl url = Some out" by blast
  from r obtain pre mid post where out: "out = pre @ repl @ post" by (rule replace_first_Some)
  from m have "\<exists>t. to_ascii_lowercase repl = ''sslmode='' @ t"
    using mode_rewrites_props by (auto simp: list_all_iff starts_with_def prefix_def)
  then show ?thesis by (auto simp: has_sslmode_def out contains_iff) (metis append.assoc)
qed

lemma with_require_names_mode: "has_sslmode (with_require url)"
proof -
  have "to_ascii_lowercase ''sslmode=require'' = ''sslmode='' @ ''require''" by code_simp
  moreover obtain p where "with_require url = p @ ''sslmode=require''"
    unfolding with_require_def by (metis (no_types, opaque_lifting) append_Cons append_Nil append_assoc)
  ultimately show ?thesis by (auto simp: has_sslmode_def contains_iff)
qed

function normalize_sslmode :: "string \<Rightarrow> string" where
  "normalize_sslmode url =
     (if \<not> has_sslmode url \<and> \<not> db_on_trusted_network url then normalize_sslmode (with_require url)
      else (case rewrite_with mode_rewrites url of
              Some out \<Rightarrow> normalize_sslmode out
            | None \<Rightarrow>
                if \<not> db_on_trusted_network url then
                  (case rewrite_with weak_rewrites url of Some out \<Rightarrow> out | None \<Rightarrow> url)
                else url))"
  by pat_completeness auto

termination
proof (relation "measures [\<lambda>url. if has_sslmode url then 0 else 1, wy_count]")
qed (auto simp: with_require_names_mode mode_rewrite_names_mode mode_rewrite_decreases)

declare normalize_sslmode.simps [simp del]

section \<open>The password file\<close>

definition encode_char :: "char \<Rightarrow> string" where
  "encode_char c =
     (if c = CHR ''@'' then ''%40'' else if c = CHR '':'' then ''%3A'' else if c = CHR ''/'' then ''%2F''
      else if c = CHR ''#'' then ''%23'' else if c = CHR ''?'' then ''%3F'' else [c])"

definition encode_password :: "string \<Rightarrow> string" where
  "encode_password pw = concat (map encode_char pw)"

definition trim_newlines :: "string \<Rightarrow> string" where
  "trim_newlines s = rev (dropWhile (\<lambda>c. c = CHR 0x0A \<or> c = CHR 0x0D) (rev s))"

definition with_password :: "env \<Rightarrow> (string \<Rightarrow> string option) \<Rightarrow> string \<Rightarrow> string" where
  "with_password env read_file u =
     (case Option.bind (env ''MCP_PASSWORD_FILE'') read_file of
        None \<Rightarrow> u
      | Some pw0 \<Rightarrow>
          (let enc = encode_password (trim_newlines pw0);
               rest = (case strip_prefix u ''postgres://'' of Some r \<Rightarrow> Some r | None \<Rightarrow> strip_prefix u ''postgresql://'') in
           case rest of
             None \<Rightarrow> u
           | Some r \<Rightarrow>
               (let scheme = (if starts_with u ''postgresql://'' then ''postgresql://'' else ''postgres://'') in
                case split_once_char CHR ''@'' r of
                  None \<Rightarrow> u
                | Some (userinfo, hostpart) \<Rightarrow>
                    scheme @ hd (split_char CHR '':'' userinfo) @ '':'' @ enc @ ''@'' @ hostpart)))"

text \<open>\<open>args\<close> are the program's arguments without its name.\<close>

definition looks_like_connection :: "string \<Rightarrow> bool" where
  "looks_like_connection a =
     (starts_with a ''postgres://'' \<or> starts_with a ''postgresql://'' \<or> contains a ''host='')"

definition database_url :: "env \<Rightarrow> (string \<Rightarrow> string option) \<Rightarrow> string list \<Rightarrow> string option" where
  "database_url env read_file args =
     (case env ''DATABASE_URL'' of
        Some u \<Rightarrow> if trim u \<noteq> [] then Some (with_password env read_file u)
                  else List.find looks_like_connection args
      | None \<Rightarrow> List.find looks_like_connection args)"

end
