(* ===== verification/Db_Url_Props.thy ===== *)
theory Db_Url_Props
  imports Db_Url
begin

text \<open>
  What the connection strings promise: the host cannot be disguised, addresses are classified by the
  private ranges, a network connection does not fall back to plaintext by silence, and a password from
  a file cannot change where the connection goes.
\<close>

section \<open>The authority\<close>

lemma split_on_append:
  "\<forall>c \<in> set a. \<not> P c \<Longrightarrow> P d \<Longrightarrow> split_on P (a @ d # r) = a # split_on P r"
  by (induction a) auto

lemma split_on_hd_append:
  "\<forall>c \<in> set a. \<not> P c \<Longrightarrow> hd (split_on P (a @ r)) = a @ hd (split_on P r)"
  by (induction a) auto

lemma while_not_in: "d \<notin> set a \<Longrightarrow> dropWhile (\<lambda>c. c \<noteq> d) (a @ r) = dropWhile (\<lambda>c. c \<noteq> d) r"
  "d \<notin> set a \<Longrightarrow> takeWhile (\<lambda>c. c \<noteq> d) (a @ r) = a @ takeWhile (\<lambda>c. c \<noteq> d) r"
  by (induction a) auto

lemma split_once_char_append [simp]: "d \<notin> set a \<Longrightarrow> split_once_char d (a @ d # r) = Some (a, r)"
  by (simp add: split_once_char_def while_not_in)

lemma split_once_char_none [simp]: "d \<notin> set a \<Longrightarrow> split_once_char d a = None"
proof -
  assume "d \<notin> set a"
  then have "dropWhile (\<lambda>c. c \<noteq> d) a = []" by (induction a) auto
  then show ?thesis unfolding split_once_char_def by (simp only: list.case)
qed

lemma split_once_char_some: "d \<in> set a \<Longrightarrow> \<exists>x y. split_once_char d a = Some (x, y) \<and> a = x @ d # y \<and> d \<notin> set x"
  by (metis split_list_first split_once_char_append)

lemma rsplit_once_char_append [simp]: "d \<notin> set r \<Longrightarrow> rsplit_once_char d (a @ d # r) = Some (a, r)"
  by (simp add: rsplit_once_char_def)

lemma rsplit_once_char_none [simp]: "d \<notin> set a \<Longrightarrow> rsplit_once_char d a = None"
  by (simp add: rsplit_once_char_def)

lemma rsplit_once_char_some: "d \<in> set a \<Longrightarrow> \<exists>x y. rsplit_once_char d a = Some (x, y) \<and> a = x @ d # y \<and> d \<notin> set y"
  by (metis split_list_last rsplit_once_char_append)

text \<open>The path and the query do not take part in the host.\<close>

lemma url_host_path:
  assumes "\<forall>c \<in> set a. \<not> path_or_query c" "path_or_query c"
  shows "url_host (a @ c # rest) = url_host a"
  using assms by (simp add: url_host_def authority_def split_on_append split_on_none)

text \<open>Nor does the user information.\<close>

lemma url_host_userinfo:
  assumes "\<forall>c \<in> set u. \<not> path_or_query c"
  shows "url_host (u @ CHR ''@'' # hp) = url_host hp"
proof -
  have a: "authority (u @ CHR ''@'' # hp) = u @ CHR ''@'' # authority hp"
  proof -
    have "authority (u @ CHR ''@'' # hp) = u @ hd (split_on path_or_query (CHR ''@'' # hp))"
      unfolding authority_def by (rule split_on_hd_append [OF assms])
    then show ?thesis by (simp add: path_or_query_def authority_def)
  qed
  show ?thesis
  proof (cases "CHR ''@'' \<in> set (authority hp)")
    case True
    from rsplit_once_char_some [OF True] obtain x y where
      "rsplit_once_char CHR ''@'' (authority hp) = Some (x, y)" "authority hp = x @ CHR ''@'' # y" "CHR ''@'' \<notin> set y"
      by blast
    moreover from this have "authority (u @ CHR ''@'' # hp) = (u @ CHR ''@'' # x) @ CHR ''@'' # y"
      by (simp add: a)
    ultimately show ?thesis by (simp add: url_host_def Let_def del: append_assoc)
  next
    case False
    then show ?thesis by (simp add: url_host_def a)
  qed
qed

lemma split_scheme:
  assumes "CHR '':'' \<notin> set sch"
  shows "split_once_str ''://'' (sch @ ''://'' @ r) = Some (sch, r)"
proof -
  have "find_str ''://'' (sch @ ''://'' @ r) = Some (length sch)"
    using assms by (induction sch) (auto simp: prefix_def)
  then show ?thesis by (simp add: split_once_str_def)
qed

lemma is_url_scheme [simp]: "is_url (sch @ CHR '':'' # CHR ''/'' # CHR ''/'' # r)"
  using find_str_append [of "''://''" sch r] by (simp add: is_url_def contains_def)

text \<open>Trust in a URL is trust in its host.\<close>

definition host_trusted :: "string \<Rightarrow> bool" where
  "host_trusted h = (List.member [''localhost'', ''127.0.0.1'', ''::1''] h \<or> trusted_host (to_ascii_lowercase h))"

lemma trusted_url:
  assumes "CHR '':'' \<notin> set sch"
  shows "db_on_trusted_network (sch @ ''://'' @ r) = host_trusted (url_host r)"
  using split_scheme [OF assms, of r] by (simp add: db_on_trusted_network_def db_is_local_def host_of_def host_trusted_def)


text \<open>A label that is not a number takes no part in the address.\<close>

lemma parse_unsigned_letter:
  "c \<in> set s \<Longrightarrow> \<not> is_ascii_digit c \<Longrightarrow> c \<noteq> CHR ''+'' \<Longrightarrow> parse_unsigned m s = None"
proof -
  assume c: "c \<in> set s" and nd: "\<not> is_ascii_digit c" and np: "c \<noteq> CHR ''+''"
  then obtain x r where s: "s = x # r" by (cases s) auto
  define d where "d = (if x = CHR ''+'' then r else s)"
  from c np s have "c \<in> set d" by (auto simp: d_def)
  with nd have "\<not> list_all is_ascii_digit d" by (auto simp: list_all_iff)
  then show ?thesis unfolding parse_unsigned_def d_def by (simp add: s)
qed

lemma untrusted_example: "\<not> host_trusted ''real.example.com''"
proof -
  have sp: "split_char CHR ''.'' ''real.example.com'' = [''real'', ''example'', ''com'']" by code_simp
  have l: "to_ascii_lowercase ''real.example.com'' = ''real.example.com''" by code_simp
  have nd: "\<not> is_ascii_digit CHR ''e''" "\<not> is_ascii_digit CHR ''c''" by code_simp+
  have o4: "parse_u32 ''real'' = None" "parse_u32 ''example'' = None" "parse_u32 ''com'' = None"
    using parse_unsigned_letter [of "CHR ''e''" "''real''"] parse_unsigned_letter [of "CHR ''e''" "''example''"]
      parse_unsigned_letter [of "CHR ''c''" "''com''"] nd
    by (simp_all add: parse_u32_def)
  have s: "\<not> list_ex (ends_with ''real.example.com'') private_suffixes" by code_simp
  have st: "\<not> starts_with ''real.example.com'' ''/''" "\<not> starts_with ''real.example.com'' ''%2f''"
    "\<not> starts_with ''real.example.com'' ''%2F''" "\<not> starts_with ''real.example.com'' ''fc''"
    "\<not> starts_with ''real.example.com'' ''fd''" "\<not> starts_with ''real.example.com'' ''fe80''"
    by code_simp+
  have d: "contains_char ''real.example.com'' CHR ''.''" by code_simp
  have "\<not> List.member [''localhost'', ''127.0.0.1'', ''::1''] ''real.example.com''" by code_simp
  then show ?thesis by (simp add: host_trusted_def trusted_host_def l sp o4 s st d Let_def)
qed

lemma url_of_host:
  fixes sch userinfo host_port rest :: string and c :: char
  assumes "CHR '':'' \<notin> set sch" "\<forall>c \<in> set userinfo. \<not> path_or_query c" "\<forall>c \<in> set host_port. \<not> path_or_query c"
    and "path_or_query c"
  defines "u \<equiv> sch @ ''://'' @ userinfo @ ''@'' @ host_port @ c # rest"
    and "v \<equiv> sch @ ''://'' @ host_port"
  shows "host_of u = host_of v" "db_is_local u = db_is_local v" "db_on_trusted_network u = db_on_trusted_network v"
proof -
  have h: "url_host (userinfo @ CHR ''@'' # host_port @ c # rest) = url_host host_port"
    using url_host_userinfo [OF assms(2)] url_host_path [OF assms(3,4)] by simp
  note sp = split_scheme [OF assms(1)]
  show "db_on_trusted_network u = db_on_trusted_network v"
    unfolding u_def v_def using trusted_url [OF assms(1)] h by simp
  show "db_is_local u = db_is_local v" "host_of u = host_of v"
    unfolding u_def v_def
    using h sp [of host_port] sp [of "userinfo @ CHR ''@'' # host_port @ c # rest"]
    by (simp_all add: db_is_local_def host_of_def)
qed

text \<open>C33: Whatever follows the authority of a connection URL, and whatever user and password without a slash
  or a question mark precede the host, the verdict on the network is the verdict on the host after the
  last at sign: text in the path or the parameters, and at signs and colons in such a password, cannot
  make a remote database look local. A slash or a question mark in the password does end the authority
  early, and then the verdict is on text of the password (\<open>slash_in_password_hides_host\<close>).\<close>

theorem url_trust_is_host_trust:
  assumes "CHR '':'' \<notin> set sch" "\<forall>c \<in> set userinfo. \<not> path_or_query c" "\<forall>c \<in> set host_port. \<not> path_or_query c"
    and "path_or_query c" "u = sch @ ''://'' @ userinfo @ ''@'' @ host_port @ c # rest" "v = sch @ ''://'' @ host_port"
  shows "host_of u = host_of v \<and> db_is_local u = db_is_local v \<and> db_on_trusted_network u = db_on_trusted_network v"
  using url_of_host [OF assms(1-4)] assms(5,6) by simp

theorem url_trust_is_host_trust_witness:
  "\<not> db_on_trusted_network ''postgres://u:p@real.example.com/db?application_name=@localhost''"
proof -
  have "url_host ''real.example.com'' = ''real.example.com''" by code_simp
  then have "\<not> db_on_trusted_network (''postgres'' @ ''://'' @ ''real.example.com'')"
    using trusted_url [of "''postgres''" "''real.example.com''"] untrusted_example by simp
  then show ?thesis
    using url_trust_is_host_trust [of "''postgres''" "''u:p''" "''real.example.com''" "CHR ''/''"
        "''postgres://u:p@real.example.com/db?application_name=@localhost''"
        "''db?application_name=@localhost''" "''postgres://real.example.com''"]
    by (simp add: path_or_query_def)
qed

text \<open>The authority is cut at the first slash before the at sign is looked for, so a slash in the user
  information hides the host behind it: the verdict is on the user's name, or on a name of this machine that
  the user information begins with.\<close>

lemma slash_in_password_hides_host:
  "host_of ''postgres://u:localhost/p@real.example.com/db'' = Some ''u''"
  "db_on_trusted_network ''postgres://u:localhost/p@real.example.com/db''"
  "db_is_local ''postgres://localhost:p/w@real.example.com/db''"
  by code_simp+

section \<open>Dotted quads\<close>

definition dotted :: "nat \<Rightarrow> nat \<Rightarrow> nat \<Rightarrow> nat \<Rightarrow> string" where
  "dotted a b c d = nat_str a @ ''.'' @ nat_str b @ ''.'' @ nat_str c @ ''.'' @ nat_str d"

lemma nat_str_digits: "c \<in> set (nat_str n) \<Longrightarrow> is_ascii_digit c"
  using dec_acc_digits [of "[]" n] by (auto simp: nat_str_def list_all_iff)

lemma nat_str_not: "\<not> is_ascii_digit x \<Longrightarrow> x \<notin> set (nat_str n)"
  using nat_str_digits by blast

lemma not_digits: "\<not> is_ascii_digit CHR ''.''" "\<not> is_ascii_digit CHR '':''" "\<not> is_ascii_digit CHR ''/''"
  "\<not> is_ascii_digit CHR ''?''" "\<not> is_ascii_digit CHR ''@''" "\<not> is_ascii_digit CHR ''[''"
  "\<not> is_ascii_digit CHR ''%''"
  by code_simp+

lemma split_dotted: "split_char CHR ''.'' (dotted a b c d) = [nat_str a, nat_str b, nat_str c, nat_str d]"
proof -
  have n: "\<forall>x \<in> set (nat_str k). \<not> x = CHR ''.''" for k
    using nat_str_not [OF not_digits(1)] by blast
  show ?thesis
    by (simp add: split_char_def dotted_def split_on_append [OF n] split_on_none [OF n])
qed

lemma digits_lower: "\<forall>c \<in> set s. is_ascii_digit c \<or> c = CHR ''.'' \<Longrightarrow> to_ascii_lowercase s = s"
proof -
  have "ascii_lower c = c" if "is_ascii_digit c \<or> c = CHR ''.''" for c
    using that by (auto simp: ascii_lower_def is_ascii_digit_def)
  then show "\<forall>c \<in> set s. is_ascii_digit c \<or> c = CHR ''.'' \<Longrightarrow> ?thesis"
    by (simp add: to_ascii_lowercase_def map_idI)
qed

lemma dotted_chars: "\<forall>x \<in> set (dotted a b c d). is_ascii_digit x \<or> x = CHR ''.''"
  by (auto simp: dotted_def dest: nat_str_digits)

lemma dotted_ends:
  assumes "last s \<noteq> CHR ''.''" "\<not> is_ascii_digit (last s)" "s \<noteq> []"
  shows "\<not> ends_with (dotted a b c d) s"
proof
  assume "ends_with (dotted a b c d) s"
  then have "last (dotted a b c d) = last s" using assms(3) by (auto simp: ends_with_def suffix_def)
  moreover have "dotted a b c d \<noteq> []" by (simp add: dotted_def)
  ultimately show False using dotted_chars assms last_in_set by metis
qed

lemma suffix_ends:
  "list_all (\<lambda>s. s \<noteq> [] \<and> last s \<noteq> CHR ''.'' \<and> \<not> is_ascii_digit (last s)) private_suffixes"
  by code_simp

lemma dotted_nonempty: "dotted a b c d \<noteq> []"
  by (simp add: dotted_def)

lemma dotted_hd: "is_ascii_digit (hd (dotted a b c d))"
  using nat_str_digits [of "hd (nat_str a)" a] dec_acc_nonempty by (simp add: dotted_def nat_str_def)

lemma trusted_dotted:
  assumes "a \<le> 255" "b \<le> 255" "c \<le> 255" "d \<le> 255"
  shows "trusted_host (dotted a b c d) = private_ipv4 a b"
proof -
  note ne = dotted_nonempty [of a b c d]
  have dot: "contains_char (dotted a b c d) CHR ''.''" by (simp add: contains_char_def dotted_def)
  have st: "\<not> starts_with (dotted a b c d) s" if "s \<noteq> []" "\<not> is_ascii_digit (hd s)" for s
    using that dotted_hd [of a b c d] by (auto simp: starts_with_def prefix_def)
  have "\<not> list_ex (ends_with (dotted a b c d)) private_suffixes"
    using dotted_ends suffix_ends by (auto simp: list_ex_iff list_all_iff)
  moreover have "List.map_filter parse_u32 (split_char CHR ''.'' (dotted a b c d)) = [a, b, c, d]"
    using assms by (simp add: split_dotted List.map_filter_def parse_u32_def parse_unsigned_nat_str)
  moreover have "\<not> starts_with (dotted a b c d) ''/''" "\<not> starts_with (dotted a b c d) ''%2f''"
    "\<not> starts_with (dotted a b c d) ''%2F''"
    by (rule st; simp add: not_digits)+
  ultimately show ?thesis
    using ne dot assms unfolding trusted_host_def Let_def
    by (simp only: if_False if_True not_True_eq_False simp_thms) simp
qed

lemma strip_port_dotted:
  "strip_port (dotted a b c d) = dotted a b c d" "strip_port (dotted a b c d @ CHR '':'' # p) = dotted a b c d"
proof -
  have n: "\<forall>x \<in> set (dotted a b c d). \<not> x = CHR '':''" using dotted_chars not_digits(2) by blast
  have "hd (dotted a b c d) \<noteq> CHR ''[''" using dotted_hd [of a b c d] not_digits(6) by metis
  with dotted_nonempty [of a b c d] have "strip_prefix (dotted a b c d) ''['' = None" "strip_prefix (dotted a b c d @ CHR '':'' # p) ''['' = None"
    by (auto simp: strip_prefix_def prefix_def neq_Nil_conv)
  then show "strip_port (dotted a b c d) = dotted a b c d" "strip_port (dotted a b c d @ CHR '':'' # p) = dotted a b c d"
    by (simp_all add: strip_port_def split_char_def split_on_append [OF n] split_on_none [OF n])
qed

lemma dotted_loopback:
  assumes "a \<le> 255" "b \<le> 255" "c \<le> 255" "d \<le> 255"
  shows "dotted a b c d = ''127.0.0.1'' \<longleftrightarrow> [a, b, c, d] = [127, 0, 0, 1]"
proof
  assume "dotted a b c d = ''127.0.0.1''"
  also have "''127.0.0.1'' = dotted 127 0 0 1" by code_simp
  finally have "[nat_str a, nat_str b, nat_str c, nat_str d] = [nat_str 127, nat_str 0, nat_str 0, nat_str 1]"
    using split_dotted by metis
  then have "map (parse_unsigned 255) [nat_str a, nat_str b, nat_str c, nat_str d]
           = map (parse_unsigned 255) [nat_str 127, nat_str 0, nat_str 0, nat_str 1]" by metis
  then show "[a, b, c, d] = [127, 0, 0, 1]" using assms by (simp add: parse_unsigned_nat_str)
next
  assume "[a, b, c, d] = [127, 0, 0, 1]"
  then show "dotted a b c d = ''127.0.0.1''" by simp code_simp
qed

lemma dotted_not_named: "dotted a b c d \<noteq> ''localhost''" "dotted a b c d \<noteq> ''::1''"
proof -
  have "\<not> is_ascii_digit (hd ''localhost'')" "\<not> is_ascii_digit (hd ''::1'')" by code_simp+
  then show "dotted a b c d \<noteq> ''localhost''" "dotted a b c d \<noteq> ''::1''"
    using dotted_hd [of a b c d] by metis+
qed

text \<open>A database addressed by an IPv4 address counts as inside exactly when the address is 127.0.0.1 or
  lies in one of the ranges RFC 1918, RFC 3927 and RFC 6598 set aside; every other address gets the
  treatment of the public network.\<close>

theorem ipv4_trust:
  assumes "CHR '':'' \<notin> set sch" "\<forall>c \<in> set userinfo. \<not> path_or_query c" "\<forall>c \<in> set port. is_ascii_digit c"
    and "path_or_query x" "a \<le> 255" "b \<le> 255" "c \<le> 255" "d \<le> 255"
  shows "db_on_trusted_network (sch @ ''://'' @ userinfo @ ''@'' @ (dotted a b c d @ '':'' @ port) @ x # rest)
         \<longleftrightarrow> private_ipv4 a b \<or> [a, b, c, d] = [127, 0, 0, 1]"
proof -
  let ?hp = "dotted a b c d @ '':'' @ port"
  have dp: "is_ascii_digit y \<or> y = CHR ''.'' \<or> y = CHR '':''" if "y \<in> set ?hp" for y
    using that dotted_chars [of a b c d] assms(3) by auto
  have np: "\<forall>y \<in> set ?hp. \<not> path_or_query y"
    using dp not_digits(3,4) by (auto simp: path_or_query_def)
  have at: "CHR ''@'' \<notin> set ?hp" using dp not_digits(5) by blast
  have "url_host ?hp = dotted a b c d"
    using at strip_port_dotted(2) [of a b c d port] np
    by (simp add: url_host_def authority_def split_on_none)
  then have "db_on_trusted_network (sch @ ''://'' @ userinfo @ ''@'' @ ?hp @ x # rest)
           = host_trusted (dotted a b c d)"
    using url_of_host(3) [OF assms(1,2) np assms(4)] trusted_url [OF assms(1), of ?hp] by metis
  also have "\<dots> \<longleftrightarrow> private_ipv4 a b \<or> [a, b, c, d] = [127, 0, 0, 1]"
    using dotted_loopback [OF assms(5-8)] trusted_dotted [OF assms(5-8)] dotted_not_named [of a b c d]
      digits_lower [OF dotted_chars] by (auto simp: host_trusted_def)
  finally show ?thesis .
qed

theorem ipv4_trust_witness:
  "db_on_trusted_network (''postgres://u@'' @ dotted 10 0 0 5 @ '':5432/d'')
   \<and> \<not> db_on_trusted_network (''postgres://u@'' @ dotted 8 8 8 8 @ '':5432/d'')"
proof -
  have port: "\<forall>c \<in> set ''5432''. is_ascii_digit c" by code_simp
  have "private_ipv4 10 0" "\<not> private_ipv4 8 8" by (simp_all add: private_ipv4_def)
  then show ?thesis
    using ipv4_trust [of "''postgres''" "''u''" "''5432''" "CHR ''/''" 10 0 0 5 "''d''"]
      ipv4_trust [of "''postgres''" "''u''" "''5432''" "CHR ''/''" 8 8 8 8 "''d''"] port
    by (simp add: path_or_query_def)
qed

section \<open>The TLS mode\<close>

definition mode_free :: "string \<Rightarrow> bool" where
  "mode_free s = (\<not> contains s ''sslmode='')"

lemma eq_sign_before_mode:
  assumes "p @ CHR ''='' # us = a @ ''sslmode''"
  obtains z where "us = z @ ''sslmode''" "a = p @ CHR ''='' # z"
proof -
  have "suffix ''sslmode'' (p @ CHR ''='' # us)" using assms by (auto simp: suffix_def)
  moreover have "suffix (CHR ''='' # us) (p @ CHR ''='' # us)" by (simp add: suffix_def)
  ultimately consider "suffix (CHR ''='' # us) ''sslmode''" | "suffix ''sslmode'' (CHR ''='' # us)"
    by (rule suffix_same_cases [THEN disjE]) blast+
  then show thesis
  proof cases
    case 1
    then obtain zs where "''sslmode'' = zs @ CHR ''='' # us" by (auto simp only: suffix_def)
    then have "CHR ''='' \<in> set ''sslmode''" by (metis in_set_conv_decomp)
    then show thesis by simp
  next
    case 2
    then have "suffix ''sslmode'' us" by (auto simp: suffix_Cons)
    then obtain z where z: "us = z @ ''sslmode''" by (auto simp: suffix_def)
    with assms have "(p @ CHR ''='' # z) @ ''sslmode'' = a @ ''sslmode''" by simp
    then have "p @ CHR ''='' # z = a" by (simp only: append_same_eq)
    with z that show thesis by blast
  qed
qed

lemma mode_free_not: "mode_free s \<Longrightarrow> s \<noteq> a @ ''sslmode'' @ CHR ''='' # b"
  unfolding mode_free_def contains_iff by (metis append_Cons append_Nil append_assoc)

text \<open>With no mode before and after it, a named mode is the only one.\<close>

lemma mode_unique:
  assumes x: "mode_free x" and t: "mode_free t"
    and e: "x @ ''sslmode'' @ CHR ''='' # t = a @ ''sslmode'' @ CHR ''='' # b"
  shows "a = x \<and> b = t"
proof -
  from e have "(x @ ''sslmode'') @ CHR ''='' # t = (a @ ''sslmode'') @ CHR ''='' # b" by simp
  then consider (eq) "x @ ''sslmode'' = a @ ''sslmode''" "t = b"
    | (later) us where "(x @ ''sslmode'') @ CHR ''='' # us = a @ ''sslmode''" "t = us @ CHR ''='' # b"
    | (earlier) us where "(a @ ''sslmode'') @ CHR ''='' # us = x @ ''sslmode''" "b = us @ CHR ''='' # t"
    by (auto simp: append_eq_append_conv2 append_eq_Cons_conv Cons_eq_append_conv simp del: append_assoc)
  then show ?thesis
  proof cases
    case eq
    then show ?thesis by simp
  next
    case later
    from eq_sign_before_mode [OF later(1)] obtain z where "us = z @ ''sslmode''" by blast
    with later(2) mode_free_not [OF t, of z b] show ?thesis by (simp only: append_assoc)
  next
    case earlier
    from eq_sign_before_mode [OF earlier(1)] obtain z where "x = (a @ ''sslmode'') @ CHR ''='' # z" by blast
    with mode_free_not [OF x, of a z] show ?thesis by (simp only: append_assoc)
  qed
qed

text \<open>Appending a text without an equals sign names no mode.\<close>

lemma mode_free_append:
  assumes "mode_free x" "CHR ''='' \<notin> set y"
  shows "mode_free (x @ y)"
proof (rule ccontr)
  assume "\<not> mode_free (x @ y)"
  then obtain a b where e: "x @ y = (a @ ''sslmode'') @ CHR ''='' # b"
    unfolding mode_free_def contains_iff by auto
  then consider us where "x = (a @ ''sslmode'') @ CHR ''='' # us" | us where "y = us @ CHR ''='' # b"
    by (auto simp: append_eq_append_conv2 append_eq_Cons_conv Cons_eq_append_conv simp del: append_assoc)
  then show False
  proof cases
    case 1
    with mode_free_not [OF assms(1), of a us] show False by (simp only: append_assoc)
  next
    case 2
    with assms(2) show False by simp
  qed
qed

lemma find_mode:
  assumes x: "mode_free x" and t: "mode_free t"
  shows "find_str (''sslmode='' @ w) (x @ ''sslmode='' @ t) = (if prefix w t then Some (length x) else None)"
proof -
  have some: "i = length x \<and> prefix w t" if f: "find_str (''sslmode='' @ w) (x @ ''sslmode='' @ t) = Some i" for i
  proof -
    let ?s = "x @ ''sslmode='' @ t"
    define pre where "pre = take i ?s"
    define post where "post = drop (i + length (''sslmode='' @ w)) ?s"
    have "?s = pre @ (''sslmode='' @ w) @ post"
      unfolding pre_def post_def by (rule find_str_split [OF f])
    then have "x @ ''sslmode'' @ CHR ''='' # t = pre @ ''sslmode'' @ CHR ''='' # (w @ post)" by simp
    from mode_unique [OF x t this] have p: "pre = x" and w: "w @ post = t" by blast+
    have "i \<le> length ?s" using find_str_Some [OF f] by simp
    then have "length pre = i" unfolding pre_def by (simp only: length_take min.absorb2)
    then have "i = length x" by (simp add: p)
    then show ?thesis using w by (metis prefixI)
  qed
  show ?thesis
  proof (cases "find_str (''sslmode='' @ w) (x @ ''sslmode='' @ t)")
    case None
    have "\<not> prefix w t"
    proof
      assume "prefix w t"
      then obtain r where "t = w @ r" by (auto simp: prefix_def)
      then show False using None find_str_append [of "''sslmode='' @ w" x r] by simp
    qed
    with None show ?thesis by simp
  next
    case (Some i)
    with some [OF Some] show ?thesis by simp
  qed
qed
lemma mode_free_prepend:
  assumes "mode_free x" "CHR ''s'' \<notin> set y"
  shows "mode_free (y @ x)"
proof (rule ccontr)
  assume "\<not> mode_free (y @ x)"
  then obtain a b where e: "y @ x = a @ CHR ''s'' # (''slmode='' @ b)"
    unfolding mode_free_def contains_iff by auto
  then consider us where "y = a @ CHR ''s'' # us" | us where "x = us @ CHR ''s'' # (''slmode='' @ b)"
    by (auto simp: append_eq_append_conv2 append_eq_Cons_conv Cons_eq_append_conv simp del: append_assoc)
  then show False
  proof cases
    case 1
    with assms(2) show False by simp
  next
    case 2
    with mode_free_not [OF assms(1), of us b] show False by simp
  qed
qed

lemma replace_mode:
  assumes "mode_free (to_ascii_lowercase p)" "mode_free (to_ascii_lowercase t)"
  shows "replace_first (''sslmode='' @ w) repl (p @ ''sslmode='' @ t)
       = (if prefix w (to_ascii_lowercase t) then Some (p @ repl @ drop (length w) t) else None)"
proof -
  have "to_ascii_lowercase ''sslmode='' = ''sslmode=''" by code_simp
  then have "find_str (''sslmode='' @ w) (to_ascii_lowercase (p @ ''sslmode='' @ t))
           = (if prefix w (to_ascii_lowercase t) then Some (length p) else None)"
    using find_mode [OF assms, of w] by (simp only: to_ascii_lowercase_append length_to_ascii_lowercase)
  then show ?thesis unfolding replace_first_def by (simp only:) (simp add: eval_nat_numeral)
qed

definition driver_modes :: "string list" where
  "driver_modes = [''require'', ''prefer'', ''allow'', ''verify-ca'', ''verify-full'']"

text \<open>The modes other than \<open>require\<close> and \<open>prefer\<close> lead to one of the two.\<close>

definition first_rewrite :: "string \<Rightarrow> string" where
  "first_rewrite m = (if m = ''allow'' then ''prefer'' else if m = ''prefer'' then ''prefer'' else ''require'')"

lemma mode_shape:
  "list_all (\<lambda>m. to_ascii_lowercase m = m \<and> CHR ''s'' \<notin> set m) driver_modes"
  by code_simp

lemma sslmode_split:
  "''sslmode=verify-full'' = ''sslmode='' @ ''verify-full''" "''sslmode=verify-ca'' = ''sslmode='' @ ''verify-ca''"
  "''sslmode=allow'' = ''sslmode='' @ ''allow''" "''sslmode=prefer'' = ''sslmode='' @ ''prefer''"
  by simp_all

lemma step_on_mode:
  assumes p: "mode_free (to_ascii_lowercase p)" and q: "mode_free (to_ascii_lowercase q)"
    and m: "m \<in> set driver_modes"
  shows "replace_first (''sslmode='' @ w) repl (p @ ''sslmode='' @ m @ q)
       = (if prefix w (m @ to_ascii_lowercase q) then Some (p @ repl @ drop (length w) (m @ q)) else None)"
proof -
  have lm: "to_ascii_lowercase m = m" "CHR ''s'' \<notin> set m" using mode_shape m by (auto simp: list_all_iff)
  have t: "mode_free (to_ascii_lowercase (m @ q))" using mode_free_prepend [OF q lm(2)] by (simp add: lm)
  show ?thesis using replace_mode [OF p t, of w repl] by (simp only: to_ascii_lowercase_append lm(1))
qed

lemma rewrites_on_mode:
  assumes p: "mode_free (to_ascii_lowercase p)" and q: "mode_free (to_ascii_lowercase q)"
    and m: "m \<in> set driver_modes"
  shows "rewrite_with mode_rewrites (p @ ''sslmode='' @ m @ q)
       = (if m = ''require'' \<or> m = ''prefer'' then None else Some (p @ ''sslmode='' @ first_rewrite m @ q))"
    and "rewrite_with weak_rewrites (p @ ''sslmode='' @ m @ q)
       = (if m = ''prefer'' \<or> m = ''allow'' then Some (p @ ''sslmode='' @ ''require'' @ q) else None)"
proof -
  note rep = step_on_mode [OF p q m]
  note r = rep [of "''verify-full''" "''sslmode=require''"] rep [of "''verify-ca''" "''sslmode=require''"]
    rep [of "''allow''" "''sslmode=prefer''"] rep [of "''prefer''" "''sslmode=require''"] rep [of "''allow''" "''sslmode=require''"]
  have c: "m = ''require'' \<or> m = ''prefer'' \<or> m = ''allow'' \<or> m = ''verify-ca'' \<or> m = ''verify-full''"
    using m by (auto simp: driver_modes_def)
  have "rewrite_with mode_rewrites (p @ ''sslmode='' @ m @ q) =
     (if prefix ''verify-full'' (m @ to_ascii_lowercase q) then Some (p @ ''sslmode=require'' @ drop (length ''verify-full'') (m @ q))
      else if prefix ''verify-ca'' (m @ to_ascii_lowercase q) then Some (p @ ''sslmode=require'' @ drop (length ''verify-ca'') (m @ q))
      else if prefix ''allow'' (m @ to_ascii_lowercase q) then Some (p @ ''sslmode=prefer'' @ drop (length ''allow'') (m @ q))
      else None)"
    using r(1,2,3) by (simp add: mode_rewrites_def)
  then show "rewrite_with mode_rewrites (p @ ''sslmode='' @ m @ q)
       = (if m = ''require'' \<or> m = ''prefer'' then None else Some (p @ ''sslmode='' @ first_rewrite m @ q))"
    using c by (elim disjE) (simp_all add: first_rewrite_def)
  have "rewrite_with weak_rewrites (p @ ''sslmode='' @ m @ q) =
     (if prefix ''prefer'' (m @ to_ascii_lowercase q) then Some (p @ ''sslmode=require'' @ drop (length ''prefer'') (m @ q))
      else if prefix ''allow'' (m @ to_ascii_lowercase q) then Some (p @ ''sslmode=require'' @ drop (length ''allow'') (m @ q))
      else None)"
    using r(4,5) by (simp add: weak_rewrites_def)
  then show "rewrite_with weak_rewrites (p @ ''sslmode='' @ m @ q)
       = (if m = ''prefer'' \<or> m = ''allow'' then Some (p @ ''sslmode='' @ ''require'' @ q) else None)"
    using c by (elim disjE) simp_all
qed

lemma has_sslmode_at: "has_sslmode (p @ ''sslmode='' @ t)"
proof -
  have "to_ascii_lowercase ''sslmode='' = ''sslmode=''" by code_simp
  then have "to_ascii_lowercase (p @ ''sslmode='' @ t) = to_ascii_lowercase p @ ''sslmode='' @ to_ascii_lowercase t"
    by (simp only: to_ascii_lowercase_append)
  then show ?thesis unfolding has_sslmode_def contains_iff by blast
qed

lemma normalize_require:
  assumes "mode_free (to_ascii_lowercase p)" "mode_free (to_ascii_lowercase q)"
  shows "normalize_sslmode (p @ ''sslmode='' @ ''require'' @ q) = p @ ''sslmode='' @ ''require'' @ q"
proof -
  have "''require'' \<in> set driver_modes" by (simp add: driver_modes_def)
  note r = rewrites_on_mode [OF assms this]
  show ?thesis
    using r has_sslmode_at [of p "''require'' @ q"]
    by (subst normalize_sslmode.simps) (simp del: append_Cons)
qed

text \<open>A connection string that says nothing about TLS and may leave the trusted network is given
  \<open>sslmode=require\<close> in its own dialect and nothing else.\<close>

theorem silent_network_requires_tls:
  assumes "\<not> has_sslmode url" "\<not> db_on_trusted_network url"
  shows "normalize_sslmode url = with_require url"
proof -
  define sep where "sep = (if is_url url then if contains_char url CHR ''?'' then ''&'' else ''?'' else '' '')"
  have w: "with_require url = (url @ sep) @ ''sslmode='' @ ''require'' @ []"
    by (simp add: with_require_def sep_def)
  have "to_ascii_lowercase sep = sep" unfolding sep_def by (simp split: if_splits) code_simp
  moreover have "CHR ''='' \<notin> set sep" by (simp add: sep_def)
  moreover have "mode_free (to_ascii_lowercase url)" using assms(1) by (simp add: has_sslmode_def mode_free_def)
  ultimately have "mode_free (to_ascii_lowercase (url @ sep))" by (simp add: mode_free_append)
  moreover have "mode_free (to_ascii_lowercase [])" by code_simp
  ultimately have "normalize_sslmode (with_require url) = with_require url"
    unfolding w by (rule normalize_require)
  then show ?thesis using assms by (subst normalize_sslmode.simps) simp
qed

theorem silent_network_requires_tls_witness:
  "normalize_sslmode ''postgres://u@real.example.com/d'' = ''postgres://u@real.example.com/d?sslmode=require''"
proof -
  have "url_host ''u@real.example.com/d'' = ''real.example.com''" by code_simp
  then have "\<not> db_on_trusted_network (''postgres'' @ ''://'' @ ''u@real.example.com/d'')"
    using trusted_url [of "''postgres''" "''u@real.example.com/d''"] untrusted_example by simp
  moreover have "\<not> has_sslmode ''postgres://u@real.example.com/d''" by code_simp
  moreover have "with_require ''postgres://u@real.example.com/d'' = ''postgres://u@real.example.com/d?sslmode=require''"
    by code_simp
  ultimately show ?thesis
    using silent_network_requires_tls [of "''postgres://u@real.example.com/d''"] by simp
qed

text \<open>Over a network that is not trusted, whichever of libpq's modes other than \<open>disable\<close> a URL
  names, the driver is given \<open>require\<close>; the rest of the string is untouched.\<close>

theorem network_mode_upgraded:
  assumes "CHR '':'' \<notin> set sch" "\<forall>c \<in> set userinfo. \<not> path_or_query c" "\<forall>c \<in> set host_port. \<not> path_or_query c"
    and "path_or_query c" "p = sch @ ''://'' @ userinfo @ ''@'' @ host_port @ c # params"
    and "\<not> db_on_trusted_network (sch @ ''://'' @ host_port)"
    and "\<not> has_sslmode p" "\<not> has_sslmode q" "m \<in> set driver_modes"
  shows "normalize_sslmode (p @ ''sslmode='' @ m @ q) = p @ ''sslmode=require'' @ q"
proof -
  have pf: "mode_free (to_ascii_lowercase p)" and qf: "mode_free (to_ascii_lowercase q)"
    using assms(7,8) by (simp_all add: has_sslmode_def mode_free_def)
  have untrusted: "\<not> db_on_trusted_network (p @ t)" for t
    using url_of_host(3) [OF assms(1-4), of "params @ t"] assms(5,6) by simp
  note r = rewrites_on_mode [OF pf qf]
  have pref: "normalize_sslmode (p @ ''sslmode='' @ ''prefer'' @ q) = p @ ''sslmode='' @ ''require'' @ q"
    using r [of "''prefer''"] has_sslmode_at [of p "''prefer'' @ q"] untrusted [of "''sslmode='' @ ''prefer'' @ q"]
    by (subst normalize_sslmode.simps) (simp add: driver_modes_def del: append_Cons)
  have "normalize_sslmode (p @ ''sslmode='' @ m @ q) = p @ ''sslmode='' @ ''require'' @ q"
  proof (cases "m = ''require'' \<or> m = ''prefer''")
    case True
    then show ?thesis using pref normalize_require [OF pf qf] by auto
  next
    case False
    then have "normalize_sslmode (p @ ''sslmode='' @ m @ q) = normalize_sslmode (p @ ''sslmode='' @ first_rewrite m @ q)"
      using r(1) [OF assms(9)] has_sslmode_at [of p "m @ q"]
      by (subst normalize_sslmode.simps) (simp del: append_Cons)
    then show ?thesis using pref normalize_require [OF pf qf] by (simp add: first_rewrite_def)
  qed
  then show ?thesis by simp
qed

theorem network_mode_upgraded_witness:
  "normalize_sslmode ''postgres://u@real.example.com/d?sslmode=allow&a=b'' = ''postgres://u@real.example.com/d?sslmode=require&a=b''"
proof -
  have "url_host ''real.example.com'' = ''real.example.com''" by code_simp
  then have "\<not> db_on_trusted_network (''postgres'' @ ''://'' @ ''real.example.com'')"
    using trusted_url [of "''postgres''" "''real.example.com''"] untrusted_example by simp
  moreover have "\<not> has_sslmode ''postgres://u@real.example.com/d?''" "\<not> has_sslmode ''&a=b''" by code_simp+
  ultimately show ?thesis
    using network_mode_upgraded [of "''postgres''" "''u''" "''real.example.com''" "CHR ''/''"
        "''postgres://u@real.example.com/d?''" "''d?''" "''&a=b''" "''allow''"]
    by (simp add: path_or_query_def driver_modes_def)
qed

text \<open>Only the first mode of a string is upgraded: a second \<open>prefer\<close> survives, and the driver takes
  the last one.\<close>

lemma second_prefer_survives:
  "normalize_sslmode (''postgres://real.example.com/d?sslmode=prefer&sslmode=prefer'')
   = ''postgres://real.example.com/d?sslmode=require&sslmode=prefer''"
proof -
  let ?u = "''postgres://real.example.com/d?sslmode=prefer&sslmode=prefer''"
  have "url_host ''real.example.com/d?sslmode=prefer&sslmode=prefer'' = ''real.example.com''" by code_simp
  then have "\<not> db_on_trusted_network ?u"
    using trusted_url [of "''postgres''" "''real.example.com/d?sslmode=prefer&sslmode=prefer''"] untrusted_example by simp
  moreover have "has_sslmode ?u" "rewrite_with mode_rewrites ?u = None"
    "rewrite_with weak_rewrites ?u = Some ''postgres://real.example.com/d?sslmode=require&sslmode=prefer''"
    by code_simp+
  ultimately show ?thesis by (subst normalize_sslmode.simps) simp
qed

section \<open>The password file\<close>

fun percent_decode :: "string \<Rightarrow> string" where
  "percent_decode (CHR ''%'' # a # b # s) =
     (if [a, b] = ''40'' then CHR ''@'' # percent_decode s else if [a, b] = ''3A'' then CHR '':'' # percent_decode s
      else if [a, b] = ''2F'' then CHR ''/'' # percent_decode s else if [a, b] = ''23'' then CHR ''#'' # percent_decode s
      else if [a, b] = ''3F'' then CHR ''?'' # percent_decode s else CHR ''%'' # percent_decode (a # b # s))"
| "percent_decode (c # s) = c # percent_decode s"
| "percent_decode [] = []"

lemma percent_decode_other: "c \<noteq> CHR ''%'' \<Longrightarrow> percent_decode (c # s) = c # percent_decode s"
  by (cases "c # s" rule: percent_decode.cases) auto

lemma encode_password_decodes:
  "CHR ''%'' \<notin> set pw \<Longrightarrow> percent_decode (encode_password pw) = pw"
  by (induction pw) (auto simp: encode_password_def encode_char_def percent_decode_other)

text \<open>A per cent sign in the password is not encoded, so two passwords can produce the same string.\<close>

lemma password_percent_collides: "encode_password ''a@b'' = encode_password ''a%40b''"
  by code_simp

lemma encode_password_safe: "\<forall>c \<in> set (encode_password pw). \<not> path_or_query c \<and> c \<noteq> CHR ''@''"
  by (auto simp: encode_password_def encode_char_def path_or_query_def split: if_splits)

lemma split_on_hd_subset: "set (hd (split_on P s)) \<subseteq> set s"
  by (induction s) auto

lemma host_of_url:
  assumes "CHR '':'' \<notin> set sch"
  shows "host_of (sch @ ''://'' @ r) = Some (to_ascii_lowercase (url_host r))"
  using split_scheme [OF assms, of r] by (simp add: host_of_def)

text \<open>A password taken from a file cannot change which host is contacted nor whether it counts as
  trusted, whatever the file holds.\<close>

theorem password_keeps_host:
  assumes "scheme = ''postgres'' \<or> scheme = ''postgresql''"
    and "\<forall>c \<in> set userinfo. \<not> path_or_query c \<and> c \<noteq> CHR ''@''"
    and "url = scheme @ ''://'' @ userinfo @ ''@'' @ hostpart"
  shows "host_of (with_password env read_file url) = host_of url
       \<and> db_on_trusted_network (with_password env read_file url) = db_on_trusted_network url"
proof (cases "Option.bind (env ''MCP_PASSWORD_FILE'') read_file")
  case None
  then show ?thesis by (simp add: with_password_def)
next
  case (Some pw)
  define user where "user = hd (split_char CHR '':'' userinfo)"
  define new where "new = user @ '':'' @ encode_password (trim_newlines pw)"
  have sch: "CHR '':'' \<notin> set scheme" using assms(1) by auto
  have at: "CHR ''@'' \<notin> set userinfo" using assms(2) by blast
  have wp: "with_password env read_file url = scheme @ ''://'' @ new @ ''@'' @ hostpart"
    using assms(1) split_once_char_append [OF at, of hostpart]
    by (elim disjE) (simp_all add: with_password_def Some new_def user_def assms(3) strip_prefix_def starts_with_def)
  have "set user \<subseteq> set userinfo"
    unfolding user_def split_char_def by (rule split_on_hd_subset)
  moreover have "\<not> path_or_query CHR '':''" by (simp add: path_or_query_def)
  ultimately have "\<forall>c \<in> set new. \<not> path_or_query c"
    using assms(2) encode_password_safe [of "trim_newlines pw"] by (auto simp: new_def)
  then have "url_host (new @ CHR ''@'' # hostpart) = url_host (userinfo @ CHR ''@'' # hostpart)"
    using url_host_userinfo assms(2) by metis
  then show ?thesis
    using wp trusted_url [OF sch] host_of_url [OF sch] by (simp add: assms(3))
qed

theorem password_keeps_host_witness:
  "host_of (with_password (\<lambda>k. if k = ''MCP_PASSWORD_FILE'' then Some ''/run/pw'' else None)
       (\<lambda>p. Some ''x@localhost/'') ''postgres://u@real.example.com/d'') = Some ''real.example.com''"
proof -
  have "host_of ''postgres://u@real.example.com/d'' = Some ''real.example.com''" by code_simp
  then show ?thesis
    using password_keeps_host [of "''postgres''" "''u''" "''postgres://u@real.example.com/d''" "''real.example.com/d''"]
    by (simp add: path_or_query_def)
qed

text \<open>Without user information, an at sign in a parameter is taken for its end, and the password is
  written into that parameter.\<close>

lemma password_lands_in_parameter:
  "with_password (\<lambda>k. Some ''/run/pw'') (\<lambda>p. Some ''secret'')
     ''postgres://db.example.com/d?application_name=a@b''
   = ''postgres://db.example.com/d?application_name=a:secret@b''"
  by code_simp

end
