(* ===== verification/Db.thy ===== *)
theory Db
  imports Db_Url Tools_Text
begin

text \<open>
  The second half of \<open>src/db.rs\<close>: trust anchors, pools and their names, the diagnosis of a failed
  connection, masking of redacted columns, and the two ways a statement is run. What the driver, the
  TLS library and the files provide is an argument (\<open>db_libs\<close>) or a reply of the world.
\<close>

section \<open>TLS\<close>

type_synonym cert = string

text \<open>The system store, the bundled roots, reading a PEM file (each certificate may be bad) and the
  root store's acceptance of a certificate.\<close>

record tls_libs =
  tl_native :: "cert list"
  tl_bundled :: "cert list"
  tl_pem :: "string \<Rightarrow> string + (string + cert) list"
  tl_accept :: "cert \<Rightarrow> string option"

fun add_certs :: "tls_libs \<Rightarrow> string \<Rightarrow> (string + cert) list \<Rightarrow> string + cert list" where
  "add_certs T path [] = Inr []"
| "add_certs T path (Inl e # cs) = Inl (''MCP_SSLROOTCERT: invalid PEM in '' @ path @ '': '' @ e)"
| "add_certs T path (Inr c # cs) =
     (case tl_accept T c of
        Some e \<Rightarrow> Inl (''MCP_SSLROOTCERT: rejected certificate: '' @ e)
      | None \<Rightarrow> bindR (add_certs T path cs) (\<lambda>r. Inr (c # r)))"

definition build_tls :: "tls_libs \<Rightarrow> env \<Rightarrow> string + cert list" where
  "build_tls T env =
     (case env ''MCP_SSLROOTCERT'' of
        None \<Rightarrow> Inr (filter (\<lambda>c. tl_accept T c = None) (tl_native T) @ tl_bundled T)
      | Some path \<Rightarrow>
          (case tl_pem T path of
             Inl e \<Rightarrow> Inl (''MCP_SSLROOTCERT: cannot read '' @ path @ '': '' @ e)
           | Inr certs \<Rightarrow>
               bindR (add_certs T path certs)
                 (\<lambda>r. if r = [] then Inl (''MCP_SSLROOTCERT: no certificates found in '' @ path) else Inr r)))"

section \<open>Pools\<close>

text \<open>The driver's parsed configuration: what the code reads and sets of it, and the text it came from.\<close>

record pg_config =
  pc_text :: string
  pc_dbname :: "string option"
  pc_connect_timeout :: "nat option"

record pg_pool =
  pp_config :: pg_config
  pp_anchors :: "cert list"
  pp_max_size :: nat
  pp_min_idle :: nat
  pp_timeout :: nat

record db_libs =
  dl_config :: "string \<Rightarrow> pg_config option"
  dl_tls :: tls_libs
  dl_file :: "string \<Rightarrow> string option"
  dl_args :: "string list"

definition MAX_CONNS :: nat where
  "MAX_CONNS = 16"

definition invalid_connection_string :: string where
  "invalid_connection_string =
     ''invalid connection string '' @ dash @ '' if the password contains @ : / # or ?, percent-encode it '' @
     ''(@ becomes %40, : becomes %3A, / becomes %2F, # becomes %23)''"

definition database_name_of :: "db_libs \<Rightarrow> string \<Rightarrow> string" where
  "database_name_of D url =
     (case Option.bind (dl_config D (normalize_sslmode url)) pc_dbname of Some n \<Rightarrow> n | None \<Rightarrow> ''postgres'')"

definition build_pool :: "db_libs \<Rightarrow> env \<Rightarrow> string \<Rightarrow> string + pg_pool" where
  "build_pool D env url =
     (case dl_config D (normalize_sslmode url) of
        None \<Rightarrow> Inl invalid_connection_string
      | Some c \<Rightarrow>
          (let c = (if pc_connect_timeout c = None then c\<lparr>pc_connect_timeout := Some 10\<rparr> else c) in
           bindR (build_tls (dl_tls D) env)
             (\<lambda>anchors. Inr \<lparr>pp_config = c, pp_anchors = anchors, pp_max_size = MAX_CONNS, pp_min_idle = 0, pp_timeout = 5\<rparr>)))"

definition spec_entries :: "string \<Rightarrow> string list" where
  "spec_entries spec = filter (\<lambda>s. s \<noteq> []) (map trim (split_char CHR '';'' spec))"

text \<open>The loop over the entries of \<open>MCP_DATABASE_URLS\<close>, with its early returns.\<close>

fun open_entries :: "db_libs \<Rightarrow> env \<Rightarrow> string list \<Rightarrow> string + (string \<times> pg_pool) list" where
  "open_entries D env [] = Inr []"
| "open_entries D env (e # es) =
     (case split_once_char CHR ''='' e of
        None \<Rightarrow> Inl (''MCP_DATABASE_URLS: expected name=url, got '' @ quote e)
      | Some (k, url) \<Rightarrow>
          if trim k = [] then Inl ''MCP_DATABASE_URLS: empty connection name''
          else bindR (build_pool D env (trim url))
                 (\<lambda>p. bindR (open_entries D env es) (\<lambda>r. Inr ((trim k, p) # r))))"

definition configured_url :: "db_libs \<Rightarrow> env \<Rightarrow> string option" where
  "configured_url D env = database_url env (dl_file D) (dl_args D)"

definition pg_pools :: "db_libs \<Rightarrow> env \<Rightarrow> string + (string \<times> pg_pool) list" where
  "pg_pools D env =
     (case env ''MCP_DATABASE_URLS'' of
        Some spec \<Rightarrow>
          bindR (open_entries D env (spec_entries spec))
            (\<lambda>r. if r = [] then Inl ''MCP_DATABASE_URLS is set but defines no connections'' else Inr r)
      | None \<Rightarrow>
          (case configured_url D env of
             None \<Rightarrow> Inl ''no connection string: set DATABASE_URL, MCP_DATABASE_URLS, or pass it as the first argument''
           | Some url \<Rightarrow> bindR (build_pool D env url) (\<lambda>p. Inr [(database_name_of D url, p)])))"

definition database_names :: "db_libs \<Rightarrow> env \<Rightarrow> string list" where
  "database_names D env = (case pg_pools D env of Inr ps \<Rightarrow> map fst ps | Inl _ \<Rightarrow> [])"

definition pool_for :: "db_libs \<Rightarrow> env \<Rightarrow> string option \<Rightarrow> string + (string \<times> pg_pool)" where
  "pool_for D env name =
     bindR (pg_pools D env)
       (\<lambda>pools.
          case name of
            Some n \<Rightarrow>
              (case List.find (\<lambda>(k, p). k = n) pools of
                 Some kp \<Rightarrow> Inr kp
               | None \<Rightarrow> Inl (''unknown database '' @ quote n @ '' '' @ dash @ '' configured: '' @ join '', '' (map fst pools)))
          | None \<Rightarrow>
              if length pools = 1 then Inr (hd pools)
              else Inl (''several databases are configured ('' @ join '', '' (map fst pools) @ '') '' @ dash @
                        '' pass '' @ quote ''database'' @ '' in the tool arguments''))"

definition url_for :: "db_libs \<Rightarrow> env \<Rightarrow> string option \<Rightarrow> string option" where
  "url_for D env name =
     (case env ''MCP_DATABASE_URLS'' of
        Some spec \<Rightarrow>
          (let entries = List.map_filter
                 (\<lambda>e. map_option (\<lambda>(k, v). (trim k, trim v)) (split_once_char CHR ''='' e)) (spec_entries spec) in
           case name of
             Some n \<Rightarrow> map_option snd (List.find (\<lambda>(k, u). k = n) entries)
           | None \<Rightarrow> if length entries = 1 then Some (snd (hd entries)) else None)
      | None \<Rightarrow> configured_url D env)"

section \<open>Diagnosis\<close>

definition contains_any :: "string \<Rightarrow> string list \<Rightarrow> bool" where
  "contains_any h ps = list_ex (contains h) ps"

definition provider_hint :: "string \<Rightarrow> string option" where
  "provider_hint url =
     (let h = to_ascii_lowercase url; arrow = [CHR 0xE2, CHR 0x86, CHR 0x92] in
      if contains_any h [''.supabase.co'', ''.supabase.com''] then
        Some (''Supabase signs its databases with its own CA: Dashboard '' @ arrow @ '' Project Settings '' @ arrow @
              '' Database '' @ arrow @ '' SSL configuration '' @ arrow @
              '' download the certificate, then set MCP_SSLROOTCERT to that file'')
      else if contains h ''.rds.amazonaws.com'' then
        Some ''Amazon RDS bundle: https://truststore.pki.rds.amazonaws.com/global/global-bundle.pem''
      else if contains h ''.ondigitalocean.com'' then
        Some (''DigitalOcean: download the CA certificate from the database cluster'' @ CHR 0x27 # ''s Overview page'')
      else if contains_any h [''cloudsql'', ''.gcp.''] then
        Some (''Google Cloud SQL: Connections '' @ arrow @ '' Security '' @ arrow @ '' download server-ca.pem'')
      else if contains h ''.azure.com'' then
        Some (''Azure Database for PostgreSQL uses a public CA '' @ dash @
              '' if verification still fails, check that the host name matches the certificate rather than supplying a bundle'')
      else None)"

definition reachability_hint :: "string \<Rightarrow> string option" where
  "reachability_hint url =
     (let h = to_ascii_lowercase url in
      if contains h ''.supabase.co'' \<and> contains h ''db.'' then
        Some (''note: Supabase'' @ CHR 0x27 # ''s direct host is IPv6-only '' @ dash @
              '' from an IPv4-only network use the Supavisor pooler connection string (port 6543) instead'')
      else None)"

definition UNREACHABLE_PREFIX :: string where
  "UNREACHABLE_PREFIX = ''cannot connect to PostgreSQL''"

definition sqlstate_hint :: "string \<Rightarrow> string \<Rightarrow> string" where
  "sqlstate_hint code msg =
     (if code = ''28P01'' then ''authentication failed '' @ dash @ '' check the password in DATABASE_URL''
      else if code = ''28000'' then
        (if contains_any msg [''SSL off'', ''no encryption''] then
           ''the server requires TLS for this host/user '' @ dash @ '' add ?sslmode=require to DATABASE_URL''
         else ''connection rejected by pg_hba.conf '' @ dash @ '' check the host, user and database rules'')
      else if code = ''3D000'' then ''database does not exist''
      else if code = ''53300'' then ''too many connections on the server''
      else ''server refused the connection'')"

text \<open>A failure below the database: \<open>txt\<close> is the error's text, \<open>d\<close> the texts of its chain of causes.
  The kind of advice is chosen here; the sentences are \<open>advice_text\<close>.\<close>

datatype advice = Private_CA | No_Tls_Offered | Wrong_Name | Expired | Local_Without_Tls | Extra_At | Generic

definition transport_advice :: "string \<Rightarrow> string \<Rightarrow> advice" where
  "transport_advice url d =
     (if contains_any d [''unknownissuer'', ''self-signed'', ''selfsigned''] then Private_CA
      else if \<not> db_on_trusted_network url \<and> \<not> contains (to_ascii_lowercase url) ''sslmode='' then No_Tls_Offered
      else if contains_any d [''notvalidforname'', ''not valid for name''] then Wrong_Name
      else if contains d ''expired'' then Expired
      else if contains d ''handshake'' \<and> db_is_local url then Local_Without_Tls
      else if authority_has_extra_at url then Extra_At
      else Generic)"

definition advice_text :: "string \<Rightarrow> string \<Rightarrow> advice \<Rightarrow> string" where
  "advice_text url txt a =
     UNREACHABLE_PREFIX @ '': '' @
     (case a of
        Private_CA \<Rightarrow>
          ''the server certificate is not signed by any CA we trust '' @ dash @
          '' typical of a private CA (Supabase, RDS, Cloud SQL, self-hosted). Point MCP_SSLROOTCERT at that provider CA bundle'' @
          (case provider_hint url of Some h \<Rightarrow> ''. '' @ h | None \<Rightarrow> [])
      | No_Tls_Offered \<Rightarrow>
          ''the database is reachable over a network outside this machine and offered no TLS. Since 0.1.10 such a connection without an explicit `sslmode` is made with `sslmode=require` rather than the driver default `prefer`, because `prefer` silently sends everything in the clear when the server declines '' @
          dash @ '' which anyone on the wire can make it do. Enable TLS on the database, or say `sslmode=disable` if you genuinely mean plaintext and the server will tell you what it thinks of that''
      | Wrong_Name \<Rightarrow>
          ''the server certificate does not cover this host name '' @ dash @
          '' connect using the name in the certificate rather than an IP address''
      | Expired \<Rightarrow> ''the server certificate has expired''
      | Local_Without_Tls \<Rightarrow>
          ''TLS was required but the handshake failed, and the database is on this machine '' @ dash @
          '' a local PostgreSQL usually ships with `ssl = off` (the official Docker image and the distribution packages all do). Check `SHOW ssl;`. For a database on this machine you do not need TLS at all: drop the `sslmode` parameter, or set `sslmode=disable`.''
      | Extra_At \<Rightarrow>
          ''the connection string has a second `@` before the database name, so the password almost certainly contains one and the driver split the string at the wrong place. Percent-encode it: @ becomes %40, : becomes %3A, / becomes %2F, # becomes %23. `MCP_PASSWORD_FILE` avoids the problem entirely by keeping the password out of the URL.''
      | Generic \<Rightarrow>
          txt @ '' '' @ dash @
          '' check host, port and sslmode; for a private CA (e.g. an RDS bundle) point MCP_SSLROOTCERT at the PEM file'' @
          (case reachability_hint url of Some h \<Rightarrow> ''. '' @ h | None \<Rightarrow> []))"

definition connect_message :: "string \<Rightarrow> attempt \<Rightarrow> string" where
  "connect_message url a =
     (case a of
        Attempt_Ok \<Rightarrow> ''connection pool exhausted '' @ dash @ '' too many concurrent queries''
      | Attempt_Db code msg \<Rightarrow> UNREACHABLE_PREFIX @ '': '' @ sqlstate_hint code msg @ sqlstate code
      | Attempt_Transport txt chain \<Rightarrow>
          advice_text url txt (transport_advice url (to_ascii_lowercase (txt @ '' '' @ chain))))"

definition pool_error_detail :: "world \<Rightarrow> db_libs \<Rightarrow> env \<Rightarrow> string option \<Rightarrow> string act" where
  "pool_error_detail w D env db =
     (case url_for D env db of
        None \<Rightarrow> ret ''no connection string: set DATABASE_URL, MCP_DATABASE_URLS, or pass it as the first argument''
      | Some url \<Rightarrow>
          (case dl_config D (normalize_sslmode url) of
             None \<Rightarrow> ret invalid_connection_string
           | Some c \<Rightarrow>
               (case build_tls (dl_tls D) env of
                  Inl e \<Rightarrow> ret e
                | Inr _ \<Rightarrow> andthen (probe w) (\<lambda>a. ret (connect_message url a)))))"

end
