(* ===== verification/Db_Exec.thy ===== *)
theory Db_Exec
  imports Db Validate_Size
begin

text \<open>
  Running statements, the last part of \<open>src/db.rs\<close>: masking, \<open>execute_readonly\<close> and
  \<open>query_catalog\<close> as actions over the world, and \<open>simulate_index\<close>.
\<close>

section \<open>Masking\<close>

definition redacted_mark :: json where
  "redacted_mark = JStr ''[redacted]''"

text \<open>The value with the matching keys masked at every depth, and the keys that were.\<close>

fun redact_value :: "string list \<Rightarrow> json \<Rightarrow> json \<times> string list"
  and redact_entries :: "string list \<Rightarrow> (string \<times> json) list \<Rightarrow> (string \<times> json) list \<times> string list"
  and redact_items :: "string list \<Rightarrow> json list \<Rightarrow> json list \<times> string list" where
  "redact_value pats (JObj kvs) = (case redact_entries pats kvs of (kvs', m) \<Rightarrow> (JObj kvs', m))"
| "redact_value pats (JArr xs) = (case redact_items pats xs of (xs', m) \<Rightarrow> (JArr xs', m))"
| "redact_value pats v = (v, [])"
| "redact_entries pats [] = ([], [])"
| "redact_entries pats ((k, v) # r) =
     (case redact_entries pats r of (r', ms) \<Rightarrow>
        if list_ex (\<lambda>p. p = to_lowercase k) pats then ((k, redacted_mark) # r', k # ms)
        else (case redact_value pats v of (v', m) \<Rightarrow> ((k, v') # r', m @ ms)))"
| "redact_items pats [] = ([], [])"
| "redact_items pats (x # xs) =
     (case redact_value pats x of (x', m) \<Rightarrow> (case redact_items pats xs of (xs', ms) \<Rightarrow> (x' # xs', m @ ms)))"

definition redact_patterns :: "env \<Rightarrow> string list" where
  "redact_patterns env =
     (case env ''MCP_REDACT_COLUMNS'' of
        Some v \<Rightarrow> expand_with_statistic_columns (map (\<lambda>s. last (split_char CHR ''.'' s))
                    (filter (\<lambda>s. s \<noteq> []) (map (\<lambda>s. to_lowercase (trim s)) (split_char CHR '','' v))))
      | None \<Rightarrow> [])"

text \<open>The masking and the validator read the setting alike.\<close>

lemma redact_patterns_eq [simp]: "redact_patterns env = redacted_names env"
  by (simp add: redact_patterns_def redacted_names_def csv_lower_def split: option.split)

definition redact_rows :: "env \<Rightarrow> json list \<Rightarrow> json list \<times> string list" where
  "redact_rows env rows =
     (let pats = redact_patterns env in
      if pats = [] then (rows, [])
      else (case redact_items pats rows of (rows', m) \<Rightarrow> (rows', sort (remdups m))))"

section \<open>Values and rows\<close>

definition col_to_json :: "cell \<Rightarrow> json" where
  "col_to_json c =
     (case c of
        Cell_Json v \<Rightarrow> (case v of Some j \<Rightarrow> j | None \<Rightarrow> JNull)
      | Cell_Text v \<Rightarrow> (case v of Some s \<Rightarrow> JStr s | None \<Rightarrow> JNull)
      | Cell_Int4 v \<Rightarrow> (case v of Some n \<Rightarrow> JNum (int_str n) | None \<Rightarrow> JNull)
      | Cell_Int8 v \<Rightarrow> (case v of Some n \<Rightarrow> JNum (int_str n) | None \<Rightarrow> JNull)
      | Cell_Float8 v \<Rightarrow> (case v of Some (Some n) \<Rightarrow> JNum n | _ \<Rightarrow> JNull)
      | Cell_Bool v \<Rightarrow> (case v of Some b \<Rightarrow> JBool b | None \<Rightarrow> JNull)
      | Cell_Other \<Rightarrow> JNull)"

definition row_object :: "row \<Rightarrow> json" where
  "row_object r = jobj (map (\<lambda>(n, c). (n, col_to_json c)) r)"

text \<open>\<open>try_get::<_, Option<String>>(0)\<close>, with null for an absent text.\<close>

definition first_text :: "row \<Rightarrow> string option" where
  "first_text r =
     (case r of (_, Cell_Text v) # _ \<Rightarrow> Some (case v of Some s \<Rightarrow> s | None \<Rightarrow> ''null'') | _ \<Rightarrow> None)"

definition MAX_LIMIT :: nat where
  "MAX_LIMIT = 10000"

definition too_large :: "string \<Rightarrow> string" where
  "too_large advice = ''result too large (>'' @ nat_str (MAX_RESULT_BYTES div 1048576) @ '' MB) '' @ dash @ advice"

text \<open>The rows of a wrapped query, one JSON text each, up to the byte budget.\<close>

fun stream_rows :: "world \<Rightarrow> string \<Rightarrow> nat \<Rightarrow> row_event list \<Rightarrow> string + json list" where
  "stream_rows w sql bytes [] = Inr []"
| "stream_rows w sql bytes (Row_Failed e # es) = Inl (friendly_pg_error_for e (Some sql))"
| "stream_rows w sql bytes (Row r # es) =
     (case first_text r of
        None \<Rightarrow> Inl ''result serialization error''
      | Some txt \<Rightarrow>
          (let bytes' = saturating_add bytes (length txt) in
           case w_parse w txt of
             None \<Rightarrow> Inl ''result serialization error''
           | Some v \<Rightarrow>
               if MAX_RESULT_BYTES < bytes' then Inl (too_large '' add a tighter filter or smaller LIMIT'')
               else bindR (stream_rows w sql bytes' es) (\<lambda>vs. Inr (v # vs))))"

text \<open>\<open>client.query\<close> takes all rows before it returns.\<close>

fun collect_rows :: "row_event list \<Rightarrow> pg_error + row list" where
  "collect_rows [] = Inr []"
| "collect_rows (Row_Failed e # es) = Inl e"
| "collect_rows (Row r # es) = bindR (collect_rows es) (\<lambda>rs. Inr (r # rs))"

definition query_reply :: "reply \<Rightarrow> pg_error + row list" where
  "query_reply r = (case r of Failed e \<Rightarrow> Inl e | Rows es \<Rightarrow> collect_rows es)"

fun plain_rows :: "world \<Rightarrow> nat \<Rightarrow> row list \<Rightarrow> string + json list" where
  "plain_rows w bytes [] = Inr []"
| "plain_rows w bytes (r # rs) =
     (let v = row_object r; bytes' = saturating_add bytes (length (w_print w v)) in
      if MAX_RESULT_BYTES < bytes' then Inl (too_large '' narrow the query'')
      else bindR (plain_rows w bytes' rs) (\<lambda>vs. Inr (v # vs)))"

section \<open>Statements\<close>

lemma length_trim_start_in: "length (trim_start_in ws s) \<le> length s"
  by (induction ws s rule: trim_start_in.induct) (auto split: option.splits intro: le_trans)

lemma length_trim_start: "length (trim_start s) \<le> length s"
  by (simp add: trim_start_def length_trim_start_in)

function strip_open :: "string \<Rightarrow> string" where
  "strip_open s = (case s of c # r \<Rightarrow> if c = CHR ''('' then strip_open (trim_start r) else s | [] \<Rightarrow> [])"
  by pat_completeness auto
termination
  by (relation "measure length") (auto simp: le_imp_less_Suc length_trim_start)

declare strip_open.simps [simp del]

definition is_row_query :: "string \<Rightarrow> bool" where
  "is_row_query sql =
     (let up = to_uppercase (strip_open (trim_start sql)) in
      list_ex (starts_with up) [''SELECT'', ''WITH'', ''VALUES'', ''TABLE''])"

definition squoted :: "string \<Rightarrow> string" where
  "squoted s = CHR 0x27 # s @ [CHR 0x27]"

definition wrapped_query :: "string \<Rightarrow> string" where
  "wrapped_query sql =
     (let cap = nat_str MAX_RESULT_BYTES in
      ''SELECT (CASE WHEN octet_length(_r::text) > '' @ cap @ '' THEN to_jsonb('' @
      squoted (''[row omitted: exceeds '' @ cap @ ''-byte limit]'') @
      ''::text) ELSE _r END)::text FROM (SELECT to_jsonb(t) AS _r FROM ('' @ sql @ '') t) _s'')"

definition begin_read_only :: string where
  "begin_read_only = ''BEGIN TRANSACTION READ ONLY''"

definition session_settings :: "env \<Rightarrow> string" where
  "session_settings env =
     ''SET statement_timeout='' @ squoted (statement_timeout env) @
     ''; SET idle_in_transaction_session_timeout='' @ squoted ''10s'' @
     ''; SET default_transaction_read_only=on;'' @ search_path_stmt env"

definition catalog_settings :: "env \<Rightarrow> string" where
  "catalog_settings env =
     ''SET statement_timeout='' @ squoted (statement_timeout env) @
     ''; SET default_transaction_read_only=on;'' @ search_path_stmt env"

text \<open>A step of a session: the error is reported as its text.\<close>

definition step :: "world \<Rightarrow> nat \<Rightarrow> string \<Rightarrow> (string + unit) act" where
  "step w c sql = andthen (batch w c sql)
     (\<lambda>r. ret (case r of Inl e \<Rightarrow> Inl (pg_error_text e) | Inr u \<Rightarrow> Inr u))"

text \<open>\<open>pool_for\<close> and \<open>get\<close>, with the diagnosis when the pool gives none.\<close>

definition with_conn ::
  "world \<Rightarrow> db_libs \<Rightarrow> env \<Rightarrow> string option \<Rightarrow> (nat \<Rightarrow> (string + 'a) act) \<Rightarrow> (string + 'a) act" where
  "with_conn w D env db f =
     (case pool_for D env db of
        Inl e \<Rightarrow> ret (Inl e)
      | Inr (name, p) \<Rightarrow>
          andthen (take_conn w name)
            (\<lambda>c. case c of
                   Some c \<Rightarrow> f c
                 | None \<Rightarrow> andthen (pool_error_detail w D env db) (\<lambda>m. ret (Inl m))))"

definition rollback :: "world \<Rightarrow> nat \<Rightarrow> 'a \<Rightarrow> 'a act" where
  "rollback w c x = andthen (batch w c ''ROLLBACK'') (\<lambda>_. ret x)"

definition open_session :: "world \<Rightarrow> nat \<Rightarrow> string \<Rightarrow> (unit \<Rightarrow> (string + 'a) act) \<Rightarrow> (string + 'a) act" where
  "open_session w c settings f =
     attempted (step w c ''DISCARD ALL'') (\<lambda>_.
       attempted (step w c settings) (\<lambda>_.
         attempted (step w c begin_read_only) f))"

text \<open>The two branches of \<open>execute_readonly\<close>. A failing query of the second returns at once.\<close>

definition run_row_query :: "world \<Rightarrow> nat \<Rightarrow> string \<Rightarrow> (string + json list) act" where
  "run_row_query w c sql =
     andthen (send w c (wrapped_query sql, []))
       (\<lambda>r. case (case r of Failed e \<Rightarrow> Inl (friendly_pg_error_for e (Some sql))
                          | Rows es \<Rightarrow> stream_rows w sql 0 es) of
              Inr vs \<Rightarrow> ret (Inr vs)
            | Inl e \<Rightarrow> rollback w c (Inl e))"

definition run_plain :: "world \<Rightarrow> nat \<Rightarrow> string \<Rightarrow> (string + json list) act" where
  "run_plain w c sql =
     andthen (send w c (sql, []))
       (\<lambda>r. case query_reply r of
              Inl e \<Rightarrow> ret (Inl (friendly_pg_error_for e (Some sql)))
            | Inr rows \<Rightarrow>
                (case plain_rows w 0 rows of
                   Inl e \<Rightarrow> rollback w c (Inl e)
                 | Inr vs \<Rightarrow> ret (Inr vs)))"

definition result_object :: "env \<Rightarrow> json list \<Rightarrow> json" where
  "result_object env out =
     (case redact_rows env out of (rows, masked) \<Rightarrow>
       (let res = jobj [(''returnedRows'', JNum (nat_str (length rows))), (''rows'', JArr rows)] in
        if masked \<noteq> [] then jinsert ''redactedColumns'' (JArr (map JStr masked)) res else res))"

definition execute_readonly :: "world \<Rightarrow> db_libs \<Rightarrow> env \<Rightarrow> string \<Rightarrow> string option \<Rightarrow> (string + json) act" where
  "execute_readonly w D env final_sql db =
     with_conn w D env db (\<lambda>c.
       open_session w c (session_settings env) (\<lambda>_.
         attempted (if is_row_query final_sql then run_row_query w c final_sql else run_plain w c final_sql)
           (\<lambda>out. rollback w c (Inr (result_object env out)))))"

section \<open>Catalog queries\<close>

definition catalog_command :: "string \<Rightarrow> string \<times> bool" where
  "catalog_command sql =
     (if starts_with (to_ascii_uppercase (trim_start sql)) ''SELECT'' then
        (''SELECT to_jsonb(t)::text AS _r FROM ('' @ sql @ '') t'', True)
      else (sql, False))"

text \<open>The rows up to the ceiling, and whether it cut them.\<close>

fun catalog_rows :: "world \<Rightarrow> string \<Rightarrow> bool \<Rightarrow> nat \<Rightarrow> row_event list \<Rightarrow> string + json list \<times> bool" where
  "catalog_rows w sql wrapped bytes [] = Inr ([], False)"
| "catalog_rows w sql wrapped bytes (Row_Failed e # es) = Inl (friendly_pg_error_for e (Some sql))"
| "catalog_rows w sql wrapped bytes (Row r # es) =
     (if MAX_RESULT_BYTES < bytes then Inr ([], True)
      else (case (if wrapped then Option.bind (first_text r) (w_parse w) else Some (row_object r)) of
              None \<Rightarrow> Inl ''result serialization error''
            | Some v \<Rightarrow>
                bindR (catalog_rows w sql wrapped (bytes + length (w_print w v)) es)
                  (\<lambda>(vs, capped). Inr (v # vs, capped))))"

definition catalog_object :: "json list \<times> bool \<Rightarrow> json" where
  "catalog_object r =
     (case r of (out, capped) \<Rightarrow>
       (let res = jobj [(''returnedRows'', JNum (nat_str (length out))), (''rows'', JArr out)] in
        if capped then
          jinsert ''truncationReason'' (JStr (''result exceeded the '' @ nat_str (MAX_RESULT_BYTES div 1048576) @
              '' MB ceiling and was cut here'')) (jinsert ''truncated'' (JBool True) res)
        else res))"

definition query_catalog ::
  "world \<Rightarrow> db_libs \<Rightarrow> env \<Rightarrow> string \<Rightarrow> param list \<Rightarrow> string option \<Rightarrow> (string + json) act" where
  "query_catalog w D env sql params db =
     with_conn w D env db (\<lambda>c.
       open_session w c (catalog_settings env) (\<lambda>_.
         case catalog_command sql of (cmd, wrapped) \<Rightarrow>
           andthen (send w c (cmd, params))
             (\<lambda>r. rollback w c
                    (bindR (case r of Failed e \<Rightarrow> Inl (friendly_pg_error_for e (Some cmd))
                                    | Rows es \<Rightarrow> catalog_rows w cmd wrapped 0 es)
                      (\<lambda>res. Inr (catalog_object res))))))"

end
