(* ===== verification/Db_Props.thy ===== *)
theory Db_Props
  imports Db_Exec
begin

text \<open>
  What running a statement promises: nothing redacted leaves, the byte budget holds, every conversation
  with the database is a prefix of one fixed script, and in what state a connection goes back to its
  pool.
\<close>

section \<open>Masking\<close>

lemma redact_items_map:
  "redact_items pats xs = (map (fst \<circ> redact_value pats) xs, concat (map (snd \<circ> redact_value pats) xs))"
  by (induction xs) (simp_all add: split_beta)

definition hit :: "string list \<Rightarrow> string \<Rightarrow> bool" where
  "hit pats k = (to_lowercase k \<in> set pats)"

lemma hit_list_ex: "list_ex (\<lambda>p. p = to_lowercase k) pats = hit pats k"
  by (auto simp: list_ex_iff hit_def)

lemma redact_entries_map:
  "redact_entries pats kvs =
     (map (\<lambda>(k, v). (k, if hit pats k then redacted_mark else fst (redact_value pats v))) kvs,
      concat (map (\<lambda>(k, v). if hit pats k then [k] else snd (redact_value pats v)) kvs))"
  by (induction kvs) (auto simp: split_beta hit_list_ex)

lemma redact_simps:
  "redact_value pats (JObj kvs) =
     (JObj (map (\<lambda>(k, v). (k, if hit pats k then redacted_mark else fst (redact_value pats v))) kvs),
      concat (map (\<lambda>(k, v). if hit pats k then [k] else snd (redact_value pats v)) kvs))"
  "redact_value pats (JArr xs) =
     (JArr (map (fst \<circ> redact_value pats) xs), concat (map (snd \<circ> redact_value pats) xs))"
  by (simp_all add: redact_entries_map redact_items_map)

lemma subvalues_mark: "subvalues redacted_mark = [redacted_mark]"
  by (simp add: redacted_mark_def)

text \<open>Below a masked value there is no entry with a matching key that is not masked.\<close>

lemma redact_value_masks:
  "JObj kvs \<in> set (subvalues (fst (redact_value pats v))) \<Longrightarrow> (k, x) \<in> set kvs \<Longrightarrow> hit pats k \<Longrightarrow> x = redacted_mark"
proof (induction v arbitrary: kvs k x)
  case (JArr xs)
  then obtain y where y: "y \<in> set xs" "JObj kvs \<in> set (subvalues (fst (redact_value pats y)))"
    by (auto simp: redact_simps simp del: redact_value.simps)
  from JArr.IH [OF y JArr.prems(2,3)] show ?case .
next
  case (JObj es)
  let ?f = "\<lambda>(k, v). (k, if hit pats k then redacted_mark else fst (redact_value pats v))"
  from JObj.prems(1) consider (top) "kvs = map ?f es"
    | (sub) e where "e \<in> set es" "JObj kvs \<in> set (subvalues (snd (?f e)))"
    by (auto simp: redact_simps simp del: redact_value.simps)
  then show ?case
  proof cases
    case top
    with JObj.prems(2,3) show ?thesis by auto
  next
    case sub
    obtain k' v' where e: "e = (k', v')" by (cases e)
    have "\<not> hit pats k'" using sub(2) by (auto simp: e subvalues_mark redacted_mark_def)
    then have s: "JObj kvs \<in> set (subvalues (fst (redact_value pats v')))" using sub(2) by (simp add: e)
    show ?thesis
      by (rule JObj.IH [OF sub(1) _ s JObj.prems(2,3)]) (simp add: e)
  qed
qed simp_all

text \<open>What is not under a matching key is not touched, and the reported keys are the ones that were found.\<close>

fun keys_found :: "string list \<Rightarrow> json \<Rightarrow> string list" where
  "keys_found pats (JObj kvs) = concat (map (\<lambda>(k, v). if hit pats k then [k] else keys_found pats v) kvs)"
| "keys_found pats (JArr xs) = concat (map (keys_found pats) xs)"
| "keys_found pats v = []"

lemma redact_value_reports: "snd (redact_value pats v) = keys_found pats v"
proof (induction v)
  case (JArr xs)
  then have "map (snd \<circ> redact_value pats) xs = map (keys_found pats) xs" by simp
  then show ?case unfolding redact_simps by (simp only: snd_conv keys_found.simps)
next
  case (JObj es)
  then have "map (\<lambda>(k, v). if hit pats k then [k] else snd (redact_value pats v)) es
           = map (\<lambda>(k, v). if hit pats k then [k] else keys_found pats v) es" by (auto simp: snds.simps)
  then show ?case unfolding redact_simps by (simp only: snd_conv keys_found.simps)
qed simp_all

text \<open>A path leads from a value to one of the values in it, by the entry of an object or the item of an
  array, as in an environment that nests; \<open>shape\<close> is what a value shows without the values in it: a scalar,
  the keys of an object in their order, or the length of an array.\<close>

datatype json_step = Entry nat string | Item nat

fun value_at :: "json \<Rightarrow> json_step list \<Rightarrow> json option" where
  "value_at v [] = Some v"
| "value_at (JObj kvs) (Entry i k # p) = (if i < length kvs \<and> fst (kvs ! i) = k then value_at (snd (kvs ! i)) p else None)"
| "value_at (JArr xs) (Item i # p) = (if i < length xs then value_at (xs ! i) p else None)"
| "value_at v (s # p) = None"

fun shape :: "json \<Rightarrow> json" where
  "shape (JObj kvs) = JObj (map (\<lambda>(k, v). (k, JNull)) kvs)"
| "shape (JArr xs) = JArr (map (\<lambda>v. JNull) xs)"
| "shape v = v"

definition hidden_path :: "env \<Rightarrow> json_step list \<Rightarrow> bool" where
  "hidden_path env p \<longleftrightarrow> (\<exists>i k. Entry i k \<in> set p \<and> is_redacted env (to_lowercase k))"

lemma redact_value_shape: "shape (fst (redact_value pats v)) = shape v"
  by (cases v) (auto simp: redact_simps simp del: redact_value.simps(1,2))

lemma redact_value_path:
  "\<not> hidden_path env p \<Longrightarrow>
   map_option shape (value_at (fst (redact_value (redacted_names env) v)) p) = map_option shape (value_at v p)"
proof (induction p arbitrary: v)
  case Nil
  then show ?case by (simp add: redact_value_shape)
next
  case (Cons s p)
  then have p: "\<not> hidden_path env p" and s: "\<And>i k. s = Entry i k \<Longrightarrow> \<not> hit (redacted_names env) k"
    by (auto simp: hidden_path_def hit_def is_redacted_iff)
  note IH = Cons.IH [OF p]
  show ?case
  proof (cases v)
    case (JObj kvs)
    then show ?thesis
      using IH s by (cases s) (auto simp: redact_simps split_beta simp del: redact_value.simps(1,2))
  next
    case (JArr xs)
    then show ?thesis
      using IH by (cases s) (auto simp: redact_simps simp del: redact_value.simps(1,2))
  qed (simp_all)
qed

text \<open>C15: No value stands under the name of a redacted column anywhere in the rows of a result, however
  deeply the row was folded into objects and arrays; everything else is untouched: there are as many rows
  in the same order, and every path that takes no redacted key leads in the masked row to what it leads to
  in the row itself (the same scalar, an object with the same keys in the same order, an array of the same
  length); and the reported columns are exactly the keys that were masked.\<close>

theorem results_are_masked:
  "(\<forall>row kvs k x. row \<in> set (fst (redact_rows env rows)) \<and> JObj kvs \<in> set (subvalues row) \<and> (k, x) \<in> set kvs
       \<and> is_redacted env (to_lowercase k) \<longrightarrow> x = JStr ''[redacted]'')
   \<and> length (fst (redact_rows env rows)) = length rows
   \<and> (\<forall>i p. i < length rows \<and> \<not> hidden_path env p \<longrightarrow>
        map_option shape (value_at (fst (redact_rows env rows) ! i) p) = map_option shape (value_at (rows ! i) p))
   \<and> set (snd (redact_rows env rows)) = set (concat (map (keys_found (redacted_names env)) rows))"
proof (cases "redacted_names env = []")
  case True
  have "keys_found [] v = []" for v
    by (induction v) (auto simp: hit_def)
  with True show ?thesis by (simp add: redact_rows_def is_redacted_iff)
next
  case False
  let ?p = "redacted_names env"
  have r: "redact_rows env rows = (map (fst \<circ> redact_value ?p) rows, sort (remdups (concat (map (keys_found ?p) rows))))"
    using False by (simp add: redact_rows_def redact_items_map redact_value_reports comp_def Let_def)
  have "x = JStr ''[redacted]''"
    if h: "row \<in> set (fst (redact_rows env rows))" "JObj kvs \<in> set (subvalues row)" "(k, x) \<in> set kvs"
      "is_redacted env (to_lowercase k)" for row kvs k x
  proof -
    from h(1) obtain v where "row = fst (redact_value ?p v)" by (auto simp: r)
    then show ?thesis
      using redact_value_masks [of kvs ?p v k x] h(2-4) by (simp add: hit_def is_redacted_iff redacted_mark_def)
  qed
  then have masks: "\<forall>row kvs k x. row \<in> set (fst (redact_rows env rows)) \<and> JObj kvs \<in> set (subvalues row)
      \<and> (k, x) \<in> set kvs \<and> is_redacted env (to_lowercase k) \<longrightarrow> x = JStr ''[redacted]''" by blast
  have keeps: "map_option shape (value_at (fst (redact_rows env rows) ! i) p) = map_option shape (value_at (rows ! i) p)"
    if "i < length rows" "\<not> hidden_path env p" for i p
    unfolding r fst_conv using that by (simp add: redact_value_path del: redact_value.simps)
  have "set (snd (redact_rows env rows)) = set (concat (map (keys_found ?p) rows))" by (simp add: r)
  moreover have "length (fst (redact_rows env rows)) = length rows" by (simp add: r)
  ultimately show ?thesis using masks keeps by blast
qed

definition demo_redact_env :: env where
  "demo_redact_env = (\<lambda>k. if k = ''MCP_REDACT_COLUMNS'' then Some ''users.Password'' else None)"

definition demo_rows :: "json list" where
  "demo_rows = [JObj [(''t'', JArr [JObj [(''PASSWORD'', JStr ''x''), (''name'', JStr ''Ann'')]])]]"

theorem results_are_masked_witness:
  "set (snd (redact_rows demo_redact_env demo_rows)) = {''PASSWORD''}
   \<and> value_at (fst (redact_rows demo_redact_env demo_rows) ! 0) [Entry 0 ''t'', Item 0, Entry 0 ''PASSWORD''] = Some (JStr ''[redacted]'')
   \<and> map_option shape (value_at (fst (redact_rows demo_redact_env demo_rows) ! 0) [Entry 0 ''t'', Item 0, Entry 1 ''name''])
     = Some (JStr ''Ann'')"
proof (intro conjI)
  have "concat (map (keys_found (redacted_names demo_redact_env)) demo_rows) = [''PASSWORD'']" by code_simp
  then show "set (snd (redact_rows demo_redact_env demo_rows)) = {''PASSWORD''}"
    using results_are_masked [of demo_redact_env demo_rows] by simp
  show "value_at (fst (redact_rows demo_redact_env demo_rows) ! 0) [Entry 0 ''t'', Item 0, Entry 0 ''PASSWORD''] = Some (JStr ''[redacted]'')"
    by code_simp
  have "\<not> is_redacted demo_redact_env (to_lowercase ''t'')" "\<not> is_redacted demo_redact_env (to_lowercase ''name'')"
    by code_simp+
  then have "\<not> hidden_path demo_redact_env [Entry 0 ''t'', Item 0, Entry 1 ''name'']" by (auto simp: hidden_path_def)
  then show "map_option shape (value_at (fst (redact_rows demo_redact_env demo_rows) ! 0) [Entry 0 ''t'', Item 0, Entry 1 ''name''])
     = Some (JStr ''Ann'')"
    using results_are_masked [of demo_redact_env demo_rows] by (simp add: demo_rows_def)
qed

section \<open>The byte budget\<close>

definition text_bytes :: "row_event list \<Rightarrow> nat" where
  "text_bytes es = sum_list (map (\<lambda>e. case e of Row r \<Rightarrow> (case first_text r of Some t \<Rightarrow> length t | None \<Rightarrow> 0) | _ \<Rightarrow> 0) es)"

lemma stream_rows_bounded:
  "stream_rows w sql b es = Inr vs \<Longrightarrow> b \<le> MAX_RESULT_BYTES \<Longrightarrow>
   b + text_bytes es \<le> MAX_RESULT_BYTES \<and> length vs = length es"
proof (induction w sql b es arbitrary: vs rule: stream_rows.induct)
  case (3 w sql bytes r es)
  from 3(2) obtain body v rest where t: "first_text r = Some body" "w_parse w body = Some v"
    and le: "saturating_add bytes (length body) \<le> MAX_RESULT_BYTES"
    and s: "stream_rows w sql (saturating_add bytes (length body)) es = Inr rest" "vs = v # rest"
    by (auto simp: Let_def bindR_eq_Inr split: option.splits if_splits)
  have "MAX_RESULT_BYTES < u64_max" by (simp add: MAX_RESULT_BYTES_def u64_max_def)
  with le have eq: "saturating_add bytes (length body) = bytes + length body"
    by (auto simp: saturating_add_def min_def split: if_splits)
  from 3(1) [OF t(1) refl t(2) _ s(1) le] le
  show ?case using s(2) t by (simp add: text_bytes_def eq)
qed (auto simp: text_bytes_def)

text \<open>A row query that answers has passed on at most the byte budget, whatever the database sent: the sum of
  the texts of the rows that were parsed stays within it, and a larger result is an error instead.\<close>

theorem result_bytes_bounded:
  assumes "stream_rows w sql 0 es = Inr vs"
  shows "text_bytes es \<le> MAX_RESULT_BYTES \<and> length vs = length es"
  using stream_rows_bounded [OF assms] by simp

definition demo_world :: "(event list \<Rightarrow> nat \<Rightarrow> command \<Rightarrow> reply) \<Rightarrow> world" where
  "demo_world r = \<lparr>w_conn = (\<lambda>l n. Some 0), w_reply = r, w_attempt = (\<lambda>l. Attempt_Ok),
     w_parse = (\<lambda>t. Some (JStr t)), w_print = (\<lambda>j. ''{}'')\<rparr>"

theorem result_bytes_bounded_witness:
  "text_bytes [Row [(''r'', Cell_Text (Some ''abc''))]] \<le> MAX_RESULT_BYTES"
proof -
  have "stream_rows (demo_world (\<lambda>l c cmd. Rows [])) ''SELECT 1'' 0 [Row [(''r'', Cell_Text (Some ''abc''))]] = Inr [JStr ''abc'']"
    by (simp add: first_text_def demo_world_def saturating_add_def MAX_RESULT_BYTES_def u64_max_def)
  from result_bytes_bounded [OF this] show ?thesis by simp
qed

section \<open>Every conversation follows one script\<close>

lemma emits_step: "emits (step w c sql) (\<lambda>d r. d = [Sent c (sql, [])])"
  unfolding step_def
  by (rule emits_andthen [where P = "\<lambda>d r. d = [Sent c (sql, [])]"]) (auto intro: emits_rules)

lemma emits_rollback: "emits (rollback w c x) (\<lambda>d r. d = [Sent c (''ROLLBACK'', [])] \<and> r = x)"
  unfolding rollback_def
  by (rule emits_andthen [where P = "\<lambda>d r. d = [Sent c (''ROLLBACK'', [])]"]) (auto intro: emits_rules)

definition no_commands :: "event list \<Rightarrow> bool" where
  "no_commands d = (\<forall>c cmd. Sent c cmd \<notin> set d)"

lemma emits_detail: "emits (pool_error_detail w D env db) (\<lambda>d r. d = [] \<or> d = [Probed])"
  unfolding pool_error_detail_def
  by (auto split: option.splits sum.splits intro!: emits_rules emits_andthen [where P = "\<lambda>d r. d = [Probed]"])

lemma emits_with_conn:
  assumes "\<And>c. emits (f c) (Q c)"
  shows "emits (with_conn w D env db f)
           (\<lambda>d r. no_commands d \<and> \<not> is_ok r \<or> (\<exists>name c d'. d = Got_Conn name c # d' \<and> Q c d' r))"
proof (cases "pool_for D env db")
  case (Inl e)
  then show ?thesis by (auto simp: with_conn_def no_commands_def intro: emits_ret)
next
  case (Inr np)
  obtain name p where np: "np = (name, p)" by (cases np)
  show ?thesis
    unfolding with_conn_def Inr np sum.case prod.case
  proof (rule emits_andthen [where P = "\<lambda>d x. (case x of Some c \<Rightarrow> d = [Got_Conn name c] | None \<Rightarrow> d = [No_Conn name])"])
    show "emits (take_conn w name) (\<lambda>d x. case x of Some c \<Rightarrow> d = [Got_Conn name c] | None \<Rightarrow> d = [No_Conn name])"
      by (rule emits_take_conn) simp_all
  next
    fix d x assume x: "case x of Some c \<Rightarrow> d = [Got_Conn name c] | None \<Rightarrow> d = [No_Conn name]"
    show "emits (case x of Some c \<Rightarrow> f c | None \<Rightarrow> andthen (pool_error_detail w D env db) (\<lambda>m. ret (Inl m)))
       (\<lambda>d' y. no_commands (d @ d') \<and> \<not> is_ok y \<or> (\<exists>name c d'a. d @ d' = Got_Conn name c # d'a \<and> Q c d'a y))"
    proof (cases x)
      case None
      with x have d: "d = [No_Conn name]" by simp
      show ?thesis unfolding None option.case
        by (rule emits_andthen [OF emits_detail])
          (auto simp: no_commands_def d intro!: emits_ret)
    next
      case (Some c)
      with x have d: "d = [Got_Conn name c]" by simp
      show ?thesis unfolding Some option.case
        by (rule emits_weaken [OF assms]) (simp add: d)
    qed
  qed
qed

definition preamble :: "string \<Rightarrow> command list" where
  "preamble settings = [(''DISCARD ALL'', []), (settings, []), (begin_read_only, [])]"

lemma emits_open_session:
  assumes "emits (f ()) Q"
  shows "emits (open_session w c settings f)
     (\<lambda>d r. (\<exists>k. 1 \<le> k \<and> k \<le> 3 \<and> d = map (Sent c) (take k (preamble settings)) \<and> \<not> is_ok r)
          \<or> (\<exists>d'. d = map (Sent c) (preamble settings) @ d' \<and> Q d' r))"
    (is "emits _ ?Q")
  unfolding open_session_def
proof (rule emits_attempted [OF emits_step])
  fix d and e :: string assume d: "d = [Sent c (''DISCARD ALL'', [])]"
  show "?Q d (Inl e)" by (intro disjI1 exI [of _ "1::nat"]) (simp add: d preamble_def)
next
  fix d1 and u1 :: unit assume d1: "d1 = [Sent c (''DISCARD ALL'', [])]"
  show "emits (attempted (step w c settings) (\<lambda>_. attempted (step w c begin_read_only) f)) (\<lambda>d'. ?Q (d1 @ d'))"
  proof (rule emits_attempted [OF emits_step])
    fix d and e :: string assume d: "d = [Sent c (settings, [])]"
    show "?Q (d1 @ d) (Inl e)" by (intro disjI1 exI [of _ "2::nat"]) (simp add: d d1 preamble_def)
  next
    fix d2 and u2 :: unit assume d2: "d2 = [Sent c (settings, [])]"
    show "emits (attempted (step w c begin_read_only) f) (\<lambda>d'. ?Q (d1 @ d2 @ d'))"
    proof (rule emits_attempted [OF emits_step])
      fix d and e :: string assume d: "d = [Sent c (begin_read_only, [])]"
      show "?Q (d1 @ d2 @ d) (Inl e)" by (intro disjI1 exI [of _ "3::nat"]) (simp add: d d1 d2 preamble_def)
    next
      fix d3 and u3 :: unit assume d3: "d3 = [Sent c (begin_read_only, [])]"
      show "emits (f u3) (\<lambda>d'. ?Q (d1 @ d2 @ d3 @ d'))"
        by (rule emits_weaken, cases u3, simp, rule assms) (auto simp: d1 d2 d3 preamble_def)
    qed
  qed
qed

definition statement_sent :: "string \<Rightarrow> string" where
  "statement_sent sql = (if is_row_query sql then wrapped_query sql else sql)"

lemma emits_run_row:
  "emits (run_row_query w c sql)
     (\<lambda>d r. case r of Inr _ \<Rightarrow> d = [Sent c (wrapped_query sql, [])]
                 | Inl _ \<Rightarrow> d = [Sent c (wrapped_query sql, []), Sent c (''ROLLBACK'', [])])"
  unfolding run_row_query_def
proof (rule emits_andthen [where P = "\<lambda>d r. d = [Sent c (wrapped_query sql, [])]"])
  show "emits (send w c (wrapped_query sql, [])) (\<lambda>d r. d = [Sent c (wrapped_query sql, [])])"
    by (rule emits_send) simp
next
  fix d x assume "d = [Sent c (wrapped_query sql, [])]"
  then show "emits (case (case x of Failed e \<Rightarrow> Inl (friendly_pg_error_for e (Some sql)) | Rows es \<Rightarrow> stream_rows w sql 0 es)
       of Inl e \<Rightarrow> rollback w c (Inl e) | Inr vs \<Rightarrow> ret (Inr vs))
     (\<lambda>d' y. case y of Inl _ \<Rightarrow> d @ d' = [Sent c (wrapped_query sql, []), Sent c (''ROLLBACK'', [])]
                     | Inr _ \<Rightarrow> d @ d' = [Sent c (wrapped_query sql, [])])"
    by (auto split: sum.split intro!: emits_ret emits_weaken [OF emits_rollback])
qed

lemma emits_run_plain:
  "emits (run_plain w c sql)
     (\<lambda>d r. case r of Inr _ \<Rightarrow> d = [Sent c (sql, [])]
                 | Inl _ \<Rightarrow> d = [Sent c (sql, [])] \<or> d = [Sent c (sql, []), Sent c (''ROLLBACK'', [])])"
  unfolding run_plain_def
proof (rule emits_andthen [where P = "\<lambda>d r. d = [Sent c (sql, [])]"])
  show "emits (send w c (sql, [])) (\<lambda>d r. d = [Sent c (sql, [])])"
    by (rule emits_send) simp
next
  fix d x assume "d = [Sent c (sql, [])]"
  then show "emits (case query_reply x of Inl e \<Rightarrow> ret (Inl (friendly_pg_error_for e (Some sql)))
         | Inr rows \<Rightarrow> (case plain_rows w 0 rows of Inl e \<Rightarrow> rollback w c (Inl e) | Inr vs \<Rightarrow> ret (Inr vs)))
     (\<lambda>d' y. case y of Inl _ \<Rightarrow> d @ d' = [Sent c (sql, [])] \<or> d @ d' = [Sent c (sql, []), Sent c (''ROLLBACK'', [])]
                     | Inr _ \<Rightarrow> d @ d' = [Sent c (sql, [])])"
    by (auto split: sum.split intro!: emits_ret emits_weaken [OF emits_rollback])
qed

text \<open>The abstract conversation: the whole script, of which a run sends a prefix.\<close>

definition script :: "env \<Rightarrow> string \<Rightarrow> command list" where
  "script env sql = preamble (session_settings env) @ [(statement_sent sql, []), (''ROLLBACK'', [])]"

definition follows_script :: "env \<Rightarrow> string \<Rightarrow> event list \<Rightarrow> (string + json) \<Rightarrow> bool" where
  "follows_script env sql d r =
     (no_commands d \<and> \<not> is_ok r
      \<or> (\<exists>name c k. d = Got_Conn name c # map (Sent c) (take k (script env sql)) \<and> 1 \<le> k \<and> k \<le> 5
           \<and> (is_ok r \<longrightarrow> k = 5) \<and> (k = 4 \<longrightarrow> \<not> is_row_query sql)))"

lemma execute_readonly_follows: "emits (execute_readonly w D env sql db) (follows_script env sql)"
  unfolding execute_readonly_def
proof (rule emits_weaken)
  fix d :: "event list" and r :: "string + json"
  let ?run = "\<lambda>c d r. (case r of
       Inr _ \<Rightarrow> d = [Sent c (statement_sent sql, []), Sent c (''ROLLBACK'', [])]
     | Inl _ \<Rightarrow> d = [Sent c (statement_sent sql, []), Sent c (''ROLLBACK'', [])]
               \<or> (\<not> is_row_query sql \<and> d = [Sent c (statement_sent sql, [])]))"
  let ?open = "\<lambda>c d r. (\<exists>k. 1 \<le> k \<and> k \<le> 3 \<and> d = map (Sent c) (take k (preamble (session_settings env))) \<and> \<not> is_ok r)
          \<or> (\<exists>d'. d = map (Sent c) (preamble (session_settings env)) @ d' \<and> ?run c d' r)"
  {
    assume "no_commands d \<and> \<not> is_ok r \<or> (\<exists>name c d'. d = Got_Conn name c # d' \<and> ?open c d' r)"
    then consider "no_commands d" "\<not> is_ok r"
      | (early) name c k where "1 \<le> k" "k \<le> 3" "\<not> is_ok r"
          "d = Got_Conn name c # map (Sent c) (take k (preamble (session_settings env)))"
      | (late) name c d' where "d = Got_Conn name c # map (Sent c) (preamble (session_settings env)) @ d'" "?run c d' r"
      by blast
    then show "follows_script env sql d r"
    proof cases
      case 1
      then show ?thesis by (simp add: follows_script_def)
    next
      case early
      moreover have "length (preamble (session_settings env)) = 3" by (simp add: preamble_def)
      ultimately have "take k (script env sql) = take k (preamble (session_settings env))"
        by (simp add: script_def)
      with early show ?thesis unfolding follows_script_def
        by (intro disjI2 exI [of _ name] exI [of _ c] exI [of _ k]) simp
    next
      case late
      have "length (preamble (session_settings env)) = 3" by (simp add: preamble_def)
      then have t5: "take 5 (script env sql) = script env sql"
        and t4: "take 4 (script env sql) = preamble (session_settings env) @ [(statement_sent sql, [])]"
        by (simp_all add: script_def)
      from late(2) consider
          (full) "d' = [Sent c (statement_sent sql, []), Sent c (''ROLLBACK'', [])]"
        | (short) "\<not> is_ok r" "\<not> is_row_query sql" "d' = [Sent c (statement_sent sql, [])]"
        by (cases r) auto
      then show ?thesis
      proof cases
        case full
        then have "d = Got_Conn name c # map (Sent c) (take 5 (script env sql))"
          using late(1) unfolding t5 by (simp add: script_def)
        then show ?thesis unfolding follows_script_def
          by (intro disjI2 exI [of _ name] exI [of _ c] exI [of _ "5::nat"]) simp
      next
        case short
        then have "d = Got_Conn name c # map (Sent c) (take 4 (script env sql))"
          using late(1) unfolding t4 by simp
        then show ?thesis using short unfolding follows_script_def
          by (intro disjI2 exI [of _ name] exI [of _ c] exI [of _ "4::nat"]) simp
      qed
    qed
  }
  show "emits (with_conn w D env db (\<lambda>c. open_session w c (session_settings env) (\<lambda>_.
         attempted (if is_row_query sql then run_row_query w c sql else run_plain w c sql)
           (\<lambda>out. rollback w c (Inr (result_object env out))))))
       (\<lambda>d r. no_commands d \<and> \<not> is_ok r \<or> (\<exists>name c d'. d = Got_Conn name c # d' \<and> ?open c d' r))"
  proof (rule emits_with_conn, rule emits_open_session)
    fix c
    show "emits (attempted (if is_row_query sql then run_row_query w c sql else run_plain w c sql)
           (\<lambda>out. rollback w c (Inr (result_object env out)))) (?run c)"
    proof (rule emits_attempted)
      show "emits (if is_row_query sql then run_row_query w c sql else run_plain w c sql)
         (\<lambda>d r. case r of Inr _ \<Rightarrow> d = [Sent c (statement_sent sql, [])]
                 | Inl _ \<Rightarrow> d = [Sent c (statement_sent sql, []), Sent c (''ROLLBACK'', [])]
                           \<or> (\<not> is_row_query sql \<and> d = [Sent c (statement_sent sql, [])]))"
        using emits_run_row [of w c sql] emits_run_plain [of w c sql]
        by (auto simp: statement_sent_def split: sum.splits elim!: emits_weaken)
    qed (auto intro!: emits_weaken [OF emits_rollback])
  qed
qed

text \<open>C16: Whatever the pool and the database answer, running a statement refines one fixed conversation: the
  connection is reset, the session is made read-only, a read-only transaction is opened, and only then
  is the caller's statement sent, once; an answer is given only after the transaction was rolled back,
  and only a statement that is not a row query can end without the rollback.\<close>

theorem execution_follows_script:
  assumes "execute_readonly w D env sql db l = (r, l')"
  shows "\<exists>d. l' = l @ d \<and> follows_script env sql d r"
  using execute_readonly_follows [of w D env sql db] assms unfolding emits_def by (metis fst_conv snd_conv)

definition demo_db_libs :: db_libs where
  "demo_db_libs = \<lparr>dl_config = (\<lambda>s. Some \<lparr>pc_text = s, pc_dbname = Some ''d'', pc_connect_timeout = None\<rparr>),
     dl_tls = \<lparr>tl_native = [], tl_bundled = [''root''], tl_pem = (\<lambda>p. Inl ''no file''), tl_accept = (\<lambda>c. None)\<rparr>,
     dl_file = (\<lambda>p. None), dl_args = [''postgres://u@localhost/d'']\<rparr>"

theorem execution_follows_script_witness:
  "\<exists>d. snd (execute_readonly (demo_world (\<lambda>l c cmd. Rows [])) demo_db_libs demo_redact_env ''SHOW x'' None []) = [] @ d
     \<and> follows_script demo_redact_env ''SHOW x'' d
         (fst (execute_readonly (demo_world (\<lambda>l c cmd. Rows [])) demo_db_libs demo_redact_env ''SHOW x'' None []))"
  by (rule execution_follows_script) simp

section \<open>The state a connection goes back in\<close>

text \<open>PostgreSQL's documented transaction states: after an error inside a transaction block every command
  but the rollback is refused. \<open>pg_fails\<close> says which statements fail on their own, \<open>pg_rows\<close> what the
  others answer; an answer may break off with an error too.\<close>

datatype tx = No_Tx | In_Tx | Aborted_Tx

record pg =
  pg_fails :: "string \<Rightarrow> bool"
  pg_rows :: "string \<Rightarrow> row_event list"

definition pg_error_of :: "string \<Rightarrow> pg_error" where
  "pg_error_of s = Pg_Db ''XX000'' ''failed'' ''db error''"

definition breaks :: "pg \<Rightarrow> string \<Rightarrow> bool" where
  "breaks P s = (pg_fails P s \<or> list_ex (\<lambda>e. case e of Row_Failed _ \<Rightarrow> True | _ \<Rightarrow> False) (pg_rows P s))"

definition tx_after :: "pg \<Rightarrow> tx \<Rightarrow> string \<Rightarrow> tx" where
  "tx_after P st s =
     (if s = ''ROLLBACK'' then No_Tx
      else (case st of
              Aborted_Tx \<Rightarrow> Aborted_Tx
            | In_Tx \<Rightarrow> if breaks P s then Aborted_Tx else In_Tx
            | No_Tx \<Rightarrow> if \<not> breaks P s \<and> s = begin_read_only then In_Tx else No_Tx))"

definition tx_reply :: "pg \<Rightarrow> tx \<Rightarrow> string \<Rightarrow> reply" where
  "tx_reply P st s =
     (if s = ''ROLLBACK'' then Rows []
      else if st = Aborted_Tx \<or> pg_fails P s then Failed (pg_error_of s) else Rows (pg_rows P s))"

definition tx_state :: "pg \<Rightarrow> nat \<Rightarrow> event list \<Rightarrow> tx" where
  "tx_state P c l = foldl (\<lambda>st (s, ps). tx_after P st s) No_Tx (commands c l)"

definition pg_world :: "pg \<Rightarrow> world" where
  "pg_world P = \<lparr>w_conn = (\<lambda>l n. Some 0), w_reply = (\<lambda>l c (s, ps). tx_reply P (tx_state P c l) s),
     w_attempt = (\<lambda>l. Attempt_Ok), w_parse = (\<lambda>t. Some (JStr t)), w_print = (\<lambda>j. ''{}'')\<rparr>"

lemma tx_state_simps [simp]:
  "tx_state P c (l @ [Sent c (s, ps)]) = tx_after P (tx_state P c l) s"
  "tx_state P c (l @ [Got_Conn n k]) = tx_state P c l"
  by (simp_all add: tx_state_def)

lemma pg_send: "send (pg_world P) c (s, ps) l = (tx_reply P (tx_state P c l) s, l @ [Sent c (s, ps)])"
  by (simp add: send_def pg_world_def)

lemma pg_batch:
  "batch (pg_world P) c s l =
     ((case tx_reply P (tx_state P c l) s of Failed e \<Rightarrow> Inl e
       | Rows es \<Rightarrow> (case first_failure es of Some e \<Rightarrow> Inl e | None \<Rightarrow> Inr ())), l @ [Sent c (s, [])])"
  by (simp add: batch_def andthen_def pg_send ret_def)

lemma first_failure_breaks:
  "first_failure es = None \<longleftrightarrow> \<not> list_ex (\<lambda>e. case e of Row_Failed _ \<Rightarrow> True | _ \<Rightarrow> False) es"
  by (induction es rule: first_failure.induct) auto

text \<open>A step of the session succeeds exactly when its statement does not break.\<close>

lemma pg_step:
  assumes "s \<noteq> ''ROLLBACK''"
  shows "\<exists>r. step (pg_world P) c s l = (r, l @ [Sent c (s, [])])
     \<and> (is_ok r \<longleftrightarrow> tx_state P c l \<noteq> Aborted_Tx \<and> \<not> breaks P s)"
  using assms first_failure_breaks [of "pg_rows P s"]
  by (auto simp: step_def andthen_def pg_batch ret_def tx_reply_def breaks_def split: option.splits)

lemma pg_rollback:
  "rollback (pg_world P) c x l = (x, l @ [Sent c (''ROLLBACK'', [])])"
  by (simp add: rollback_def andthen_def pg_batch ret_def)

text \<open>The statements of the session itself may fail too.\<close>

definition session_works :: "pg \<Rightarrow> string \<Rightarrow> bool" where
  "session_works P settings =
     (\<not> breaks P ''DISCARD ALL'' \<and> \<not> breaks P settings \<and> \<not> breaks P begin_read_only)"

lemma begin_facts: "begin_read_only \<noteq> ''DISCARD ALL''" "begin_read_only \<noteq> ''ROLLBACK''"
  by (simp_all add: begin_read_only_def)

definition session_log :: "nat \<Rightarrow> string \<Rightarrow> event list \<Rightarrow> event list" where
  "session_log c settings l =
     ((l @ [Sent c (''DISCARD ALL'', [])]) @ [Sent c (settings, [])]) @ [Sent c (begin_read_only, [])]"

lemma attempted_step:
  "step w c s l = (r, l') \<Longrightarrow>
   attempted (step w c s) g l = (case r of Inl e \<Rightarrow> (Inl e, l') | Inr u \<Rightarrow> g u l')"
  by (auto simp: attempted_def andthen_def ret_def split: sum.splits)

text \<open>From an idle connection the session is opened, or nothing is left behind.\<close>

lemma pg_open_session:
  assumes st: "tx_state P c l = No_Tx" and s: "settings \<noteq> begin_read_only" "settings \<noteq> ''ROLLBACK''"
  shows "session_works P settings \<Longrightarrow> open_session (pg_world P) c settings f l = f () (session_log c settings l)"
    and "session_works P settings \<Longrightarrow> tx_state P c (session_log c settings l) = In_Tx"
    and "\<not> session_works P settings \<Longrightarrow>
         \<exists>e l'. open_session (pg_world P) c settings f l = (Inl e, l') \<and> tx_state P c l' = No_Tx"
proof -
  let ?l1 = "l @ [Sent c (''DISCARD ALL'', [])]"
  let ?l2 = "?l1 @ [Sent c (settings, [])]"
  let ?l3 = "?l2 @ [Sent c (begin_read_only, [])]"
  have st1: "tx_state P c ?l1 = No_Tx" using st by (simp add: tx_after_def begin_facts [symmetric])
  have st2: "tx_state P c ?l2 = No_Tx" using st1 s by (simp add: tx_after_def del: append_assoc)
  have st3: "tx_state P c ?l3 = (if breaks P begin_read_only then No_Tx else In_Tx)"
    using st2 begin_facts by (simp add: tx_after_def del: append_assoc)
  obtain r1 where r1: "step (pg_world P) c ''DISCARD ALL'' l = (r1, ?l1)" "is_ok r1 \<longleftrightarrow> \<not> breaks P ''DISCARD ALL''"
    using pg_step [of "''DISCARD ALL''" P c l] st by auto
  obtain r2 where r2: "step (pg_world P) c settings ?l1 = (r2, ?l2)" "is_ok r2 \<longleftrightarrow> \<not> breaks P settings"
    using pg_step [OF s(2), of P c ?l1] st1 by auto
  obtain r3 where r3: "step (pg_world P) c begin_read_only ?l2 = (r3, ?l3)" "is_ok r3 \<longleftrightarrow> \<not> breaks P begin_read_only"
    using pg_step [OF begin_facts(2), of P c ?l2] st2 by auto
  have run: "open_session (pg_world P) c settings f l =
     (case r1 of Inl e \<Rightarrow> (Inl e, ?l1)
      | Inr _ \<Rightarrow> (case r2 of Inl e \<Rightarrow> (Inl e, ?l2)
      | Inr _ \<Rightarrow> (case r3 of Inl e \<Rightarrow> (Inl e, ?l3) | Inr u \<Rightarrow> f u ?l3)))"
    unfolding open_session_def attempted_step [OF r1(1)] attempted_step [OF r2(1)] attempted_step [OF r3(1)] ..
  show "session_works P settings \<Longrightarrow> open_session (pg_world P) c settings f l = f () (session_log c settings l)"
    using r1(2) r2(2) r3(2) unfolding run session_works_def session_log_def
    by (cases r1; cases r2; cases r3) simp_all
  show "session_works P settings \<Longrightarrow> tx_state P c (session_log c settings l) = In_Tx"
    using st3 by (simp only: session_log_def session_works_def if_False)
  show "\<not> session_works P settings \<Longrightarrow>
         \<exists>e l'. open_session (pg_world P) c settings f l = (Inl e, l') \<and> tx_state P c l' = No_Tx"
    using r1(2) r2(2) r3(2) st1 st2 st3 unfolding run session_works_def
    by (cases r1; cases r2; cases r3) (simp_all del: append_assoc tx_state_simps)
qed

lemma pg_open_aborted:
  assumes "tx_state P c l = Aborted_Tx"
  shows "\<exists>e. open_session (pg_world P) c settings f l = (Inl e, l @ [Sent c (''DISCARD ALL'', [])])"
proof -
  obtain r where r: "step (pg_world P) c ''DISCARD ALL'' l = (r, l @ [Sent c (''DISCARD ALL'', [])])" "\<not> is_ok r"
    using pg_step [of "''DISCARD ALL''" P c l] assms by auto
  then show ?thesis unfolding open_session_def attempted_step [OF r(1)] by (cases r) auto
qed

lemma settings_not_special:
  "session_settings env \<noteq> begin_read_only" "session_settings env \<noteq> ''ROLLBACK''"
  by (simp_all add: session_settings_def begin_read_only_def)

lemma pg_take_conn: "take_conn (pg_world P) name l = (Some 0, l @ [Got_Conn name 0])"
  by (simp add: take_conn_def pg_world_def)

lemma pg_run_row:
  "snd (run_row_query (pg_world P) c sql l) =
     (case fst (run_row_query (pg_world P) c sql l) of
        Inr _ \<Rightarrow> l @ [Sent c (wrapped_query sql, [])]
      | Inl _ \<Rightarrow> (l @ [Sent c (wrapped_query sql, [])]) @ [Sent c (''ROLLBACK'', [])])"
  by (auto simp: run_row_query_def andthen_def pg_send pg_rollback ret_def split: reply.splits sum.splits)

text \<open>The statement as the caller of the second branch sees it: whether it broke.\<close>

lemma collect_rows_breaks:
  "(\<exists>e. collect_rows es = Inl e) \<longleftrightarrow> list_ex (\<lambda>e. case e of Row_Failed _ \<Rightarrow> True | _ \<Rightarrow> False) es"
  by (induction es rule: collect_rows.induct) (auto simp: bindR_def split: sum.splits)

lemma pg_run_plain:
  assumes "tx_state P c l = In_Tx" "sql \<noteq> ''ROLLBACK''"
  shows "tx_state P c (snd (run_plain (pg_world P) c sql l)) =
           (if breaks P sql then Aborted_Tx
            else case fst (run_plain (pg_world P) c sql l) of Inl _ \<Rightarrow> No_Tx | Inr _ \<Rightarrow> In_Tx)"
    and "breaks P sql \<Longrightarrow> \<not> is_ok (fst (run_plain (pg_world P) c sql l))"
proof -
  have q: "(\<exists>e. query_reply (tx_reply P In_Tx sql) = Inl e) \<longleftrightarrow> breaks P sql"
    using assms(2) by (auto simp: query_reply_def tx_reply_def breaks_def collect_rows_breaks [symmetric] split: if_splits)
  show "tx_state P c (snd (run_plain (pg_world P) c sql l)) =
           (if breaks P sql then Aborted_Tx
            else case fst (run_plain (pg_world P) c sql l) of Inl _ \<Rightarrow> No_Tx | Inr _ \<Rightarrow> In_Tx)"
  proof (cases "query_reply (tx_reply P In_Tx sql)")
    case (Inl e)
    with q have "breaks P sql" by blast
    then show ?thesis using assms Inl
      by (simp add: run_plain_def andthen_def pg_send ret_def tx_after_def)
  next
    case (Inr rows)
    with q have "\<not> breaks P sql" by (metis sum.distinct(1))
    then show ?thesis using assms Inr
      by (auto simp: run_plain_def andthen_def pg_send pg_rollback ret_def tx_after_def simp del: append_assoc split: sum.splits)
  qed
  show "breaks P sql \<Longrightarrow> \<not> is_ok (fst (run_plain (pg_world P) c sql l))"
    using q assms by (auto simp: run_plain_def andthen_def pg_send ret_def split: sum.splits)
qed

definition leaves_aborted :: "pg \<Rightarrow> env \<Rightarrow> string \<Rightarrow> bool" where
  "leaves_aborted P env sql =
     (\<not> is_row_query sql \<and> sql \<noteq> ''ROLLBACK'' \<and> breaks P sql
      \<and> \<not> breaks P ''DISCARD ALL'' \<and> \<not> breaks P (session_settings env) \<and> \<not> breaks P begin_read_only)"

lemma pg_detail: "tx_state P c (snd (pool_error_detail (pg_world P) D env db l)) = tx_state P c l"
proof -
  from emits_detail [of "pg_world P" D env db] obtain d where
    "snd (pool_error_detail (pg_world P) D env db l) = l @ d" "d = [] \<or> d = [Probed]"
    unfolding emits_def by blast
  then show ?thesis by (auto simp: tx_state_def)
qed

lemma connection_state_exact:
  assumes st: "tx_state P 0 l = No_Tx" and nr: "sql \<noteq> ''ROLLBACK''"
  shows "tx_state P 0 (snd (execute_readonly (pg_world P) D env sql db l)) =
     (if leaves_aborted P env sql \<and> is_ok (pool_for D env db) then Aborted_Tx else No_Tx)"
proof (cases "pool_for D env db")
  case (Inl e)
  then show ?thesis using st by (simp add: execute_readonly_def with_conn_def ret_def)
next
  case (Inr np)
  obtain name p where np: "np = (name, p)" by (cases np)
  let ?s = "session_settings env"
  let ?taken = "l @ [Got_Conn name 0]"
  let ?l = "session_log 0 ?s ?taken"
  define body where "body = (\<lambda>_ :: unit. attempted
      (if is_row_query sql then run_row_query (pg_world P) 0 sql else run_plain (pg_world P) 0 sql)
      (\<lambda>out. rollback (pg_world P) 0 (Inr (result_object env out) :: string + json)))"
  have run: "execute_readonly (pg_world P) D env sql db l = open_session (pg_world P) 0 ?s body ?taken"
    by (simp add: execute_readonly_def with_conn_def Inr np andthen_def pg_take_conn body_def)
  have st0: "tx_state P 0 ?taken = No_Tx" using st by simp
  note open_cases = pg_open_session [OF st0 settings_not_special]
  show ?thesis
  proof (cases "session_works P ?s")
    case False
    from open_cases(3) [OF False, of body] have "tx_state P 0 (snd (execute_readonly (pg_world P) D env sql db l)) = No_Tx"
      unfolding run by auto
    moreover have "\<not> leaves_aborted P env sql"
      using False by (auto simp: leaves_aborted_def session_works_def)
    ultimately show ?thesis by simp
  next
    case True
    have in_tx: "tx_state P 0 ?l = In_Tx" using open_cases(2) [OF True] .
    have ex: "execute_readonly (pg_world P) D env sql db l = body () ?l"
      unfolding run using open_cases(1) [OF True] .
    show ?thesis
    proof (cases "is_row_query sql")
      case row: True
      have "tx_state P 0 (snd (execute_readonly (pg_world P) D env sql db l)) = No_Tx"
        using row pg_run_row [of P 0 sql ?l] unfolding ex body_def attempted_def andthen_def
        by (auto simp: pg_rollback ret_def tx_after_def split_beta simp del: append_assoc split: sum.splits)
      with row show ?thesis by (simp add: leaves_aborted_def)
    next
      case plain: False
      have la: "leaves_aborted P env sql \<longleftrightarrow> breaks P sql"
        using plain nr True by (auto simp: leaves_aborted_def session_works_def)
      show ?thesis
        using plain pg_run_plain [OF in_tx nr] unfolding ex body_def attempted_def andthen_def la
        by (auto simp: pg_rollback ret_def tx_after_def split_beta Inr simp del: append_assoc split: sum.splits)
    qed
  qed
qed

definition demo_pg :: pg where
  "demo_pg = \<lparr>pg_fails = (\<lambda>s. s = ''SHOW x''), pg_rows = (\<lambda>s. [])\<rparr>"

lemma demo_leaves_aborted: "leaves_aborted demo_pg (\<lambda>k. None) ''SHOW x''"
proof -
  have "\<not> is_row_query ''SHOW x''" by code_simp
  then show ?thesis
    by (simp add: leaves_aborted_def demo_pg_def breaks_def session_settings_def begin_read_only_def)
qed

lemma demo_pool_ok: "is_ok (pool_for demo_db_libs (\<lambda>k. None) None)"
proof -
  have "looks_like_connection ''postgres://u@localhost/d''" by code_simp
  then have url: "configured_url demo_db_libs (\<lambda>k. None) = Some ''postgres://u@localhost/d''"
    by (simp add: configured_url_def demo_db_libs_def database_url_def)
  have "is_ok (build_pool demo_db_libs (\<lambda>k. None) ''postgres://u@localhost/d'')"
    by (simp add: build_pool_def demo_db_libs_def build_tls_def Let_def)
  then obtain p where "build_pool demo_db_libs (\<lambda>k. None) ''postgres://u@localhost/d'' = Inr p"
    by (cases "build_pool demo_db_libs (\<lambda>k. None) ''postgres://u@localhost/d''") auto
  then show ?thesis by (simp add: pool_for_def pg_pools_def url)
qed

text \<open>A connection that was idle when it was taken goes back idle, whichever statements fail, except in one
  case: when a statement that is not a row query fails, the connection goes back inside an aborted
  transaction.\<close>

theorem connection_state_after:
  assumes "tx_state P 0 l = No_Tx" "sql \<noteq> ''ROLLBACK''"
  shows "tx_state P 0 (snd (execute_readonly (pg_world P) D env sql db l)) =
     (if leaves_aborted P env sql \<and> is_ok (pool_for D env db) then Aborted_Tx else No_Tx)"
  using assms by (rule connection_state_exact)

text \<open>The connection left behind by a failed \<open>EXPLAIN\<close> or \<open>SHOW\<close> is unusable: every statement run over it
  afterwards fails at the reset, and leaves it as unusable as before, until the database's own timeout
  ends it.\<close>

theorem failed_explain_poisons_connection:
  assumes "tx_state P 0 l = No_Tx" "leaves_aborted P env sql" "is_ok (pool_for D env db)"
    and "l1 = snd (execute_readonly (pg_world P) D env sql db l)" "is_ok (pool_for D env' db')"
  shows "\<not> is_ok (fst (execute_readonly (pg_world P) D env' sql' db' l1))
       \<and> tx_state P 0 (snd (execute_readonly (pg_world P) D env' sql' db' l1)) = Aborted_Tx"
proof -
  have "sql \<noteq> ''ROLLBACK''" using assms(2) by (simp add: leaves_aborted_def)
  have ab: "tx_state P 0 l1 = Aborted_Tx"
    using connection_state_exact [OF assms(1) \<open>sql \<noteq> ''ROLLBACK''\<close>, of D env db] assms(2,3) by (simp add: assms(4))
  from assms(5) obtain name p where pool: "pool_for D env' db' = Inr (name, p)"
    by (cases "pool_for D env' db'") auto
  have "tx_state P 0 (l1 @ [Got_Conn name 0]) = Aborted_Tx" using ab by simp
  from pg_open_aborted [OF this] obtain e where
    "execute_readonly (pg_world P) D env' sql' db' l1 = (Inl e, (l1 @ [Got_Conn name 0]) @ [Sent 0 (''DISCARD ALL'', [])])"
    unfolding execute_readonly_def with_conn_def pool andthen_def sum.case prod.case pg_take_conn option.case by blast
  then show ?thesis using ab by (simp add: tx_after_def del: append_assoc)
qed

theorem connection_state_after_witness:
  "tx_state demo_pg 0 (snd (execute_readonly (pg_world demo_pg) demo_db_libs (\<lambda>k. None) ''SHOW x'' None [])) = Aborted_Tx"
proof -
  have "leaves_aborted demo_pg (\<lambda>k. None) ''SHOW x''" "is_ok (pool_for demo_db_libs (\<lambda>k. None) None)"
    by (simp add: demo_leaves_aborted) (rule demo_pool_ok)
  then show ?thesis
    using connection_state_after [of demo_pg "[]" "''SHOW x''" demo_db_libs "\<lambda>k. None" None] by (simp add: tx_state_def)
qed

theorem failed_explain_poisons_connection_witness:
  "\<not> is_ok (fst (execute_readonly (pg_world demo_pg) demo_db_libs (\<lambda>k. None) ''SELECT 1'' None
       (snd (execute_readonly (pg_world demo_pg) demo_db_libs (\<lambda>k. None) ''SHOW x'' None []))))"
  using failed_explain_poisons_connection [of demo_pg "[]" "\<lambda>k. None" "''SHOW x''" demo_db_libs None _ "\<lambda>k. None" None]
    demo_leaves_aborted demo_pool_ok by (simp add: tx_state_def)

end
