(* ===== verification/Pool_Props.thy ===== *)
theory Pool_Props
  imports Db_Props
begin

text \<open>
  Pools and trust anchors: the connection a diagnosis describes is the one the pool was built from, and
  a private certificate authority replaces the others.
\<close>

section \<open>Pools\<close>

definition entry_of :: "string \<Rightarrow> (string \<times> string) option" where
  "entry_of e = map_option (\<lambda>(k, v). (trim k, trim v)) (split_once_char CHR ''='' e)"

definition same_pool :: "db_libs \<Rightarrow> env \<Rightarrow> string \<times> string \<Rightarrow> string \<times> pg_pool \<Rightarrow> bool" where
  "same_pool D env = (\<lambda>(k, u) (k', p). k = k' \<and> build_pool D env u = Inr p)"

text \<open>The two readings of the setting go through the entries in step.\<close>

lemma open_entries_same:
  "open_entries D env es = Inr r \<Longrightarrow> list_all2 (same_pool D env) (List.map_filter entry_of es) r"
proof (induction es arbitrary: r)
  case Nil
  then show ?case by (simp add: List.map_filter_def)
next
  case (Cons e es)
  then obtain k url p r' where s: "split_once_char CHR ''='' e = Some (k, url)"
    and p: "build_pool D env (trim url) = Inr p" and r': "open_entries D env es = Inr r'" "r = (trim k, p) # r'"
    by (auto simp: bindR_eq_Inr split: option.splits if_splits)
  from Cons.IH [OF r'(1)] show ?case
    by (simp add: List.map_filter_def entry_of_def s r'(2) same_pool_def p)
qed

lemma find_same:
  assumes "list_all2 (same_pool D env) us ps" "List.find (\<lambda>(k, p). k = n) ps = Some (k, p)"
  shows "\<exists>u. List.find (\<lambda>(k, u). k = n) us = Some (k, u) \<and> build_pool D env u = Inr p"
  using assms by (induction rule: list_all2_induct) (auto simp: same_pool_def split: if_splits)

lemma pool_for_picks:
  assumes "pool_for D env name = Inr (k, p)"
  shows "\<exists>ps. pg_pools D env = Inr ps \<and>
     (case name of Some n \<Rightarrow> List.find (\<lambda>(k, p). k = n) ps = Some (k, p) | None \<Rightarrow> length ps = 1 \<and> hd ps = (k, p))"
proof -
  from assms obtain ps where "pg_pools D env = Inr ps" by (auto simp: pool_for_def bindR_eq_Inr)
  with assms show ?thesis by (auto simp: pool_for_def split: option.splits if_splits)
qed

text \<open>A connection error is explained for the connection that failed: whatever name a request gives, the
  connection string the diagnosis reads is the one the pool behind that name was built from.\<close>

theorem diagnosis_reads_pool_url:
  assumes "pool_for D env name = Inr (k, p)"
  shows "\<exists>u. url_for D env name = Some u \<and> build_pool D env u = Inr p"
proof -
  from pool_for_picks [OF assms] obtain ps where picked: "pg_pools D env = Inr ps"
    and pick: "case name of Some n \<Rightarrow> List.find (\<lambda>(k, p). k = n) ps = Some (k, p)
               | None \<Rightarrow> length ps = 1 \<and> hd ps = (k, p)" by blast
  show ?thesis
  proof (cases "env ''MCP_DATABASE_URLS''")
  case None
  from picked obtain u where u: "configured_url D env = Some u" and "\<exists>q. build_pool D env u = Inr q \<and> ps = [(database_name_of D u, q)]"
    by (auto simp: pg_pools_def None bindR_eq_Inr split: option.splits)
  then have "build_pool D env u = Inr p" using pick by (auto split: option.splits if_splits)
  then show ?thesis by (simp add: url_for_def None u)
next
  case (Some spec)
  let ?us = "List.map_filter entry_of (spec_entries spec)"
  from picked have o: "open_entries D env (spec_entries spec) = Inr ps"
    by (auto simp: pg_pools_def Some bindR_eq_Inr split: if_splits)
  note same = open_entries_same [OF o]
  have url: "url_for D env name = (case name of
       Some n \<Rightarrow> map_option snd (List.find (\<lambda>(k, u). k = n) ?us)
     | None \<Rightarrow> if length ?us = 1 then Some (snd (hd ?us)) else None)"
    unfolding url_for_def Some option.case Let_def entry_of_def [abs_def] by (rule refl)
  show ?thesis
  proof (cases name)
    case None
    with pick same obtain u where "?us = [(k, u)]" "build_pool D env u = Inr p"
      by (cases ps) (auto simp: same_pool_def list_all2_Cons2)
    then show ?thesis using url by (simp add: None)
  next
    case (Some n)
    with pick find_same [OF same, of n k p] url show ?thesis by auto
  qed
  qed
qed

theorem diagnosis_reads_pool_url_witness:
  "\<exists>u p. url_for demo_db_libs (\<lambda>k. None) None = Some u \<and> build_pool demo_db_libs (\<lambda>k. None) u = Inr p"
proof -
  obtain k p where "pool_for demo_db_libs (\<lambda>k. None) None = Inr (k, p)"
    using demo_pool_ok by (cases "pool_for demo_db_libs (\<lambda>k. None) None") auto
  from diagnosis_reads_pool_url [OF this] show ?thesis by blast
qed

section \<open>Trust anchors\<close>

lemma add_certs_all: "add_certs T path cs = Inr r \<Longrightarrow> cs = map Inr r \<and> (\<forall>c \<in> set r. tl_accept T c = None)"
  by (induction T path cs arbitrary: r rule: add_certs.induct) (auto simp: bindR_eq_Inr split: option.splits)

text \<open>With \<open>MCP_SSLROOTCERT\<close> set, exactly the certificates of that file are trusted, at least one, and
  every problem with the file is an error; neither the system store nor the bundled roots take part.\<close>

theorem private_ca_replaces:
  assumes "env ''MCP_SSLROOTCERT'' = Some path"
  shows "build_tls T env = Inr anchors \<longleftrightarrow>
     tl_pem T path = Inr (map Inr anchors) \<and> anchors \<noteq> [] \<and> (\<forall>c \<in> set anchors. tl_accept T c = None)"
proof
  assume "build_tls T env = Inr anchors"
  with assms obtain certs where "tl_pem T path = Inr certs" "add_certs T path certs = Inr anchors" "anchors \<noteq> []"
    by (auto simp: build_tls_def bindR_eq_Inr split: sum.splits if_splits)
  with add_certs_all [of T path certs anchors]
  show "tl_pem T path = Inr (map Inr anchors) \<and> anchors \<noteq> [] \<and> (\<forall>c \<in> set anchors. tl_accept T c = None)"
    by blast
next
  assume r: "tl_pem T path = Inr (map Inr anchors) \<and> anchors \<noteq> [] \<and> (\<forall>c \<in> set anchors. tl_accept T c = None)"
  have "(\<forall>c \<in> set cs. tl_accept T c = None) \<Longrightarrow> add_certs T path (map Inr cs) = Inr cs" for cs
    by (induction cs) auto
  with r assms show "build_tls T env = Inr anchors" by (simp add: build_tls_def)
qed

theorem private_ca_replaces_witness:
  "\<not> is_ok (build_tls (dl_tls demo_db_libs) (\<lambda>k. Some ''/etc/ca.pem''))"
  using private_ca_replaces [of "\<lambda>k. Some ''/etc/ca.pem''" "''/etc/ca.pem''" "dl_tls demo_db_libs"]
  by (cases "build_tls (dl_tls demo_db_libs) (\<lambda>k. Some ''/etc/ca.pem'')") (auto simp: demo_db_libs_def)

end
