(* ===== verification/Posture.thy ===== *)
theory Posture
  imports Db_Exec Transport
begin

text \<open>
  \<open>src/posture.rs\<close>: what the connected role may do, asked of the database; the start-up policy of a
  server reachable from a network, with the retries that hold serving back until the database has
  answered; the report, its grade, and what it tells a client. Exiting the process is a field of the
  state; messages on standard error are not modelled.
\<close>

section \<open>The role\<close>

record role_facts =
  rf_user :: string
  rf_superuser :: bool
  rf_bypass_rls :: bool
  rf_create_db :: bool
  rf_create_role :: bool
  rf_replication :: bool
  rf_dangerous_roles :: "string list"
  rf_writable :: nat
  rf_scanned :: nat
  rf_sampled :: bool
  rf_writable_examples :: "string list"

definition only_if :: "bool \<Rightarrow> 'a \<Rightarrow> 'a list" where
  "only_if b x = (if b then [x] else [])"

lemma set_only_if [simp]: "set (only_if b x) = (if b then {x} else {})"
  by (cases b) (simp_all add: only_if_def)

lemma only_if_Nil [simp]: "only_if b x = [] \<longleftrightarrow> \<not> b"
  by (simp add: only_if_def)

definition writable_text :: "role_facts \<Rightarrow> string" where
  "writable_text f =
     (let sample = (if rf_writable_examples f = [] then []
                    else '' (for example '' @ join '', '' (rf_writable_examples f) @ '')'') in
      ''can write to '' @ nat_str (rf_writable f) @ '' of the '' @ nat_str (rf_scanned f) @ '' tables examined'' @
        sample)"

definition excessive :: "role_facts \<Rightarrow> string list" where
  "excessive f =
     only_if (rf_superuser f) ''is a superuser''
     @ only_if (rf_bypass_rls f) (''has BYPASSRLS, so row-level security does not apply to it'')
     @ only_if (rf_create_db f) ''may create databases''
     @ only_if (rf_create_role f) ''may create roles''
     @ only_if (rf_replication f) ''has REPLICATION, which can stream the whole cluster''
     @ map (\<lambda>r. ''is a member of '' @ r) (rf_dangerous_roles f)
     @ only_if (rf_sampled f \<and> rf_writable f = 0)
         (''may or may not be able to write: the check stopped at '' @ nat_str (rf_scanned f) @
        '' relations and this schema                  has more, so '' @ [CHR 0x22] @ ''cannot write'' @
        [CHR 0x22] @ '' is something we did not verify'')
     @ only_if (0 < rf_writable f) (writable_text f)"

definition json_flag :: "json \<Rightarrow> string \<Rightarrow> bool" where
  "json_flag row key = (case Option.bind (jget key row) as_bool of Some b \<Rightarrow> b | None \<Rightarrow> False)"

definition json_count :: "json \<Rightarrow> string \<Rightarrow> nat" where
  "json_count row key = (case Option.bind (jget key row) as_u64 of Some n \<Rightarrow> n | None \<Rightarrow> 0)"

definition MEMBERSHIPS_SQL :: string where
  "MEMBERSHIPS_SQL = ''SELECT rolname FROM pg_roles WHERE ( rolname IN '' @
        ''('pg_write_all_data','pg_read_all_data','pg_read_server_files', 'pg_write_server_files','pg_execute_server_program','pg_maintain', 'pg_signal_backend','pg_checkpoint') OR rolsuper OR rolbypassrls OR rolcreatedb OR rolcreaterole OR rolreplication ) AND rolname <> current_user AND pg_has_role(current_user, oid, 'MEMBER')''"

definition ROLE_SQL :: string where
  "ROLE_SQL = ''SELECT current_user AS usr, rolsuper, rolbypassrls, rolcreatedb, rolcreaterole, '' @
        ''rolreplication FROM pg_roles WHERE rolname = current_user''"

definition WRITABLE_SQL :: string where
  "WRITABLE_SQL = ''WITH s AS ( SELECT c.oid, n.nspname, c.relname FROM pg_class c JOIN pg_namespace n ON '' @
        ''n.oid = c.relnamespace WHERE c.relkind IN ('r','p','f') AND n.nspname NOT IN '' @
        ''('pg_catalog','information_schema') AND n.nspname NOT LIKE 'pg'' @ [CHR 0x5C] @
        ''_%' LIMIT 5000) SELECT count(*) AS scanned, count(*) FILTER (WHERE '' @
        ''has_table_privilege(oid,'INSERT') OR has_table_privilege(oid,'UPDATE') OR '' @
        ''has_table_privilege(oid,'DELETE') OR has_table_privilege(oid,'TRUNCATE')) AS '' @
        ''writable, (array_agg(nspname || '.' || relname) FILTER (WHERE '' @
        ''has_table_privilege(oid,'INSERT')))[1:3] AS examples FROM s''"

definition rows_of :: "json \<Rightarrow> json list" where
  "rows_of v = (case Option.bind (jget ''rows'' v) as_array of Some xs \<Rightarrow> xs | None \<Rightarrow> [])"

definition str_items :: "string \<Rightarrow> json list \<Rightarrow> string list" where
  "str_items key = List.map_filter (get_str key)"

definition role_of :: "json \<Rightarrow> role_facts" where
  "role_of r =
     \<lparr>rf_user = (case get_str ''usr'' r of Some u \<Rightarrow> u | None \<Rightarrow> ''?''),
      rf_superuser = json_flag r ''rolsuper'', rf_bypass_rls = json_flag r ''rolbypassrls'',
      rf_create_db = json_flag r ''rolcreatedb'', rf_create_role = json_flag r ''rolcreaterole'',
      rf_replication = json_flag r ''rolreplication'', rf_dangerous_roles = [], rf_writable = 0,
      rf_scanned = 0, rf_sampled = False, rf_writable_examples = []\<rparr>"

definition with_scan :: "json list \<Rightarrow> role_facts \<Rightarrow> role_facts" where
  "with_scan ws f =
     (case ws of
        [] \<Rightarrow> f
      | t # _ \<Rightarrow>
          f\<lparr>rf_scanned := json_count t ''scanned'', rf_writable := json_count t ''writable'',
            rf_sampled := 5000 \<le> json_count t ''scanned'',
            rf_writable_examples :=
              (case Option.bind (jget ''examples'' t) as_array of
                 Some xs \<Rightarrow> List.map_filter as_str xs | None \<Rightarrow> [])\<rparr>)"

definition evaluate :: "world \<Rightarrow> db_libs \<Rightarrow> env \<Rightarrow> string option \<Rightarrow> (string + role_facts) act" where
  "evaluate w D env db =
     attempted (query_catalog w D env ROLE_SQL [] db) (\<lambda>v.
       case rows_of v of
         [] \<Rightarrow> ret (Inl ''the database did not describe the connected role'')
       | r # _ \<Rightarrow>
           attempted (query_catalog w D env MEMBERSHIPS_SQL [] db) (\<lambda>m.
             attempted (query_catalog w D env WRITABLE_SQL [] db) (\<lambda>t.
               ret (Inr (with_scan (rows_of t)
                     ((role_of r)\<lparr>rf_dangerous_roles := str_items ''rolname'' (rows_of m)\<rparr>))))))"

section \<open>Exposure\<close>

definition is_loopback :: "string \<Rightarrow> bool" where
  "is_loopback addr =
     (let h = (case rsplit_once_char CHR '':'' addr of Some (h, _) \<Rightarrow> h | None \<Rightarrow> addr);
          host = trim_end_char CHR '']'' (dropWhile (\<lambda>c. c = CHR ''['') h) in
      host = ''localhost'' \<or> host = ''::1'' \<or> starts_with host ''127.'')"

definition platform_authenticates :: "env \<Rightarrow> bool" where
  "platform_authenticates env =
     ((case env ''APIFY_IS_AT_HOME'' of
         Some v \<Rightarrow> trim v \<noteq> [] \<and> trim v \<noteq> ''0'' \<and> \<not> eq_ignore_ascii_case (trim v) ''false''
       | None \<Rightarrow> False)
      \<and> (case env ''ACTOR_WEB_SERVER_PORT'' of
           Some v \<Rightarrow> trim v \<noteq> [] \<and> list_all is_ascii_digit (trim v)
         | None \<Rightarrow> False))"

definition hatch :: "env \<Rightarrow> string \<Rightarrow> bool" where
  "hatch env name = (env name = Some ''i-accept-the-risk'')"

section \<open>The start-up policy\<close>

text \<open>The facts, whether serving is held back, and the code the process has exited with.\<close>

record policy_state =
  ps_facts :: "role_facts option"
  ps_pending :: bool
  ps_exit :: "nat option"

definition policy_start :: policy_state where
  "policy_start = \<lparr>ps_facts = None, ps_pending = False, ps_exit = None\<rparr>"

definition own_authentication :: "env \<Rightarrow> bool" where
  "own_authentication env = (nonblank_env env ''MCP_BEARER_TOKEN'' \<or> nonblank_env env ''JWT_PUBKEY_PEM'')"

definition may_listen :: "env \<Rightarrow> bool" where
  "may_listen env =
     (own_authentication env \<or> platform_authenticates env \<or> hatch env ''MCP_ALLOW_ANONYMOUS_NETWORK'')"

definition role_accepted :: "env \<Rightarrow> role_facts \<Rightarrow> bool" where
  "role_accepted env f = (excessive f = [] \<or> hatch env ''MCP_ALLOW_EXCESSIVE_ROLE'')"

definition enforce_start_policy ::
  "world \<Rightarrow> db_libs \<Rightarrow> env \<Rightarrow> string \<Rightarrow> string \<Rightarrow> policy_state \<Rightarrow> policy_state act" where
  "enforce_start_policy w D env transport addr s =
     (if transport = ''stdio'' \<or> is_loopback addr then ret s
      else if \<not> may_listen env then ret (s\<lparr>ps_exit := Some 3\<rparr>)
      else andthen (evaluate w D env None)
        (\<lambda>r. ret (case r of
           Inr f \<Rightarrow> (let s1 = s\<lparr>ps_facts := Some f\<rparr> in
                     if role_accepted env f then s1 else s1\<lparr>ps_exit := Some 3\<rparr>)
         | Inl _ \<Rightarrow> s\<lparr>ps_pending := True\<rparr>)))"

text \<open>One turn of the background thread, which runs while serving is held back.\<close>

definition retry :: "world \<Rightarrow> db_libs \<Rightarrow> env \<Rightarrow> policy_state \<Rightarrow> policy_state act" where
  "retry w D env s =
     andthen (evaluate w D env None)
       (\<lambda>r. ret (case r of
          Inr f \<Rightarrow> if \<not> role_accepted env f then s\<lparr>ps_exit := Some 3\<rparr>
                   else s\<lparr>ps_facts := Some f, ps_pending := False\<rparr>
        | Inl _ \<Rightarrow> s))"

definition serving_blocked :: "policy_state \<Rightarrow> string option" where
  "serving_blocked s =
     (if ps_pending s then Some
        (''the server has not yet been able to check what the database role is allowed to do, '' @
        ''and does not serve queries until it has'')
      else None)"

section \<open>The report\<close>

datatype severity = Sev_Ok | Sev_Note | Sev_Warn | Sev_Critical

fun severity_rank :: "severity \<Rightarrow> nat" where
  "severity_rank Sev_Ok = 0"
| "severity_rank Sev_Note = 1"
| "severity_rank Sev_Warn = 2"
| "severity_rank Sev_Critical = 3"

instantiation severity :: linorder
begin

definition less_eq_severity :: "severity \<Rightarrow> severity \<Rightarrow> bool" where
  "less_eq_severity a b = (severity_rank a \<le> severity_rank b)"

definition less_severity :: "severity \<Rightarrow> severity \<Rightarrow> bool" where
  "less_severity a b = (severity_rank a < severity_rank b)"

instance
proof
  fix a b :: severity
  assume "a \<le> b" "b \<le> a"
  then show "a = b" by (cases a; cases b) (simp_all add: less_eq_severity_def)
qed (auto simp: less_eq_severity_def less_severity_def)

end

fun severity_grade :: "severity \<Rightarrow> string" where
  "severity_grade Sev_Ok = ''A''"
| "severity_grade Sev_Note = ''B''"
| "severity_grade Sev_Warn = ''C''"
| "severity_grade Sev_Critical = ''F''"

fun severity_name :: "severity \<Rightarrow> string" where
  "severity_name Sev_Ok = ''ok''"
| "severity_name Sev_Note = ''note''"
| "severity_name Sev_Warn = ''warn''"
| "severity_name Sev_Critical = ''critical''"

record finding =
  fd_id :: string
  fd_severity :: severity
  fd_fact :: string
  fd_fix :: "string option"

definition TLS_SQL :: string where
  "TLS_SQL = ''SELECT ssl FROM pg_stat_ssl WHERE pid = pg_backend_pid()''"

definition tls_fact :: "world \<Rightarrow> db_libs \<Rightarrow> env \<Rightarrow> string option \<Rightarrow> bool option act" where
  "tls_fact w D env db =
     andthen (query_catalog w D env TLS_SQL [] db)
       (\<lambda>r. ret (case r of
          Inl _ \<Rightarrow> None
        | Inr v \<Rightarrow> (case rows_of v of x # _ \<Rightarrow> Option.bind (jget ''ssl'' x) as_bool | [] \<Rightarrow> None)))"

definition a_finding :: "string \<Rightarrow> severity \<Rightarrow> string \<Rightarrow> string option \<Rightarrow> finding" where
  "a_finding i s what remedy = \<lparr>fd_id = i, fd_severity = s, fd_fact = what, fd_fix = remedy\<rparr>"

definition role_findings :: "role_facts option \<Rightarrow> finding list" where
  "role_findings facts =
     (case facts of
        Some f \<Rightarrow>
          map (\<lambda>problem. a_finding ''role.excessive'' Sev_Critical (''the role '' @ rf_user f @ '' '' @
        problem)
                  (Some ''postgres-mcp-hardened --print-setup-sql > setup.sql'')) (excessive f)
          @ only_if (excessive f = []) (a_finding ''role.reader'' Sev_Ok
              (''the role '' @ rf_user f @ '' cannot write to any of the '' @ nat_str (rf_scanned f) @
        '' tables examined'') None)
          @ only_if (rf_sampled f) (a_finding ''role.sampled'' Sev_Note
              ''the write check stopped at 5000 relations; there may be more'' None)
      | None \<Rightarrow> [a_finding ''role.unknown'' Sev_Warn
              ''the database has not answered, so what the role may do is unknown'' None])"

definition exposure_findings :: "env \<Rightarrow> bool \<Rightarrow> finding list" where
  "exposure_findings env exposed =
     (let authed = own_authentication env in
      only_if (exposed \<and> \<not> authed) (a_finding ''transport.anonymous'' Sev_Critical
        (listen_addr env @ '' is reachable from the network and requires no authentication'')
        (Some (''set MCP_BEARER_TOKEN, or JWT_PUBKEY_PEM with JWT_AUD and JWT_ISS'')))
      @ only_if (authed \<and> \<not> nonblank_env env ''MCP_PUBLIC_URL'') (a_finding ''auth.undiscoverable''
          (if exposed then Sev_Warn else Sev_Note)
          (''authentication is required, but a 401 cannot tell a client where to authenticate: '' @
        ''MCP_PUBLIC_URL is unset, so the WWW-Authenticate header degrades to a bare '' @ [CHR 0x22] @
        ''Bearer'' @ [CHR 0x22])
          (Some ''set MCP_PUBLIC_URL to the address clients reach this server on'')))"

definition audit_findings :: "env \<Rightarrow> finding list" where
  "audit_findings env =
     (if \<not> nonblank_env env ''MCP_AUDIT_LOG'' then
        [a_finding ''audit.stderr_only'' Sev_Note
          ''the audit goes to stderr only, so it does not survive the process'' (Some ''set MCP_AUDIT_LOG to a file'')]
      else only_if (\<not> nonblank_env env ''MCP_AUDIT_HMAC_KEY'' \<and> \<not> nonblank_env env ''MCP_AUDIT_HMAC_KEY_FILE'')
        (a_finding ''audit.unkeyed'' Sev_Note
          (''the audit chain is hashed but not keyed: anyone who can write the file can recompute '' @
        ''it and the result still verifies'')
          (Some ''set MCP_AUDIT_HMAC_KEY_FILE, with the key held off this host'')))
     @ only_if (redaction_configured env) (a_finding ''redaction.depth_only'' Sev_Note
         (''column redaction is configured; it is defence in depth, not a boundary '' @ dash @
        '' the startup check reports where the role can still read those columns'')
         (Some ''postgres-mcp-hardened --print-setup-sql --redact <columns>''))"

definition tls_findings :: "bool \<Rightarrow> string option \<Rightarrow> bool option \<Rightarrow> finding list" where
  "tls_findings exposed url tls =
     (case tls of
        Some True \<Rightarrow> [a_finding ''tls.on'' Sev_Ok
          ''the connection to PostgreSQL is encrypted (measured, not assumed)'' None]
      | Some False \<Rightarrow>
          if (case url of Some u \<Rightarrow> db_is_local u | None \<Rightarrow> False) then
            [a_finding ''tls.local'' Sev_Ok
              (''the connection to PostgreSQL is not encrypted, and does not need to be: the database '' @
        ''is on this machine, so there is no wire for anyone to listen on'') None]
          else
            [a_finding ''tls.off'' (if exposed then Sev_Warn else Sev_Note)
              ''the connection to PostgreSQL is NOT encrypted''
              (Some ''add ?sslmode=verify-full to the connection string'')]
      | None \<Rightarrow> [])"

definition all_findings :: "env \<Rightarrow> string option \<Rightarrow> role_facts option \<Rightarrow> bool option \<Rightarrow> finding list" where
  "all_findings env url facts tls =
     (let exposed = \<not> is_loopback (listen_addr env) in
      role_findings facts @ exposure_findings env exposed @ audit_findings env @ tls_findings exposed url tls)"

definition worst_severity :: "finding list \<Rightarrow> severity" where
  "worst_severity fs = foldl max Sev_Ok (map fd_severity fs)"

definition finding_json :: "finding \<Rightarrow> json" where
  "finding_json f =
     (let o' = jobj [(''id'', JStr (fd_id f)), (''severity'', JStr (severity_name (fd_severity f))),
                    (''fact'', JStr (fd_fact f))] in
      case fd_fix f of Some x \<Rightarrow> jinsert ''fix'' (JStr x) o' | None \<Rightarrow> o')"

definition authentication_name :: "env \<Rightarrow> string" where
  "authentication_name env =
     (if nonblank_env env ''JWT_PUBKEY_PEM'' then ''oauth''
      else if nonblank_env env ''MCP_BEARER_TOKEN'' then ''shared token''
      else if platform_authenticates env then ''apify-platform'' else ''none'')"

definition report_json :: "env \<Rightarrow> finding list \<Rightarrow> json" where
  "report_json env fs =
     jobj [(''grade'', JStr (severity_grade (worst_severity fs))), (''listening'', JStr (listen_addr env)),
           (''exposedToNetwork'', JBool (\<not> is_loopback (listen_addr env))),
           (''authentication'', JStr (authentication_name env)), (''findings'', JArr (map finding_json fs)),
           (''note'', JStr (''The grade is the worst finding, not an average. A is: a role that cannot write, '' @
        ''authentication where it is exposed, a keyed audit, and an encrypted connection.''))]"

definition report :: "world \<Rightarrow> db_libs \<Rightarrow> env \<Rightarrow> string option \<Rightarrow> json act" where
  "report w D env db =
     andthen (evaluate w D env db) (\<lambda>r.
       andthen (tls_fact w D env db) (\<lambda>tls.
         ret (report_json env (all_findings env (url_for D env db)
                (case r of Inr f \<Rightarrow> Some f | Inl _ \<Rightarrow> None) tls))))"

definition handle_security_posture :: "world \<Rightarrow> db_libs \<Rightarrow> env \<Rightarrow> json \<Rightarrow> json act" where
  "handle_security_posture w D env args =
     andthen (report w D env (get_str ''database'' args)) (\<lambda>v.
       andthen (audit_as ''security_posture'' ''allowed'' None) (\<lambda>_.
         ret (wrap_untrusted w env v ''security_posture'')))"

section \<open>What a client is told\<close>

text \<open>\<open>chars().take(n)\<close>.\<close>

fun take_chars :: "nat \<Rightarrow> string \<Rightarrow> string" where
  "take_chars n [] = []"
| "take_chars n (c # s) =
     (if cont_byte c then c # take_chars n s
      else case n of 0 \<Rightarrow> [] | Suc m \<Rightarrow> c # take_chars m s)"

definition findings_in :: "json \<Rightarrow> json list" where
  "findings_in v = (case Option.bind (jget ''findings'' v) as_array of Some xs \<Rightarrow> xs | None \<Rightarrow> [])"

definition posture_sentence :: "json \<Rightarrow> string" where
  "posture_sentence v =
     (let grade = (case get_str ''grade'' v of Some g \<Rightarrow> g | None \<Rightarrow> ''?'');
          worst = take 2 (str_items ''fact''
            (filter (\<lambda>f. get_str ''severity'' f = Some ''critical'' \<or> get_str ''severity'' f = Some ''warn'')
              (findings_in v))) in
      take_chars 600
        (''Security posture of this deployment: '' @ grade @ ''.''
         @ (if worst \<noteq> [] then CHR '' '' # join ''; '' worst @ ''.'' else [])
         @ '' Call the security_posture tool for the detail and the commands that fix it.''))"

definition instructions :: "world \<Rightarrow> db_libs \<Rightarrow> env \<Rightarrow> string act" where
  "instructions w D env =
     (if own_authentication env then ret
        (''This server publishes a security posture report: call the security_posture tool (it '' @
        ''needs the same credentials as any other call) for what this deployment is able to do '' @
        ''to the database, and the commands that narrow it.'')
      else andthen (report w D env None) (\<lambda>v. ret (posture_sentence v)))"

text \<open>The fields of the posture record in the audit chain, right after the configuration record.\<close>

definition posture_extra :: "json \<Rightarrow> (string \<times> json) list" where
  "posture_extra v =
     foldl (\<lambda>m (k, x). bt_insert k x m) []
       (List.map_filter (\<lambda>k. map_option (\<lambda>x. (k, x)) (jget k v))
          [''grade'', ''authentication'', ''exposedToNetwork'']
        @ [(''critical'', JArr (map JStr (remdups_adj (sort (str_items ''id''
              (filter (\<lambda>f. get_str ''severity'' f = Some ''critical'') (findings_in v)))))))])"

definition audit_posture ::
  "world \<Rightarrow> db_libs \<Rightarrow> env \<Rightarrow> nat \<Rightarrow> string option \<Rightarrow> audit_call act" where
  "audit_posture w D env ts caller =
     andthen (report w D env None) (\<lambda>v.
       ret \<lparr>ac_ts = ts, ac_tool = ''server'', ac_decision = ''posture'', ac_sql = None,
            ac_caller = caller, ac_extra = posture_extra v\<rparr>)"

end
