(* ===== verification/Sessions.thy ===== *)
theory Sessions
  imports Db_Props
begin

text \<open>
  Monitors over the events of an action. A monitor is an automaton that accepts or refuses the next
  event; an action is safe for it when, from any state, every event it adds is accepted. The locales
  carry the rules for the actions the handlers are built from, so that a property of whole tool calls
  follows from one interpretation.
\<close>

section \<open>Catalog texts\<close>

lemma trim_start_letter:
  "trim_start (CHR ''S'' # s) = CHR ''S'' # s" "trim_start (CHR ''W'' # s) = CHR ''W'' # s"
  "trim_start (CHR ''E'' # s) = CHR ''E'' # s"
  by (simp_all add: trim_start_def white_space_def strip_prefix_def)

text \<open>A query is wrapped so that its rows come back as JSON texts; other statements are sent as they are.\<close>

lemma catalog_select:
  "catalog_command (CHR ''S'' # CHR ''E'' # CHR ''L'' # CHR ''E'' # CHR ''C'' # CHR ''T'' # s)
     = (''SELECT to_jsonb(t)::text AS _r FROM (SELECT'' @ s @ '') t'', True)"
  by (simp add: catalog_command_def trim_start_letter to_ascii_uppercase_def starts_with_def ascii_upper_def)

lemma catalog_with:
  "catalog_command (CHR ''W'' # s) = (CHR ''W'' # s, False)"
  by (simp add: catalog_command_def trim_start_letter to_ascii_uppercase_def starts_with_def ascii_upper_def)

lemma catalog_explain:
  "catalog_command (CHR ''E'' # s) = (CHR ''E'' # s, False)"
  by (simp add: catalog_command_def trim_start_letter to_ascii_uppercase_def starts_with_def ascii_upper_def)

section \<open>Safe actions\<close>

definition monitored :: "('s \<Rightarrow> event \<Rightarrow> 's option) \<Rightarrow> 's \<Rightarrow> event list \<Rightarrow> 's option" where
  "monitored nxt s d = foldl (\<lambda>st e. Option.bind st (\<lambda>x. nxt x e)) (Some s) d"

lemma foldl_bind_None: "foldl (\<lambda>st e. Option.bind st (\<lambda>x. nxt x e)) None d = None"
  by (induction d) simp_all

lemma monitored_simps [simp]:
  "monitored nxt s [] = Some s"
  "monitored nxt s (e # d) = Option.bind (nxt s e) (\<lambda>s'. monitored nxt s' d)"
  by (simp_all add: monitored_def foldl_bind_None split: Option.bind_split)

lemma monitored_append [simp]:
  "monitored nxt s (a @ b) = Option.bind (monitored nxt s a) (\<lambda>s'. monitored nxt s' b)"
  by (induction a arbitrary: s) (auto split: Option.bind_split)

text \<open>\<open>safe nxt Q m\<close>: from every state with \<open>Q\<close>, the events of \<open>m\<close> are accepted and lead to one again.\<close>

definition keeps :: "('s \<Rightarrow> event \<Rightarrow> 's option) \<Rightarrow> ('s \<Rightarrow> bool) \<Rightarrow> event list \<Rightarrow> bool" where
  "keeps nxt Q d = (\<forall>s. Q s \<longrightarrow> (\<exists>s'. monitored nxt s d = Some s' \<and> Q s'))"

definition safe :: "('s \<Rightarrow> event \<Rightarrow> 's option) \<Rightarrow> ('s \<Rightarrow> bool) \<Rightarrow> 'a act \<Rightarrow> bool" where
  "safe nxt Q m = emits m (\<lambda>d _. keeps nxt Q d)"

named_theorems safe_rules \<open>rules for the events a monitor accepts\<close>

lemma keeps_Nil [simp]: "keeps nxt Q []"
  by (simp add: keeps_def)

lemma keeps_append: "keeps nxt Q a \<Longrightarrow> keeps nxt Q b \<Longrightarrow> keeps nxt Q (a @ b)"
  unfolding keeps_def monitored_append by (metis bind.bind_lunit)

lemma safe_ret [safe_rules]: "safe nxt Q (ret x)"
  by (simp add: safe_def emits_ret)

lemma safe_andthen [safe_rules]:
  assumes "safe nxt Q m" "\<And>x. safe nxt Q (f x)"
  shows "safe nxt Q (andthen m f)"
  unfolding safe_def
proof (rule emits_andthen)
  show "emits m (\<lambda>d _. keeps nxt Q d)" using assms(1) by (simp add: safe_def)
next
  fix d x assume "keeps nxt Q d"
  then show "emits (f x) (\<lambda>d' _. keeps nxt Q (d @ d'))"
    using assms(2) [of x] unfolding safe_def by (elim emits_weaken) (simp add: keeps_append)
qed

lemma safe_attempted [safe_rules]:
  "safe nxt Q m \<Longrightarrow> (\<And>x. safe nxt Q (f x)) \<Longrightarrow> safe nxt Q (attempted m f)"
  unfolding attempted_def by (rule safe_andthen) (auto intro: safe_rules split: sum.split)

lemma safe_if [safe_rules]: "(b \<Longrightarrow> safe nxt Q m) \<Longrightarrow> (\<not> b \<Longrightarrow> safe nxt Q n) \<Longrightarrow> safe nxt Q (if b then m else n)"
  by simp

lemma safe_emit:
  "(\<And>s. Q s \<Longrightarrow> \<exists>s'. nxt s e = Some s' \<and> Q s') \<Longrightarrow> safe nxt Q (emit e)"
  unfolding safe_def by (rule emits_emit) (force simp: keeps_def)

lemma safe_send:
  "(\<And>s. Q s \<Longrightarrow> \<exists>s'. nxt s (Sent c cmd) = Some s' \<and> Q s') \<Longrightarrow> safe nxt Q (send w c cmd)"
  unfolding safe_def by (rule emits_send) (force simp: keeps_def)

lemma safe_batch:
  "(\<And>s. Q s \<Longrightarrow> \<exists>s'. nxt s (Sent c (sql, [])) = Some s' \<and> Q s') \<Longrightarrow> safe nxt Q (batch w c sql)"
  unfolding batch_def by (intro safe_andthen safe_send safe_ret)

text \<open>\<open>passes nxt Q m\<close>: from every state with \<open>Q\<close> the events are accepted, whatever state they lead to.\<close>

definition accepted_from :: "('s \<Rightarrow> event \<Rightarrow> 's option) \<Rightarrow> ('s \<Rightarrow> bool) \<Rightarrow> event list \<Rightarrow> bool" where
  "accepted_from nxt Q d = (\<forall>s. Q s \<longrightarrow> monitored nxt s d \<noteq> None)"

definition passes :: "('s \<Rightarrow> event \<Rightarrow> 's option) \<Rightarrow> ('s \<Rightarrow> bool) \<Rightarrow> 'a act \<Rightarrow> bool" where
  "passes nxt Q m = emits m (\<lambda>d _. accepted_from nxt Q d)"

lemma keeps_accepted: "keeps nxt Q d \<Longrightarrow> accepted_from nxt Q d"
  by (auto simp: keeps_def accepted_from_def)

lemma keeps_anything: "keeps nxt (\<lambda>_. True) d \<longleftrightarrow> accepted_from nxt (\<lambda>_. True) d"
  by (auto simp: keeps_def accepted_from_def)

lemma safe_passes: "safe nxt (\<lambda>_. True) m \<Longrightarrow> passes nxt Q m"
  unfolding safe_def passes_def by (erule emits_weaken) (auto simp: keeps_def accepted_from_def)

lemma passes_andthen:
  assumes "safe nxt Q m" "\<And>x. passes nxt Q (f x)"
  shows "passes nxt Q (andthen m f)"
  unfolding passes_def
proof (rule emits_andthen)
  show "emits m (\<lambda>d _. keeps nxt Q d)" using assms(1) by (simp add: safe_def)
next
  fix d x assume "keeps nxt Q d"
  then show "emits (f x) (\<lambda>d' _. accepted_from nxt Q (d @ d'))"
    using assms(2) [of x] unfolding passes_def
    by (elim emits_weaken) (force simp: keeps_def accepted_from_def)
qed

lemma safe_accepts:
  assumes "safe nxt Q m" "m l = (x, l')" "Q s"
  shows "\<exists>d s'. l' = l @ d \<and> monitored nxt s d = Some s'"
  using assms unfolding safe_def emits_def keeps_def by (metis fst_conv snd_conv)

lemma safe_appends: "safe nxt Q m \<Longrightarrow> emits m (\<lambda>d x. True)"
  unfolding safe_def by (erule emits_weaken) simp

section \<open>Monitors of commands\<close>

text \<open>Only commands may be refused.\<close>

definition is_command :: "event \<Rightarrow> bool" where
  "is_command e = (case e of Sent _ _ \<Rightarrow> True | _ \<Rightarrow> False)"

abbreviation anything :: "'s \<Rightarrow> bool" where
  "anything \<equiv> \<lambda>_. True"

locale command_monitor =
  fixes nxt :: "'s \<Rightarrow> event \<Rightarrow> 's option"
  assumes quiet: "\<not> is_command e \<Longrightarrow> nxt s e \<noteq> None"
begin

lemma safe_quiet: "\<not> is_command e \<Longrightarrow> safe nxt anything (emit e)"
  by (rule safe_emit) (use quiet in auto)

lemma safe_audit: "safe nxt anything (audit_as t d s)"
  unfolding audit_as_def by (rule safe_quiet) (simp add: is_command_def)

lemma safe_count: "safe nxt anything (count_as m)"
  unfolding count_as_def by (rule safe_quiet) (simp add: is_command_def)

lemma keeps_quiet: "list_all (\<lambda>e. \<not> is_command e) d \<Longrightarrow> keeps nxt anything d"
proof (induction d)
  case (Cons e d)
  then have e: "keeps nxt anything [e]" using quiet [of e] by (auto simp: keeps_def)
  have "keeps nxt anything ([e] @ d)" using Cons by (intro keeps_append e) simp_all
  then show ?case by simp
qed simp

lemma safe_take: "safe nxt anything (take_conn w name)"
  unfolding safe_def by (rule emits_take_conn) (simp_all add: keeps_quiet is_command_def)

lemma safe_detail: "safe nxt anything (pool_error_detail w D env db)"
  unfolding safe_def by (rule emits_weaken [OF emits_detail]) (auto simp: keeps_quiet is_command_def)

lemma safe_with_conn:
  assumes "\<And>c. safe nxt anything (f c)"
  shows "safe nxt anything (with_conn w D env db f)"
  unfolding with_conn_def
  by (auto intro!: safe_ret safe_andthen safe_take safe_detail assms split: sum.split option.split prod.split)

end

text \<open>A monitor of sessions: a reset is always accepted, one of the settings opens the connection for the
  texts that are allowed, and a rollback is always accepted.\<close>

locale session_monitor = command_monitor nxt
  for nxt :: "'s \<Rightarrow> event \<Rightarrow> 's option" +
  fixes opened :: "nat \<Rightarrow> 's \<Rightarrow> bool" and settings :: "string \<Rightarrow> bool" and allowed :: "string \<Rightarrow> bool"
  assumes reset: "nxt s (Sent c (''DISCARD ALL'', [])) \<noteq> None"
    and opens: "settings x \<Longrightarrow> \<exists>s'. nxt s (Sent c (x, [])) = Some s' \<and> opened c s'"
    and stays: "opened c s \<Longrightarrow> allowed x \<Longrightarrow> \<exists>s'. nxt s (Sent c (x, ps)) = Some s' \<and> opened c s'"
    and begins: "allowed begin_read_only" and ends: "allowed ''ROLLBACK''"
begin

lemma safe_allowed: "allowed x \<Longrightarrow> safe nxt (opened c) (send w c (x, ps))"
  by (rule safe_send) (use stays in blast)

lemma safe_allowed_batch: "allowed x \<Longrightarrow> safe nxt (opened c) (batch w c x)"
  by (rule safe_batch) (use stays in blast)

lemma safe_rollback: "safe nxt (opened c) (rollback w c x)"
  unfolding rollback_def by (intro safe_andthen safe_ret safe_allowed_batch ends)

lemma safe_step: "allowed x \<Longrightarrow> safe nxt (opened c) (step w c x)"
  unfolding step_def by (intro safe_andthen safe_ret safe_allowed_batch)

text \<open>The first two statements of a session, from any state of the connection.\<close>

lemma keeps_settings: "settings x \<Longrightarrow> accepted_from nxt (opened c) d \<Longrightarrow>
    keeps nxt anything (Sent c (''DISCARD ALL'', []) # Sent c (x, []) # d)"
  unfolding keeps_def accepted_from_def
proof (intro allI impI)
  fix s assume x: "settings x" and d: "\<forall>s. opened c s \<longrightarrow> monitored nxt s d \<noteq> None"
  obtain s1 where s1: "nxt s (Sent c (''DISCARD ALL'', [])) = Some s1" using reset by blast
  obtain s2 where s2: "nxt s1 (Sent c (x, [])) = Some s2" "opened c s2" using opens [OF x] by blast
  with d obtain s3 where "monitored nxt s2 d = Some s3" by blast
  with s1 s2 show "\<exists>s'. monitored nxt s (Sent c (''DISCARD ALL'', []) # Sent c (x, []) # d) = Some s' \<and> True"
    by simp
qed

lemma safe_settings:
  assumes "settings x" "\<And>u. safe nxt (opened c) (f u)"
  shows "safe nxt anything (attempted (step w c ''DISCARD ALL'') (\<lambda>_. attempted (step w c x) f))"
  unfolding safe_def
proof (rule emits_attempted [OF emits_step])
  fix d and e :: string assume "d = [Sent c (''DISCARD ALL'', [])]"
  then show "keeps nxt anything d" using reset by (auto simp: keeps_def)
next
  fix d and u :: unit assume d: "d = [Sent c (''DISCARD ALL'', [])]"
  show "emits (attempted (step w c x) f) (\<lambda>d' _. keeps nxt anything (d @ d'))"
  proof (rule emits_attempted [OF emits_step])
    fix d2 and e :: string assume "d2 = [Sent c (x, [])]"
    then show "keeps nxt anything (d @ d2)"
      using keeps_settings [OF assms(1), of c "[]"] by (simp add: d accepted_from_def)
  next
    fix d2 and u' :: unit assume d2: "d2 = [Sent c (x, [])]"
    show "emits (f u') (\<lambda>d'. \<lambda>_. keeps nxt anything (d @ d2 @ d'))"
      by (rule emits_weaken [OF assms(2) [unfolded safe_def]])
        (simp add: d d2 keeps_settings [OF assms(1)] keeps_accepted)
  qed
qed

lemma safe_open_session:
  assumes "settings x" "\<And>u. safe nxt (opened c) (f u)"
  shows "safe nxt anything (open_session w c x f)"
  unfolding open_session_def
  by (rule safe_settings [OF assms(1)]) (intro safe_attempted safe_step begins assms(2))

lemma safe_catalog:
  assumes "settings (catalog_settings env)" "allowed (fst (catalog_command sql))"
  shows "safe nxt anything (query_catalog w D env sql ps db)"
  unfolding query_catalog_def
  by (intro safe_with_conn safe_open_session assms(1))
    (use assms(2) in \<open>auto split: prod.split intro!: safe_andthen safe_allowed safe_rollback\<close>)

lemma safe_execute:
  assumes "settings (session_settings env)" "allowed (statement_sent sql)"
  shows "safe nxt anything (execute_readonly w D env sql db)"
  unfolding execute_readonly_def
proof (intro safe_with_conn safe_open_session assms(1) safe_attempted safe_rollback)
  fix c
  show "safe nxt (opened c) (if is_row_query sql then run_row_query w c sql else run_plain w c sql)"
    using assms(2) unfolding run_row_query_def run_plain_def statement_sent_def
    by (auto split: sum.split intro!: safe_andthen safe_allowed safe_rollback safe_ret)
qed

end

end
