(* ===== verification/Posture_Props.thy ===== *)
theory Posture_Props
  imports Posture Sessions
begin

text \<open>
  What the start-up policy and the report promise: an exposed server serves only after the database has
  described a role that may be exposed, the retries end once the database answers, and the grade is the
  worst finding.
\<close>

section \<open>What the role check adds to the events\<close>

interpretation every: session_monitor "\<lambda>s e. Some s" "\<lambda>c s. True" "\<lambda>x. True" "\<lambda>x. True"
  by unfold_locales simp_all

lemma catalog_appends: "emits (query_catalog w D env sql ps db) (\<lambda>d x. True)"
  by (rule safe_appends, rule every.safe_catalog) simp_all

lemma with_conn_progress:
  assumes "pool_for D env db = Inr np" "\<And>c. emits (f c) (\<lambda>d x. True)"
  shows "emits (with_conn w D env db f) (\<lambda>d x. d \<noteq> [])"
proof -
  obtain name p where np: "np = (name, p)" by (cases np)
  show ?thesis
    unfolding with_conn_def assms(1) np sum.case prod.case
  proof (rule emits_andthen [where P = "\<lambda>d x. d \<noteq> []"])
    show "emits (take_conn w name) (\<lambda>d x. d \<noteq> [])" by (rule emits_take_conn) simp_all
  next
    fix d x assume "(d :: event list) \<noteq> []"
    moreover have "emits (andthen (pool_error_detail w D env db) (\<lambda>m. ret (Inl m :: string + _))) (\<lambda>d x. True)"
      by (rule emits_andthen [OF emits_detail]) (simp add: emits_ret)
    ultimately show "emits (case x of Some c \<Rightarrow> f c | None \<Rightarrow> andthen (pool_error_detail w D env db) (\<lambda>m. ret (Inl m)))
        (\<lambda>d' x. d @ d' \<noteq> [])"
      by (auto split: option.split intro: emits_weaken [OF assms(2)] emits_weaken)
  qed
qed

lemma catalog_progress:
  assumes "pool_for D env db = Inr np"
  shows "emits (query_catalog w D env sql ps db) (\<lambda>d x. d \<noteq> [])"
  unfolding query_catalog_def
proof (rule with_conn_progress [OF assms])
  fix c
  show "emits (open_session w c (catalog_settings env) (\<lambda>_. case catalog_command sql of (cmd, wrapped) \<Rightarrow>
           andthen (send w c (cmd, ps)) (\<lambda>r. rollback w c
                    (bindR (case r of Failed e \<Rightarrow> Inl (friendly_pg_error_for e (Some cmd))
                                    | Rows es \<Rightarrow> catalog_rows w cmd wrapped 0 es)
                      (\<lambda>res. Inr (catalog_object res)))))) (\<lambda>d x. True)"
    by (rule safe_appends, rule every.safe_open_session)
      (auto split: prod.split intro!: safe_andthen every.safe_allowed every.safe_rollback)
qed

lemma catalog_no_pool:
  assumes "pool_for D env db = Inl e"
  shows "query_catalog w D env sql ps db l = (Inl e, l)"
  by (simp add: query_catalog_def with_conn_def assms ret_def)

lemma evaluate_no_pool: "pool_for D env db = Inl e \<Longrightarrow> evaluate w D env db l = (Inl e, l)"
  by (simp add: evaluate_def attempted_def andthen_def catalog_no_pool ret_def)

lemma evaluate_progress:
  assumes "pool_for D env db = Inr np"
  shows "emits (evaluate w D env db) (\<lambda>d x. d \<noteq> [])"
  unfolding evaluate_def
proof (rule emits_attempted [OF catalog_progress [OF assms]])
  fix d v assume "(d :: event list) \<noteq> []"
  moreover have "emits (case rows_of v of
         [] \<Rightarrow> ret (Inl ''the database did not describe the connected role'')
       | r # _ \<Rightarrow> attempted (query_catalog w D env MEMBERSHIPS_SQL [] db) (\<lambda>m.
             attempted (query_catalog w D env WRITABLE_SQL [] db) (\<lambda>t.
               ret (Inr (with_scan (rows_of t)
                     ((role_of r)\<lparr>rf_dangerous_roles := str_items ''rolname'' (rows_of m)\<rparr>)))))) (\<lambda>d x. True)"
    by (auto split: list.split intro!: emits_ret emits_attempted [OF catalog_appends])
  ultimately show "emits (case rows_of v of
         [] \<Rightarrow> ret (Inl ''the database did not describe the connected role'')
       | r # _ \<Rightarrow> attempted (query_catalog w D env MEMBERSHIPS_SQL [] db) (\<lambda>m.
             attempted (query_catalog w D env WRITABLE_SQL [] db) (\<lambda>t.
               ret (Inr (with_scan (rows_of t)
                     ((role_of r)\<lparr>rf_dangerous_roles := str_items ''rolname'' (rows_of m)\<rparr>))))))
       (\<lambda>d' x. d @ d' \<noteq> [])"
    by (elim emits_weaken) simp
qed simp

text \<open>The pool does not depend on the events: once an answer came, every attempt moves on.\<close>

lemma evaluate_ok_moves:
  assumes "is_ok (fst (evaluate w D env db l0))"
  shows "length l < length (snd (evaluate w D env db l))"
proof -
  obtain np where "pool_for D env db = Inr np"
    using assms evaluate_no_pool [of D env db] by (cases "pool_for D env db") auto
  from evaluate_progress [OF this, of w] show ?thesis unfolding emits_def by (metis append_self_conv
    length_append length_greater_0_conv less_add_same_cancel1)
qed

section \<open>The runs of the start-up check\<close>

text \<open>The check itself, the turns of the background thread while serving is held back, and whatever the
  rest of the process does in between.\<close>

inductive policy_run ::
  "world \<Rightarrow> db_libs \<Rightarrow> env \<Rightarrow> string \<Rightarrow> string \<Rightarrow> policy_state \<times> event list \<Rightarrow> bool"
  for w D env transport addr where
  Started: "policy_run w D env transport addr (enforce_start_policy w D env transport addr policy_start l)"
| Retried: "policy_run w D env transport addr (s, l) \<Longrightarrow> ps_pending s \<Longrightarrow> ps_exit s = None \<Longrightarrow>
     policy_run w D env transport addr (retry w D env s l)"
| Elsewhere: "policy_run w D env transport addr (s, l) \<Longrightarrow> policy_run w D env transport addr (s, l @ d)"

inductive_cases policy_runE: "policy_run w D env transport addr sl"

definition role_checked :: "world \<Rightarrow> db_libs \<Rightarrow> env \<Rightarrow> role_facts \<Rightarrow> bool" where
  "role_checked w D env f = (role_accepted env f \<and> (\<exists>l. fst (evaluate w D env None l) = Inr f))"

text \<open>What holds of an exposed server at every moment.\<close>

definition policy_inv :: "world \<Rightarrow> db_libs \<Rightarrow> env \<Rightarrow> policy_state \<Rightarrow> bool" where
  "policy_inv w D env s =
     (ps_exit s = Some 3 \<or> ps_exit s = None \<and> may_listen env
        \<and> (ps_pending s \<or> (\<exists>f. ps_facts s = Some f \<and> role_checked w D env f)))"

lemma retry_eq:
  "retry w D env s l =
     ((case fst (evaluate w D env None l) of
        Inr f \<Rightarrow> if \<not> role_accepted env f then s\<lparr>ps_exit := Some 3\<rparr> else s\<lparr>ps_facts := Some f, ps_pending := False\<rparr>
      | Inl _ \<Rightarrow> s), snd (evaluate w D env None l))"
  by (simp add: retry_def andthen_def ret_def split_beta)

lemma retry_inv: "policy_inv w D env s \<Longrightarrow> policy_inv w D env (fst (retry w D env s l))"
  by (auto simp: retry_eq policy_inv_def role_checked_def split: sum.split)

lemma policy_run_inv:
  assumes "policy_run w D env transport addr sl" "transport \<noteq> ''stdio''" "\<not> is_loopback addr"
  shows "policy_inv w D env (fst sl)"
  using assms(1)
proof (induction rule: policy_run.induct)
  case (Started l)
  obtain r l' where "evaluate w D env None l = (r, l')" by fastforce
  then show ?case
    using assms(2,3)
    by (auto simp: enforce_start_policy_def policy_inv_def policy_start_def andthen_def ret_def role_checked_def
        Let_def split: sum.splits intro!: exI [of _ l])
next
  case (Retried s l)
  then show ?case using retry_inv by simp
qed simp

lemma excessive_Nil:
  "excessive f = [] \<longleftrightarrow>
     \<not> rf_superuser f \<and> \<not> rf_bypass_rls f \<and> \<not> rf_create_db f \<and> \<not> rf_create_role f \<and> \<not> rf_replication f
     \<and> rf_dangerous_roles f = [] \<and> rf_writable f = 0 \<and> \<not> rf_sampled f"
  by (auto simp: excessive_def)

text \<open>C9: A server reachable from a network answers queries only when its own token or key authenticates its
  callers, the platform does, or the operator set the override \<open>MCP_ALLOW_ANONYMOUS_NETWORK\<close>; and only
  after the database has answered the role check with a role that is no superuser, bypasses no row
  security, creates neither roles nor databases, replicates nothing, is a member of no dangerous role and
  can write to none of the relations, all of which were examined, or, when the operator set the second
  override, \<open>MCP_ALLOW_EXCESSIVE_ROLE\<close>, with any role. There is no third way.\<close>

theorem exposed_server_checked:
  assumes "policy_run w D env transport addr (s, l)" "transport \<noteq> ''stdio''" "\<not> is_loopback addr"
    and "ps_exit s = None" "serving_blocked s = None"
  shows "(own_authentication env \<or> platform_authenticates env
          \<or> env ''MCP_ALLOW_ANONYMOUS_NETWORK'' = Some ''i-accept-the-risk'')
    \<and> (\<exists>f l0. ps_facts s = Some f \<and> fst (evaluate w D env None l0) = Inr f
         \<and> (env ''MCP_ALLOW_EXCESSIVE_ROLE'' = Some ''i-accept-the-risk''
            \<or> \<not> rf_superuser f \<and> \<not> rf_bypass_rls f \<and> \<not> rf_create_db f \<and> \<not> rf_create_role f
              \<and> \<not> rf_replication f \<and> rf_dangerous_roles f = [] \<and> rf_writable f = 0 \<and> \<not> rf_sampled f))"
proof -
  have inv: "policy_inv w D env s" using policy_run_inv [OF assms(1-3)] by simp
  have "\<not> ps_pending s" using assms(5) by (simp add: serving_blocked_def split: if_splits)
  then obtain f where "may_listen env" "ps_facts s = Some f" "role_checked w D env f"
    using inv assms(4) by (auto simp: policy_inv_def)
  then show ?thesis by (auto simp: role_checked_def role_accepted_def excessive_Nil may_listen_def hatch_def)
qed

text \<open>A world in which every statement is answered by one row.\<close>

definition one_row_world :: "json \<Rightarrow> world" where
  "one_row_world v = \<lparr>w_conn = (\<lambda>l n. Some 0), w_reply = (\<lambda>l c cmd. Rows [Row [(''r'', Cell_Text (Some ''x''))]]),
     w_attempt = (\<lambda>l. Attempt_Ok), w_parse = (\<lambda>t. Some v), w_print = (\<lambda>j. ''{}'')\<rparr>"

lemma one_row_step: "step (one_row_world v) c sql l = (Inr (), l @ [Sent c (sql, [])])"
  by (simp add: step_def batch_def andthen_def send_def one_row_world_def ret_def)

lemma one_row_catalog:
  assumes "pool_for D env db = Inr np"
  shows "fst (query_catalog (one_row_world v) D env sql ps db l)
     = Inr (catalog_object ([if snd (catalog_command sql) then v else row_object [(''r'', Cell_Text (Some ''x''))]], False))"
proof -
  obtain name p where np: "np = (name, p)" by (cases np)
  obtain cmd wrapped where cmd: "catalog_command sql = (cmd, wrapped)" by (cases "catalog_command sql")
  show ?thesis
    by (simp add: query_catalog_def with_conn_def assms np andthen_def take_conn_def open_session_def attempted_def
        one_row_step rollback_def batch_def send_def cmd ret_def)
      (simp add: one_row_world_def first_text_def MAX_RESULT_BYTES_def)
qed

lemma rows_of_catalog [simp]: "rows_of (catalog_object (xs, False)) = xs"
proof -
  have "bt_insert ''rows'' a (bt_insert ''returnedRows'' b []) = [(''returnedRows'', b), (''rows'', a)]" for a b :: json
    by code_simp
  then show ?thesis by (simp add: rows_of_def catalog_object_def jobj_def)
qed

definition plain_role :: json where
  "plain_role = JObj [(''usr'', JStr ''reader'')]"

lemma sql_wrapped [simp]:
  "snd (catalog_command ROLE_SQL)" "snd (catalog_command MEMBERSHIPS_SQL)" "\<not> snd (catalog_command WRITABLE_SQL)"
  by (simp_all add: ROLE_SQL_def MEMBERSHIPS_SQL_def WRITABLE_SQL_def catalog_select catalog_with)

lemma plain_role_evaluates:
  assumes "is_ok (pool_for D env None)"
  shows "\<exists>f. fst (evaluate (one_row_world plain_role) D env None l) = Inr f \<and> excessive f = []"
proof -
  obtain np where np: "pool_for D env None = Inr np" using assms by (cases "pool_for D env None") auto
  let ?f = "(role_of plain_role)\<lparr>rf_dangerous_roles := []\<rparr>"
  have d: "str_items ''rolname'' [plain_role] = []" by code_simp
  have s: "with_scan [row_object [(''r'', Cell_Text (Some ''x''))]] ?f = ?f" by code_simp
  have "fst (evaluate (one_row_world plain_role) D env None l) = Inr ?f"
    using one_row_catalog [OF np, of plain_role]
    by (simp add: evaluate_def attempted_def andthen_def ret_def split_beta d s)
  moreover have "excessive ?f = []" by code_simp
  ultimately show ?thesis by blast
qed

definition token_env :: env where
  "token_env = (\<lambda>k. if k = ''MCP_BEARER_TOKEN'' then Some ''s'' else None)"

lemma token_pools: "\<exists>p. pg_pools demo_db_libs token_env = Inr [p]"
proof -
  have "looks_like_connection ''postgres://u@localhost/d''" by code_simp
  then have url: "configured_url demo_db_libs token_env = Some ''postgres://u@localhost/d''"
    by (simp add: configured_url_def demo_db_libs_def database_url_def token_env_def)
  have none: "token_env ''MCP_DATABASE_URLS'' = None" by (simp add: token_env_def)
  have "is_ok (build_pool demo_db_libs token_env ''postgres://u@localhost/d'')"
    by (simp add: build_pool_def demo_db_libs_def build_tls_def token_env_def Let_def)
  then show ?thesis
    by (cases "build_pool demo_db_libs token_env ''postgres://u@localhost/d''")
      (auto simp: pg_pools_def url none)
qed

lemma token_pool_ok: "is_ok (pool_for demo_db_libs token_env None)"
  using token_pools by (auto simp: pool_for_def)

theorem exposed_server_checked_witness:
  "\<exists>s l. policy_run (one_row_world plain_role) demo_db_libs token_env ''http'' ''0.0.0.0:8080'' (s, l)
     \<and> (\<exists>f. ps_facts s = Some f \<and> \<not> rf_superuser f)"
proof -
  let ?w = "one_row_world plain_role"
  obtain f where f: "fst (evaluate ?w demo_db_libs token_env None []) = Inr f" "excessive f = []"
    using plain_role_evaluates [OF token_pool_ok] by blast
  then obtain l where l: "evaluate ?w demo_db_libs token_env None [] = (Inr f, l)" by (metis prod.collapse)
  have lb: "\<not> is_loopback ''0.0.0.0:8080''" by code_simp
  have may: "may_listen token_env" by code_simp
  have "enforce_start_policy ?w demo_db_libs token_env ''http'' ''0.0.0.0:8080'' policy_start []
      = (policy_start\<lparr>ps_facts := Some f\<rparr>, l)"
    by (simp add: enforce_start_policy_def lb may andthen_def l ret_def role_accepted_def f(2) Let_def)
  then have run: "policy_run ?w demo_db_libs token_env ''http'' ''0.0.0.0:8080'' (policy_start\<lparr>ps_facts := Some f\<rparr>, l)"
    by (metis Started)
  have "token_env ''MCP_ALLOW_EXCESSIVE_ROLE'' \<noteq> Some ''i-accept-the-risk''" by code_simp
  then show ?thesis
    using exposed_server_checked [OF run _ lb] run
    by (auto simp: policy_start_def serving_blocked_def)
qed

section \<open>The retries\<close>

fun retries ::
  "world \<Rightarrow> db_libs \<Rightarrow> env \<Rightarrow> event list list \<Rightarrow> policy_state \<times> event list \<Rightarrow> policy_state \<times> event list" where
  "retries w D env [] sl = sl"
| "retries w D env (d # ds) (s, l) =
     (if ps_pending s \<and> ps_exit s = None then retries w D env ds (retry w D env s (l @ d)) else (s, l))"

lemma retries_settled: "\<not> (ps_pending s \<and> ps_exit s = None) \<Longrightarrow> retries w D env ds (s, l) = (s, l)"
  by (cases ds) auto

definition settled :: "env \<Rightarrow> policy_state \<Rightarrow> bool" where
  "settled env s =
     (ps_exit s = Some 3 \<or> serving_blocked s = None \<and> (\<exists>f. ps_facts s = Some f \<and> role_accepted env f))"

lemma retry_settles:
  assumes "is_ok (fst (evaluate w D env None l))"
  shows "settled env (fst (retry w D env s l))"
  using assms by (cases "fst (evaluate w D env None l)") (auto simp: retry_eq settled_def serving_blocked_def)

lemma settled_stops: "settled env s \<Longrightarrow> \<not> (ps_pending s \<and> ps_exit s = None)"
  by (auto simp: settled_def serving_blocked_def split: if_splits)

lemma retries_settle:
  assumes "\<And>l. n \<le> length l \<Longrightarrow> is_ok (fst (evaluate w D env None l))"
    and "ps_pending s" "ps_exit s = None" "n < length l + length ds" "ds \<noteq> []"
  shows "settled env (fst (retries w D env ds (s, l)))"
  using assms(2-)
proof (induction ds arbitrary: s l)
  case (Cons d ds)
  define s1 where "s1 = fst (retry w D env s (l @ d))"
  define l1 where "l1 = snd (retry w D env s (l @ d))"
  have step: "retries w D env (d # ds) (s, l) = retries w D env ds (s1, l1)"
    using Cons.prems by (simp add: s1_def l1_def)
  have more: "length l + 1 \<le> length l1"
    using evaluate_ok_moves [OF assms(1) [of "replicate n Probed"], of "l @ d"]
    by (simp add: l1_def retry_eq)
  show ?case
  proof (cases "settled env s1")
    case True
    then show ?thesis unfolding step by (simp add: retries_settled [OF settled_stops])
  next
    case False
    then have no: "\<not> is_ok (fst (evaluate w D env None (l @ d)))"
      using retry_settles [of w D env "l @ d" s] by (auto simp: s1_def)
    then have "length (l @ d) < n" using assms(1) [of "l @ d"] by linarith
    then have "ds \<noteq> []" using Cons.prems(3) by auto
    moreover have "s1 = s"
      using no by (cases "fst (evaluate w D env None (l @ d))") (auto simp: s1_def retry_eq)
    ultimately show ?thesis
      unfolding step using Cons.IH [of s1 l1] Cons.prems more by simp
  qed
qed simp

text \<open>What it takes for the role check to be answered at some moment: a connection is to be had, the
  statements that open a session succeed, the three questions get rows, the first at least one, and the
  rows that carry JSON can be read. What \<open>ROLLBACK\<close> answers does not matter.\<close>

definition readable_row :: "world \<Rightarrow> row \<Rightarrow> bool" where
  "readable_row w r \<longleftrightarrow> Option.bind (first_text r) (w_parse w) \<noteq> None"

definition role_check_texts :: "env \<Rightarrow> string list" where
  "role_check_texts env = [''DISCARD ALL'', catalog_settings env, begin_read_only,
     fst (catalog_command ROLE_SQL), fst (catalog_command MEMBERSHIPS_SQL), fst (catalog_command WRITABLE_SQL)]"

definition role_check_answered :: "world \<Rightarrow> env \<Rightarrow> event list \<Rightarrow> bool" where
  "role_check_answered w env l \<longleftrightarrow>
     (\<forall>name. w_conn w l name \<noteq> None)
     \<and> (\<forall>c. \<forall>sql \<in> set (role_check_texts env). \<exists>rows. w_reply w l c (sql, []) = Rows (map Row rows)
          \<and> (sql = fst (catalog_command ROLE_SQL) \<longrightarrow> rows \<noteq> [])
          \<and> (sql \<in> {fst (catalog_command ROLE_SQL), fst (catalog_command MEMBERSHIPS_SQL)} \<longrightarrow>
               (\<forall>r \<in> set rows. readable_row w r)))"

lemma rows_no_failure [simp]: "first_failure (map Row rows) = None"
  by (induction rows) simp_all

lemma answered_step:
  "w_reply w l c (sql, []) = Rows (map Row rows) \<Longrightarrow> step w c sql l = (Inr (), l @ [Sent c (sql, [])])"
  by (simp add: step_def batch_def andthen_def send_def ret_def)

lemma catalog_rows_answered:
  assumes "wrapped \<Longrightarrow> \<forall>r \<in> set rows. readable_row w r"
  shows "\<exists>vs capped. catalog_rows w sql wrapped b (map Row rows) = Inr (vs, capped)
     \<and> (rows \<noteq> [] \<and> b \<le> MAX_RESULT_BYTES \<longrightarrow> vs \<noteq> [])"
  using assms
proof (induction rows arbitrary: b)
  case (Cons r rows)
  obtain v where v: "(if wrapped then Option.bind (first_text r) (w_parse w) else Some (row_object r)) = Some v"
    using Cons.prems by (cases wrapped) (auto simp: readable_row_def)
  from Cons.IH [of "b + length (w_print w v)"] Cons.prems obtain vs capped
    where "catalog_rows w sql wrapped (b + length (w_print w v)) (map Row rows) = Inr (vs, capped)" by auto
  with v show ?case by (cases "MAX_RESULT_BYTES < b") auto
qed (auto intro: exI [of _ False])

lemma rows_of_object: "rows_of (catalog_object (vs, capped)) = vs"
proof (cases capped)
  case True
  have "jget ''rows'' (jinsert ''truncationReason'' a (jinsert ''truncated'' b
      (jobj [(''returnedRows'', c), (''rows'', d)]))) = Some d" for a b c d :: json
    by (simp add: jobj_def jget_jinsert)
  then show ?thesis by (simp add: True rows_of_def catalog_object_def)
qed simp

lemma catalog_answered:
  assumes pool: "pool_for D env None = Inr np"
    and answers: "\<And>l. n \<le> length l \<Longrightarrow> role_check_answered w env l" and "n \<le> length l"
    and sql: "sql \<in> {ROLE_SQL, MEMBERSHIPS_SQL, WRITABLE_SQL}"
  shows "\<exists>vs capped l'. query_catalog w D env sql [] None l = (Inr (catalog_object (vs, capped)), l')
     \<and> n \<le> length l' \<and> (sql = ROLE_SQL \<longrightarrow> vs \<noteq> [])"
proof -
  obtain name p where np: "np = (name, p)" by (cases np)
  obtain c where c: "w_conn w l name = Some c"
    using answers [OF assms(3)] unfolding role_check_answered_def by blast
  obtain cmd wrapped where cmd: "catalog_command sql = (cmd, wrapped)" by (cases "catalog_command sql")
  have st: "step w c q m = (Inr (), m @ [Sent c (q, [])])"
    if "n \<le> length m" "q \<in> {''DISCARD ALL'', catalog_settings env, begin_read_only}" for q m
  proof -
    have "q \<in> set (role_check_texts env)" using that(2) by (auto simp: role_check_texts_def)
    with answers [OF that(1)] obtain rows where "w_reply w m c (q, []) = Rows (map Row rows)"
      unfolding role_check_answered_def by blast
    then show ?thesis by (rule answered_step)
  qed
  define l3 where "l3 = l @ [Got_Conn name c, Sent c (''DISCARD ALL'', []), Sent c (catalog_settings env, []),
    Sent c (begin_read_only, [])]"
  have "n \<le> length l3" using assms(3) by (simp add: l3_def)
  moreover have "cmd \<in> set (role_check_texts env)" using sql cmd by (auto simp: role_check_texts_def)
  ultimately obtain rows where rows: "w_reply w l3 c (cmd, []) = Rows (map Row rows)"
    and ne: "cmd = fst (catalog_command ROLE_SQL) \<longrightarrow> rows \<noteq> []"
    and rd: "cmd \<in> {fst (catalog_command ROLE_SQL), fst (catalog_command MEMBERSHIPS_SQL)} \<longrightarrow>
      (\<forall>r \<in> set rows. readable_row w r)"
    using answers [of l3] unfolding role_check_answered_def by blast
  have "\<forall>r \<in> set rows. readable_row w r" if "wrapped"
    using rd sql cmd that sql_wrapped(3) by (metis fst_conv insertE insertI1 insert_iff singletonD snd_conv)
  from catalog_rows_answered [of wrapped rows w cmd 0, OF this] obtain vs capped
    where vs: "catalog_rows w cmd wrapped 0 (map Row rows) = Inr (vs, capped)" "rows \<noteq> [] \<longrightarrow> vs \<noteq> []"
    by auto
  have "query_catalog w D env sql [] None l = (Inr (catalog_object (vs, capped)),
      l3 @ [Sent c (cmd, []), Sent c (''ROLLBACK'', [])])"
    using assms(3) rows vs(1)
    by (simp add: query_catalog_def with_conn_def pool np andthen_def take_conn_def c open_session_def attempted_def
        st rollback_def batch_def send_def cmd ret_def l3_def)
  moreover have "vs \<noteq> []" if "sql = ROLE_SQL" using ne vs(2) cmd that by simp
  ultimately show ?thesis using \<open>n \<le> length l3\<close> by auto
qed

lemma evaluate_answered:
  assumes "pool_for D env None = Inr np"
    and "\<And>l. n \<le> length l \<Longrightarrow> role_check_answered w env l" and "n \<le> length l"
  shows "is_ok (fst (evaluate w D env None l))"
proof -
  note q = catalog_answered [OF assms(1), of n w]
  obtain vs capped l1 where 1: "query_catalog w D env ROLE_SQL [] None l = (Inr (catalog_object (vs, capped)), l1)"
    "n \<le> length l1" "vs \<noteq> []" using q [OF assms(2,3), of ROLE_SQL] by auto
  obtain ms mc l2 where 2: "query_catalog w D env MEMBERSHIPS_SQL [] None l1 = (Inr (catalog_object (ms, mc)), l2)"
    "n \<le> length l2" using q [OF assms(2) 1(2), of MEMBERSHIPS_SQL] by auto
  obtain ts tc l3 where 3: "query_catalog w D env WRITABLE_SQL [] None l2 = (Inr (catalog_object (ts, tc)), l3)"
    using q [OF assms(2) 2(2), of WRITABLE_SQL] by auto
  from 1 2 3 show ?thesis
    by (cases vs) (simp_all only: evaluate_def attempted_def andthen_def ret_def rows_of_object prod.case sum.case
        list.case fst_conv is_ok_simps)
qed

text \<open>C35: A held server is released: with one database configured, if from some moment on that database
  gives connections and answers the statements of the role check, then after at most that many turns of
  the background thread, whatever happens in between, the server either serves with a checked role or has
  exited. It is never held for ever by its one database once that answers; with several databases it is,
  which is the lemma after this.\<close>

theorem held_server_released:
  assumes "pg_pools D env = Inr [p]" and "\<And>l. n \<le> length l \<Longrightarrow> role_check_answered w env l"
    and "ps_pending s" "ps_exit s = None" "n < length l + length ds" "ds \<noteq> []"
  shows "settled env (fst (retries w D env ds (s, l)))"
proof -
  have "pool_for D env None = Inr p" by (simp add: pool_for_def assms(1))
  from evaluate_answered [OF this assms(2)]
  have ok: "is_ok (fst (evaluate w D env None l))" if "n \<le> length l" for l using that by blast
  show ?thesis by (rule retries_settle [of n w D env s l ds]) (rule ok assms(3-); assumption?)+
qed

theorem held_server_released_witness:
  "settled token_env (fst (retries (one_row_world plain_role) demo_db_libs token_env [[], []]
     (policy_start\<lparr>ps_pending := True\<rparr>, [])))"
proof -
  obtain p where "pg_pools demo_db_libs token_env = Inr [p]" using token_pools by blast
  then show ?thesis
  proof (rule held_server_released [where n = 1])
    fix l :: "event list"
    have "w_reply (one_row_world plain_role) l c cmd = Rows (map Row [[(''r'', Cell_Text (Some ''x''))]])" for c cmd
      by (simp add: one_row_world_def)
    moreover have "readable_row (one_row_world plain_role) [(''r'', Cell_Text (Some ''x''))]"
      by (simp add: readable_row_def first_text_def one_row_world_def)
    ultimately show "role_check_answered (one_row_world plain_role) token_env l"
      unfolding role_check_answered_def by (fastforce simp: one_row_world_def)
  qed (simp_all add: policy_start_def)
qed

text \<open>With several databases configured the check names none of them, so no answer of any database ever
  releases the server.\<close>

lemma several_databases_never_serve:
  assumes "pg_pools D env = Inr (p # q # ps)" "ps_pending s" "ps_exit s = None"
  shows "ps_pending (fst (retries w D env ds (s, l)))"
  using assms(2,3)
proof (induction ds arbitrary: l)
  case (Cons d ds)
  obtain e where "pool_for D env None = Inl e"
    using assms(1) by (simp add: pool_for_def)
  then have "retry w D env s (l @ d) = (s, l @ d)"
    by (simp add: retry_eq evaluate_no_pool)
  then show ?case using Cons by simp
qed simp

section \<open>The grade\<close>

lemma worst_foldl: "foldl max a (map fd_severity fs) \<le> b \<longleftrightarrow> a \<le> b \<and> (\<forall>f \<in> set fs. fd_severity f \<le> b)"
  by (induction fs arbitrary: a) auto

lemma Sev_Ok_least [simp]: "Sev_Ok \<le> s" "s \<le> Sev_Ok \<longleftrightarrow> s = Sev_Ok"
  by (cases s; simp add: less_eq_severity_def)+

lemma worst_le: "worst_severity fs \<le> b \<longleftrightarrow> (\<forall>f \<in> set fs. fd_severity f \<le> b)"
  by (simp add: worst_severity_def worst_foldl)

lemma worst_Ok: "worst_severity fs = Sev_Ok \<longleftrightarrow> (\<forall>f \<in> set fs. fd_severity f = Sev_Ok)"
  using worst_le [of fs Sev_Ok] by simp

lemma grade_inj: "severity_grade a = severity_grade b \<longleftrightarrow> a = b"
  by (cases a; cases b) simp_all

lemma report_grade: "get_str ''grade'' (report_json env fs) = Some (severity_grade (worst_severity fs))"
proof -
  have "map_of (bt_insert ''note'' f (bt_insert ''findings'' e (bt_insert ''authentication'' d
      (bt_insert ''exposedToNetwork'' c (bt_insert ''listening'' b (bt_insert ''grade'' a [])))))) ''grade'' = Some a"
    for a b c d e f :: json by code_simp
  then show ?thesis by (simp add: report_json_def jobj_def get_str_def)
qed

lemma severity_of [simp]: "fd_severity (a_finding i s what remedy) = s"
  by (simp add: a_finding_def)

lemma ball_only_if [simp]: "(\<forall>x \<in> set (only_if b y). P x) \<longleftrightarrow> (b \<longrightarrow> P y)"
  by simp

lemma role_findings_Ok:
  "(\<forall>f \<in> set (role_findings facts). fd_severity f = Sev_Ok) \<longleftrightarrow>
     (\<exists>f. facts = Some f \<and> excessive f = [] \<and> \<not> rf_sampled f)"
proof (cases facts)
  case (Some f)
  have "(\<forall>x \<in> set (excessive f). False) \<longleftrightarrow> excessive f = []" by (cases "excessive f") auto
  then show ?thesis by (simp add: role_findings_def Some ball_Un del: set_only_if)
qed (simp add: role_findings_def)

lemma exposure_findings_Ok:
  "(\<forall>f \<in> set (exposure_findings env exposed). fd_severity f = Sev_Ok) \<longleftrightarrow>
     (\<not> exposed \<or> own_authentication env) \<and> (own_authentication env \<longrightarrow> nonblank_env env ''MCP_PUBLIC_URL'')"
  unfolding exposure_findings_def Let_def set_append ball_Un ball_only_if severity_of by auto

lemma audit_findings_Ok:
  "(\<forall>f \<in> set (audit_findings env). fd_severity f = Sev_Ok) \<longleftrightarrow>
     nonblank_env env ''MCP_AUDIT_LOG''
     \<and> (nonblank_env env ''MCP_AUDIT_HMAC_KEY'' \<or> nonblank_env env ''MCP_AUDIT_HMAC_KEY_FILE'')
     \<and> \<not> redaction_configured env"
  unfolding audit_findings_def set_append ball_Un ball_only_if severity_of
  by (cases "nonblank_env env ''MCP_AUDIT_LOG''") (simp_all del: set_only_if)

lemma tls_findings_Ok:
  "(\<forall>f \<in> set (tls_findings exposed url tls). fd_severity f = Sev_Ok) \<longleftrightarrow>
     (tls = Some False \<longrightarrow> (\<exists>u. url = Some u \<and> db_is_local u))"
  unfolding tls_findings_def by (auto split: option.split bool.split)

text \<open>A question about encryption that nobody answered makes no finding.\<close>

lemma unanswered_tls_not_graded: "\<forall>f \<in> set (tls_findings exposed url None). fd_severity f = Sev_Ok"
  by (simp add: tls_findings_Ok)


definition good_env :: env where
  "good_env = (\<lambda>k. if k = ''MCP_AUDIT_LOG'' then Some ''/var/log/mcp'' else
     if k = ''MCP_AUDIT_HMAC_KEY'' then Some ''k'' else None)"


text \<open>Behind a platform that authenticates the callers the report names the platform, and still carries the
  critical finding that no authentication is required.\<close>

definition platform_env :: env where
  "platform_env = (\<lambda>k. if k = ''APIFY_IS_AT_HOME'' then Some ''1'' else
     if k = ''ACTOR_WEB_SERVER_PORT'' then Some ''4321'' else None)"

lemma platform_graded_anonymous:
  "authentication_name platform_env = ''apify-platform''
   \<and> ''transport.anonymous'' \<in> set (map fd_id (all_findings platform_env url facts tls))
   \<and> worst_severity (all_findings platform_env url facts tls) = Sev_Critical"
proof -
  have env: "authentication_name platform_env = ''apify-platform''" "\<not> is_loopback (listen_addr platform_env)"
    "\<not> own_authentication platform_env" by code_simp+
  obtain f where f: "f \<in> set (all_findings platform_env url facts tls)" "fd_id f = ''transport.anonymous''"
      "fd_severity f = Sev_Critical"
    using env(2,3) unfolding all_findings_def exposure_findings_def Let_def
    by (fastforce simp: a_finding_def)
  have "fd_severity f \<le> worst_severity (all_findings platform_env url facts tls)"
    using f(1) worst_le [of "all_findings platform_env url facts tls"] by blast
  then have "worst_severity (all_findings platform_env url facts tls) = Sev_Critical"
    unfolding f(3) by (cases "worst_severity (all_findings platform_env url facts tls)") (simp_all add: less_eq_severity_def)
  with env(1) f(1,2) show ?thesis by (metis image_eqI list.set_map)
qed

text \<open>The examples of writable relations are an array, which the driver's conversion turns into null: they
  never reach a message.\<close>

lemma writable_examples_lost:
  "rf_writable_examples (with_scan [row_object [(''scanned'', a), (''writable'', b), (''examples'', Cell_Other)]] f) = []"
proof -
  have "jget ''examples'' (row_object [(''scanned'', a), (''writable'', b), (''examples'', Cell_Other)]) = Some JNull"
    by (simp add: row_object_def jobj_def col_to_json_def)
  then show ?thesis by (simp add: with_scan_def)
qed

end
