(* ===== verification/Cost_Guard.thy ===== *)
theory Cost_Guard
  imports Db_Exec Surface Validate
begin

text \<open>
  The cost guard of \<open>src/tools.rs\<close>: one EXPLAIN on a connection of its own answers how expensive a
  statement is and what it reaches. A panic of the source is the left value of the outer result.
\<close>

section \<open>What the handlers work with\<close>

text \<open>The world, the libraries, the environment and the parser; \<open>h_oauth\<close> says that a public key is
  configured, \<open>h_version\<close> is the version the package is built with, \<open>h_number\<close> the text the JSON
  library prints for a float and \<open>h_column_error\<close> what the driver says of a column of another type.\<close>

record host =
  h_world :: world
  h_libs :: db_libs
  h_env :: env
  h_parser :: sqlparser
  h_oauth :: bool
  h_version :: string
  h_number :: "rat \<Rightarrow> string"
  h_column_error :: string

abbreviation catalog :: "host \<Rightarrow> string \<Rightarrow> param list \<Rightarrow> string option \<Rightarrow> (string + json) act" where
  "catalog H sql ps db \<equiv> query_catalog (h_world H) (h_libs H) (h_env H) sql ps db"

section \<open>Single rows\<close>

definition unexpected_rows :: pg_error where
  "unexpected_rows = Pg_Transport ''query returned an unexpected number of rows''"

definition query_one :: "reply \<Rightarrow> pg_error + row" where
  "query_one r = bindR (query_reply r) (\<lambda>rows. case rows of [x] \<Rightarrow> Inr x | _ \<Rightarrow> Inl unexpected_rows)"

definition query_opt :: "reply \<Rightarrow> pg_error + row option" where
  "query_opt r = bindR (query_reply r)
     (\<lambda>rows. case rows of [] \<Rightarrow> Inr None | [x] \<Rightarrow> Inr (Some x) | _ \<Rightarrow> Inl unexpected_rows)"

definition json_column :: "row \<Rightarrow> panic + json" where
  "json_column r = (case r of (_, Cell_Json (Some v)) # _ \<Rightarrow> Inr v | _ \<Rightarrow> Inl ColumnPanic)"

section \<open>The guard\<close>

datatype cost_err = TooExpensive string | OutsideSurface string | QueryError string

type_synonym guard_result = "panic + (cost_err + unit)"

definition guard_settings :: "env \<Rightarrow> string" where
  "guard_settings env =
     ''SET statement_timeout='' @ squoted ''5s'' @ ''; SET default_transaction_read_only=on;'' @
     search_path_stmt env"

definition explain_text :: "string \<Rightarrow> string" where
  "explain_text sql = ''EXPLAIN (FORMAT JSON, VERBOSE) '' @ sql"

text \<open>The names of the statement its author qualified, judged without asking for parents.\<close>

definition named_outside :: "sqlparser \<Rightarrow> env \<Rightarrow> string \<Rightarrow> (string \<times> string) list" where
  "named_outside P env sql =
     refused env (filter (\<lambda>(sch, _). sch \<noteq> []) (relations_named P sql)) (\<lambda>_ _. None)"

definition total_cost :: "json \<Rightarrow> f64 option" where
  "total_cost plan =
     Option.bind (Option.bind (Option.bind (jat 0 plan) (jget ''Plan'')) (jget ''Total Cost'')) as_f64"

definition reads_server_state :: "string \<Rightarrow> bool" where
  "reads_server_state f =
     (starts_with f ''pg_'' \<or> List.member [''current_setting'', ''inet_server_addr'', ''inet_server_port''] f)"

definition FUNCTIONS_SQL :: string where
  "FUNCTIONS_SQL = ''SELECT p.proname AS name, n.nspname AS schema, p.prosecdef AS definer FROM pg_proc p '' @
        ''JOIN pg_namespace n ON n.oid = p.pronamespace WHERE lower(p.proname) = ANY($1) AND '' @
        ''n.nspname <> 'pg_catalog'' @ [CHR 0x27]"

definition PARENT_SQL :: string where
  "PARENT_SQL = ''SELECT pn.nspname AS schema, pc.relname AS rel FROM pg_inherits i JOIN pg_class c ON '' @
        ''c.oid = i.inhrelid JOIN pg_namespace n ON n.oid = c.relnamespace JOIN pg_class pc ON '' @
        ''pc.oid = i.inhparent JOIN pg_namespace pn ON pn.oid = pc.relnamespace WHERE n.nspname '' @
        ''= $1 AND c.relname = $2''"

definition function_offender :: "env \<Rightarrow> json \<Rightarrow> string option" where
  "function_offender env r =
     Option.bind (get_str ''name'' r)
       (\<lambda>n. if function_explicitly_allowed env n then None
            else Option.bind (get_str ''schema'' r)
              (\<lambda>s. let definer = (case Option.bind (jget ''definer'' r) as_bool of Some b \<Rightarrow> b | None \<Rightarrow> False) in
                   Some (s @ ''.'' @ n @ (if definer then '' (SECURITY DEFINER)'' else []))))"

text \<open>Calls while a surface is configured: server state, then functions outside \<open>pg_catalog\<close>.\<close>

definition guard_functions :: "host \<Rightarrow> string option \<Rightarrow> string list \<Rightarrow> (cost_err + unit) act" where
  "guard_functions H db called =
     (let env = h_env H; state = filter reads_server_state called in
      if \<not> catalog_allowed env \<and> state \<noteq> [] then
        ret (Inl (OutsideSurface (''reads server configuration rather than data: '' @ join '', '' state @
        ''. While a surface allowlist is configured the catalogue is out of reach '' @ dash @
        '' set MCP_ALLOW_CATALOG=1 if the operator wants it readable'')))
      else if called = [] then ret (Inr ())
      else andthen (catalog H FUNCTIONS_SQL [P_Texts called] db)
        (\<lambda>r. ret (case r of
           Inl e \<Rightarrow> Inl (QueryError e)
         | Inr v \<Rightarrow>
             (let rows = (case Option.bind (jget ''rows'' v) as_array of Some xs \<Rightarrow> xs | None \<Rightarrow> []);
                  offenders = List.map_filter (function_offender env) rows in
              if offenders \<noteq> [] then Inl (OutsideSurface
                (''calls a function this server cannot see inside: '' @ join '', '' offenders @
        ''. While a surface allowlist is configured, only built-in functions are permitted '' @ dash @
        '' a function body reads whatever it likes, and the query plan does not show it. Add it '' @
        ''to MCP_ALLOW_FUNCTIONS if you have read it and it stays within the surface''))
              else Inr ()))))"

definition parent_of :: "host \<Rightarrow> string option \<Rightarrow> string \<Rightarrow> string \<Rightarrow> (string \<times> string) option act" where
  "parent_of H db s r =
     andthen (catalog H PARENT_SQL [P_Text s, P_Text r] db)
       (\<lambda>res. ret (case res of
          Inl _ \<Rightarrow> None
        | Inr v \<Rightarrow> Option.bind (Option.bind (jget ''rows'' v) as_array)
            (\<lambda>rows. case rows of
                [] \<Rightarrow> None
              | row # _ \<Rightarrow> Option.bind (get_str ''schema'' row)
                  (\<lambda>ps. map_option (\<lambda>pr. (ps, pr)) (get_str ''rel'' row)))))"

text \<open>\<open>surface::refused\<close> with the parents asked from the database one after another.\<close>

fun refused_asking ::
  "env \<Rightarrow> (string \<Rightarrow> string \<Rightarrow> (string \<times> string) option act) \<Rightarrow> (string \<times> string) list \<Rightarrow> (string \<times> string) list act" where
  "refused_asking env parents [] = ret []"
| "refused_asking env parents ((s, r) # found) =
     (if permitted_in env (parse_patterns env) s r then refused_asking env parents found
      else andthen (parents s r)
        (\<lambda>p. andthen (refused_asking env parents found)
          (\<lambda>rest. ret (if (case p of Some (ps, pr) \<Rightarrow> \<not> permitted_in env (parse_patterns env) ps pr | None \<Rightarrow> True)
                       then (s, r) # rest else rest))))"

definition guard_relations :: "host \<Rightarrow> string option \<Rightarrow> string \<Rightarrow> json \<Rightarrow> (cost_err + unit) act" where
  "guard_relations H db sql plan =
     (let env = h_env H; found = relations_in_plan plan; outside = named_outside (h_parser H) env sql in
      if found = [] \<and> outside \<noteq> [] then ret (Inl (OutsideSurface (refusal_message env outside)))
      else andthen (refused_asking env (parent_of H db) found)
        (\<lambda>no. ret (if no \<noteq> [] then Inl (OutsideSurface (refusal_message env no)) else Inr ())))"

text \<open>\<open>{:.0}\<close> rounds a half to even.\<close>

definition round_half_even :: "rat \<Rightarrow> int" where
  "round_half_even q =
     (let n = floor q; d = q - of_int n in
      if d < 1 / 2 then n else if 1 / 2 < d then n + 1 else if even n then n else n + 1)"

fun fmt_whole :: "f64 \<Rightarrow> string" where
  "fmt_whole (Fin q) = (if q < 0 then ''-'' @ int_str (round_half_even (- q)) else int_str (round_half_even q))"
| "fmt_whole PInf = ''inf''"
| "fmt_whole NInf = ''-inf''"
| "fmt_whole NaN = ''NaN''"

definition too_expensive :: "f64 \<Rightarrow> f64 \<Rightarrow> string" where
  "too_expensive cost max_cost = ''query too expensive: estimated cost '' @ fmt_whole cost @ '' exceeds limit '' @
        fmt_whole max_cost"

definition unreadable_cost :: string where
  "unreadable_cost = ''could not read the estimated cost out of the query plan, so the cost limit cannot be '' @
        ''applied '' @ dash @
        '' refusing rather than guessing. This usually means an unexpected PostgreSQL version; '' @
        ''please report it''"

text \<open>The part after the plan is known.\<close>

definition judge_plan :: "host \<Rightarrow> string option \<Rightarrow> string \<Rightarrow> f64 \<Rightarrow> json \<Rightarrow> (cost_err + unit) act" where
  "judge_plan H db sql max_cost plan =
     (case total_cost plan of
        None \<Rightarrow> ret (Inl (QueryError unreadable_cost))
      | Some cost \<Rightarrow>
          attempted
            (if surface_active (h_env H) then
               attempted (guard_functions H db (functions_called (h_parser H) sql))
                 (\<lambda>_. guard_relations H db sql plan)
             else ret (Inr ()))
            (\<lambda>_. ret (if f64_lt max_cost cost then Inl (TooExpensive (too_expensive cost max_cost)) else Inr ())))"

definition as_guard :: "(cost_err + unit) act \<Rightarrow> guard_result act" where
  "as_guard m = andthen m (\<lambda>r. ret (Inr r))"

text \<open>A step whose failure is an error of the query.\<close>

definition guard_step :: "world \<Rightarrow> nat \<Rightarrow> string \<Rightarrow> guard_result act \<Rightarrow> guard_result act" where
  "guard_step w c sql m = andthen (step w c sql)
     (\<lambda>r. case r of Inl e \<Rightarrow> ret (Inr (Inl (QueryError e))) | Inr _ \<Rightarrow> m)"

definition guarded_explain :: "host \<Rightarrow> string option \<Rightarrow> string \<Rightarrow> f64 \<Rightarrow> nat \<Rightarrow> guard_result act" where
  "guarded_explain H db sql max_cost c =
     (let env = h_env H; outside = named_outside (h_parser H) env sql in
      if surface_active env \<and> outside \<noteq> [] then
        ret (Inr (Inl (OutsideSurface (refusal_message env outside))))
      else andthen (send (h_world H) c (explain_text sql, []))
        (\<lambda>r. case query_one r of
           Inl e \<Rightarrow> ret (Inr (Inl (QueryError (friendly_pg_error_for e (Some sql)))))
         | Inr row \<Rightarrow>
             (case json_column row of
                Inl p \<Rightarrow> ret (Inl p)
              | Inr plan \<Rightarrow> as_guard (judge_plan H db sql max_cost plan))))"

definition cost_guard :: "host \<Rightarrow> string \<Rightarrow> f64 \<Rightarrow> string option \<Rightarrow> guard_result act" where
  "cost_guard H sql max_cost db =
     (let w = h_world H; env = h_env H in
      case pool_for (h_libs H) env db of
        Inl e \<Rightarrow> ret (Inr (Inl (QueryError e)))
      | Inr (name, p) \<Rightarrow>
          andthen (take_conn w name)
            (\<lambda>c. case c of
               None \<Rightarrow> andthen (pool_error_detail w (h_libs H) env db) (\<lambda>m. ret (Inr (Inl (QueryError m))))
             | Some c \<Rightarrow>
                 guard_step w c ''DISCARD ALL''
                   (guard_step w c (guard_settings env) (guarded_explain H db sql max_cost c))))"

end
