(* ===== verification/Catalog_Tools.thy ===== *)
theory Catalog_Tools
  imports Cost_Guard
begin

text \<open>
  The tools and resources that read the catalog (\<open>src/tools.rs\<close> and \<open>src/handlers.rs\<close>): schemas,
  tables, one table, resources, the health snapshot, the heaviest statements, index findings. Each is an
  action over the world of the host.
\<close>

section \<open>Schemas and tables\<close>

abbreviation answer_ok :: "host \<Rightarrow> json \<Rightarrow> json" where
  "answer_ok H v \<equiv> ok_content (h_world H) (h_env H) v"

definition finish :: "string \<Rightarrow> string \<Rightarrow> json \<Rightarrow> json act" where
  "finish tool decision v = andthen (audit_as tool decision None) (\<lambda>_. ret v)"

definition or_public :: "json \<Rightarrow> string" where
  "or_public args = (case get_str ''schema'' args of Some s \<Rightarrow> s | None \<Rightarrow> ''public'')"

definition SCHEMAS_SQL :: string where
  "SCHEMAS_SQL = ''SELECT schema_name FROM information_schema.schemata WHERE schema_name NOT IN '' @
        ''('pg_catalog','information_schema') AND schema_name NOT LIKE 'pg_%' ORDER BY 1''"

definition handle_list_schemas :: "host \<Rightarrow> json \<Rightarrow> json act" where
  "handle_list_schemas H args =
     andthen (catalog H SCHEMAS_SQL [] (get_str ''database'' args))
       (\<lambda>r. case r of
          Inr v \<Rightarrow> finish ''list_schemas'' ''allowed'' (answer_ok H (filter_visible_schemas (h_env H) v))
        | Inl e \<Rightarrow> finish ''list_schemas'' ''error'' (err_content (- 32000) e))"

definition SCHEMA_SQL :: string where
  "SCHEMA_SQL = ''SELECT nspname FROM pg_namespace WHERE nspname = $1''"

definition schema_missing :: "host \<Rightarrow> string \<Rightarrow> string option \<Rightarrow> json option act" where
  "schema_missing H schema db =
     andthen (catalog H SCHEMA_SQL [P_Text schema] db)
       (\<lambda>r. ret (case r of
          Inr v \<Rightarrow> if Option.bind (jget ''rows'' v) as_array = Some [] then
              Some (err_content (- 32602)
                (''schema '' @ quote schema @ '' does not exist '' @ dash @ '' list_schemas shows the ones that do''))
            else None
        | Inl _ \<Rightarrow> None))"

text \<open>What follows only when the schema is not known to be missing.\<close>

definition with_schema :: "host \<Rightarrow> string \<Rightarrow> string \<Rightarrow> string option \<Rightarrow> json act \<Rightarrow> json act" where
  "with_schema H tool schema db m =
     andthen (schema_missing H schema db)
       (\<lambda>e. case e of Some e \<Rightarrow> finish tool ''error'' e | None \<Rightarrow> m)"

definition TABLES_SQL :: string where
  "TABLES_SQL = ''SELECT c.relname AS table_name,        CASE c.relkind WHEN 'r' THEN 'BASE TABLE' WHEN 'p' THEN 'PARTITIONED TABLE'                       WHEN 'v' THEN 'VIEW' WHEN 'm' THEN 'MATERIALIZED VIEW'                       WHEN 'f' THEN 'FOREIGN TABLE' ELSE c.relkind::text END AS table_type,        obj_description(c.oid) AS description FROM pg_class c JOIN pg_namespace n ON n.oid = c.relnamespace WHERE n.nspname = $1 AND c.relkind IN ('r','p','v','m','f')   AND has_table_privilege(c.oid, 'SELECT') AND (NOT c.relispartition OR $2) ORDER BY c.relname''"

definition handle_list_tables :: "host \<Rightarrow> json \<Rightarrow> json act" where
  "handle_list_tables H args =
     (let schema = or_public args; db = get_str ''database'' args in
      with_schema H ''list_tables'' schema db
        (andthen (catalog H TABLES_SQL [P_Text schema, P_Bool (show_partitions (h_env H))] db)
          (\<lambda>r. case r of
             Inr v \<Rightarrow> finish ''list_tables'' ''allowed''
                 (answer_ok H (filter_visible_rows (h_env H) v schema ''table_name''))
           | Inl e \<Rightarrow> finish ''list_tables'' ''error'' (err_content (- 32000) e))))"

definition DESCRIBE_SQL :: string where
  "DESCRIBE_SQL = ''SELECT a.attname AS column_name,        format_type(a.atttypid, a.atttypmod) AS '' @
        ''data_type,        CASE WHEN a.attnotnull THEN 'NO' ELSE 'YES' END AS is_nullable,     '' @
        ''   pg_get_expr(ad.adbin, ad.adrelid) AS column_default,        '' @
        ''col_description(rel.oid, a.attnum) AS description,        COALESCE(i.indisprimary, '' @
        ''false) AS is_primary_key,        (SELECT cl2.relname || '.' || a2.attname         '' @
        ''FROM pg_constraint con         JOIN pg_class cl2 ON cl2.oid = con.confrelid         '' @
        ''JOIN pg_attribute a2 ON a2.attrelid = con.confrelid              AND a2.attnum = '' @
        ''con.confkey[array_position(con.conkey, a.attnum)]         WHERE con.contype = 'f' AND '' @
        ''con.conrelid = rel.oid AND a.attnum = ANY (con.conkey)         LIMIT 1) AS '' @
        ''references_column,        obj_description(rel.oid) AS table_description FROM pg_class '' @
        ''rel JOIN pg_namespace ns ON ns.oid = rel.relnamespace JOIN pg_attribute a ON '' @
        ''a.attrelid = rel.oid AND a.attnum > 0 AND NOT a.attisdropped LEFT JOIN pg_attrdef ad '' @
        ''ON ad.adrelid = rel.oid AND ad.adnum = a.attnum LEFT JOIN pg_index i ON i.indrelid = '' @
        ''rel.oid AND i.indisprimary AND a.attnum = ANY (i.indkey) WHERE ns.nspname = $1 AND '' @
        ''rel.relname = $2 AND rel.relkind IN ('r','p','v','m','f')   AND '' @
        ''has_table_privilege(rel.oid, 'SELECT') ORDER BY a.attnum''"

definition handle_describe_table :: "host \<Rightarrow> json \<Rightarrow> json act" where
  "handle_describe_table H args =
     (let schema = or_public args; db = get_str ''database'' args; env = h_env H in
      case get_str ''table'' args of
        None \<Rightarrow> ret (err_content (- 32602) (''missing 'table'' @ [CHR 0x27]))
      | Some table \<Rightarrow>
          if \<not> relation_visible env schema table then
            ret (err_content (- 32602) (hidden_message env schema table))
          else with_schema H ''describe_table'' schema db
            (andthen (catalog H DESCRIBE_SQL [P_Text schema, P_Text table] db)
              (\<lambda>r. case r of
                 Inr v \<Rightarrow>
                   (let v' = mark_redacted_columns env v in
                    if Option.bind (jget ''returnedRows'' v') as_u64 = Some 0 then
                      finish ''describe_table'' ''error'' (err_content (- 32000)
                        (''table '' @ schema @ ''.'' @ table @ '' not found or not visible to this role''))
                    else finish ''describe_table'' ''allowed'' (answer_ok H v'))
               | Inl e \<Rightarrow> finish ''describe_table'' ''error'' (err_content (- 32000) e))))"

section \<open>Resources\<close>

definition RESOURCES_UNAVAILABLE_META :: string where
  "RESOURCES_UNAVAILABLE_META = ''io.github.eszetael/databaseUnavailable''"

definition RESOURCES_SQL :: string where
  "RESOURCES_SQL = ''SELECT n.nspname AS table_schema, c.relname AS table_name,        CASE c.relkind WHEN 'r' THEN 'table' WHEN 'p' THEN 'partitioned table'                       WHEN 'v' THEN 'view' WHEN 'm' THEN 'materialized view'                       WHEN 'f' THEN 'foreign table' ELSE c.relkind::text END AS table_type,        obj_description(c.oid) AS description FROM pg_class c JOIN pg_namespace n ON n.oid = c.relnamespace WHERE n.nspname NOT IN ('pg_catalog', 'information_schema')   AND n.nspname NOT LIKE 'pg_toast%' AND n.nspname NOT LIKE 'pg_temp%'   AND c.relkind IN ('r','p','v','m','f') AND has_table_privilege(c.oid, 'SELECT')   AND (NOT c.relispartition OR $1) ORDER BY n.nspname, c.relname LIMIT 1000''"

definition resource_item :: "string \<Rightarrow> json \<Rightarrow> json" where
  "resource_item db r =
     (let s = (case get_str ''table_schema'' r of Some x \<Rightarrow> x | None \<Rightarrow> ''public'');
          t = (case get_str ''table_name'' r of Some x \<Rightarrow> x | None \<Rightarrow> []);
          kind = (case get_str ''table_type'' r of Some x \<Rightarrow> x | None \<Rightarrow> ''BASE TABLE'');
          desc = (case get_str ''description'' r of
                    Some d \<Rightarrow> d
                  | None \<Rightarrow> to_lowercase kind @ '' '' @ s @ ''.'' @ t) in
      jobj [(''uri'', JStr (resource_uri db s t)), (''name'', JStr (s @ ''.'' @ t)),
            (''description'', JStr desc), (''mimeType'', JStr ''application/json'')])"

definition resources_result :: "(string \<times> json) list \<Rightarrow> json" where
  "resources_result kvs = jobj [(''result'', jobj kvs)]"

definition resources_of :: "host \<Rightarrow> string option \<Rightarrow> json act" where
  "resources_of H given =
     (let db = (case given of Some d \<Rightarrow> d
                | None \<Rightarrow> (case database_names (h_libs H) (h_env H) of n # _ \<Rightarrow> n | [] \<Rightarrow> [])) in
      andthen (catalog H RESOURCES_SQL [P_Bool (show_partitions (h_env H))] (Some db))
        (\<lambda>r. case r of
           Inr v \<Rightarrow>
             (let rows = (case Option.bind (jget ''rows'' v) as_array of Some xs \<Rightarrow> xs | None \<Rightarrow> []) in
              finish ''resources/list'' ''allowed''
                (resources_result [(''resources'', JArr (map (resource_item db) rows))]))
         | Inl e \<Rightarrow>
             if starts_with e UNREACHABLE_PREFIX then
               finish ''resources/list'' ''degraded''
                 (resources_result [(''resources'', JArr []),
                    (''_meta'', jobj [(RESOURCES_UNAVAILABLE_META, JStr e)])])
             else finish ''resources/list'' ''error'' (err_content (- 32000) e)))"

text \<open>With several databases: what each answered, and why some could not.\<close>

fun all_resources ::
  "host \<Rightarrow> string list \<Rightarrow> json list \<Rightarrow> (string \<times> json) list \<Rightarrow> (json list \<times> (string \<times> json) list) act" where
  "all_resources H [] items unavailable = ret (items, unavailable)"
| "all_resources H (n # ns) items unavailable =
     andthen (resources_of H (Some n))
       (\<lambda>answer.
          let result = jget ''result'' answer;
              more = (case Option.bind (Option.bind result (jget ''resources'')) as_array of
                        Some xs \<Rightarrow> xs | None \<Rightarrow> []);
              why = Option.bind (Option.bind result (jget ''_meta'')) (jget RESOURCES_UNAVAILABLE_META) in
          all_resources H ns (items @ more)
            (case why of Some w \<Rightarrow> bt_insert n w unavailable | None \<Rightarrow> unavailable))"

definition handle_resources_list :: "host \<Rightarrow> json act" where
  "handle_resources_list H =
     (let names = database_names (h_libs H) (h_env H) in
      if 1 < length names then
        andthen (all_resources H names [] [])
          (\<lambda>(items, unavailable).
             finish ''resources/list'' ''allowed''
               (resources_result ((''resources'', JArr items) #
                  (if unavailable = [] then []
                   else [(''_meta'', jobj [(RESOURCES_UNAVAILABLE_META, JObj unavailable)])]))))
      else resources_of H None)"

definition handle_resources_read :: "host \<Rightarrow> json \<Rightarrow> json act" where
  "handle_resources_read H params =
     (let uri = (case get_str ''uri'' params of Some u \<Rightarrow> u | None \<Rightarrow> []) in
      case resource_parts uri of
        Inl msg \<Rightarrow> ret (err_content (- 32602) msg)
      | Inr (db, schema, table) \<Rightarrow>
          (let a = jobj ([(''schema'', JStr schema), (''table'', JStr table)]
                         @ (case db of Some d \<Rightarrow> [(''database'', JStr d)] | None \<Rightarrow> [])) in
           andthen (audit_as ''resources/read'' ''allowed'' None) (\<lambda>_.
             andthen (handle_describe_table H a) (\<lambda>desc.
               ret (case Option.bind (Option.bind (Option.bind (Option.bind (jget ''result'' desc)
                           (jget ''content'')) (jat 0)) (jget ''text'')) as_str of
                      Some body \<Rightarrow> resources_result [(''contents'', JArr [jobj [(''uri'', JStr uri),
                          (''mimeType'', JStr ''application/json''), (''text'', JStr body)]])]
                    | None \<Rightarrow> desc)))))"

section \<open>Operational insight\<close>

text \<open>Named questions asked one after another; a failing one is reported as unavailable.\<close>

fun ask_all ::
  "host \<Rightarrow> string option \<Rightarrow> param list \<Rightarrow> (string \<times> string) list \<Rightarrow> (string \<times> json) list \<Rightarrow> (string \<times> json) list act" where
  "ask_all H db ps [] out = ret out"
| "ask_all H db ps ((name, sql) # cs) out =
     andthen (catalog H sql ps db)
       (\<lambda>r. ask_all H db ps cs (bt_insert name
          (case r of Inr v \<Rightarrow> jidx v ''rows'' | Inl e \<Rightarrow> jobj [(''unavailable'', JStr e)]) out))"

definition CHECKS :: "(string \<times> string) list" where
  "CHECKS =
     [(''cache_hit_ratio'',
       ''SELECT round(100.0 * (t.hit + x.hit) / NULLIF(t.hit + t.read + x.hit + x.read, 0), 2) '' @
        ''AS pct_from_cache, t.hit + t.read + x.hit + x.read AS blocks_sampled, round(100.0 * '' @
        ''t.hit / NULLIF(t.hit + t.read, 0), 2) AS pct_tables, round(100.0 * x.hit / '' @
        ''NULLIF(x.hit + x.read, 0), 2) AS pct_indexes, CASE WHEN COALESCE(t.hit + t.read + '' @
        ''x.hit + x.read, 0) = 0 THEN 'no I/O recorded yet '' @ dash @
        '' statistics reset with the server' END AS note FROM (SELECT '' @
        ''COALESCE(sum(heap_blks_hit), 0) AS hit, COALESCE(sum(heap_blks_read), 0) AS read FROM '' @
        ''pg_statio_user_tables WHERE has_table_privilege(relid, 'SELECT')) t, (SELECT '' @
        ''COALESCE(sum(idx_blks_hit), 0) AS hit, COALESCE(sum(idx_blks_read), 0) AS read FROM '' @
        ''pg_statio_user_indexes WHERE has_table_privilege(relid, 'SELECT')) x''),
      (''connections'',
       ''SELECT count(*) FILTER (WHERE datname = current_database()) AS in_use, count(*) AS '' @
        ''in_use_cluster_wide, (SELECT setting::int FROM pg_settings WHERE name = 'max_connections') AS max_connections, count(*) FILTER (WHERE datname = current_database() AND state = 'idle in transaction') AS idle_in_transaction, count(*) FILTER (WHERE state IS NULL AND pid <> pg_backend_pid() AND (backend_type IS NULL OR backend_type = 'client backend')) AS backends_not_visible FROM pg_stat_activity''),
      (''longest_running'',
       ''SELECT round(EXTRACT(epoch FROM max(now() - query_start) FILTER (WHERE state = 'active'))::numeric, 1) AS longest_active_query_seconds, round(EXTRACT(epoch FROM max(now() - xact_start))::numeric, 1) AS longest_transaction_seconds, round(EXTRACT(epoch FROM max(now() - state_change) FILTER (WHERE state = 'idle in transaction'))::numeric, 1) AS longest_idle_in_transaction_seconds, CASE WHEN count(*) FILTER (WHERE state IS NULL AND pid <> pg_backend_pid() AND (backend_type IS NULL OR backend_type = 'client backend')) > 0 THEN 'this role cannot see other backends (grant pg_read_all_stats or pg_monitor); the count includes PostgreSQL background processes, and the figures above describe only what this role can see '' @
        dash @ '' a zero here does NOT mean the database is idle' END AS note FROM pg_stat_activity '' @
        ''WHERE datname = current_database()''),
      (''vacuum_backlog'',
       ''SELECT relname AS table_name, n_dead_tup AS dead_rows, n_live_tup AS live_rows, '' @
        ''last_autovacuum, count(*) OVER () AS matching_total FROM pg_stat_user_tables WHERE '' @
        ''n_dead_tup > 1000 AND has_table_privilege(relid, 'SELECT') ORDER BY n_dead_tup DESC '' @ ''LIMIT 10''),
      (''invalid_indexes'',
       ''SELECT c.relname AS index_name, t.relname AS table_name FROM pg_index i JOIN pg_class '' @
        ''c ON c.oid = i.indexrelid JOIN pg_class t ON t.oid = i.indrelid WHERE NOT '' @
        ''i.indisvalid AND has_table_privilege(i.indrelid, 'SELECT')''),
      (''sequences_near_limit'',
       ''SELECT schemaname || '.' || sequencename AS sequence, last_value, max_value, '' @
        ''round(100.0 * last_value / NULLIF(max_value, 0), 2) AS pct_used, count(*) OVER () AS '' @
        ''matching_total FROM pg_sequences WHERE last_value IS NOT NULL AND 100.0 * last_value '' @
        ''/ NULLIF(max_value, 0) > 50 ORDER BY 4 DESC LIMIT 10''),
      (''sequences_unreadable'',
       ''SELECT count(*) AS count, 'this role cannot read these sequences (needs USAGE or '' @
        ''SELECT); their headroom was NOT checked' AS note FROM pg_sequences WHERE last_value '' @
        ''IS NULL AND NOT has_sequence_privilege(quote_ident(schemaname) || '.' || '' @
        ''quote_ident(sequencename), 'SELECT,USAGE') HAVING count(*) > 0''),
      (''tables_never_analyzed'',
       ''SELECT relname AS table_name, n_live_tup AS estimated_rows, '' @
        ''pg_size_pretty(pg_relation_size(relid)) AS size, count(*) OVER () AS matching_total '' @
        ''FROM pg_stat_user_tables WHERE has_table_privilege(relid, 'SELECT') AND last_analyze '' @
        ''IS NULL AND last_autoanalyze IS NULL ORDER BY pg_relation_size(relid) DESC LIMIT 10''),
      (''statistics_window'',
       ''SELECT stats_reset AS counters_since, CASE WHEN stats_reset IS NULL THEN 'counters '' @
        ''have never been reset '' @ dash @
        '' they cover the whole life of this database' END AS note FROM pg_stat_database WHERE '' @
        ''datname = current_database()''),
      (''replication'',
       ''SELECT pg_is_in_recovery() AS is_standby, CASE WHEN pg_is_in_recovery() THEN '' @
        ''round(EXTRACT(epoch FROM now() - pg_last_xact_replay_timestamp())::numeric, 1) END AS '' @
        ''replay_lag_seconds'')]"

definition handle_database_health :: "host \<Rightarrow> json \<Rightarrow> json act" where
  "handle_database_health H args =
     andthen (ask_all H (get_str ''database'' args) [] CHECKS [])
       (\<lambda>out. finish ''database_health'' ''allowed'' (answer_ok H (JObj out)))"

definition top_queries_sql :: "nat \<Rightarrow> string" where
  "top_queries_sql limit = ''SELECT calls, round(total_exec_time::numeric, 1) AS total_ms,                 '' @
        ''round(mean_exec_time::numeric, 2) AS mean_ms, rows,                 left(query, 300) '' @
        ''AS query, count(*) OVER () AS matching_total          FROM pg_stat_statements ORDER '' @
        ''BY total_exec_time DESC LIMIT '' @ nat_str limit"

definition handle_top_queries :: "host \<Rightarrow> json \<Rightarrow> json act" where
  "handle_top_queries H args =
     (let limit = min (case Option.bind (jget ''limit'' args) as_u64 of Some n \<Rightarrow> n | None \<Rightarrow> 10) 50 in
      andthen (catalog H (top_queries_sql limit) [] (get_str ''database'' args))
        (\<lambda>r. case r of
           Inr v \<Rightarrow> finish ''top_queries'' ''allowed'' (answer_ok H v)
         | Inl e \<Rightarrow> finish ''top_queries'' ''error'' (err_content (- 32000)
             (if contains e ''55000'' \<or> contains e ''must be loaded'' then
                ''pg_stat_statements is installed but not loaded '' @ dash @
        '' add it to shared_preload_libraries and RESTART PostgreSQL (CREATE EXTENSION alone is '' @ ''not enough)''
              else if contains e ''does not exist'' \<or> contains e ''42P01'' then
                ''pg_stat_statements is not enabled on this server '' @ dash @
        '' add it to shared_preload_libraries and run CREATE EXTENSION pg_stat_statements''
              else e))))"

definition UNUSED_SQL :: string where
  "UNUSED_SQL = ''SELECT s.relname AS table_name, s.indexrelname AS index_name, s.idx_scan AS scans, '' @
        ''pg_size_pretty(pg_relation_size(s.indexrelid)) AS size, EXISTS (SELECT 1 FROM '' @
        ''pg_constraint con WHERE con.contype = 'f' AND con.conrelid = s.relid AND '' @
        ''con.conkey[1] = i.indkey[0]) AS supports_foreign_key, count(*) OVER () AS '' @
        ''matching_total FROM pg_stat_user_indexes s JOIN pg_index i ON i.indexrelid = '' @
        ''s.indexrelid WHERE s.schemaname = $1 AND s.idx_scan = 0 AND NOT i.indisprimary AND '' @
        ''NOT i.indisunique AND has_table_privilege(s.relid, 'SELECT') ORDER BY '' @
        ''pg_relation_size(s.indexrelid) DESC LIMIT 20''"

definition DUPLICATES_SQL :: string where
  "DUPLICATES_SQL = ''SELECT t.relname AS table_name, array_to_string(array_agg(c.relname || CASE WHEN '' @
        ''i.indisunique THEN ' [unique '' @ dash @ '' keep this one]' ELSE '' @ [CHR 0x27] @ [CHR 0x27] @
        '' END ORDER BY i.indisunique DESC, c.relname), ', ') AS duplicate_indexes, count(*) '' @
        ''FILTER (WHERE i.indisunique) AS unique_in_group, '' @
        ''pg_size_pretty(sum(pg_relation_size(c.oid))) AS combined_size, count(*) OVER () AS '' @
        ''matching_total FROM pg_index i JOIN pg_class c ON c.oid = i.indexrelid JOIN pg_class '' @
        ''t ON t.oid = i.indrelid JOIN pg_namespace n ON n.oid = t.relnamespace WHERE n.nspname '' @
        ''= $1 AND has_table_privilege(i.indrelid, 'SELECT') GROUP BY t.relname, i.indrelid, '' @
        ''i.indkey::text, i.indclass::text, i.indoption::text, i.indcollation::text, '' @
        ''COALESCE(pg_get_expr(i.indexprs, i.indrelid), '' @ [CHR 0x27] @ [CHR 0x27] @
        ''), COALESCE(pg_get_expr(i.indpred, i.indrelid), '' @ [CHR 0x27] @ [CHR 0x27] @
        '') HAVING count(*) > 1 ORDER BY sum(pg_relation_size(c.oid)) DESC LIMIT 20''"

definition SEQ_SCANS_SQL :: string where
  "SEQ_SCANS_SQL = ''SELECT relname AS table_name, seq_scan, idx_scan, n_live_tup AS rows, '' @
        ''pg_size_pretty(pg_relation_size(relid)) AS size, count(*) OVER () AS matching_total '' @
        ''FROM pg_stat_user_tables WHERE schemaname = $1 AND seq_scan > COALESCE(idx_scan, 0) '' @
        ''AND n_live_tup > 10000 AND has_table_privilege(relid, 'SELECT') ORDER BY seq_scan '' @ ''DESC LIMIT 10''"

definition INDEX_CHECKS :: "(string \<times> string) list" where
  "INDEX_CHECKS = [(''unused_indexes'', UNUSED_SQL), (''duplicate_indexes'', DUPLICATES_SQL),
     (''tables_scanned_sequentially'', SEQ_SCANS_SQL)]"

definition index_note :: string where
  "index_note = ''Counters come from pg_stat_*, which reset with the server and start empty; read them '' @
        ''after a representative period of traffic, not straight after a restart. '' @
        ''unused_indexes deliberately omits primary-key and unique indexes: they earn their '' @
        ''keep by enforcing a constraint, so a scan count of zero does not make them removable.''"

definition handle_analyze_indexes :: "host \<Rightarrow> json \<Rightarrow> json act" where
  "handle_analyze_indexes H args =
     (let schema = or_public args; db = get_str ''database'' args in
      with_schema H ''analyze_indexes'' schema db
        (andthen (ask_all H db [P_Text schema] INDEX_CHECKS [])
          (\<lambda>out. finish ''analyze_indexes'' ''allowed''
             (answer_ok H (JObj (bt_insert ''note'' (JStr index_note) out))))))"

end
