(* ===== verification/Handlers.thy ===== *)
theory Handlers
  imports Catalog_Tools Posture Enforce_Limit
begin

text \<open>
  The methods of \<open>src/handlers.rs\<close> that run a caller's statement, with the index simulation of
  \<open>src/db.rs\<close>, the tool list, the dispatch of a tool call and of a request. A panic of the source is the
  left value of a result; floats are exact.
\<close>

section \<open>Refusals of the guard\<close>

definition f64_MAX :: f64 where
  "f64_MAX = Fin (2 ^ 1024 - 2 ^ 971)"

definition max_cost :: "env \<Rightarrow> f64" where
  "max_cost env = (case parse_env_f64 env ''MCP_MAX_COST'' of Some v \<Rightarrow> v | None \<Rightarrow> Fin 1000000)"

definition report_as :: "string \<Rightarrow> string \<Rightarrow> string option \<Rightarrow> string \<Rightarrow> json \<Rightarrow> json act" where
  "report_as tool decision metric sql answer =
     andthen (audit_as tool decision (Some sql)) (\<lambda>_.
       andthen (case metric of Some m \<Rightarrow> count_as m | None \<Rightarrow> ret ()) (\<lambda>_. ret answer))"

fun guard_refusal :: "string \<Rightarrow> string \<Rightarrow> cost_err \<Rightarrow> json act" where
  "guard_refusal tool sql (TooExpensive e) =
     report_as tool ''denied_cost'' (Some ''denied_cost'') sql (err_content (- 32001) e)"
| "guard_refusal tool sql (OutsideSurface e) =
     report_as tool ''denied_surface'' (Some ''denied_validation'') sql (err_content (- 32602) e)"
| "guard_refusal tool sql (QueryError e) =
     report_as tool ''error'' (Some ''errors'') sql (err_content (- 32000) e)"

text \<open>Where the guard is asked about the surface only.\<close>

fun surface_refusal :: "string \<Rightarrow> string \<Rightarrow> cost_err \<Rightarrow> json act" where
  "surface_refusal tool sql (OutsideSurface e) =
     report_as tool ''denied_surface'' (Some ''denied_validation'') sql (err_content (- 32602) e)"
| "surface_refusal tool sql (QueryError e) = report_as tool ''error'' None sql (err_content (- 32000) e)"
| "surface_refusal tool sql (TooExpensive e) = report_as tool ''error'' None sql (err_content (- 32000) e)"

definition lifted :: "json act \<Rightarrow> (panic + json) act" where
  "lifted m = andthen m (\<lambda>v. ret (Inr v))"

text \<open>Go on when the guard lets the statement pass.\<close>

definition guarded ::
  "guard_result act \<Rightarrow> (cost_err \<Rightarrow> json act) \<Rightarrow> (panic + json) act \<Rightarrow> (panic + json) act" where
  "guarded g refuse m =
     attempted g (\<lambda>r. case r of Inl e \<Rightarrow> lifted (refuse e) | Inr _ \<Rightarrow> m)"

section \<open>Running a statement\<close>

definition mark_truncation :: "json \<Rightarrow> nat \<Rightarrow> json" where
  "mark_truncation data limit =
     (let rows = (case Option.bind (jget ''rows'' data) as_array of Some xs \<Rightarrow> xs | None \<Rightarrow> []);
          truncated = limit < length rows;
          cut = (if truncated then
                   jinsert ''returnedRows'' (JNum (nat_str limit)) (jinsert ''rows'' (JArr (take limit rows)) data)
                 else data) in
      jinsert ''appliedLimit'' (JNum (nat_str limit)) (jinsert ''truncated'' (JBool truncated) cut))"

definition u64_arg :: "string \<Rightarrow> json \<Rightarrow> nat option" where
  "u64_arg k args = Option.bind (jget k args) as_u64"

definition note_limits :: "string \<Rightarrow> nat option \<Rightarrow> nat \<Rightarrow> nat \<Rightarrow> json \<Rightarrow> json" where
  "note_limits sql requested limit offset data =
     (let d1 = mark_truncation data limit;
          d2 = (case requested of
                  Some r \<Rightarrow>
                    if MAX_LIMIT < r then
                      jinsert ''limitNote'' (JStr (''requested limit exceeds the server maximum of '' @
        nat_str MAX_LIMIT @ ''; '' @ nat_str limit @ '' was applied''))
                        (jinsert ''requestedLimit'' (JNum (nat_str r)) d1)
                    else d1
                | None \<Rightarrow> d1) in
      if 0 < offset then
        (let d3 = jinsert ''offset'' (JNum (nat_str offset)) d2 in
         if \<not> contains (to_uppercase sql) ''ORDER BY'' then
           jinsert ''pagingNote'' (JStr (''this query has no ORDER BY, so page boundaries are not stable '' @
        dash @ '' rows may repeat or be skipped between pages'')) d3
         else d3)
      else d2)"

definition run_query :: "host \<Rightarrow> string \<Rightarrow> string \<Rightarrow> nat option \<Rightarrow> nat \<Rightarrow> nat \<Rightarrow> string option \<Rightarrow> json act" where
  "run_query H sql final_sql requested limit offset db =
     andthen (execute_readonly (h_world H) (h_libs H) (h_env H) final_sql db)
       (\<lambda>r. case r of
          Inr data \<Rightarrow> report_as ''query'' ''allowed'' (Some ''query_allowed'') sql
            (wrap_untrusted (h_world H) (h_env H) (note_limits sql requested limit offset data) ''query'')
        | Inl e \<Rightarrow> report_as ''query'' ''error'' (Some ''errors'') sql (err_content (- 32000) e))"

text \<open>The two guards of a query: what an EXPLAIN explains, and what a row query costs and reaches.\<close>

definition guard_explained ::
  "host \<Rightarrow> string \<Rightarrow> string \<Rightarrow> string option \<Rightarrow> (panic + json) act \<Rightarrow> (panic + json) act" where
  "guard_explained H sql final_sql db m =
     (if surface_active (h_env H) \<and> \<not> is_row_query final_sql then
        (case explained_statement final_sql of
           Inl p \<Rightarrow> ret (Inl p)
         | Inr None \<Rightarrow> m
         | Inr (Some inner) \<Rightarrow> guarded (cost_guard H inner f64_MAX db) (surface_refusal ''query'' sql) m)
      else m)"

definition guard_rows ::
  "host \<Rightarrow> string \<Rightarrow> string \<Rightarrow> string option \<Rightarrow> (panic + json) act \<Rightarrow> (panic + json) act" where
  "guard_rows H sql final_sql db m =
     (if is_row_query final_sql then
        guarded (cost_guard H final_sql (max_cost (h_env H)) db) (guard_refusal ''query'' sql) m
      else m)"

definition handle_query_tool :: "host \<Rightarrow> json \<Rightarrow> (panic + json) act" where
  "handle_query_tool H args =
     (let db = get_str ''database'' args; P = h_parser H; env = h_env H in
      case get_str ''sql'' args of
        None \<Rightarrow> ret (Inr (err_content (- 32602) (''Missing 'sql' argument'')))
      | Some sql \<Rightarrow>
          (case validate_readonly P env sql of
             Inl e \<Rightarrow> lifted (report_as ''query'' ''denied_validation'' (Some ''denied_validation'') sql
                 (err_content (- 32602) (verror_display e)))
           | Inr _ \<Rightarrow>
               (let requested = u64_arg ''limit'' args;
                    limit = min (case requested of Some n \<Rightarrow> n | None \<Rightarrow> 1000) MAX_LIMIT;
                    offset = (case u64_arg ''offset'' args of Some n \<Rightarrow> n | None \<Rightarrow> 0) in
                case enforce_limit_offset P env sql (saturating_add limit 1) offset of
                  Inl e \<Rightarrow> ret (Inr (err_content (- 32602) (verror_display e)))
                | Inr final_sql \<Rightarrow>
                    guard_explained H sql final_sql db
                      (guard_rows H sql final_sql db
                        (lifted (run_query H sql final_sql requested limit offset db))))))"

section \<open>Explaining a statement\<close>

definition f64_round :: "f64 \<Rightarrow> f64" where
  "f64_round x = (case x of
     Fin q \<Rightarrow> Fin (if q < 0 then - of_int (floor (- q + 1 / 2)) else of_int (floor (q + 1 / 2)))
   | y \<Rightarrow> y)"

definition rounded_to :: "rat \<Rightarrow> f64 \<Rightarrow> f64" where
  "rounded_to k x = f64_div (f64_round (f64_mul x (Fin k))) k"

definition json_f64 :: "host \<Rightarrow> f64 \<Rightarrow> json" where
  "json_f64 H x = (case x of Fin q \<Rightarrow> JNum (h_number H q) | _ \<Rightarrow> JNull)"

definition f64_field :: "string \<Rightarrow> json \<Rightarrow> f64 option" where
  "f64_field k v = Option.bind (jget k v) as_f64"

definition node_label :: "json \<Rightarrow> string" where
  "node_label node =
     (let kind = (case get_str ''Node Type'' node of Some k \<Rightarrow> k | None \<Rightarrow> ''?'') in
      case get_str ''Relation Name'' node of Some r \<Rightarrow> kind @ '' on '' @ r | None \<Rightarrow> kind)"

definition plan_children :: "json \<Rightarrow> json list" where
  "plan_children node = (case Option.bind (jget ''Plans'' node) as_array of Some xs \<Rightarrow> xs | None \<Rightarrow> [])"

definition self_time :: "json \<Rightarrow> f64 option" where
  "self_time node =
     map_option (\<lambda>all. f64_max (f64_sub all
         (foldl f64_add (Fin 0) (List.map_filter (f64_field ''Actual Total Time'') (plan_children node)))) (Fin 0))
       (f64_field ''Actual Total Time'' node)"

definition row_estimate :: "json \<Rightarrow> (f64 \<times> f64) option" where
  "row_estimate node =
     Option.bind (f64_field ''Plan Rows'' node)
       (\<lambda>est. map_option (\<lambda>act. (est, act)) (f64_field ''Actual Rows'' node))"

fun f64_ratio :: "f64 \<Rightarrow> f64 \<Rightarrow> f64" where
  "f64_ratio x (Fin k) = f64_div x k"
| "f64_ratio x y = NaN"

definition off_by :: "f64 \<Rightarrow> f64 \<Rightarrow> f64" where
  "off_by est act =
     f64_max (f64_ratio (f64_max est (Fin 1)) (f64_max act (Fin 1)))
             (f64_ratio (f64_max act (Fin 1)) (f64_max est (Fin 1)))"

definition size_sum :: "json list \<Rightarrow> nat" where
  "size_sum vs = sum_list (map (\<lambda>v. Suc (size v)) vs)"

lemma size_sum_simps [simp]:
  "size_sum [] = 0" "size_sum (v # vs) = Suc (size v) + size_sum vs" "size_sum (xs @ ys) = size_sum xs + size_sum ys"
  "size_sum (rev xs) = size_sum xs"
  by (simp_all add: size_sum_def rev_map [symmetric])

lemma size_sum_list: "size_sum xs < size (JArr xs)"
  by (induction xs) simp_all

lemma size_jget: "jget k v = Some x \<Longrightarrow> size x < size v"
proof (cases v)
  case (JObj kvs)
  assume "jget k v = Some x"
  then have "(k, x) \<in> set kvs" using JObj by (auto dest: map_of_SomeD)
  then have "size x < size (JObj kvs)"
    by (induction kvs) (auto simp: less_Suc_eq)
  then show ?thesis using JObj by simp
qed auto

lemma size_plan_children: "size_sum (plan_children node) \<le> size node"
proof (cases "Option.bind (jget ''Plans'' node) as_array")
  case (Some xs)
  then obtain v where v: "jget ''Plans'' node = Some v" "as_array v = Some xs" by (auto split: Option.bind_splits)
  then have "v = JArr xs" by (cases v) simp_all
  with size_jget [OF v(1)] size_sum_list [of xs] show ?thesis by (simp add: plan_children_def Some)
qed (simp add: plan_children_def)

text \<open>The nodes of a plan in the order the loop takes them from its stack.\<close>

function plan_nodes :: "json list \<Rightarrow> json list" where
  "plan_nodes [] = []"
| "plan_nodes (node # stack) = node # plan_nodes (rev (plan_children node) @ stack)"
  by pat_completeness auto
termination
  by (relation "measure size_sum") (simp_all add: size_plan_children le_imp_less_Suc)

definition slowest_node :: "json list \<Rightarrow> (string \<times> f64) option" where
  "slowest_node nodes = foldl (\<lambda>best node. case self_time node of
       None \<Rightarrow> best
     | Some ms \<Rightarrow> (case best of
           None \<Rightarrow> Some (node_label node, ms)
         | Some (_, s) \<Rightarrow> if f64_lt s ms then Some (node_label node, ms) else best)) None nodes"

definition worst_estimate :: "json list \<Rightarrow> (string \<times> f64 \<times> f64) option" where
  "worst_estimate nodes = foldl (\<lambda>worst node. case row_estimate node of
       None \<Rightarrow> worst
     | Some (est, act) \<Rightarrow> (case worst of
           None \<Rightarrow> Some (node_label node, est, act)
         | Some (_, e, a) \<Rightarrow> if f64_lt (off_by e a) (off_by est act) then Some (node_label node, est, act)
                           else worst)) None nodes"

definition estimate_note :: string where
  "estimate_note = ''the planner's row estimate is off by an order of magnitude here '' @ dash @
        '' usually stale or missing statistics; run ANALYZE on the tables involved and read the '' @ ''plan again''"

definition plan_summary :: "host \<Rightarrow> json \<Rightarrow> json \<Rightarrow> (string \<times> json) list" where
  "plan_summary H plan pnode =
     (let nodes = plan_nodes [pnode];
          s1 = foldl (\<lambda>m (field, key). case f64_field key plan of
                 Some t \<Rightarrow> bt_insert field (json_f64 H (rounded_to 100 t)) m | None \<Rightarrow> m) []
               [(''execution_ms'', ''Execution Time''), (''planning_ms'', ''Planning Time'')];
          s2 = (case slowest_node nodes of
                  Some (label, ms) \<Rightarrow> bt_insert ''most_time_in'' (jobj [(''node'', JStr label),
                      (''self_ms'', json_f64 H (rounded_to 100 ms))]) s1
                | None \<Rightarrow> s1) in
      case worst_estimate nodes of
        None \<Rightarrow> s2
      | Some (label, est, act) \<Rightarrow>
          (let off = off_by est act;
               s3 = bt_insert ''worst_row_estimate'' (jobj [(''node'', JStr label),
                  (''estimated'', json_f64 H est), (''actual'', json_f64 H act),
                  (''off_by'', json_f64 H (rounded_to 10 off))]) s2 in
           if f64_le (Fin 10) off then bt_insert ''note'' (JStr estimate_note) s3 else s3))"

text \<open>The plan is the first element of the first column of the first row.\<close>

definition plan_of_result :: "json \<Rightarrow> json option" where
  "plan_of_result v =
     Option.bind (Option.bind (jget ''rows'' v) as_array) (\<lambda>rows.
       case rows of [] \<Rightarrow> None | r # _ \<Rightarrow>
         Option.bind (as_object r) (\<lambda>kvs. case kvs of [] \<Rightarrow> None | (_, p) # _ \<Rightarrow>
           Option.bind (as_array p) (\<lambda>a. case a of [] \<Rightarrow> None | x # _ \<Rightarrow> Some x)))"

definition attach_plan_summary :: "host \<Rightarrow> json \<Rightarrow> json" where
  "attach_plan_summary H v =
     (case plan_of_result v of
        None \<Rightarrow> v
      | Some plan \<Rightarrow>
          (case jget ''Plan'' plan of
             None \<Rightarrow> v
           | Some pnode \<Rightarrow>
               (let s = plan_summary H plan pnode in if s \<noteq> [] then jinsert ''summary'' (JObj s) v else v)))"

definition explain_options :: "bool \<Rightarrow> string" where
  "explain_options analyze = (if analyze then ''FORMAT JSON, ANALYZE true, BUFFERS true'' else ''FORMAT JSON'')"

definition explain_stmt :: "bool \<Rightarrow> string \<Rightarrow> string" where
  "explain_stmt analyze inner = ''EXPLAIN ('' @ explain_options analyze @ '') '' @ inner"

definition capped_note :: json where
  "capped_note = jobj [(''appliedLimit'', JNum (nat_str MAX_LIMIT)), (''note'', JStr
     (''these timings are for your statement with LIMIT '' @ nat_str MAX_LIMIT @
        '' applied, not for the statement as written '' @ dash @
        '' running it whole could take far longer. Ask again with analyze:false for the plan of '' @
        ''the statement exactly as you sent it''))]"

definition run_explain :: "host \<Rightarrow> string \<Rightarrow> bool \<Rightarrow> string \<Rightarrow> string option \<Rightarrow> json act" where
  "run_explain H sql analyze inner db =
     andthen (catalog H (explain_stmt analyze inner) [] db)
       (\<lambda>r. case r of
          Inr v \<Rightarrow>
            (let v1 = attach_plan_summary H v;
                 v2 = (if analyze \<and> inner \<noteq> sql then jinsert ''analyzedStatementCapped'' capped_note v1 else v1) in
             report_as ''explain_query'' ''allowed'' None sql (answer_ok H v2))
        | Inl e \<Rightarrow> report_as ''explain_query'' ''error'' None sql (err_content (- 32000) e))"

definition handle_explain_query :: "host \<Rightarrow> json \<Rightarrow> (panic + json) act" where
  "handle_explain_query H args =
     (let db = get_str ''database'' args; P = h_parser H; env = h_env H;
          denied = (\<lambda>sql e. lifted (report_as ''explain_query'' ''denied_validation'' None sql
                      (err_content (- 32602) (verror_display e)))) in
      case get_str ''sql'' args of
        None \<Rightarrow> ret (Inr (err_content (- 32602) (''missing 'sql'' @ [CHR 0x27])))
      | Some sql \<Rightarrow>
          (case validate_readonly P env sql of
             Inl e \<Rightarrow> denied sql e
           | Inr _ \<Rightarrow>
               (let analyze = json_flag args ''analyze'' in
                case enforce_limit P env sql MAX_LIMIT of
                  Inl e \<Rightarrow> denied sql e
                | Inr capped \<Rightarrow>
                    (let run = lifted (run_explain H sql analyze (if analyze then capped else sql) db) in
                     if is_row_query capped then
                       guarded (cost_guard H capped (if analyze then max_cost env else f64_MAX) db)
                         (guard_refusal ''explain_query'' sql) run
                     else run))))"

end
