(* ===== verification/Index_Sim.thy ===== *)
theory Index_Sim
  imports Handlers
begin

text \<open>
  \<open>simulate_index\<close>: the database part (\<open>src/db.rs\<close>) and the tool (\<open>src/handlers.rs\<close>). One connection, one
  read-only transaction, and a definition assembled from names the catalog has quoted. A panic is the left
  value under a result that is no error.
\<close>

section \<open>Columns\<close>

type_synonym 'a sim = "string + (panic + 'a)"

definition bool_column :: "row \<Rightarrow> panic + bool" where
  "bool_column r = (case r of (_, Cell_Bool (Some b)) # _ \<Rightarrow> Inr b | _ \<Rightarrow> Inl ColumnPanic)"

definition text_column :: "nat \<Rightarrow> row \<Rightarrow> panic + string" where
  "text_column i r =
     (if i < length r then (case snd (r ! i) of Cell_Text (Some s) \<Rightarrow> Inr s | _ \<Rightarrow> Inl ColumnPanic)
      else Inl ColumnPanic)"

definition column :: "panic + 'a \<Rightarrow> ('a \<Rightarrow> 'b sim act) \<Rightarrow> 'b sim act" where
  "column c f = (case c of Inl p \<Rightarrow> ret (Inr (Inl p)) | Inr x \<Rightarrow> f x)"

text \<open>A question with one row, or at most one, whose failure is its text.\<close>

definition ask_one :: "world \<Rightarrow> nat \<Rightarrow> string \<Rightarrow> param list \<Rightarrow> (string + row) act" where
  "ask_one w c sql ps = andthen (send w c (sql, ps))
     (\<lambda>r. ret (case query_one r of Inl e \<Rightarrow> Inl (pg_error_text e) | Inr x \<Rightarrow> Inr x))"

definition ask_opt :: "world \<Rightarrow> nat \<Rightarrow> string \<Rightarrow> param list \<Rightarrow> (string + row option) act" where
  "ask_opt w c sql ps = andthen (send w c (sql, ps))
     (\<lambda>r. ret (case query_opt r of Inl e \<Rightarrow> Inl (pg_error_text e) | Inr x \<Rightarrow> Inr x))"

section \<open>The names\<close>

definition METHODS :: "string list" where
  "METHODS = [''btree'', ''hash'', ''gin'', ''gist'', ''spgist'', ''brin'']"

definition HYPOPG_SQL :: string where
  "HYPOPG_SQL = ''SELECT EXISTS (SELECT 1 FROM pg_extension WHERE extname = 'hypopg')''"

definition AVAILABLE_SQL :: string where
  "AVAILABLE_SQL = ''SELECT EXISTS (SELECT 1 FROM pg_available_extensions WHERE name = 'hypopg')''"

definition TABLE_SQL :: string where
  "TABLE_SQL = ''SELECT quote_ident(n.nspname), quote_ident(c.relname) FROM pg_class c JOIN '' @
        ''pg_namespace n ON n.oid = c.relnamespace WHERE n.nspname = $1 AND c.relname = $2 AND '' @
        ''c.relkind IN ('r','m','p')''"

definition COLUMN_SQL :: string where
  "COLUMN_SQL = ''SELECT quote_ident(a.attname) FROM pg_attribute a JOIN pg_class c ON c.oid = '' @
        ''a.attrelid JOIN pg_namespace n ON n.oid = c.relnamespace WHERE n.nspname = $1 AND '' @
        ''c.relname = $2 AND a.attname = $3 AND a.attnum > 0 AND NOT a.attisdropped''"

definition hypopg_missing :: "bool \<Rightarrow> string" where
  "hypopg_missing available =
     (if available then
        ''the hypopg extension is installed on this server but not enabled in this database '' @ dash @
        '' run CREATE EXTENSION hypopg (needs a role that may create extensions; this server '' @
        ''cannot and should not do it for you)''
      else
        ''index simulation needs the hypopg extension, which is not installed on this server '' @
        ''(Debian/Ubuntu: postgresql-<version>-hypopg, then CREATE EXTENSION hypopg). Nothing '' @
        ''else in this server requires it.'')"

definition require_hypopg :: "world \<Rightarrow> nat \<Rightarrow> 'a sim act \<Rightarrow> 'a sim act" where
  "require_hypopg w c m =
     attempted (ask_one w c HYPOPG_SQL []) (\<lambda>row. column (bool_column row) (\<lambda>has.
       if has then m
       else andthen (send w c (AVAILABLE_SQL, []))
         (\<lambda>r. case query_one r of
            Inl _ \<Rightarrow> ret (Inl (hypopg_missing False))
          | Inr row \<Rightarrow> column (bool_column row) (\<lambda>available. ret (Inl (hypopg_missing available))))))"

definition quoted_table :: "world \<Rightarrow> nat \<Rightarrow> string \<Rightarrow> string \<Rightarrow> (string \<Rightarrow> string \<Rightarrow> 'a sim act) \<Rightarrow> 'a sim act" where
  "quoted_table w c schema table f =
     attempted (ask_opt w c TABLE_SQL [P_Text schema, P_Text table]) (\<lambda>r. case r of
       None \<Rightarrow> ret (Inl (''no table '' @ schema @ ''.'' @ table @ '' that this role can see''))
     | Some row \<Rightarrow> column (text_column 0 row) (\<lambda>s. column (text_column 1 row) (\<lambda>t. f s t)))"

fun quoted_columns ::
  "world \<Rightarrow> nat \<Rightarrow> string \<Rightarrow> string \<Rightarrow> string list \<Rightarrow> string list \<Rightarrow> (string list \<Rightarrow> 'a sim act) \<Rightarrow> 'a sim act" where
  "quoted_columns w c schema table [] done f = f done"
| "quoted_columns w c schema table (col # cols) done f =
     attempted (ask_opt w c COLUMN_SQL [P_Text schema, P_Text table, P_Text col]) (\<lambda>r. case r of
       None \<Rightarrow> ret (Inl (schema @ ''.'' @ table @ '' has no column '' @ quote col))
     | Some row \<Rightarrow> column (text_column 0 row) (\<lambda>q. quoted_columns w c schema table cols (done @
        [q]) f))"

definition index_ddl :: "string \<Rightarrow> string \<Rightarrow> string \<Rightarrow> string list \<Rightarrow> string" where
  "index_ddl qschema qtable meth cols = ''CREATE INDEX ON '' @ qschema @ ''.'' @ qtable @ '' USING '' @ meth @
        '' ('' @ join '', '' cols @ '')''"

section \<open>The two plans\<close>

definition PARALLEL_SQL :: string where
  "PARALLEL_SQL = ''SET LOCAL max_parallel_workers_per_gather = 0''"

definition CREATE_SQL :: string where
  "CREATE_SQL = ''SELECT indexname::text FROM hypopg_create_index($1)''"

definition RESET_SQL :: string where
  "RESET_SQL = ''SELECT hypopg_reset()''"

definition plan_stmt :: "string \<Rightarrow> string" where
  "plan_stmt sql = ''EXPLAIN (FORMAT JSON) '' @ sql"

definition one_plan :: "host \<Rightarrow> nat \<Rightarrow> string \<Rightarrow> (string + json) act" where
  "one_plan H c sql =
     andthen (send (h_world H) c (plan_stmt sql, []))
       (\<lambda>r. ret (case query_one r of
          Inl e \<Rightarrow> Inl (friendly_pg_error_for e (Some sql))
        | Inr row \<Rightarrow>
            (case json_column row of
               Inl _ \<Rightarrow> Inl (''could not read the plan: '' @ h_column_error H)
             | Inr v \<Rightarrow>
                 (let size = length (w_print (h_world H) v) in
                  if MAX_RESULT_BYTES < size then Inl
                    (''the query plan is '' @ nat_str (size div 1048576) @ '' MB, over the '' @
        nat_str (MAX_RESULT_BYTES div 1048576) @ '' MB limit '' @ dash @
        '' simplify the query before asking what an index would do to it'')
                  else Inr v))))"

fun uses_hypothetical_index :: "json \<Rightarrow> bool"
  and uses_in_entries :: "(string \<times> json) list \<Rightarrow> bool"
  and uses_in_items :: "json list \<Rightarrow> bool" where
  "uses_hypothetical_index (JObj kvs) =
     ((case map_of kvs ''Index Name'' of Some (JStr name) \<Rightarrow> starts_with name ''<'' | _ \<Rightarrow> False)
      \<or> uses_in_entries kvs)"
| "uses_hypothetical_index (JArr xs) = uses_in_items xs"
| "uses_hypothetical_index v = False"
| "uses_in_entries [] = False"
| "uses_in_entries ((k, v) # r) = (uses_hypothetical_index v \<or> uses_in_entries r)"
| "uses_in_items [] = False"
| "uses_in_items (x # xs) = (uses_hypothetical_index x \<or> uses_in_items xs)"

definition opt_f64 :: "host \<Rightarrow> f64 option \<Rightarrow> json" where
  "opt_f64 H x = (case x of Some v \<Rightarrow> json_f64 H v | None \<Rightarrow> JNull)"

definition improvement :: "f64 option \<Rightarrow> f64 option \<Rightarrow> f64 option" where
  "improvement c0 c1 =
     (case (c0, c1) of
        (Some a, Some b) \<Rightarrow> if f64_lt (Fin 0) b then Some (rounded_to 100 (f64_ratio a b)) else None
      | _ \<Rightarrow> None)"

definition simulation_result :: "host \<Rightarrow> string \<Rightarrow> json \<Rightarrow> json \<Rightarrow> json" where
  "simulation_result H ddl before after =
     (let c0 = total_cost before; c1 = total_cost after in
      jobj [(''index_considered'', JStr ddl), (''cost_without_index'', opt_f64 H c0),
            (''cost_with_hypothetical_index'', opt_f64 H c1),
            (''improvement_factor'', opt_f64 H (improvement c0 c1)),
            (''planner_switched_to_it'', JBool (uses_hypothetical_index after)),
            (''plan_without_index'', before), (''plan_with_hypothetical_index'', after),
            (''note'', JStr (''The index was never created. These are planner ESTIMATES, not measured times: a lower '' @
        ''estimated cost is a reason to test the index, not proof that it helps.''))])"

definition compare_plans :: "host \<Rightarrow> nat \<Rightarrow> string \<Rightarrow> string \<Rightarrow> (string + json) act" where
  "compare_plans H c sql ddl =
     attempted (one_plan H c sql) (\<lambda>before.
       attempted (andthen (ask_one (h_world H) c CREATE_SQL [P_Text ddl])
           (\<lambda>r. ret (case r of Inl e \<Rightarrow> Inl (''hypopg refused the index definition: '' @
        e) | Inr x \<Rightarrow> Inr x))) (\<lambda>_.
         attempted (one_plan H c sql) (\<lambda>after.
           ret (Inr (simulation_result H ddl before after)))))"

definition in_transaction :: "host \<Rightarrow> nat \<Rightarrow> string \<Rightarrow> string \<Rightarrow> json sim act" where
  "in_transaction H c sql ddl =
     (let w = h_world H in
      attempted (step w c begin_read_only) (\<lambda>_.
        andthen (batch w c PARALLEL_SQL) (\<lambda>_.
          andthen (compare_plans H c sql ddl) (\<lambda>r.
            andthen (batch w c ''ROLLBACK'') (\<lambda>_.
              andthen (batch w c RESET_SQL) (\<lambda>_.
                ret (case r of Inl e \<Rightarrow> Inl e | Inr v \<Rightarrow> Inr (Inr v))))))))"

definition simulate_on :: "host \<Rightarrow> string \<Rightarrow> string \<Rightarrow> string \<Rightarrow> string list \<Rightarrow> string \<Rightarrow> nat \<Rightarrow> json sim act" where
  "simulate_on H sql schema table cols meth c =
     (let w = h_world H in
      attempted (step w c ''DISCARD ALL'') (\<lambda>_.
        attempted (step w c (session_settings (h_env H))) (\<lambda>_.
          require_hypopg w c
            (quoted_table w c schema table (\<lambda>qs qt.
              quoted_columns w c schema table cols [] (\<lambda>qcols.
                in_transaction H c sql (index_ddl qs qt meth qcols)))))))"

definition simulate_index ::
  "host \<Rightarrow> string \<Rightarrow> string \<Rightarrow> string \<Rightarrow> string list \<Rightarrow> string \<Rightarrow> string option \<Rightarrow> json sim act" where
  "simulate_index H sql schema table cols meth db =
     (if \<not> List.member METHODS meth then
        ret (Inl (''unsupported index method '' @ quote meth @ ''; use one of: '' @ join '', '' METHODS))
      else if cols = [] then ret (Inl ''at least one column is required'')
      else if 32 < length cols then
        ret (Inl ''an index over more than 32 columns is not something to simulate'')
      else with_conn (h_world H) (h_libs H) (h_env H) db (simulate_on H sql schema table cols meth))"

section \<open>The tool\<close>

definition run_simulation ::
  "host \<Rightarrow> string \<Rightarrow> string \<Rightarrow> string \<Rightarrow> string list \<Rightarrow> string \<Rightarrow> string option \<Rightarrow> (panic + json) act" where
  "run_simulation H sql schema table cols meth db =
     andthen (simulate_index H sql schema table cols meth db)
       (\<lambda>r. case r of
          Inl e \<Rightarrow> lifted (report_as ''simulate_index'' ''error'' None sql (err_content (- 32000) e))
        | Inr (Inl p) \<Rightarrow> ret (Inl p)
        | Inr (Inr v) \<Rightarrow> lifted (report_as ''simulate_index'' ''allowed'' None sql (answer_ok H v)))"

definition guard_simulation ::
  "host \<Rightarrow> string \<Rightarrow> string \<Rightarrow> string \<Rightarrow> string option \<Rightarrow> (panic + json) act \<Rightarrow> (panic + json) act" where
  "guard_simulation H sql schema table db m =
     (let env = h_env H in
      if surface_active env then
        guarded (cost_guard H sql f64_MAX db) (surface_refusal ''simulate_index'' sql)
          (let no = refused env [(schema, table)] (\<lambda>_ _. None) in
           if no \<noteq> [] then lifted (report_as ''simulate_index'' ''denied_surface'' (Some ''denied_validation'') sql
             (err_content (- 32602) (refusal_message env no)))
           else m)
      else m)"

definition handle_simulate_index :: "host \<Rightarrow> json \<Rightarrow> (panic + json) act" where
  "handle_simulate_index H args =
     (let db = get_str ''database'' args; env = h_env H in
      case get_str ''sql'' args of
        None \<Rightarrow> ret (Inr (err_content (- 32602) (''missing 'sql': the query the index is meant to help'')))
      | Some sql \<Rightarrow>
          (case validate_readonly (h_parser H) env sql of
             Inl e \<Rightarrow> lifted (report_as ''simulate_index'' ''denied_validation'' None sql
                 (err_content (- 32602) (verror_display e)))
           | Inr _ \<Rightarrow>
               (case get_str ''table'' args of
                  None \<Rightarrow> ret (Inr (err_content (- 32602) (''missing 'table'' @ [CHR 0x27])))
                | Some given \<Rightarrow>
                    (let (schema, table) = (case split_once_char CHR ''.'' given of
                           Some st \<Rightarrow> st | None \<Rightarrow> (or_public args, given)) in
                     case Option.bind (jget ''columns'' args) as_array of
                       None \<Rightarrow> ret (Inr (err_content (- 32602) (''missing 'columns' (an array of column names)'')))
                     | Some xs \<Rightarrow>
                         (let meth = to_lowercase (case get_str ''using'' args of Some m \<Rightarrow> m | None \<Rightarrow> ''btree'') in
                          guard_simulation H sql schema table db
                            (run_simulation H sql schema table (List.map_filter as_str xs) meth db))))))"

end
