(* ===== verification/Requests.thy ===== *)
theory Requests
  imports Index_Sim
begin

text \<open>
  The tool list, the dispatch of a tool call, and a whole request (\<open>src/handlers.rs\<close>).
\<close>

section \<open>The tools\<close>

definition tool_def :: "string \<Rightarrow> string \<Rightarrow> string \<Rightarrow> json \<Rightarrow> json" where
  "tool_def name title desc schema =
     jobj [(''name'', JStr name), (''title'', JStr title), (''description'', JStr desc),
           (''inputSchema'', jinsert ''$schema'' (JStr ''https://json-schema.org/draft/2020-12/schema'') schema),
           (''annotations'', jobj [(''title'', JStr title), (''readOnlyHint'', JBool True),
              (''destructiveHint'', JBool False), (''idempotentHint'', JBool True), (''openWorldHint'', JBool False)])]"

definition tool_query :: json where
  "tool_query = tool_def ''query'' ''Run SQL (read-only)''
     (''Run a read-only SQL query and return rows. Writes, DDL and administrative functions '' @
        ''are refused before the statement reaches the database. At most 1000 rows come back '' @
        ''unless you pass `limit` (server maximum 10000); `truncated: true` in the response '' @
        ''means there is more data '' @ dash @
        '' page through it with `offset`, and give the query an ORDER BY when you do, or the '' @
        ''rows you get on page two depend on the planner's mood. This is for reading DATA. Do '' @
        ''not hand-write catalog queries against pg_class or information_schema: '' @
        ''`list_schemas`, `list_tables` and `describe_table` already return that, with comments '' @
        ''and foreign keys, and they cannot be tripped up by search_path. For the plan of a '' @
        ''statement use `explain_query` rather than writing EXPLAIN yourself.'')
     (jobj [(''type'', JStr ''object''),
        (''properties'', jobj [(''sql'', jobj [(''type'', JStr ''string''),
        (''description'', JStr (''a single read-only statement: SELECT, WITH, VALUES, EXPLAIN or SHOW. One statement only '' @
        dash @ '' a semicolon-separated batch is refused before it reaches the database. Write `SELECT '' @
        ''* FROM t`, not `TABLE t`. Writes, DDL and administrative functions are rejected at '' @
        ''the parsed SQL, so there is no point trying them.''))]),
        (''database'', jobj [(''type'', JStr ''string''),
        (''description'', JStr ''which configured database to use; omit when only one is configured'')]),
        (''limit'', jobj [(''type'', JStr ''integer''),
        (''minimum'', JNum ''1''),
        (''maximum'', JNum ''10000''),
        (''default'', JNum ''1000''),
        (''description'', JStr ''maximum rows to return; larger values are capped at 10000 and the response says so'')]),
        (''offset'', jobj [(''type'', JStr ''integer''),
        (''minimum'', JNum ''0''),
        (''maximum'', JNum ''1000000000''),
        (''default'', JNum ''0''),
        (''description'', JStr ''rows to skip, for paging; pair it with ORDER BY for stable pages'')])]),
        (''required'', JArr [JStr ''sql''])])"

definition tool_list_schemas :: json where
  "tool_list_schemas = tool_def ''list_schemas'' ''List schemas''
     (''List the schemas in the database, excluding PostgreSQL's own catalogs. Start here '' @
        ''when you do not know the layout yet. Returns one row per schema with its name and '' @
        ''comment; feed a name straight into `list_tables`. It does not list tables '' @ dash @
        '' that is `list_tables` '' @ dash @ '' and it does not read data.'')
     (jobj [(''type'', JStr ''object''),
        (''properties'', jobj [(''database'', jobj [(''type'', JStr ''string''),
        (''description'', JStr ''which configured database to use; omit when only one is configured'')])])])"

definition tool_list_tables :: json where
  "tool_list_tables = tool_def ''list_tables'' ''List tables in a schema''
     (''List tables, views and materialized views in one schema, with their comments. Only '' @
        ''objects the connected role may read are shown. Call `list_schemas` first if you do '' @
        ''not know the schema name. For the columns of one table use `describe_table`; this '' @
        ''returns names, not structure.'')
     (jobj [(''type'', JStr ''object''),
        (''properties'', jobj [(''schema'', jobj [(''type'', JStr ''string''),
        (''description'', JStr (''one schema name, spelled exactly as `list_schemas` returned it: case-sensitive, '' @
        ''unquoted, no wildcards. One schema per call.''))]),
        (''database'', jobj [(''type'', JStr ''string''),
        (''description'', JStr ''which configured database to use; omit when only one is configured'')])]),
        (''required'', JArr [JStr ''schema''])])"

definition tool_describe_table :: json where
  "tool_describe_table = tool_def ''describe_table'' ''Describe a table''
     (''Column names, types, nullability, defaults and primary key for one table, plus each '' @
        ''column's comment. `description` is null unless somebody ran COMMENT ON '' @ dash @
        '' that means undocumented, not unused, so do not infer a column is dead from it.'')
     (jobj [(''type'', JStr ''object''),
        (''properties'', jobj [(''schema'', jobj [(''type'', JStr ''string''),
        (''description'', JStr (''the schema holding the table, as `list_schemas` or `list_tables` returned it; '' @
        ''case-sensitive and unquoted''))]),
        (''table'', jobj [(''type'', JStr ''string''),
        (''description'', JStr (''one table, view or materialized view, as `list_tables` returned it. Unqualified: put '' @
        ''the schema in `schema`, not here '' @ dash @ '' `public.orders` will not be found.''))]),
        (''database'', jobj [(''type'', JStr ''string''),
        (''description'', JStr ''which configured database to use; omit when only one is configured'')])]),
        (''required'', JArr [JStr ''schema'', JStr ''table''])])"

definition tool_explain_query :: json where
  "tool_explain_query = tool_def ''explain_query'' ''Explain one query''
     (''Why THIS statement is slow: the PostgreSQL execution plan for a query you provide. '' @
        ''With analyze=true it actually runs the query and reports measured timings and buffer '' @
        ''usage (still read-only, still rolled back). Use it on a specific statement you '' @
        ''already have. To find out WHICH statement is worth looking at, use `top_queries` '' @
        ''first. If the plan shows a sequential scan you think an index would fix, '' @
        ''`simulate_index` tests that without creating one. This tool never suggests indexes '' @
        ''itself; it only explains what the planner decided.'')
     (jobj [(''type'', JStr ''object''),
        (''properties'', jobj [(''sql'', jobj [(''type'', JStr ''string''),
        (''description'', JStr (''the single read-only statement to plan, written out in full '' @ dash @
        '' the same text you would pass to `query`. Not a statement id and not a fragment.''))]),
        (''analyze'', jobj [(''type'', JStr ''boolean''),
        (''default'', JBool False),
        (''description'', JStr (''run the query and report real timings instead of estimates; still read-only and still '' @
        ''rolled back, but it does execute, so expect it to take as long as the query does''))]),
        (''database'', jobj [(''type'', JStr ''string''),
        (''description'', JStr ''which configured database to use; omit when only one is configured'')])]),
        (''required'', JArr [JStr ''sql''])])"

definition tool_database_health :: json where
  "tool_database_health = tool_def ''database_health'' ''Health snapshot''
     (''One snapshot of the things an operator would otherwise assemble by hand: cache hit '' @
        ''ratio, connections, long-running statements and abandoned transactions, vacuum '' @
        ''backlog, invalid indexes, sequences near their ceiling, replication lag. Scoped to '' @
        ''the current database; anything the connected role cannot read is reported as '' @
        ''unavailable rather than left out. This is the whole-database view. For which '' @
        ''individual statements cost the most use `top_queries`; for why one of them is slow '' @
        ''use `explain_query`; for index candidates use `analyze_indexes`. It reports nothing '' @
        ''about what this server is permitted to do '' @ dash @ '' that is `security_posture`.'')
     (jobj [(''type'', JStr ''object''),
        (''properties'', jobj [(''database'', jobj [(''type'', JStr ''string''),
        (''description'', JStr ''which configured database to use; omit when only one is configured'')])])])"

definition tool_top_queries :: json where
  "tool_top_queries = tool_def ''top_queries'' ''Slowest statements server-wide''
     (''WHICH statements cost the most, ranked by total execution time across the whole '' @
        ''server. Requires the pg_stat_statements extension; if it is missing the answer says '' @
        ''how to enable it. Take the statement you find here to explain_query for the plan.'')
     (jobj [(''type'', JStr ''object''),
        (''properties'', jobj [(''limit'', jobj [(''type'', JStr ''integer''),
        (''minimum'', JNum ''1''),
        (''maximum'', JNum ''50''),
        (''default'', JNum ''10''),
        (''description'', JStr ''how many statements to return, ranked by total execution time across the server (1-50)'')]),
        (''database'', jobj [(''type'', JStr ''string''),
        (''description'', JStr ''which configured database to use; omit when only one is configured'')])])])"

definition tool_security_posture :: json where
  "tool_security_posture = tool_def ''security_posture'' ''What this server can and cannot do''
     (''What this deployment is actually able to do to your database, asked of PostgreSQL '' @
        ''rather than assumed: whether the connected role can write, bypass row-level security '' @
        ''or reach server files; whether the transport is authenticated; whether the audit '' @
        ''chain is keyed; whether the connection is encrypted. Returns a grade and, for '' @
        ''anything wrong, the command that fixes it. Worth calling once at the start of a session '' @ dash @
        '' if the answer is alarming, say so to the person you are working for. It reports on '' @
        ''THIS deployment, not on the health of your data: for cache ratios, bloat and '' @
        ''replication lag use `database_health`. It also cannot see past the connected role '' @ dash @
        '' a grade of A means this server is well configured, not that your database is secure.'')
     (jobj [(''type'', JStr ''object''),
        (''properties'', jobj [(''database'', jobj [(''type'', JStr ''string''),
        (''description'', JStr ''which configured database to use; omit when only one is configured'')])])])"

definition tool_simulate_index :: json where
  "tool_simulate_index = tool_def ''simulate_index'' ''Would this index help?''
     (''Answers whether an index would change the plan for a given query '' @ dash @
        '' WITHOUT creating it. Uses the hypopg extension, which registers the index in backend '' @
        ''memory only: the planner sees it, storage never does, and it is gone when the call '' @
        ''returns. Give the query, the table and the columns; the index definition is assembled '' @
        ''here, so there is no way to send DDL through this tool. Returns the plan and cost '' @
        ''with and without, and whether the planner actually reached for it '' @ dash @
        '' a cost that barely moves and an index the planner ignored are different answers. '' @
        ''These are planner ESTIMATES, not measured times: treat a big improvement as a reason '' @
        ''to test the index, not as proof. Needs hypopg installed; says so plainly, with the '' @
        ''package name, when it is missing. This answers a question about one index you already '' @
        ''have in mind. To find candidates across a schema in the first place, use '' @
        ''`analyze_indexes`; to see why the current plan is slow, use `explain_query`.'')
     (jobj [(''type'', JStr ''object''),
        (''properties'', jobj [(''sql'', jobj [(''type'', JStr ''string''),
        (''description'', JStr ''the read-only query the index is supposed to help'')]),
        (''table'', jobj [(''type'', JStr ''string''),
        (''description'', JStr (''the table to index, `schema.table` or just `table` (defaults to the `schema` field, '' @
        ''then to public)''))]),
        (''columns'', jobj [(''type'', JStr ''array''),
        (''items'', jobj [(''type'', JStr ''string'')]),
        (''minItems'', JNum ''1''),
        (''maxItems'', JNum ''32''),
        (''description'', JStr ''column names, in index order'')]),
        (''using'', jobj [(''type'', JStr ''string''),
        (''enum'', JArr [JStr ''btree'', JStr ''hash'', JStr ''gin'', JStr ''gist'', JStr ''spgist'', JStr ''brin'']),
        (''default'', JStr ''btree''),
        (''description'', JStr ''access method'')]),
        (''schema'', jobj [(''type'', JStr ''string''),
        (''default'', JStr ''public''),
        (''description'', JStr ''used only when `table` is unqualified'')]),
        (''database'', jobj [(''type'', JStr ''string''),
        (''description'', JStr ''which configured database to use; omit when only one is configured'')])]),
        (''required'', JArr [JStr ''sql'', JStr ''table'', JStr ''columns''])])"

definition tool_analyze_indexes :: json where
  "tool_analyze_indexes = tool_def ''analyze_indexes'' ''Index findings''
     (''Indexes nobody uses, genuine duplicates, and tables scanned sequentially often enough '' @
        ''that an index would likely pay off. Counters come from pg_stat_*, which reset with '' @
        ''the server '' @ dash @
        '' read them after real traffic, not after a restart. Primary-key and unique indexes '' @
        ''are excluded from the unused list on purpose: they earn their keep by enforcing a '' @
        ''constraint. This searches a whole schema for candidates. If you already have one '' @
        ''index in mind and want to know whether it would help one specific query, use '' @
        ''`simulate_index` instead '' @ dash @ '' it answers that without creating anything.'')
     (jobj [(''type'', JStr ''object''),
        (''properties'', jobj [(''schema'', jobj [(''type'', JStr ''string''),
        (''default'', JStr ''public''),
        (''description'', JStr (''one schema to examine, as `list_schemas` returned it; defaults to public. One schema '' @
        ''per call, so repeat for others.''))]),
        (''database'', jobj [(''type'', JStr ''string''),
        (''description'', JStr ''which configured database to use; omit when only one is configured'')])])])"



definition tool_list :: "json list" where
  "tool_list = [tool_query, tool_list_schemas, tool_list_tables, tool_describe_table, tool_explain_query, tool_database_health, tool_top_queries, tool_security_posture, tool_simulate_index, tool_analyze_indexes]"

definition handle_tools_list :: json where
  "handle_tools_list = jobj [(''result'', jobj [(''tools'', JArr tool_list)])]"

definition handle_tools_call :: "host \<Rightarrow> json \<Rightarrow> (panic + json) act" where
  "handle_tools_call H params =
     (case get_str ''name'' params of
        None \<Rightarrow> ret (Inr (err_content (- 32602) ''Missing tool name''))
      | Some name \<Rightarrow>
          (let args = (case jget ''arguments'' params of Some a \<Rightarrow> a | None \<Rightarrow> jobj []) in
           if name = ''query'' then handle_query_tool H args
           else if name = ''list_schemas'' then lifted (handle_list_schemas H args)
           else if name = ''list_tables'' then lifted (handle_list_tables H args)
           else if name = ''describe_table'' then lifted (handle_describe_table H args)
           else if name = ''explain_query'' then handle_explain_query H args
           else if name = ''database_health'' then lifted (handle_database_health H args)
           else if name = ''top_queries'' then lifted (handle_top_queries H args)
           else if name = ''analyze_indexes'' then lifted (handle_analyze_indexes H args)
           else if name = ''simulate_index'' then handle_simulate_index H args
           else if name = ''security_posture'' then
             lifted (handle_security_posture (h_world H) (h_libs H) (h_env H) args)
           else ret (Inr (err_content (- 32601) (''Unknown tool: '' @ name)))))"

section \<open>Describing the server\<close>

definition PRIVATE_NS :: string where
  "PRIVATE_NS = ''io.github.eszetael.postgres-mcp-hardened''"

definition server_info :: "host \<Rightarrow> json" where
  "server_info H = jobj [(''name'', JStr (server_label (h_env H))), (''version'', JStr (h_version H)),
     (''description'', JStr (''Read-only PostgreSQL for AI agents, with the read-only part enforced before the '' @
        ''database sees the statement.''))]"

definition capabilities :: json where
  "capabilities = jobj [(''tools'', jobj []), (''resources'', jobj [])]"

definition discover_authenticated :: "host \<Rightarrow> bool" where
  "discover_authenticated H = (h_oauth H \<or> nonblank_env (h_env H) ''MCP_BEARER_TOKEN'')"

definition handle_server_discover :: "host \<Rightarrow> json act" where
  "handle_server_discover H =
     (let w = h_world H; D = h_libs H; env = h_env H in
      andthen
        (if discover_authenticated H then
           ret (jobj [(PRIVATE_NS @ ''/postureAvailable'', JStr ''call the security_posture tool with a token'')])
         else andthen (report w D env None) (\<lambda>v. ret (jobj [(PRIVATE_NS @ ''/securityPosture'', v)])))
        (\<lambda>meta. andthen (instructions w D env) (\<lambda>text.
           ret (jobj [(''result'', jobj [(''protocolVersions'', JArr (map JStr rev_supported)),
             (''serverInfo'', server_info H), (''capabilities'', capabilities),
             (''instructions'', JStr text), (''_meta'', meta)])]))))"

definition handle_initialize :: "host \<Rightarrow> json \<Rightarrow> rev_state \<Rightarrow> (rev_state \<times> json) act" where
  "handle_initialize H params s =
     (case negotiate_initialize params s of
        (s', r) \<Rightarrow> andthen (instructions (h_world H) (h_libs H) (h_env H)) (\<lambda>text.
          ret (s', jobj [(''result'', jobj [(''protocolVersion'', JStr (rev_as_str r)), (''instructions'', JStr text),
             (''serverInfo'', server_info H), (''capabilities'', capabilities)])])))"

section \<open>A request\<close>

definition bad_id :: "json \<Rightarrow> bool" where
  "bad_id req = (case jget ''id'' req of
     None \<Rightarrow> False
   | Some v \<Rightarrow> (case v of JStr _ \<Rightarrow> False | JNum _ \<Rightarrow> False | JNull \<Rightarrow> False | _ \<Rightarrow> True))"

definition answered :: "rev_state \<Rightarrow> json act \<Rightarrow> (rev_state \<times> (panic + json)) act" where
  "answered s m = andthen m (\<lambda>v. ret (s, Inr v))"

text \<open>The method under the revision in force.\<close>

definition dispatch :: "host \<Rightarrow> string \<Rightarrow> json \<Rightarrow> rev_state \<Rightarrow> (rev_state \<times> (panic + json)) act" where
  "dispatch H m params s =
     (if m = ''initialize'' then andthen (handle_initialize H params s) (\<lambda>(s', v). ret (s', Inr v))
      else if m = ''server/discover'' then answered s (handle_server_discover H)
      else if m = ''tools/list'' then ret (s, Inr handle_tools_list)
      else if m = ''tools/call'' then
        andthen (handle_tools_call H params) (\<lambda>r. ret (s, case r of
          Inl p \<Rightarrow> Inl p | Inr v \<Rightarrow> Inr (shape_tool_result v (current_rev s))))
      else if m = ''ping'' then ret (s, Inr (jobj [(''result'', jobj [])]))
      else if m = ''resources/list'' then answered s (handle_resources_list H)
      else if m = ''resources/read'' then answered s (handle_resources_read H params)
      else ret (s, Inr (err_content (- 32601) (''Method not found: '' @ m))))"

text \<open>The scope of the revision ends with the request, also when a handler panics.\<close>

definition run_method :: "host \<Rightarrow> string \<Rightarrow> json \<Rightarrow> rev_state \<Rightarrow> (rev_state \<times> (panic + json)) act" where
  "run_method H m params s =
     (case (case rev_from_meta params of
              Some r \<Rightarrow> (case set_request_rev (Some r) s of (s1, saved) \<Rightarrow> (s1, drop_rev_scope saved))
            | None \<Rightarrow> (s, \<lambda>s. s)) of
        (s1, leave) \<Rightarrow>
          andthen (dispatch H m params s1) (\<lambda>(s2, r). ret (leave s2, case r of
            Inl p \<Rightarrow> Inl p
          | Inr v \<Rightarrow> Inr (decorate_result v (current_rev s1) m (server_label (h_env H)) (h_version H)))))"

definition handle_request :: "host \<Rightarrow> json \<Rightarrow> rev_state \<Rightarrow> (rev_state \<times> (panic + json)) act" where
  "handle_request H req s =
     (if jget ''jsonrpc'' req \<noteq> Some (JStr ''2.0'') then
        ret (s, Inr (err_content (- 32600) ''Invalid Request: jsonrpc must be 2.0''))
      else if bad_id req then
        ret (s, Inr (err_content (- 32600) (''Invalid Request: id must be a string, a number or null (JSON-RPC 2.0 '' @
          [CHR 0xC2, CHR 0xA7] @ ''4)'')))
      else (case get_str ''method'' req of
              None \<Rightarrow> ret (s, Inr (err_content (- 32600) ''Invalid Request: missing method''))
            | Some m \<Rightarrow>
                (let params = (case jget ''params'' req of Some p \<Rightarrow> p | None \<Rightarrow> jobj []) in
                 case (if m \<noteq> ''initialize'' then unsupported_version_error params else None) of
                   Some err \<Rightarrow> ret (s, Inr err)
                 | None \<Rightarrow> run_method H m params s)))"

end
