(* ===== verification/Read_Only.thy ===== *)
theory Read_Only
  imports Requests Sessions
begin

text \<open>
  The promise of the whole server, for every method and every tool: whatever a client sends and whatever
  the database answers, a connection carries nothing but resets, the settings that make its session
  read-only and, after those, the server's own texts and statements the validator has accepted.
\<close>

section \<open>What may be sent\<close>

definition catalog_texts :: "string list" where
  "catalog_texts = [ROLE_SQL, MEMBERSHIPS_SQL, WRITABLE_SQL, TLS_SQL, SCHEMAS_SQL, SCHEMA_SQL, TABLES_SQL,
     DESCRIBE_SQL, RESOURCES_SQL, FUNCTIONS_SQL, PARENT_SQL] @ map snd CHECKS @ map snd INDEX_CHECKS"

definition server_text :: "string \<Rightarrow> bool" where
  "server_text x =
     (x \<in> {begin_read_only, ''ROLLBACK'', PARALLEL_SQL, RESET_SQL, HYPOPG_SQL, AVAILABLE_SQL, TABLE_SQL,
           COLUMN_SQL, CREATE_SQL}
      \<or> (\<exists>sql \<in> set catalog_texts. x = fst (catalog_command sql))
      \<or> (\<exists>n. x = fst (catalog_command (top_queries_sql n))))"

definition caller_text :: "sqlparser \<Rightarrow> env \<Rightarrow> string \<Rightarrow> bool" where
  "caller_text P env x =
     (\<exists>t. validate_readonly P env t = Inr ()
        \<and> (x \<in> {t, wrapped_query t, explain_text t, plan_stmt t, explain_stmt True t, explain_stmt False t}
           \<or> (\<exists>inner. explained_statement t = Inr (Some inner) \<and> x = explain_text inner)))"

definition read_only_settings :: "env \<Rightarrow> string \<Rightarrow> bool" where
  "read_only_settings env x = (x \<in> {session_settings env, catalog_settings env, guard_settings env})"

text \<open>The automaton: per connection, whether its session has been made read-only since the last reset.\<close>

definition ro_next :: "sqlparser \<Rightarrow> env \<Rightarrow> (nat \<Rightarrow> bool) \<Rightarrow> event \<Rightarrow> (nat \<Rightarrow> bool) option" where
  "ro_next P env s e =
     (case e of
        Sent c (x, ps) \<Rightarrow>
          if s c \<and> (server_text x \<or> caller_text P env x) then Some s
          else if x = ''DISCARD ALL'' then Some (s(c := False))
          else if read_only_settings env x then Some (s(c := True))
          else None
      | _ \<Rightarrow> Some s)"

lemma settings_no_reset: "read_only_settings env x \<Longrightarrow> x \<noteq> ''DISCARD ALL''"
  by (auto simp: read_only_settings_def session_settings_def catalog_settings_def guard_settings_def)

interpretation ro: session_monitor "ro_next P env" "\<lambda>c s. s c" "read_only_settings env"
    "\<lambda>x. server_text x \<or> caller_text P env x" for P env
proof
  fix e and s :: "nat \<Rightarrow> bool" show "\<not> is_command e \<Longrightarrow> ro_next P env s e \<noteq> None"
    by (auto simp: ro_next_def is_command_def split: event.splits)
next
  fix s :: "nat \<Rightarrow> bool" and c show "ro_next P env s (Sent c (''DISCARD ALL'', [])) \<noteq> None" by (simp add: ro_next_def)
next
  fix x c and s :: "nat \<Rightarrow> bool" assume "read_only_settings env x"
  then show "\<exists>s'. ro_next P env s (Sent c (x, [])) = Some s' \<and> s' c"
    using settings_no_reset [of env x] by (auto simp: ro_next_def)
next
  fix c x ps and s :: "nat \<Rightarrow> bool" assume "s c" "server_text x \<or> caller_text P env x"
  then show "\<exists>s'. ro_next P env s (Sent c (x, ps)) = Some s' \<and> s' c" by (simp add: ro_next_def)
qed (simp_all add: server_text_def)

abbreviation rsafe :: "host \<Rightarrow> 'a act \<Rightarrow> bool" where
  "rsafe H m \<equiv> safe (ro_next (h_parser H) (h_env H)) anything m"

lemmas quiet_rules = safe_ret ro.safe_audit ro.safe_count ro.safe_detail

section \<open>The catalog tools\<close>

lemma settings_read_only [simp]:
  "read_only_settings env (session_settings env)" "read_only_settings env (catalog_settings env)"
  "read_only_settings env (guard_settings env)"
  by (simp_all add: read_only_settings_def)

lemma catalog_server_text: "sql \<in> set catalog_texts \<Longrightarrow> server_text (fst (catalog_command sql))"
  by (auto simp: server_text_def)

lemma top_server_text: "server_text (fst (catalog_command (top_queries_sql n)))"
  by (auto simp: server_text_def)

lemma rsafe_catalog_text:
  "server_text (fst (catalog_command sql)) \<or> caller_text (h_parser H) (h_env H) (fst (catalog_command sql))
   \<Longrightarrow> rsafe H (catalog H sql ps db)"
  by (rule ro.safe_catalog) simp_all

lemma rsafe_catalog: "sql \<in> set catalog_texts \<Longrightarrow> rsafe H (catalog H sql ps db)"
  by (rule rsafe_catalog_text) (simp add: catalog_server_text)

lemma in_catalog_texts [simp]:
  "ROLE_SQL \<in> set catalog_texts" "MEMBERSHIPS_SQL \<in> set catalog_texts" "WRITABLE_SQL \<in> set catalog_texts"
  "TLS_SQL \<in> set catalog_texts" "SCHEMAS_SQL \<in> set catalog_texts" "SCHEMA_SQL \<in> set catalog_texts"
  "TABLES_SQL \<in> set catalog_texts" "DESCRIBE_SQL \<in> set catalog_texts" "RESOURCES_SQL \<in> set catalog_texts"
  "FUNCTIONS_SQL \<in> set catalog_texts" "PARENT_SQL \<in> set catalog_texts"
  unfolding catalog_texts_def by simp_all

lemma checks_in_catalog: "set (map snd CHECKS) \<subseteq> set catalog_texts" "set (map snd INDEX_CHECKS) \<subseteq> set catalog_texts"
  unfolding catalog_texts_def by auto

lemma rsafe_finish: "rsafe H (finish tool decision v)"
  unfolding finish_def by (intro safe_andthen quiet_rules)

lemma rsafe_ask_all: "set (map snd cs) \<subseteq> set catalog_texts \<Longrightarrow> rsafe H (ask_all H db ps cs out)"
  by (induction H db ps cs out rule: ask_all.induct) (auto intro!: safe_andthen safe_ret rsafe_catalog)

lemma rsafe_evaluate: "rsafe H (evaluate (h_world H) (h_libs H) (h_env H) db)"
  unfolding evaluate_def
  by (auto split: list.split intro!: safe_attempted safe_ret rsafe_catalog)

lemma rsafe_report: "rsafe H (report (h_world H) (h_libs H) (h_env H) db)"
  unfolding report_def tls_fact_def
  by (intro safe_andthen safe_ret rsafe_evaluate rsafe_catalog in_catalog_texts)

lemma rsafe_instructions: "rsafe H (instructions (h_world H) (h_libs H) (h_env H))"
  unfolding instructions_def by (intro safe_if safe_andthen safe_ret rsafe_report)

lemma rsafe_posture: "rsafe H (handle_security_posture (h_world H) (h_libs H) (h_env H) args)"
  unfolding handle_security_posture_def by (intro safe_andthen quiet_rules rsafe_report)

lemma rsafe_with_schema: "rsafe H m \<Longrightarrow> rsafe H (with_schema H tool schema db m)"
  unfolding with_schema_def schema_missing_def
  by (auto split: option.split intro!: safe_andthen safe_ret rsafe_catalog rsafe_finish)

lemma rsafe_list_schemas: "rsafe H (handle_list_schemas H args)"
  unfolding handle_list_schemas_def by (auto split: sum.split intro!: safe_andthen rsafe_catalog rsafe_finish)

lemma rsafe_list_tables: "rsafe H (handle_list_tables H args)"
  unfolding handle_list_tables_def Let_def
  by (auto split: sum.split intro!: rsafe_with_schema safe_andthen rsafe_catalog rsafe_finish)

lemma rsafe_describe_table: "rsafe H (handle_describe_table H args)"
  unfolding handle_describe_table_def Let_def
  by (auto split: sum.split option.split intro!: rsafe_with_schema safe_andthen safe_ret rsafe_catalog rsafe_finish)

lemma rsafe_resources_of: "rsafe H (resources_of H db)"
  unfolding resources_of_def Let_def
  by (auto split: sum.split intro!: safe_andthen rsafe_catalog rsafe_finish)

lemma rsafe_all_resources: "rsafe H (all_resources H ns items un)"
  by (induction H ns items un rule: all_resources.induct)
    (auto simp: Let_def intro!: safe_andthen safe_ret rsafe_resources_of)

lemma rsafe_resources_list: "rsafe H (handle_resources_list H)"
  unfolding handle_resources_list_def Let_def
  by (auto split: prod.split intro!: safe_andthen rsafe_finish rsafe_all_resources rsafe_resources_of)

lemma rsafe_resources_read: "rsafe H (handle_resources_read H params)"
  unfolding handle_resources_read_def Let_def
  by (auto split: sum.split intro!: safe_andthen quiet_rules rsafe_describe_table)

lemma rsafe_health: "rsafe H (handle_database_health H args)"
  unfolding handle_database_health_def by (intro safe_andthen rsafe_ask_all checks_in_catalog rsafe_finish)

lemma rsafe_top_queries: "rsafe H (handle_top_queries H args)"
  unfolding handle_top_queries_def Let_def
  by (auto split: sum.split simp: top_server_text intro!: safe_andthen rsafe_catalog_text rsafe_finish)

lemma rsafe_analyze_indexes: "rsafe H (handle_analyze_indexes H args)"
  unfolding handle_analyze_indexes_def Let_def
  by (intro rsafe_with_schema safe_andthen rsafe_ask_all checks_in_catalog rsafe_finish)

section \<open>The guard\<close>

lemma rsafe_parent: "rsafe H (parent_of H db s r)"
  unfolding parent_of_def by (intro safe_andthen safe_ret rsafe_catalog in_catalog_texts)

lemma rsafe_refused_asking: "rsafe H (refused_asking env (parent_of H db) found)"
  by (induction found) (auto intro!: safe_andthen safe_ret rsafe_parent)

lemma rsafe_guard_functions: "rsafe H (guard_functions H db called)"
  unfolding guard_functions_def Let_def
  by (intro safe_if safe_andthen safe_ret rsafe_catalog in_catalog_texts)

lemma rsafe_guard_relations: "rsafe H (guard_relations H db sql plan)"
  unfolding guard_relations_def Let_def
  by (intro safe_if safe_andthen safe_ret rsafe_refused_asking)

lemma rsafe_judge: "rsafe H (judge_plan H db sql m plan)"
  unfolding judge_plan_def
  by (auto split: option.split
      intro!: safe_ret safe_attempted rsafe_guard_functions rsafe_guard_relations)

lemma emits_guard_step:
  assumes "\<And>e. R [Sent c (x, [])] (Inr (Inl e))" "emits m (\<lambda>d r. R (Sent c (x, []) # d) r)"
  shows "emits (guard_step w c x m) R"
  unfolding guard_step_def
proof (rule emits_andthen [OF emits_step])
  fix d and r :: "string + unit" assume "d = [Sent c (x, [])]"
  then show "emits (case r of Inl e \<Rightarrow> ret (Inr (Inl (QueryError e))) | Inr _ \<Rightarrow> m) (\<lambda>d'. R (d @ d'))"
    using assms by (auto split: sum.split intro: emits_ret)
qed

lemma rsafe_guard_session:
  assumes "read_only_settings (h_env H) x" "passes (ro_next (h_parser H) (h_env H)) (\<lambda>s. s c) m"
  shows "rsafe H (guard_step w c ''DISCARD ALL'' (guard_step w c x m))"
  unfolding safe_def
proof (rule emits_guard_step)
  show "keeps (ro_next (h_parser H) (h_env H)) anything [Sent c (''DISCARD ALL'', [])]"
    by (auto simp: keeps_def ro_next_def)
next
  show "emits (guard_step w c x m)
     (\<lambda>d _. keeps (ro_next (h_parser H) (h_env H)) anything (Sent c (''DISCARD ALL'', []) # d))"
  proof (rule emits_guard_step)
    show "keeps (ro_next (h_parser H) (h_env H)) anything [Sent c (''DISCARD ALL'', []), Sent c (x, [])]"
      by (rule ro.keeps_settings [OF assms(1)]) (simp add: accepted_from_def)
  next
    show "emits m (\<lambda>d _. keeps (ro_next (h_parser H) (h_env H)) anything
        (Sent c (''DISCARD ALL'', []) # Sent c (x, []) # d))"
      using assms(2) unfolding passes_def
      by (elim emits_weaken) (rule ro.keeps_settings [OF assms(1)])
  qed
qed

definition explainable :: "host \<Rightarrow> string \<Rightarrow> bool" where
  "explainable H sql = caller_text (h_parser H) (h_env H) (explain_text sql)"

lemma passes_explain:
  assumes "explainable H sql"
  shows "passes (ro_next (h_parser H) (h_env H)) (\<lambda>s. s c) (guarded_explain H db sql m c)"
proof -
  have judge: "passes (ro_next (h_parser H) (h_env H)) (\<lambda>s. s c) (as_guard (judge_plan H db sql m plan))" for plan
    unfolding as_guard_def by (intro safe_passes safe_andthen safe_ret rsafe_judge)
  have ret: "passes (ro_next (h_parser H) (h_env H)) (\<lambda>s. s c) (ret x)" for x :: guard_result
    by (intro safe_passes safe_ret)
  have send: "safe (ro_next (h_parser H) (h_env H)) (\<lambda>s. s c) (send (h_world H) c (explain_text sql, []))"
    using assms by (intro ro.safe_allowed) (simp add: explainable_def)
  show ?thesis
    unfolding guarded_explain_def Let_def
    by (auto split: sum.split intro!: ret judge passes_andthen [OF send])
qed

lemma rsafe_cost_guard:
  assumes "explainable H sql"
  shows "rsafe H (cost_guard H sql m db)"
  unfolding cost_guard_def Let_def
  by (auto split: sum.split prod.split option.split
      intro!: safe_ret safe_andthen ro.safe_take ro.safe_detail rsafe_guard_session passes_explain [OF assms])

section \<open>Statements of the caller\<close>

abbreviation valid :: "host \<Rightarrow> string \<Rightarrow> bool" where
  "valid H t \<equiv> validate_readonly (h_parser H) (h_env H) t = Inr ()"

lemma valid_texts:
  assumes "valid H t"
  shows "explainable H t" "caller_text (h_parser H) (h_env H) (plan_stmt t)"
    "caller_text (h_parser H) (h_env H) (explain_stmt a t)"
    "caller_text (h_parser H) (h_env H) (statement_sent t)"
    "explained_statement t = Inr (Some inner) \<Longrightarrow> explainable H inner"
  using assms unfolding explainable_def caller_text_def statement_sent_def by (cases a; force)+

lemma capped_valid:
  assumes "enforce_limit_offset (h_parser H) (h_env H) sql n off = Inr out" "valid H sql"
  shows "valid H out"
proof -
  obtain st sts where "parse (h_parser H) sql = Inr (st # sts)"
    using assms(2) by (cases "parse (h_parser H) sql") (auto simp: validate_readonly_def neq_Nil_conv split: if_splits)
  from enforce_limit_offset_ok [OF assms(1) this] show ?thesis .
qed

lemma rsafe_report_as: "rsafe H (report_as tool decision metric sql answer)"
  unfolding report_as_def by (auto split: option.split intro!: safe_andthen quiet_rules)

lemma rsafe_refusals:
  "rsafe H (guard_refusal tool sql e)" "rsafe H (surface_refusal tool sql e)"
  by (cases e; simp add: rsafe_report_as)+

lemma rsafe_lifted: "rsafe H m \<Longrightarrow> rsafe H (lifted m)"
  unfolding lifted_def by (intro safe_andthen safe_ret)

lemma rsafe_guarded: "rsafe H g \<Longrightarrow> (\<And>e. rsafe H (refuse e)) \<Longrightarrow> rsafe H m \<Longrightarrow> rsafe H (guarded g refuse m)"
  unfolding guarded_def by (auto split: sum.split intro!: safe_attempted rsafe_lifted)

lemma rsafe_run_query:
  assumes "valid H final_sql"
  shows "rsafe H (run_query H sql final_sql r n off db)"
  unfolding run_query_def
  by (auto split: sum.split simp: valid_texts [OF assms] intro!: safe_andthen ro.safe_execute rsafe_report_as)

lemma rsafe_query_tool: "rsafe H (handle_query_tool H args)"
  unfolding handle_query_tool_def Let_def guard_explained_def guard_rows_def
  by (auto split: option.split sum.split dest!: capped_valid
      intro!: safe_ret rsafe_lifted rsafe_report_as rsafe_guarded rsafe_refusals rsafe_cost_guard rsafe_run_query
      intro: valid_texts)

lemma catalog_explain_stmt: "catalog_command (explain_stmt a t) = (explain_stmt a t, False)"
  using catalog_explain [of "tl (explain_stmt a t)"] by (simp add: explain_stmt_def)

lemma rsafe_run_explain:
  assumes "valid H inner"
  shows "rsafe H (run_explain H sql a inner db)"
  unfolding run_explain_def
  by (auto split: sum.split simp: Let_def catalog_explain_stmt valid_texts [OF assms]
      intro!: safe_andthen rsafe_catalog_text rsafe_report_as)

lemma rsafe_explain_query: "rsafe H (handle_explain_query H args)"
  unfolding handle_explain_query_def Let_def enforce_limit_def
  by (auto split: option.split sum.split dest!: capped_valid
      intro!: safe_ret rsafe_lifted rsafe_report_as rsafe_guarded rsafe_refusals rsafe_cost_guard rsafe_run_explain
      intro: valid_texts)

section \<open>The index simulation\<close>

abbreviation osafe :: "host \<Rightarrow> nat \<Rightarrow> 'a act \<Rightarrow> bool" where
  "osafe H c m \<equiv> safe (ro_next (h_parser H) (h_env H)) (\<lambda>s. s c) m"

lemma simulation_texts [simp]:
  "server_text HYPOPG_SQL" "server_text AVAILABLE_SQL" "server_text TABLE_SQL" "server_text COLUMN_SQL"
  "server_text CREATE_SQL" "server_text PARALLEL_SQL" "server_text RESET_SQL" "server_text ''ROLLBACK''"
  "server_text begin_read_only"
  by (simp_all add: server_text_def)

lemma osafe_text: "server_text x \<Longrightarrow> osafe H c (send w c (x, ps))" "server_text x \<Longrightarrow> osafe H c (batch w c x)"
  by (simp_all add: ro.safe_allowed ro.safe_allowed_batch)

lemma osafe_ask: "server_text x \<Longrightarrow> osafe H c (ask_one w c x ps)" "server_text x \<Longrightarrow> osafe H c (ask_opt w c x ps)"
  unfolding ask_one_def ask_opt_def by (intro safe_andthen safe_ret osafe_text; assumption)+

lemma osafe_column: "(\<And>x. osafe H c (f x)) \<Longrightarrow> osafe H c (column p f)"
  unfolding column_def by (auto split: sum.split intro!: safe_ret)

lemma osafe_hypopg: "osafe H c m \<Longrightarrow> osafe H c (require_hypopg w c m)"
  unfolding require_hypopg_def
  by (auto split: sum.split intro!: safe_attempted safe_andthen safe_ret osafe_ask osafe_text osafe_column)

lemma osafe_table: "(\<And>s t. osafe H c (f s t)) \<Longrightarrow> osafe H c (quoted_table w c schema table f)"
  unfolding quoted_table_def
  by (auto split: option.split intro!: safe_attempted safe_ret osafe_ask osafe_column)

lemma osafe_columns: "(\<And>cs. osafe H c (f cs)) \<Longrightarrow> osafe H c (quoted_columns w c schema table cols done f)"
  by (induction cols arbitrary: "done")
    (auto split: option.split intro!: safe_attempted safe_ret osafe_ask osafe_column)

lemma osafe_plan: "valid H sql \<Longrightarrow> osafe H c (one_plan H c sql)"
  unfolding one_plan_def by (intro safe_andthen safe_ret ro.safe_allowed) (simp add: valid_texts)

lemma osafe_compare: "valid H sql \<Longrightarrow> osafe H c (compare_plans H c sql ddl)"
  unfolding compare_plans_def
  by (intro safe_attempted safe_andthen safe_ret osafe_plan osafe_ask simulation_texts; assumption)

lemma osafe_transaction: "valid H sql \<Longrightarrow> osafe H c (in_transaction H c sql ddl)"
  unfolding in_transaction_def Let_def
  by (intro safe_attempted safe_andthen safe_ret osafe_compare osafe_text ro.safe_step simulation_texts)
    (simp_all add: simulation_texts)

lemma rsafe_simulate:
  assumes "valid H sql"
  shows "rsafe H (simulate_index H sql schema table cols meth db)"
  unfolding simulate_index_def simulate_on_def Let_def
  by (intro safe_if safe_ret ro.safe_with_conn ro.safe_settings settings_read_only osafe_hypopg osafe_table
      osafe_columns osafe_transaction assms)

lemma rsafe_run_simulation:
  assumes "valid H sql"
  shows "rsafe H (run_simulation H sql schema table cols meth db)"
  unfolding run_simulation_def
  by (auto split: sum.split intro!: safe_andthen safe_ret rsafe_lifted rsafe_report_as rsafe_simulate [OF assms])

lemma rsafe_simulate_index: "rsafe H (handle_simulate_index H args)"
  unfolding handle_simulate_index_def guard_simulation_def Let_def
  by (auto split: option.split sum.split prod.split
      intro!: safe_ret rsafe_lifted rsafe_report_as rsafe_guarded rsafe_refusals rsafe_cost_guard
        rsafe_run_simulation intro: valid_texts)

section \<open>Requests\<close>

lemma rsafe_tools_call: "rsafe H (handle_tools_call H params)"
  unfolding handle_tools_call_def Let_def
  by (simp split: option.split add: safe_ret rsafe_lifted rsafe_query_tool rsafe_list_schemas rsafe_list_tables
      rsafe_describe_table rsafe_explain_query rsafe_health rsafe_top_queries rsafe_analyze_indexes
      rsafe_simulate_index rsafe_posture)

lemma rsafe_discover: "rsafe H (handle_server_discover H)"
  unfolding handle_server_discover_def Let_def
  by (intro safe_andthen safe_if safe_ret rsafe_report rsafe_instructions)

lemma rsafe_initialize: "rsafe H (handle_initialize H params s)"
  unfolding handle_initialize_def
  by (auto split: prod.split intro!: safe_andthen safe_ret rsafe_instructions)

lemma rsafe_dispatch: "rsafe H (dispatch H m params s)"
  unfolding dispatch_def answered_def
  by (intro safe_if safe_andthen safe_ret rsafe_initialize rsafe_discover rsafe_tools_call rsafe_resources_list
      rsafe_resources_read) (auto split: prod.split intro!: safe_ret)

lemma rsafe_request: "rsafe H (handle_request H req s)"
  unfolding handle_request_def run_method_def Let_def
  by (auto split: option.split prod.split intro!: safe_ret safe_andthen rsafe_dispatch)

text \<open>C1: Whatever a client sends, with any parser and any database behind the server, everything one request
  puts on any connection is accepted by the automaton of read-only sessions: a statement travels only
  after this request has reset that connection and made its session read-only, and it is either one of
  the server's own fixed texts or one the validator has accepted, as it is, wrapped for its rows, or
  under an EXPLAIN of the server.\<close>

theorem every_request_reads_only:
  "\<exists>d. snd (handle_request H req s l) = l @ d
     \<and> monitored (ro_next (h_parser H) (h_env H)) (\<lambda>c. False) d \<noteq> None"
  using rsafe_request [of H req s] unfolding safe_def emits_def keeps_def by blast

end
