(* ===== verification/Query_Props.thy ===== *)
theory Query_Props
  imports Read_Only Posture_Props Validate_Props
begin

text \<open>
  What the tools promise: a query is answered only after the guard has passed the very text that runs, a
  cut result says so, the catalog tools stay within the configured surface, and a server that requires
  credentials tells strangers nothing.
\<close>

section \<open>A guard that let a statement pass\<close>

lemma jget_err [simp]: "jget ''result'' (err_content code msg) = None"
  by (simp add: err_content_def jobj_def)

lemma step_log: "snd (step w c x l) = l @ [Sent c (x, [])]"
  by (simp add: step_def andthen_def batch_def send_def ret_def)

lemma guard_step_ok:
  assumes "guard_step w c x m l = (Inr (Inr ()), l')"
  shows "m (l @ [Sent c (x, [])]) = (Inr (Inr ()), l')"
proof -
  have "snd (step w c x l) = l @ [Sent c (x, [])]" by (rule step_log)
  then show ?thesis
    using assms by (auto simp: guard_step_def andthen_def ret_def split: prod.splits sum.splits)
qed

definition may_reach :: "host \<Rightarrow> string option \<Rightarrow> string \<Rightarrow> string \<Rightarrow> bool" where
  "may_reach H db s r =
     (permitted_in (h_env H) (parse_patterns (h_env H)) s r
      \<or> (\<exists>ps pr l. fst (parent_of H db s r l) = Some (ps, pr)
           \<and> permitted_in (h_env H) (parse_patterns (h_env H)) ps pr))"

lemma refused_asking_Nil:
  "refused_asking (h_env H) (parent_of H db) found l = ([], l') \<Longrightarrow> \<forall>(s, r) \<in> set found. may_reach H db s r"
proof (induction found arbitrary: l l')
  case (Cons x found)
  obtain s r where x: "x = (s, r)" by (cases x)
  show ?case
  proof (cases "permitted_in (h_env H) (parse_patterns (h_env H)) s r")
    case True
    then show ?thesis using Cons x by (auto simp: may_reach_def)
  next
    case False
    obtain p l1 where p: "parent_of H db s r l = (p, l1)" by fastforce
    obtain rest l2 where rest: "refused_asking (h_env H) (parent_of H db) found l1 = (rest, l2)" by fastforce
    from Cons.prems False p rest have "rest = []"
      and ok: "case p of Some (ps, pr) \<Rightarrow> permitted_in (h_env H) (parse_patterns (h_env H)) ps pr | None \<Rightarrow> False"
      by (auto simp: x andthen_def ret_def split: if_splits option.splits prod.splits)
    then have "may_reach H db s r" using p \<open>rest = []\<close>
      unfolding may_reach_def by (auto split: option.splits) (metis fst_conv)
    moreover have "\<forall>(s, r) \<in> set found. may_reach H db s r" using Cons.IH rest \<open>rest = []\<close> by simp
    ultimately show ?thesis by (simp add: x)
  qed
qed simp

text \<open>A plan the surface lets pass.\<close>

definition plan_within :: "host \<Rightarrow> string option \<Rightarrow> string \<Rightarrow> json \<Rightarrow> bool" where
  "plan_within H db sql plan =
     ((\<forall>(s, r) \<in> set (relations_in_plan plan). may_reach H db s r)
      \<and> (catalog_allowed (h_env H) \<or> \<not> list_ex reads_server_state (functions_called (h_parser H) sql))
      \<and> named_outside (h_parser H) (h_env H) sql = [])"

lemma guard_relations_ok:
  assumes "guard_relations H db sql plan l = (Inr (), l')"
  shows "\<forall>(s, r) \<in> set (relations_in_plan plan). may_reach H db s r"
proof -
  obtain no l1 where r: "refused_asking (h_env H) (parent_of H db) (relations_in_plan plan) l = (no, l1)"
    by fastforce
  with assms have "no = []" by (auto simp: guard_relations_def Let_def andthen_def ret_def split: if_splits)
  with r refused_asking_Nil [of H db "relations_in_plan plan" l l1] show ?thesis by simp
qed

lemma guard_functions_ok:
  assumes "guard_functions H db called l = (Inr (), l')"
  shows "catalog_allowed (h_env H) \<or> \<not> list_ex reads_server_state called"
  using assms by (auto simp: guard_functions_def Let_def ret_def filter_empty_conv list_ex_iff split: if_splits)

lemma attempted_ok:
  assumes "attempted m f l = (Inr y, l')"
  obtains x l1 where "m l = (Inr x, l1)" "f x l1 = (Inr y, l')"
  using assms by (auto simp: attempted_def andthen_def ret_def split: prod.splits sum.splits)

lemma judge_plan_ok:
  assumes "judge_plan H db sql mc plan l = (Inr (), l')"
  shows "\<exists>cost. total_cost plan = Some cost \<and> \<not> f64_lt mc cost"
    and "surface_active (h_env H) \<Longrightarrow>
         (\<forall>(s, r) \<in> set (relations_in_plan plan). may_reach H db s r)
         \<and> (catalog_allowed (h_env H) \<or> \<not> list_ex reads_server_state (functions_called (h_parser H) sql))"
proof -
  obtain cost where c: "total_cost plan = Some cost"
    using assms by (cases "total_cost plan") (simp_all add: judge_plan_def ret_def)
  let ?m = "if surface_active (h_env H) then attempted (guard_functions H db (functions_called (h_parser H) sql))
     (\<lambda>_. guard_relations H db sql plan) else ret (Inr ())"
  obtain u :: unit and l1 where m: "?m l = (Inr u, l1)" and le: "\<not> f64_lt mc cost"
    using assms unfolding judge_plan_def c option.case
    by (elim attempted_ok) (auto simp: ret_def split: if_splits)
  from c le show "\<exists>cost. total_cost plan = Some cost \<and> \<not> f64_lt mc cost" by blast
  assume "surface_active (h_env H)"
  with m have "attempted (guard_functions H db (functions_called (h_parser H) sql))
     (\<lambda>_. guard_relations H db sql plan) l = (Inr u, l1)" by simp
  then obtain l2 where f: "guard_functions H db (functions_called (h_parser H) sql) l = (Inr (), l2)"
    "guard_relations H db sql plan l2 = (Inr (), l1)" by (elim attempted_ok) simp
  from guard_functions_ok [OF f(1)] guard_relations_ok [OF f(2)]
  show "(\<forall>(s, r) \<in> set (relations_in_plan plan). may_reach H db s r)
         \<and> (catalog_allowed (h_env H) \<or> \<not> list_ex reads_server_state (functions_called (h_parser H) sql))"
    by blast
qed

text \<open>The events hold an EXPLAIN of the text, and the plan it was answered with is within the limit and
  the surface.\<close>

definition guard_passed :: "host \<Rightarrow> string option \<Rightarrow> f64 \<Rightarrow> string \<Rightarrow> event list \<Rightarrow> event list \<Rightarrow> bool" where
  "guard_passed H db mc sql l l' =
     (\<exists>a c row plan cost b. l' = l @ a @ Sent c (explain_text sql, []) # b
        \<and> query_one (w_reply (h_world H) (l @ a) c (explain_text sql, [])) = Inr row
        \<and> json_column row = Inr plan \<and> total_cost plan = Some cost \<and> \<not> f64_lt mc cost
        \<and> (surface_active (h_env H) \<longrightarrow> plan_within H db sql plan))"

lemma guarded_explain_ok:
  assumes "guarded_explain H db sql mc c l = (Inr (Inr ()), l')"
  shows "guard_passed H db mc sql l l'"
proof -
  have out: "surface_active (h_env H) \<Longrightarrow> named_outside (h_parser H) (h_env H) sql = []"
    using assms by (auto simp: guarded_explain_def Let_def ret_def split: if_splits)
  let ?l = "l @ [Sent c (explain_text sql, [])]"
  have "(case query_one (w_reply (h_world H) l c (explain_text sql, [])) of
      Inl e \<Rightarrow> ret (Inr (Inl (QueryError (friendly_pg_error_for e (Some sql)))))
    | Inr row \<Rightarrow> (case json_column row of
        Inl p \<Rightarrow> ret (Inl p) | Inr plan \<Rightarrow> as_guard (judge_plan H db sql mc plan))) ?l = (Inr (Inr ()), l')"
    using assms out by (auto simp: guarded_explain_def Let_def andthen_def send_def ret_def split: if_splits)
  then obtain row plan where row: "query_one (w_reply (h_world H) l c (explain_text sql, [])) = Inr row"
      "json_column row = Inr plan" and j: "as_guard (judge_plan H db sql mc plan) ?l = (Inr (Inr ()), l')"
    by (auto simp: ret_def split: sum.splits)
  then have j: "judge_plan H db sql mc plan ?l = (Inr (), l')"
    by (auto simp: as_guard_def andthen_def ret_def split: prod.splits)
  obtain b where b: "l' = ?l @ b"
    using safe_appends [OF rsafe_judge [of H db sql mc plan]] j unfolding emits_def by (metis snd_conv)
  obtain cost where "total_cost plan = Some cost" "\<not> f64_lt mc cost" using judge_plan_ok(1) [OF j] by blast
  with row b judge_plan_ok(2) [OF j] out show ?thesis
    unfolding guard_passed_def plan_within_def
    by (intro exI [of _ "[] :: event list"] exI [of _ c] exI [of _ row] exI [of _ plan] exI [of _ cost] exI [of _ b]) auto
qed

lemma guard_passed_later: "guard_passed H db mc sql (l @ a) l' \<Longrightarrow> guard_passed H db mc sql l l'"
  unfolding guard_passed_def by (metis append.assoc)

lemma cost_guard_ok:
  assumes "cost_guard H sql mc db l = (Inr (Inr ()), l')"
  shows "guard_passed H db mc sql l l'"
proof -
  from assms obtain name c where
    "guard_step (h_world H) c ''DISCARD ALL'' (guard_step (h_world H) c (guard_settings (h_env H))
        (guarded_explain H db sql mc c)) (l @ [Got_Conn name c]) = (Inr (Inr ()), l')"
    by (auto simp: cost_guard_def Let_def andthen_def ret_def take_conn_def split: sum.splits prod.splits option.splits)
  from guarded_explain_ok [OF guard_step_ok [OF guard_step_ok [OF this]]] show ?thesis
    by (auto dest!: guard_passed_later)
qed

section \<open>What an action can return\<close>

definition yields :: "'a act \<Rightarrow> ('a \<Rightarrow> bool) \<Rightarrow> bool" where
  "yields m P = (\<forall>l. P (fst (m l)))"

named_theorems yields_rules \<open>rules for what an action returns\<close>

lemma yields_ret [yields_rules]: "P x \<Longrightarrow> yields (ret x) P"
  by (simp add: yields_def ret_def)

lemma yields_andthen [yields_rules]: "(\<And>x. yields (f x) P) \<Longrightarrow> yields (andthen m f) P"
  by (simp add: yields_def andthen_def split_beta)

lemma yields_attempted [yields_rules]:
  "(\<And>e. P (Inl e)) \<Longrightarrow> (\<And>x. yields (f x) P) \<Longrightarrow> yields (attempted m f) P"
  unfolding attempted_def by (rule yields_andthen) (auto split: sum.split intro: yields_ret)

lemma yields_if [yields_rules]: "(b \<Longrightarrow> yields m P) \<Longrightarrow> (\<not> b \<Longrightarrow> yields n P) \<Longrightarrow> yields (if b then m else n) P"
  by simp

lemma yields_follow: "yields m (\<lambda>x. yields (f x) P) \<Longrightarrow> yields (andthen m f) P"
  by (simp add: yields_def andthen_def split_beta)

lemma yields_finish [yields_rules]: "P v \<Longrightarrow> yields (finish tool decision v) P"
  unfolding finish_def by (intro yields_rules)

lemma yields_report_as [yields_rules]: "P v \<Longrightarrow> yields (report_as tool decision metric sql v) P"
  unfolding report_as_def by (intro yields_rules)

lemma yields_lifted [yields_rules]: "yields m (\<lambda>v. P (Inr v)) \<Longrightarrow> yields (lifted m) P"
  unfolding lifted_def by (rule yields_follow) (simp add: yields_def ret_def)

lemma yields_refusals:
  assumes "\<And>code msg. P (err_content code msg)"
  shows "yields (guard_refusal tool sql e) P" "yields (surface_refusal tool sql e) P"
  by (cases e; simp add: yields_report_as assms)+

section \<open>A query that is answered\<close>

text \<open>What a guarded step returns is a refusal, or the guard passed and the rest decides.\<close>

lemma guarded_cases:
  assumes "guarded g refuse m l = (Inr v, l')" "\<And>e. yields (refuse e) (\<lambda>v. jget ''result'' v = None)"
    and "jget ''result'' v \<noteq> None"
  obtains l1 where "g l = (Inr (Inr ()), l1)" "m l1 = (Inr v, l')"
proof -
  from assms(1) obtain r l1 where g: "g l = (Inr r, l1)"
    and m: "(case r of Inl e \<Rightarrow> lifted (refuse e) | Inr _ \<Rightarrow> m) l1 = (Inr v, l')"
    unfolding guarded_def by (elim attempted_ok)
  show ?thesis
  proof (cases r)
    case (Inl e)
    with m have "fst (refuse e l1) = v" by (simp add: lifted_def andthen_def ret_def split_beta)
    with assms(2) [of e] assms(3) show ?thesis by (auto simp: yields_def)
  next
    case (Inr u)
    with g m that show ?thesis by simp
  qed
qed

lemma run_query_answer:
  assumes "lifted (run_query H sql final r n off db) l = (Inr v, l')" "jget ''result'' v \<noteq> None"
  shows "\<exists>data. fst (execute_readonly (h_world H) (h_libs H) (h_env H) final db l) = Inr data
     \<and> v = wrap_untrusted (h_world H) (h_env H) (note_limits sql r n off data) ''query''"
  using assms
  by (auto simp: lifted_def run_query_def andthen_def report_as_def ret_def split: prod.splits sum.splits option.splits)

text \<open>C3: The query tool answers with rows only a statement the validator accepts, after a guard passed the very
  text that ran, capped at one row more than the limit asked for, itself at most the server maximum: the database was asked to explain exactly that text, on the plan it gave the cost was read
  and is not above the limit, and with a surface configured every relation of the plan is permitted or is
  a partition of one, no name the caller qualified lies outside, and no function that reads server state
  is called. The rows are those of that text, read in a read-only transaction.\<close>

theorem query_answers_only_guarded:
  assumes "handle_query_tool H args l = (Inr v, l')" "jget ''result'' v \<noteq> None"
    and "get_str ''sql'' args = Some sql"
  shows "let requested = u64_arg ''limit'' args;
       limit = min (case requested of Some n \<Rightarrow> n | None \<Rightarrow> 1000) MAX_LIMIT;
       offset = (case u64_arg ''offset'' args of Some n \<Rightarrow> n | None \<Rightarrow> 0) in
     \<exists>final l1 data. valid H sql \<and> valid H final
     \<and> enforce_limit_offset (h_parser H) (h_env H) sql (saturating_add limit 1) offset = Inr final
     \<and> fst (execute_readonly (h_world H) (h_libs H) (h_env H) final (get_str ''database'' args) l1) = Inr data
     \<and> v = wrap_untrusted (h_world H) (h_env H) (note_limits sql requested limit offset data) ''query''
     \<and> (if is_row_query final
        then guard_passed H (get_str ''database'' args) (max_cost (h_env H)) final l l1
        else \<not> surface_active (h_env H) \<or> explained_statement final = Inr None
          \<or> (\<exists>inner. explained_statement final = Inr (Some inner)
               \<and> guard_passed H (get_str ''database'' args) f64_MAX inner l l1))"
proof -
  let ?db = "get_str ''database'' args"
  define requested where "requested = u64_arg ''limit'' args"
  define limit where "limit = min (case requested of Some n \<Rightarrow> n | None \<Rightarrow> 1000) MAX_LIMIT"
  define offset where "offset = (case u64_arg ''offset'' args of Some n \<Rightarrow> n | None \<Rightarrow> 0)"
  note refused = yields_refusals(1) [where P = "\<lambda>v. jget ''result'' v = None"]
    yields_refusals(2) [where P = "\<lambda>v. jget ''result'' v = None"]
  have val: "valid H sql"
    using assms
    by (auto simp: handle_query_tool_def Let_def lifted_def report_as_def andthen_def ret_def
        split: sum.splits prod.splits)
  obtain final where cap: "enforce_limit_offset (h_parser H) (h_env H) sql (saturating_add limit 1) offset = Inr final"
    using assms(1,2) val
    by (cases "enforce_limit_offset (h_parser H) (h_env H) sql (saturating_add limit 1) offset")
      (auto simp add: handle_query_tool_def Let_def assms(3) ret_def requested_def limit_def offset_def)
  let ?run = "lifted (run_query H sql final requested limit offset ?db)"
  have h: "guard_explained H sql final ?db (guard_rows H sql final ?db ?run) l = (Inr v, l')"
    using assms(1) val cap
    by (simp add: handle_query_tool_def Let_def assms(3) requested_def limit_def offset_def)
  have fin: "valid H final" by (rule capped_valid [OF cap val])
  note folds = Let_def requested_def [symmetric] limit_def [symmetric] offset_def [symmetric]
  show ?thesis
  proof (cases "is_row_query final")
    case True
    with h have "guarded (cost_guard H final (max_cost (h_env H)) ?db) (guard_refusal ''query'' sql) ?run l = (Inr v, l')"
      by (simp add: guard_explained_def guard_rows_def)
    then obtain l1 where g: "cost_guard H final (max_cost (h_env H)) ?db l = (Inr (Inr ()), l1)"
      and r: "?run l1 = (Inr v, l')"
      by (rule guarded_cases) (use refused assms(2) in simp_all)
    from run_query_answer [OF r assms(2)] cost_guard_ok [OF g] True val fin cap show ?thesis
      unfolding folds by (intro exI [of _ final] exI [of _ l1]) auto
  next
    case False
    have rows: "guard_rows H sql final ?db ?run = ?run" using False by (simp add: guard_rows_def)
    show ?thesis
    proof (cases "\<not> surface_active (h_env H) \<or> explained_statement final = Inr None")
      case True
      with h rows have "?run l = (Inr v, l')" by (cases "surface_active (h_env H)") (simp_all add: guard_explained_def split: if_splits)
      from run_query_answer [OF this assms(2)] True False val fin cap show ?thesis
        unfolding folds by (intro exI [of _ final] exI [of _ l]) auto
    next
      case other: False
      with h rows False obtain inner where e: "explained_statement final = Inr (Some inner)"
        and g: "guarded (cost_guard H inner f64_MAX ?db) (surface_refusal ''query'' sql) ?run l = (Inr v, l')"
        by (auto simp: guard_explained_def ret_def split: sum.splits option.splits)
      from g obtain l1 where "cost_guard H inner f64_MAX ?db l = (Inr (Inr ()), l1)" and r: "?run l1 = (Inr v, l')"
        by (rule guarded_cases) (use refused assms(2) in simp_all)
      with run_query_answer [OF r assms(2)] cost_guard_ok False e val fin cap show ?thesis
        unfolding folds by (intro exI [of _ final] exI [of _ l1]) auto
    qed
  qed
qed

section \<open>A cut result says so\<close>

lemma jget_jinsert_object: "is_object v \<Longrightarrow> jget k (jinsert k' x v) = (if k = k' then Some x else jget k v)"
  by (cases v) (simp_all add: is_object_def)

lemma is_object_jinsert [simp]: "is_object (jinsert k x v) = is_object v"
  by (cases v) (simp_all add: is_object_def)

lemma result_object_fields:
  "is_object (result_object env out)"
  "jget ''rows'' (result_object env out) = Some (JArr (fst (redact_rows env out)))"
  "jget ''returnedRows'' (result_object env out) = Some (JNum (nat_str (length (fst (redact_rows env out)))))"
proof -
  have "bt_insert ''rows'' a (bt_insert ''returnedRows'' b []) = [(''returnedRows'', b), (''rows'', a)]" for a b :: json
    by code_simp
  then have o1: "jobj [(''returnedRows'', b), (''rows'', a)] = JObj [(''returnedRows'', b), (''rows'', a)]" for a b
    by (simp add: jobj_def)
  have two: "is_object (JObj kvs)" for kvs by (simp add: is_object_def)
  show "is_object (result_object env out)"
    "jget ''rows'' (result_object env out) = Some (JArr (fst (redact_rows env out)))"
    "jget ''returnedRows'' (result_object env out) = Some (JNum (nat_str (length (fst (redact_rows env out)))))"
    by (simp_all add: result_object_def split_beta Let_def o1 two jget_jinsert_object)
qed

text \<open>C31: A result that was cut says so, and nothing else does: of the rows the database returned at most the
  limit are handed over, in order and from the start, their number is the number reported, and the answer
  is marked as cut exactly when the database had more rows than the limit.\<close>

theorem truncation_is_reported:
  "let rows = fst (redact_rows env out); d = mark_truncation (result_object env out) limit in
   jget ''rows'' d = Some (JArr (take limit rows))
   \<and> jget ''returnedRows'' d = Some (JNum (nat_str (length (take limit rows))))
   \<and> jget ''truncated'' d = Some (JBool (limit < length rows))
   \<and> jget ''appliedLimit'' d = Some (JNum (nat_str limit))"
proof -
  define rows where "rows = fst (redact_rows env out)"
  note f = result_object_fields [of env out, folded rows_def]
  show ?thesis
    unfolding Let_def rows_def [symmetric] mark_truncation_def
    using f by (auto simp: jget_jinsert_object min_def)
qed

section \<open>The configured surface\<close>

lemma keep_rows_sound:
  assumes "r \<in> set (rows_of (keep_rows P v))"
  shows "P r"
proof (cases "Option.bind (jget ''rows'' v) as_array")
  case None
  then show ?thesis using assms by (simp add: keep_rows_def rows_of_def)
next
  case (Some rows)
  then have "is_object v" by (cases v) (auto simp: is_object_def)
  then have "rows_of (keep_rows P v) = filter P rows"
    by (simp add: keep_rows_def Some rows_of_def jget_jinsert_object Let_def)
  with assms show ?thesis by simp
qed

lemma list_tables_answer:
  assumes "handle_list_tables H args l = (v, l')" "jget ''result'' v \<noteq> None"
  shows "\<exists>data. v = answer_ok H (filter_visible_rows (h_env H) data (or_public args) ''table_name'')"
  using assms
  by (auto simp: handle_list_tables_def Let_def with_schema_def schema_missing_def finish_def andthen_def ret_def
      split: prod.splits sum.splits option.splits if_splits)

lemma list_schemas_answer:
  assumes "handle_list_schemas H args l = (v, l')" "jget ''result'' v \<noteq> None"
  shows "\<exists>data. v = answer_ok H (filter_visible_schemas (h_env H) data)"
  using assms
  by (auto simp: handle_list_schemas_def finish_def andthen_def ret_def split: prod.splits sum.splits)

text \<open>C32: The two listings and the refusal to describe stay within the configured surface: a listing of tables
  names only visible relations and a listing of schemas only visible schemas, whatever the database
  returned, and describing a hidden table is refused without asking the database anything. The other
  catalog tools are not filtered: the lemmas after this show it of the resource list, of the references of
  a visible table to hidden ones and of the index report of a hidden schema.\<close>

theorem listings_within_surface:
  "(\<forall>v l'. handle_list_tables H args l = (v, l') \<and> jget ''result'' v \<noteq> None \<longrightarrow>
      (\<exists>data. v = answer_ok H data \<and> (\<forall>row \<in> set (rows_of data). \<forall>n.
         get_str ''table_name'' row = Some n \<longrightarrow> relation_visible (h_env H) (or_public args) n)))
   \<and> (\<forall>v l'. handle_list_schemas H args l = (v, l') \<and> jget ''result'' v \<noteq> None \<longrightarrow>
      (\<exists>data. v = answer_ok H data \<and> (\<forall>row \<in> set (rows_of data). \<forall>n.
         get_str ''schema_name'' row = Some n \<longrightarrow> schema_visible (h_env H) n)))
   \<and> (\<forall>t. get_str ''table'' args = Some t \<and> \<not> relation_visible (h_env H) (or_public args) t \<longrightarrow>
      handle_describe_table H args l = (err_content (- 32602) (hidden_message (h_env H) (or_public args) t), l))"
    (is "?tables \<and> ?schemas \<and> ?describe")
proof (intro conjI)
  show ?tables
  proof (intro allI impI)
    fix v l' assume "handle_list_tables H args l = (v, l') \<and> jget ''result'' v \<noteq> None"
    then obtain data where "v = answer_ok H (filter_visible_rows (h_env H) data (or_public args) ''table_name'')"
      using list_tables_answer by blast
    then show "\<exists>data. v = answer_ok H data \<and> (\<forall>row \<in> set (rows_of data). \<forall>n.
         get_str ''table_name'' row = Some n \<longrightarrow> relation_visible (h_env H) (or_public args) n)"
      using keep_rows_sound unfolding filter_visible_rows_def by fastforce
  qed
  show ?schemas
  proof (intro allI impI)
    fix v l' assume "handle_list_schemas H args l = (v, l') \<and> jget ''result'' v \<noteq> None"
    then obtain data where "v = answer_ok H (filter_visible_schemas (h_env H) data)"
      using list_schemas_answer by blast
    then show "\<exists>data. v = answer_ok H data \<and> (\<forall>row \<in> set (rows_of data). \<forall>n.
         get_str ''schema_name'' row = Some n \<longrightarrow> schema_visible (h_env H) n)"
      using keep_rows_sound unfolding filter_visible_schemas_def by fastforce
  qed
  show ?describe by (auto simp: handle_describe_table_def Let_def ret_def)
qed

text \<open>A description is the database's, with the redacted columns marked: the tables it references are named
  whether they are visible or not.\<close>

lemma description_unfiltered:
  assumes "get_str ''table'' args = Some t" "relation_visible (h_env H) (or_public args) t"
    and "schema_missing H (or_public args) (get_str ''database'' args) l = (None, l1)"
    and "fst (catalog H DESCRIBE_SQL [P_Text (or_public args), P_Text t] (get_str ''database'' args) l1) = Inr v"
    and "Option.bind (jget ''returnedRows'' (mark_redacted_columns (h_env H) v)) as_u64 \<noteq> Some 0"
  shows "fst (handle_describe_table H args l) = answer_ok H (mark_redacted_columns (h_env H) v)"
  using assms
  by (auto simp: handle_describe_table_def with_schema_def andthen_def finish_def ret_def Let_def split_beta)

text \<open>The index report of a schema does not ask whether the schema is visible.\<close>

lemma index_report_unfiltered:
  assumes "schema_missing H (or_public args) (get_str ''database'' args) l = (None, l1)"
  shows "fst (handle_analyze_indexes H args l) = answer_ok H (JObj (bt_insert ''note'' (JStr index_note)
     (fst (ask_all H (get_str ''database'' args) [P_Text (or_public args)] INDEX_CHECKS [] l1))))"
  using assms
  by (simp add: handle_analyze_indexes_def with_schema_def andthen_def finish_def ret_def Let_def split_beta)

text \<open>The resource list is not filtered: a relation outside the surface is offered with its address.\<close>

lemma resource_list_ignores_surface:
  assumes "fst (catalog H RESOURCES_SQL [P_Bool (show_partitions (h_env H))] (Some db) l) = Inr v"
    and "jget ''rows'' v = Some (JArr rows)" "row \<in> set rows"
  shows "\<exists>items. fst (resources_of H (Some db) l) = resources_result [(''resources'', JArr items)]
     \<and> resource_item db row \<in> set items"
  using assms
  by (auto simp: resources_of_def Let_def andthen_def finish_def ret_def split_beta)

section \<open>What strangers are told\<close>

text \<open>A server that requires credentials tells a client without any nothing about the database: what
  \<open>initialize\<close> and \<open>server/discover\<close> answer is the same whatever database stands behind it and whatever it
  would answer, and neither sends it anything.\<close>

theorem strangers_learn_nothing:
  assumes "own_authentication (h_env H)" "discover_authenticated H"
  shows "(\<exists>v. \<forall>w D l. handle_server_discover (H\<lparr>h_world := w, h_libs := D\<rparr>) l = (v, l))
    \<and> (\<exists>sv. \<forall>w D l. handle_initialize (H\<lparr>h_world := w, h_libs := D\<rparr>) params s l = (sv, l))"
proof -
  obtain s' r where n: "negotiate_initialize params s = (s', r)" by fastforce
  have d: "discover_authenticated (H\<lparr>h_world := w, h_libs := D\<rparr>)" for w D
    using assms(2) by (simp add: discover_authenticated_def)
  have i: "server_info (H\<lparr>h_world := w, h_libs := D\<rparr>) = server_info H" for w D by (simp add: server_info_def)
  show ?thesis
    using assms(1)
    by (simp add: handle_server_discover_def handle_initialize_def Let_def instructions_def d i andthen_def ret_def n)
qed

definition token_host :: "world \<Rightarrow> host" where
  "token_host w = \<lparr>h_world = w, h_libs = demo_db_libs, h_env = (\<lambda>k. if k = ''MCP_BEARER_TOKEN'' then Some ''s'' else None),
     h_parser = demo_parser (S_Query (demo_query (demo_select [] []))) [] [], h_oauth = False, h_version = ''0'', h_number = (\<lambda>q. ''0''), h_column_error = []\<rparr>"

theorem strangers_learn_nothing_witness:
  "\<exists>v. \<forall>w l. handle_server_discover (token_host w) l = (v, l)"
proof -
  have "own_authentication (h_env (token_host w))" "discover_authenticated (token_host w)" for w
    by (simp_all add: token_host_def own_authentication_def discover_authenticated_def nonblank_env_def) code_simp+
  moreover have "token_host w\<lparr>h_world := w', h_libs := demo_db_libs\<rparr> = token_host w'" for w w'
    by (simp add: token_host_def)
  ultimately show ?thesis
    using strangers_learn_nothing [of "token_host undefined"] by metis
qed

section \<open>An answered query\<close>

definition plan_row :: reply where
  "plan_row = Rows [Row [(''QUERY PLAN'', Cell_Json (Some (JArr [JObj [(''Plan'', JObj [(''Total Cost'', JNum ''1'')])]])))]]"

text \<open>A database that answers an EXPLAIN with a cheap plan and everything else without rows.\<close>

definition plan_world :: world where
  "plan_world = demo_world (\<lambda>l c (x, ps). if take 1 x = ''E'' then plan_row else Rows [])"

definition demo_question :: json where
  "demo_question = JObj [(''sql'', JStr ''SELECT 1'')]"

definition plan_host :: host where
  "plan_host = (token_host plan_world)\<lparr>h_env := token_env\<rparr>"

lemma plan_host_fields [simp]:
  "h_world plan_host = plan_world" "h_libs plan_host = demo_db_libs" "h_env plan_host = token_env"
  "h_parser plan_host = demo_parser (S_Query (demo_query (demo_select [] []))) [] []"
  by (simp_all add: plan_host_def token_host_def)

lemma plan_valid: "valid plan_host ''SELECT 1''"
proof -
  have "validate_readonly (h_parser plan_host) token_env ''SELECT 1'' = Inr ()"
    unfolding plan_host_fields
  proof (rule demo_accepts)
    show "\<not> list_ex is_invisible (utf8_chars ''SELECT 1'')" by (rule ascii_text_visible) simp
  qed (simp_all add: demo_query_def demo_select_def)
  then show ?thesis by simp
qed

lemma plan_capped: "enforce_limit_offset (h_parser plan_host) token_env ''SELECT 1'' n 0 = Inr ''SELECT 1''"
proof -
  have "parse (h_parser plan_host) ''SELECT 1'' = Inr [S_Query (demo_query (demo_select [] []))]"
    unfolding plan_host_fields by (rule demo_parse) simp
  moreover have "sp_render (h_parser plan_host) st = ''SELECT 1''" for st by (simp add: demo_parser_def)
  moreover have "is_ok (validate_readonly (h_parser plan_host) token_env ''SELECT 1'')"
    using plan_valid by (simp add: is_ok_validate)
  moreover have "capped_text (h_parser plan_host) (S_Query (demo_query (demo_select [] []))) n = ''SELECT 1''"
  proof -
    have "snd (cap_rows (demo_query (demo_select [] [])) n) = Handled"
      by (simp add: cap_rows_def demo_query_def demo_select_def is_count_or_exists_def)
    then show ?thesis by (auto simp: capped_text_def demo_parser_def split: prod.splits cap.splits)
  qed
  ultimately show ?thesis by (simp add: enforce_limit_offset_def enforce_limit_inner_def Let_def)
qed

lemma plan_step: "take 1 x \<noteq> ''E'' \<Longrightarrow> step plan_world c x l = (Inr (), l @ [Sent c (x, [])])"
  by (simp add: step_def batch_def andthen_def send_def ret_def plan_world_def demo_world_def)

lemma plan_heads:
  "take 1 (guard_settings e) \<noteq> ''E''" "take 1 (session_settings e) \<noteq> ''E''" "take 1 begin_read_only \<noteq> ''E''"
  "take 1 (wrapped_query q) \<noteq> ''E''" "take 1 ''DISCARD ALL'' \<noteq> ''E''" "take 1 (explain_text q) = ''E''"
  unfolding guard_settings_def session_settings_def begin_read_only_def wrapped_query_def explain_text_def
    Let_def append_Cons One_nat_def take_Suc_Cons take_0
  by (simp_all only: list.inject char.inject) simp_all

lemma plan_cost: "total_cost (JArr [JObj [(''Plan'', JObj [(''Total Cost'', JNum ''1'')])]]) = Some (Fin 1)"
proof -
  have d: "parse_decimal ''1'' = Some 1" by code_simp
  have o: "\<not> f64_overflow \<le> 1" by (simp add: f64_overflow_def)
  have "parse_f64 ''1'' = Some (Fin 1)"
    by (simp add: parse_f64_def d o Let_def to_ascii_lowercase_def ascii_lower_def)
  then show ?thesis by (simp add: total_cost_def)
qed

lemma plan_guard:
  assumes "pool_for demo_db_libs token_env None = Inr (k, p)"
  shows "\<exists>l'. cost_guard plan_host ''SELECT 1'' (max_cost token_env) None l = (Inr (Inr ()), l')"
proof -
  have m: "\<not> f64_lt (max_cost token_env) (Fin 1)" by code_simp
  have s: "\<not> surface_active token_env" by code_simp
  have q: "query_one plan_row = Inr [(''QUERY PLAN'', Cell_Json (Some (JArr [JObj [(''Plan'', JObj [(''Total Cost'', JNum ''1'')])]])))]"
    by (simp add: query_one_def plan_row_def query_reply_def)
  have "step plan_world c ''DISCARD ALL'' l = (Inr (), l @ [Sent c (''DISCARD ALL'', [])])"
    "step plan_world c (guard_settings token_env) l = (Inr (), l @ [Sent c (guard_settings token_env, [])])" for c l
    by (simp_all only: plan_step plan_heads not_False_eq_True)
  moreover have "w_reply plan_world l c (explain_text ''SELECT 1'', []) = plan_row" for l c
    using plan_heads(6) by (simp add: plan_world_def demo_world_def)
  moreover have "take_conn plan_world k l = (Some 0, l @ [Got_Conn k 0])" for l
    by (simp add: take_conn_def plan_world_def demo_world_def)
  ultimately show ?thesis using assms
    by (simp add: cost_guard_def guard_step_def andthen_def guarded_explain_def s send_def q json_column_def
        as_guard_def judge_plan_def plan_cost m attempted_def ret_def)
qed

lemma plan_rows:
  assumes "pool_for demo_db_libs token_env None = Inr (k, p)"
  shows "\<exists>data. fst (execute_readonly plan_world demo_db_libs token_env ''SELECT 1'' None l) = Inr data"
proof -
  have r: "is_row_query ''SELECT 1''" by code_simp
  have "step plan_world c ''DISCARD ALL'' l = (Inr (), l @ [Sent c (''DISCARD ALL'', [])])"
    "step plan_world c (session_settings token_env) l = (Inr (), l @ [Sent c (session_settings token_env, [])])"
    "step plan_world c begin_read_only l = (Inr (), l @ [Sent c (begin_read_only, [])])" for c l
    by (simp_all only: plan_step plan_heads not_False_eq_True)
  moreover have "w_reply plan_world l c (wrapped_query s, []) = Rows []" for l c s
    using plan_heads(4) by (simp add: plan_world_def demo_world_def)
  moreover have "take_conn plan_world k l = (Some 0, l @ [Got_Conn k 0])" for l
    by (simp add: take_conn_def plan_world_def demo_world_def)
  ultimately show ?thesis using assms
    by (simp add: execute_readonly_def with_conn_def andthen_def open_session_def attempted_def r
        run_row_query_def send_def ret_def rollback_def split_beta)
qed

lemma plan_answer:
  "\<exists>v l'. handle_query_tool plan_host demo_question [] = (Inr v, l') \<and> jget ''result'' v \<noteq> None"
proof -
  obtain k p where p: "pool_for demo_db_libs token_env None = Inr (k, p)"
    using token_pool_ok by (cases "pool_for demo_db_libs token_env None") auto
  obtain l1 where g: "cost_guard plan_host ''SELECT 1'' (max_cost token_env) None [] = (Inr (Inr ()), l1)"
    using plan_guard [OF p] by blast
  obtain data where d: "fst (execute_readonly plan_world demo_db_libs token_env ''SELECT 1'' None l1) = Inr data"
    using plan_rows [OF p] by blast
  have a: "get_str ''sql'' demo_question = Some ''SELECT 1''" "get_str ''database'' demo_question = None"
    "u64_arg ''limit'' demo_question = None" "u64_arg ''offset'' demo_question = None"
    by (simp_all add: demo_question_def get_str_def u64_arg_def)
  have r: "is_row_query ''SELECT 1''" by code_simp
  have w: "jget ''result'' (wrap_untrusted w env v t) \<noteq> None" for w env v t
    by (simp add: wrap_untrusted_def Let_def jobj_def)
  show ?thesis
    using plan_valid d w
    by (auto simp: handle_query_tool_def a Let_def plan_capped guard_explained_def guard_rows_def r guarded_def
        attempted_def andthen_def g lifted_def run_query_def report_as_def ret_def split_beta
        simp del: plan_host_fields(4))
qed

theorem query_answers_only_guarded_witness:
  "\<exists>l l1. guard_passed plan_host None (max_cost token_env) ''SELECT 1'' l l1"
proof -
  obtain v l' where h: "handle_query_tool plan_host demo_question [] = (Inr v, l')" "jget ''result'' v \<noteq> None"
    using plan_answer by blast
  have s: "get_str ''sql'' demo_question = Some ''SELECT 1''" "get_str ''database'' demo_question = None"
    by (simp_all add: demo_question_def get_str_def)
  have r: "is_row_query ''SELECT 1''" by code_simp
  have o: "u64_arg ''offset'' demo_question = None" by (simp add: demo_question_def u64_arg_def)
  from query_answers_only_guarded [OF h s(1)] r show ?thesis
    by (auto simp: Let_def s(2) o plan_capped simp del: plan_host_fields(4))
qed

theorem listings_within_surface_witness:
  "handle_describe_table ((token_host plan_world)\<lparr>h_env := (\<lambda>k. if k = ''MCP_ALLOW_SCHEMAS'' then Some ''app'' else None)\<rparr>)
     (JObj [(''table'', JStr ''people'')]) [] = (err_content (- 32602) (hidden_message
       (\<lambda>k. if k = ''MCP_ALLOW_SCHEMAS'' then Some ''app'' else None) ''public'' ''people''), [])"
proof -
  let ?H = "(token_host plan_world)\<lparr>h_env := (\<lambda>k. if k = ''MCP_ALLOW_SCHEMAS'' then Some ''app'' else None)\<rparr>"
  have "get_str ''table'' (JObj [(''table'', JStr ''people'')]) = Some ''people''"
    "or_public (JObj [(''table'', JStr ''people'')]) = ''public''"
    "\<not> relation_visible (\<lambda>k. if k = ''MCP_ALLOW_SCHEMAS'' then Some ''app'' else None) ''public'' ''people''"
    by code_simp+
  then show ?thesis
    using listings_within_surface [of ?H "JObj [(''table'', JStr ''people'')]" "[]"] by simp
qed

end
