(* ===== verification/Answers.thy ===== *)
theory Answers
  imports Query_Props
begin

text \<open>
  The shape of every answer: whatever is asked and whatever the database says, \<open>handle_request\<close> returns
  a JSON-RPC result or a JSON-RPC error, never both and never anything else.
\<close>

section \<open>Answers\<close>

definition error_shape :: "json \<Rightarrow> bool" where
  "error_shape v = (case (jget ''code'' v, jget ''message'' v) of
     (Some (JNum _), Some (JStr _)) \<Rightarrow> True | _ \<Rightarrow> False)"

fun rpc_answer :: "json \<Rightarrow> bool" where
  "rpc_answer (JObj [(k, v)]) = (k = ''result'' \<or> k = ''error'' \<and> error_shape v)"
| "rpc_answer _ = False"

definition answer_or_panic :: "panic + json \<Rightarrow> bool" where
  "answer_or_panic r = (case r of Inl p \<Rightarrow> True | Inr v \<Rightarrow> rpc_answer v)"

lemma answer_or_panic_simps [simp]: "answer_or_panic (Inl p)" "answer_or_panic (Inr v) = rpc_answer v"
  by (simp_all add: answer_or_panic_def)

lemma error_shape_pair: "error_shape (jobj [(''code'', JNum n), (''message'', JStr m)])"
proof -
  have "bt_insert ''code'' a (bt_insert ''message'' b []) = [(''code'', a), (''message'', b)]" for a b :: json
    by code_simp
  then show ?thesis by (simp add: jobj_def error_shape_def)
qed

lemma rpc_err [simp]: "rpc_answer (err_content code msg)"
  using error_shape_pair by (simp add: err_content_def) (simp add: jobj_def)

lemma rpc_result [simp]: "rpc_answer (jobj [(''result'', v)])"
  by (simp add: jobj_def)

lemma rpc_ok [simp]: "rpc_answer (ok_content w env v)" "rpc_answer (wrap_untrusted w env v tool)"
  "rpc_answer (resources_result kvs)"
  by (simp_all add: ok_content_def wrap_untrusted_def Let_def resources_result_def)

lemma rpc_answerE:
  assumes "rpc_answer v"
  obtains x where "v = JObj [(''result'', x)]" | e where "v = JObj [(''error'', e)]" "error_shape e"
  using assms by (cases v rule: rpc_answer.cases) auto

section \<open>What the shaping of a revision keeps\<close>

lemma rpc_decorate [simp]: "rpc_answer v \<Longrightarrow> rpc_answer (decorate_result v r m label version)"
  by (erule rpc_answerE) (auto simp: decorate_result_def split: option.splits)

lemma rpc_shape [simp]: "rpc_answer v \<Longrightarrow> rpc_answer (shape_tool_result v r)"
  by (simp add: shape_tool_result_def Let_def split: option.splits)

lemma rpc_unsupported: "unsupported_version_error params = Some e \<Longrightarrow> rpc_answer e"
proof -
  have "bt_insert ''code'' a (bt_insert ''message'' b (bt_insert ''data'' d []))
      = [(''code'', a), (''data'', d), (''message'', b)]" for a b d :: json
    by code_simp
  then have "rpc_answer (unsupported_body asked)" for asked
    by (simp add: unsupported_body_def Let_def jobj_def error_shape_def)
  then show "unsupported_version_error params = Some e \<Longrightarrow> rpc_answer e"
    by (auto simp: unsupported_version_error_def split: option.splits if_splits)
qed

section \<open>The tools\<close>

lemma yields_weaken: "yields m P \<Longrightarrow> (\<And>x. P x \<Longrightarrow> Q x) \<Longrightarrow> yields m Q"
  by (simp add: yields_def)

lemma yields_sum [yields_rules]:
  "(\<And>a. r = Inl a \<Longrightarrow> yields (f a) P) \<Longrightarrow> (\<And>b. r = Inr b \<Longrightarrow> yields (g b) P) \<Longrightarrow>
   yields (case r of Inl a \<Rightarrow> f a | Inr b \<Rightarrow> g b) P"
  by (cases r) simp_all

lemma yields_option [yields_rules]:
  "(r = None \<Longrightarrow> yields n P) \<Longrightarrow> (\<And>b. r = Some b \<Longrightarrow> yields (g b) P) \<Longrightarrow>
   yields (case r of None \<Rightarrow> n | Some b \<Rightarrow> g b) P"
  by (cases r) simp_all

lemma yields_pair [yields_rules]: "(\<And>a b. r = (a, b) \<Longrightarrow> yields (f a b) P) \<Longrightarrow> yields (case r of (a, b) \<Rightarrow> f a b) P"
  by (cases r) simp

lemma rpc_with_schema [yields_rules]:
  assumes "yields m rpc_answer"
  shows "yields (with_schema H tool schema db m) rpc_answer"
proof -
  have "yields (schema_missing H schema db) (\<lambda>e. \<forall>x. e = Some x \<longrightarrow> rpc_answer x)"
    unfolding schema_missing_def by (intro yields_rules) (auto split: sum.splits if_splits)
  then have "yields (schema_missing H schema db)
      (\<lambda>e. yields (case e of Some e \<Rightarrow> finish tool ''error'' e | None \<Rightarrow> m) rpc_answer)"
    by (rule yields_weaken) (auto intro!: yields_rules assms split: option.split)
  then show ?thesis unfolding with_schema_def by (rule yields_follow)
qed

lemma rpc_catalog_tools [yields_rules]:
  "yields (handle_list_schemas H args) rpc_answer" "yields (handle_list_tables H args) rpc_answer"
  "yields (handle_describe_table H args) rpc_answer" "yields (handle_database_health H args) rpc_answer"
  "yields (handle_top_queries H args) rpc_answer" "yields (handle_analyze_indexes H args) rpc_answer"
  unfolding handle_list_schemas_def handle_list_tables_def handle_describe_table_def handle_database_health_def
    handle_top_queries_def handle_analyze_indexes_def Let_def
  by (intro yields_rules; simp)+

lemma rpc_resources [yields_rules]:
  "yields (resources_of H db) rpc_answer" "yields (handle_resources_list H) rpc_answer"
  "yields (handle_resources_read H params) rpc_answer"
proof -
  show r: "yields (resources_of H db) rpc_answer" for db
    unfolding resources_of_def Let_def by (intro yields_rules; simp)
  show "yields (handle_resources_list H) rpc_answer"
    unfolding handle_resources_list_def Let_def by (intro yields_rules r; simp)
  have "yields (andthen (handle_describe_table H a) (\<lambda>desc. ret (case f desc of Some body \<Rightarrow> resources_result (g body)
      | None \<Rightarrow> desc))) rpc_answer" for a f g
    by (rule yields_follow, rule yields_weaken [OF rpc_catalog_tools(3)]) (auto intro: yields_ret split: option.split)
  then show "yields (handle_resources_read H params) rpc_answer"
    unfolding handle_resources_read_def Let_def
    by (auto split: sum.split prod.split intro!: yields_ret yields_andthen [where m = "audit_as t d s" for t d s])
qed

lemma rpc_refusals [yields_rules]:
  "yields (guard_refusal tool sql e) rpc_answer" "yields (surface_refusal tool sql e) rpc_answer"
  by (simp_all add: yields_refusals)

lemma rpc_lifted [yields_rules]: "yields m rpc_answer \<Longrightarrow> yields (lifted m) answer_or_panic"
  by (rule yields_lifted) simp

lemma rpc_guarded [yields_rules]:
  "(\<And>e. yields (refuse e) rpc_answer) \<Longrightarrow> yields m answer_or_panic \<Longrightarrow> yields (guarded g refuse m) answer_or_panic"
  unfolding guarded_def by (intro yields_rules) auto

lemma rpc_query [yields_rules]: "yields (handle_query_tool H args) answer_or_panic"
proof -
  have "yields (run_query H sql final r n off db) rpc_answer" for sql final r n off db
    unfolding run_query_def by (intro yields_rules; simp)
  then show ?thesis
    unfolding handle_query_tool_def guard_explained_def guard_rows_def Let_def
    by (intro yields_rules; simp)
qed

lemma rpc_explain [yields_rules]: "yields (handle_explain_query H args) answer_or_panic"
proof -
  have "yields (run_explain H sql an inner db) rpc_answer" for sql an inner db
    unfolding run_explain_def Let_def by (intro yields_rules; simp)
  then show ?thesis
    unfolding handle_explain_query_def Let_def by (intro yields_rules; simp)
qed

lemma rpc_simulate [yields_rules]: "yields (handle_simulate_index H args) answer_or_panic"
proof -
  have "yields (run_simulation H sql schema table cols meth db) answer_or_panic" for sql schema table cols meth db
    unfolding run_simulation_def by (intro yields_rules; simp)
  then show ?thesis
    unfolding handle_simulate_index_def guard_simulation_def Let_def by (intro yields_rules; simp)
qed

lemma rpc_posture [yields_rules]: "yields (handle_security_posture w D env args) rpc_answer"
  unfolding handle_security_posture_def by (intro yields_rules; simp)

lemma rpc_call: "yields (handle_tools_call H params) answer_or_panic"
  unfolding handle_tools_call_def Let_def by (intro yields_rules; simp)

section \<open>A request\<close>

definition outcome_shape :: "rev_state \<times> (panic + json) \<Rightarrow> bool" where
  "outcome_shape o' = answer_or_panic (snd o')"

lemma outcome_ret [yields_rules]: "answer_or_panic r \<Longrightarrow> yields (ret (s, r)) outcome_shape"
  by (simp add: yields_ret outcome_shape_def)

lemma outcome_answered [yields_rules]: "yields m rpc_answer \<Longrightarrow> yields (answered s m) outcome_shape"
  unfolding answered_def by (rule yields_follow) (simp add: yields_def ret_def outcome_shape_def)

lemma outcome_dispatch: "yields (dispatch H m params s) outcome_shape"
proof -
  have disc: "yields (handle_server_discover H) rpc_answer"
    unfolding handle_server_discover_def Let_def by (intro yields_rules; simp)
  have "yields (handle_initialize H params s) (\<lambda>(s', v). rpc_answer v)"
    unfolding handle_initialize_def by (intro yields_rules; simp)
  then have init: "yields (andthen (handle_initialize H params s) (\<lambda>(s', v). ret (s', Inr v))) outcome_shape"
    by (intro yields_follow) (auto elim!: yields_weaken intro: outcome_ret)
  have call: "yields (andthen (handle_tools_call H params) (\<lambda>r. ret (s, case r of
      Inl p \<Rightarrow> Inl p | Inr v \<Rightarrow> Inr (shape_tool_result v (current_rev s))))) outcome_shape"
    by (rule yields_follow, rule yields_weaken [OF rpc_call]) (auto intro!: outcome_ret split: sum.splits)
  show ?thesis
    unfolding dispatch_def by (intro yields_if init disc call outcome_answered outcome_ret yields_rules; simp add: handle_tools_list_def)
qed

lemma outcome_run: "yields (run_method H m params s) outcome_shape"
proof -
  have "yields (andthen (dispatch H m params s1) (\<lambda>(s2, r). ret (leave s2, case r of
            Inl p \<Rightarrow> Inl p
          | Inr v \<Rightarrow> Inr (decorate_result v (current_rev s1) m (server_label (h_env H)) (h_version H))))) outcome_shape"
    for s1 and leave :: "rev_state \<Rightarrow> rev_state"
    by (rule yields_follow, rule yields_weaken [OF outcome_dispatch])
      (auto simp: outcome_shape_def intro!: yields_ret split: sum.splits)
  then show ?thesis unfolding run_method_def by (simp split: prod.split)
qed

text \<open>C30: Every answer is a JSON-RPC answer: for any request, any revision, any configuration and any
  behaviour of the database, what \<open>handle_request\<close> returns (unless a handler panics) is an object with
  exactly one field, a \<open>result\<close> or an \<open>error\<close> that carries a number as its code and a text as its
  message.\<close>

theorem every_answer_is_json_rpc:
  "answer_or_panic (snd (fst (handle_request H req s l)))"
proof -
  have "yields (handle_request H req s) outcome_shape"
    unfolding handle_request_def Let_def
    by (intro yields_rules outcome_run; auto dest: rpc_unsupported split: if_splits)
  then show ?thesis by (simp add: yields_def outcome_shape_def)
qed

end
