(* ===== verification/Setup_Sql.thy ===== *)
theory Setup_Sql
  imports Cost_Guard Posture Validate_Redaction
begin

text \<open>
  The generator of the least-privilege role (\<open>src/setup_sql.rs\<close>): names as the command line and the
  catalog give them, the quoting that puts them into SQL, the relations to grant and the script that is
  printed. It never executes anything.
\<close>

section \<open>Quoting\<close>

definition quote_ident :: "string \<Rightarrow> string" where
  "quote_ident name = CHR 0x22 # double_char CHR 0x22 name @ [CHR 0x22]"

definition quote_literal :: "string \<Rightarrow> string" where
  "quote_literal value = double_char CHR 0x27 value"

definition lower_digit :: "nat \<Rightarrow> char" where
  "lower_digit d = char_of (if d < 10 then 48 + d else 87 + d)"

text \<open>\<open>{:x}\<close> of a character that takes at most two digits, as every control character does.\<close>

definition lower_hex :: "nat \<Rightarrow> string" where
  "lower_hex n = (if n < 16 then [lower_digit n] else [lower_digit (n div 16), lower_digit (n mod 16)])"

definition comment_char :: "nat \<Rightarrow> string" where
  "comment_char c =
     (if c = 10 then [CHR 0x5C, CHR ''n'']
      else if c = 13 then [CHR 0x5C, CHR ''r'']
      else if c = 0 then [CHR 0x5C, CHR ''0'']
      else if is_control c then [CHR 0x5C] @ ''u{'' @ lower_hex c @ ''}''
      else utf8_encode c)"

definition comment_safe :: "string \<Rightarrow> string" where
  "comment_safe txt' = concat (map comment_char (utf8_chars txt'))"

definition forbidden_chars :: string where
  "forbidden_chars = [CHR 0x00, CHR 0x0A, CHR 0x0D, CHR 0x22, CHR 0x27, CHR '';'', CHR 0x5C]"

definition sane_ident :: "string \<Rightarrow> string + string" where
  "sane_ident name =
     (if name = [] \<or> 63 < length name then Inl (quote name @ '' is not a usable identifier (1-63 characters)'')
      else if list_ex (\<lambda>c. c \<in> set forbidden_chars) name then Inl (quote name @
        '' contains characters an identifier may not'')
      else Inr name)"

section \<open>Options and grants\<close>

record setup_opts =
  so_role :: string
  so_schemas :: "string list"
  so_tables :: "string list"
  so_redact :: "string list"
  so_database :: "string option"
  so_owner :: string

record grant =
  gr_schema :: string
  gr_table :: string
  gr_columns :: "string list option"
  gr_hidden :: "string list"

definition csv_items :: "string option \<Rightarrow> string list" where
  "csv_items v = (case v of
     None \<Rightarrow> [] | Some s \<Rightarrow> filter (\<lambda>x. x \<noteq> []) (map trim (split_char CHR '','' s)))"

fun arg_after :: "string list \<Rightarrow> string \<Rightarrow> string option" where
  "arg_after [] name = None"
| "arg_after (a # args) name = (if a = name then (case args of v # _ \<Rightarrow> Some v | [] \<Rightarrow> None) else arg_after args name)"

definition setup_opts_of :: "env \<Rightarrow> string list \<Rightarrow> setup_opts" where
  "setup_opts_of env args =
     (let or_env = (\<lambda>xs k. if xs = [] then csv_items (env k) else xs) in
      \<lparr>so_role = (case arg_after args ''--role'' of Some r \<Rightarrow> r | None \<Rightarrow> ''mcp_reader''),
       so_schemas = or_env (csv_items (arg_after args ''--schemas'')) ''MCP_ALLOW_SCHEMAS'',
       so_tables = csv_items (arg_after args ''--tables''),
       so_redact = or_env (csv_items (arg_after args ''--redact'')) ''MCP_REDACT_COLUMNS'',
       so_database = arg_after args ''--database'',
       so_owner = (case arg_after args ''--owner'' of Some r \<Rightarrow> r | None \<Rightarrow> ''postgres'')\<rparr>)"

definition CURRENT_DB_SQL :: string where
  "CURRENT_DB_SQL = ''SELECT current_database() AS db''"

definition COLUMNS_SQL :: string where
  "COLUMNS_SQL = ''SELECT n.nspname AS schema, c.relname AS rel, array_agg(a.attname ORDER BY a.attnum) '' @
        ''AS cols FROM pg_class c JOIN pg_namespace n ON n.oid = c.relnamespace JOIN '' @
        ''pg_attribute a ON a.attrelid = c.oid AND a.attnum > 0 AND NOT a.attisdropped WHERE '' @
        ''c.relkind IN ('r','p','v','m','f') AND n.nspname = ANY($1) GROUP BY 1, 2 ORDER BY 1, 2''"

definition table_wanted :: "setup_opts \<Rightarrow> string \<Rightarrow> string \<Rightarrow> bool" where
  "table_wanted o' schema table =
     (so_tables o' = []
      \<or> list_ex (\<lambda>t. eq_ignore_ascii_case t (schema @ ''.'' @
        table) \<or> eq_ignore_ascii_case t (schema @ ''.*'')) (so_tables o'))"

definition grant_of :: "setup_opts \<Rightarrow> json \<Rightarrow> grant option" where
  "grant_of o' r =
     (let redacted = map to_lowercase (so_redact o');
          schema = (case get_str ''schema'' r of Some s \<Rightarrow> s | None \<Rightarrow> []);
          table = (case get_str ''rel'' r of Some s \<Rightarrow> s | None \<Rightarrow> []) in
      if \<not> table_wanted o' schema table then None
      else (let cols = (case Option.bind (jget ''cols'' r) as_array of Some a \<Rightarrow> List.map_filter as_str a | None \<Rightarrow> []);
                hidden = filter (\<lambda>c. List.member redacted (to_lowercase c)) cols;
                keep = filter (\<lambda>c. \<not> List.member redacted (to_lowercase c)) cols in
            Some \<lparr>gr_schema = schema, gr_table = table,
                  gr_columns = (if hidden = [] then None else Some keep), gr_hidden = hidden\<rparr>))"

definition discover :: "host \<Rightarrow> string list \<Rightarrow> setup_opts \<Rightarrow> (string + (grant list \<times> string)) act" where
  "discover H schemas o' =
     attempted (catalog H CURRENT_DB_SQL [] None) (\<lambda>db.
       attempted (catalog H COLUMNS_SQL [P_Texts schemas] None) (\<lambda>v.
         ret (Inr (List.map_filter (grant_of o') (rows_of v),
           (case rows_of db of
              r # _ \<Rightarrow> (case get_str ''db'' r of Some d \<Rightarrow> d | None \<Rightarrow> ''<DATABASE>'')
            | [] \<Rightarrow> ''<DATABASE>'')))))"

section \<open>The script\<close>

definition sql_head :: "string option \<Rightarrow> string" where
  "sql_head offline =
     ''-- Role for postgres-mcp-hardened. READ THIS BEFORE RUNNING IT: it changes privileges.'' @ [CHR 0x0A]
     @ ''--   psql -v pw='' @ [CHR 0x22] @ ''$(openssl rand -base64 24)'' @ [CHR 0x22] @ '' -f setup.sql'' @
        [CHR 0x0A]
     @ (case offline of
          None \<Rightarrow> []
        | Some why \<Rightarrow> ''--'' @ [CHR 0x0A] @ ''-- NOTE: generated WITHOUT reading the database ('' @
        comment_safe why @ ''), so table and column lists are'' @ [CHR 0x0A] @
        ''-- placeholders. Run this again with DATABASE_URL set and they will be filled in '' @ dash @ '' that'' @
        [CHR 0x0A] @
        ''-- matters most for redaction, where the columns to re-grant must come from the catalogue.'' @ [CHR 0x0A]
            @ [CHR 0x5C] @ ''set ON_ERROR_STOP on'' @ [CHR 0x0A])"

definition sql_role :: "string \<Rightarrow> string" where
  "sql_role role =
     [CHR 0x0A] @ ''-- 1. A role that inherits nothing, bypasses nothing, creates nothing.'' @ [CHR 0x0A]
     @ ''CREATE ROLE '' @ role @ '' LOGIN PASSWORD :'pw'' @ [CHR 0x27, CHR 0x0A] @
        ''  NOSUPERUSER NOCREATEDB NOCREATEROLE NOINHERIT NOBYPASSRLS NOREPLICATION'' @ [CHR 0x0A] @
        ''  CONNECTION LIMIT 16;'' @ [CHR 0x0A]"

definition role_limit :: "string \<Rightarrow> string \<Rightarrow> string \<Rightarrow> string" where
  "role_limit role k v = ''ALTER ROLE '' @ role @ '' SET '' @ k @ '' = '' @ [CHR 0x27] @ v @ [CHR 0x27] @ '';'' @
        [CHR 0x0A]"

definition sql_limits :: "string \<Rightarrow> string list \<Rightarrow> string" where
  "sql_limits role schemas =
     [CHR 0x0A] @ ''-- 2. Limits the database enforces even if the client never sets them.'' @ [CHR 0x0A]
     @ concat (map (\<lambda>(k, v). role_limit role k v)
         [(''statement_timeout'', ''30s''), (''idle_in_transaction_session_timeout'', ''10s''), (''lock_timeout'', ''2s'')])
     @ ''ALTER ROLE '' @ role @ '' SET default_transaction_read_only = on;'' @ [CHR 0x0A]
     @ ''ALTER ROLE '' @ role @ '' SET search_path = '' @
        join '', '' (map (\<lambda>sc. CHR 0x27 # quote_literal sc @ [CHR 0x27]) schemas) @ '';'' @ [CHR 0x0A]"

definition sql_usage :: "string \<Rightarrow> string list \<Rightarrow> string \<Rightarrow> string" where
  "sql_usage role schemas db =
     [CHR 0x0A] @ ''-- 3. Nothing by default. USAGE on the schema, not CREATE.'' @ [CHR 0x0A]
     @ ''GRANT CONNECT ON DATABASE '' @ quote_ident db @ '' TO '' @ role @ '';'' @ [CHR 0x0A]
     @ concat (map (\<lambda>sc. ''REVOKE ALL ON SCHEMA '' @ quote_ident sc @ '' FROM '' @ role @ '';'' @
        [CHR 0x0A] @ ''GRANT USAGE ON SCHEMA '' @ quote_ident sc @ '' TO '' @ role @ '';'' @ [CHR 0x0A]) schemas)"

definition whole_grant :: "string \<Rightarrow> grant \<Rightarrow> string" where
  "whole_grant role g = ''GRANT SELECT ON '' @ quote_ident (gr_schema g) @ ''.'' @ quote_ident (gr_table g) @
        '' TO '' @ role @ '';'' @ [CHR 0x0A]"

definition sql_grants :: "string \<Rightarrow> grant list \<Rightarrow> string" where
  "sql_grants role grants =
     [CHR 0x0A] @ ''-- 4. The surface, named one relation at a time.'' @ [CHR 0x0A]
     @ ''--    Deliberately not `GRANT SELECT ON ALL TABLES`: that grants whatever exists at the'' @ [CHR 0x0A]
     @ ''--    moment you run it, which is not the same as what you meant.'' @ [CHR 0x0A]
     @ (if grants = [] then ''GRANT SELECT ON <SCHEMA>.<TABLE> TO '' @ role @ '';   -- repeat per table'' @
        [CHR 0x0A] else [])
     @ concat (map (whole_grant role) (filter (\<lambda>g. gr_columns g = None) grants))"

definition column_grant :: "string \<Rightarrow> grant \<Rightarrow> string" where
  "column_grant role g =
     (let keep = join '', '' (map quote_ident (case gr_columns g of Some c \<Rightarrow> c | None \<Rightarrow> [])) in
      ''REVOKE SELECT ON '' @ quote_ident (gr_schema g) @ ''.'' @ quote_ident (gr_table g) @ '' FROM '' @ role @
        '';'' @ [CHR 0x0A]
      @ (if keep = [] then
           ''-- every column of '' @ comment_safe (gr_schema g) @ ''.'' @ comment_safe (gr_table g) @
        '' is redacted; no GRANT follows, on purpose'' @ [CHR 0x0A]
         else
           ''GRANT SELECT ('' @ keep @ '') ON '' @ quote_ident (gr_schema g) @ ''.'' @ quote_ident (gr_table g) @
        '' TO '' @ role @ '';   -- hidden: '' @ comment_safe (join '', '' (gr_hidden g)) @ [CHR 0x0A]))"

definition sql_columns :: "string \<Rightarrow> bool \<Rightarrow> grant list \<Rightarrow> string" where
  "sql_columns role redact grants =
     (let redacting = filter (\<lambda>g. gr_columns g \<noteq> None) grants in
      (if redacting \<noteq> [] \<or> redact then
         [CHR 0x0A] @ ''-- 5. Sensitive columns, revoked so that PostgreSQL enforces it.'' @ [CHR 0x0A]
         @ ''--    A bare `REVOKE SELECT (col) ON t` is SILENTLY A NO-OP while the role holds SELECT'' @ [CHR 0x0A]
         @ ''--    on the whole table. The table-level REVOKE has to come first, then a GRANT of the'' @ [CHR 0x0A]
         @ ''--    columns that stay. Consequence: PostgreSQL then refuses `SELECT *` on that table,'' @ [CHR 0x0A]
         @ ''--    so callers name columns '' @ dash @ '' describe_table lists them and marks the missing one.'' @
        [CHR 0x0A]
       else [])
      @ concat (map (column_grant role) redacting))"

definition sql_defaults :: "string \<Rightarrow> string \<Rightarrow> string list \<Rightarrow> string" where
  "sql_defaults role owner schemas =
     [CHR 0x0A] @ ''-- 6. Tables created later must not appear by themselves.'' @ [CHR 0x0A]
     @ ''--    FOR ROLE matters: default privileges are recorded per granting role, so without it'' @ [CHR 0x0A]
     @ ''--    you set a rule for yourself while the tables are created by someone else.'' @ [CHR 0x0A]
     @ concat (map (\<lambda>sc. ''ALTER DEFAULT PRIVILEGES FOR ROLE '' @ quote_ident owner @ '' IN SCHEMA '' @
        quote_ident sc @ '' REVOKE ALL ON TABLES FROM '' @ role @ '';'' @ [CHR 0x0A]) schemas)"

definition sql_checks :: "string \<Rightarrow> bool \<Rightarrow> string" where
  "sql_checks name redact =
     [CHR 0x0A] @ ''-- 7. Check it did what you think. Each of these should return no rows.'' @ [CHR 0x0A]
     @ ''SELECT 'still privileged' AS problem, rolname FROM pg_roles'' @ [CHR 0x0A] @ '' WHERE rolname = '' @
        [CHR 0x27] @ quote_literal name @ [CHR 0x27] @
        '' AND (rolsuper OR rolbypassrls OR rolcreatedb OR rolcreaterole OR rolreplication);'' @ [CHR 0x0A]
     @ ''SELECT 'owns a relation (owners bypass column grants and RLS)' AS problem, c.relname'' @ [CHR 0x0A] @
        '' FROM pg_class c WHERE c.relowner = '' @ [CHR 0x27] @ quote_literal name @ [CHR 0x27] @ ''::regrole;'' @
        [CHR 0x0A]
     @ (if redact then
          ''-- and the column that must stay hidden, asked as the role itself:'' @ [CHR 0x0A]
          @ ''--   SET ROLE '' @ quote_ident name
          @ ''; SELECT <redacted column> FROM <table>;   -- expect SQLSTATE 42501'' @ [CHR 0x0A]
        else [])"

definition sql_tail :: "string \<Rightarrow> string \<Rightarrow> string" where
  "sql_tail name db =
     [CHR 0x0A] @ ''-- 8. Point the server at it, then confirm from the other side:'' @ [CHR 0x0A]
     @ ''--   DATABASE_URL=postgres://'' @ name @ '':...@host:5432/'' @ db @ '' postgres-mcp-hardened'' @ [CHR 0x0A]
     @ ''--   the server prints what the role may do, and refuses a network listener if it may '' @ ''write.'' @
        [CHR 0x0A]"

definition render :: "setup_opts \<Rightarrow> string list \<Rightarrow> grant list \<Rightarrow> string \<Rightarrow> string option \<Rightarrow> string" where
  "render o' schemas grants db offline =
     (let role = quote_ident (so_role o'); redact = (so_redact o' \<noteq> []) in
      sql_head offline @ sql_role role @ sql_limits role schemas @ sql_usage role schemas db
      @ sql_grants role grants @ sql_columns role redact grants @ sql_defaults role (so_owner o') schemas
      @ sql_checks (so_role o') redact @ sql_tail (so_role o') db)"

text \<open>The exit code and what is printed.\<close>

definition setup_run :: "host \<Rightarrow> string list \<Rightarrow> (nat \<times> string) act" where
  "setup_run H args =
     (let o' = setup_opts_of (h_env H) args;
          schemas = (if so_schemas o' = [] then [''public''] else so_schemas o') in
      if list_ex (\<lambda>n. \<not> is_ok (sane_ident n)) ([so_role o'] @ schemas @ [so_owner o']) then ret (2, [])
      else andthen (discover H schemas o') (\<lambda>r. ret (0, case r of
          Inr (grants, db) \<Rightarrow> render o' schemas grants db None
        | Inl e \<Rightarrow> render o' schemas [] (case so_database o' of Some d \<Rightarrow> d | None \<Rightarrow> ''<DATABASE>'') (Some e))))"

end
