(* ===== verification/Setup_Props.thy ===== *)
theory Setup_Props
  imports Setup_Sql Db_Props
begin

text \<open>
  The generated script (\<open>src/setup_sql.rs\<close>) is run by a superuser. Its names come from the command line and
  from the catalog, and none of them can become syntax: what PostgreSQL reads outside quoted
  identifiers, literals and comments is the same whatever the names are, with one exception, the name of
  the database in the last comment. A column that is to stay hidden is in no grant.
\<close>

section \<open>What PostgreSQL reads as syntax\<close>

text \<open>The scanner of \<open>psql\<close> and of the server on such scripts: double quotes enclose an identifier, single
  quotes a literal, two dashes start a comment that a line end closes. A doubled quote leaves the quotes
  and enters them again, without a character between.\<close>

datatype lex = L_Code | L_Dash | L_Ident | L_Lit | L_Comment

definition line_end :: "char \<Rightarrow> bool" where
  "line_end c = (c = CHR 0x0A \<or> c = CHR 0x0D)"

definition lex_code :: "string \<Rightarrow> char \<Rightarrow> lex \<times> string" where
  "lex_code before c =
     (if c = CHR 0x22 then (L_Ident, before)
      else if c = CHR 0x27 then (L_Lit, before)
      else if c = CHR ''-'' then (L_Dash, before)
      else (L_Code, before @ [c]))"

fun lex_step :: "lex \<Rightarrow> char \<Rightarrow> lex \<times> string" where
  "lex_step L_Code c = lex_code [] c"
| "lex_step L_Dash c = (if c = CHR ''-'' then (L_Comment, []) else lex_code ''-'' c)"
| "lex_step L_Ident c = (if c = CHR 0x22 then L_Code else L_Ident, [])"
| "lex_step L_Lit c = (if c = CHR 0x27 then L_Code else L_Lit, [])"
| "lex_step L_Comment c = (if line_end c then (L_Code, [c]) else (L_Comment, []))"

fun skel :: "lex \<Rightarrow> string \<Rightarrow> lex \<times> string" where
  "skel st [] = (st, [])"
| "skel st (c # s) = (case lex_step st c of (st', o') \<Rightarrow> apsnd ((@) o') (skel st' s))"

definition syntax_of :: "string \<Rightarrow> string" where
  "syntax_of s = snd (skel L_Code s)"

lemma skel_append: "skel st (a @ b) = (case skel st a of (s1, o1) \<Rightarrow> apsnd ((@) o1) (skel s1 b))"
  by (induction a arbitrary: st) (simp_all add: split_beta apsnd_def map_prod_def)

section \<open>Quoted names\<close>

lemma skel_inside_ident: "skel L_Ident (double_char CHR 0x22 n) = (L_Ident, [])"
  by (induction n) (simp_all add: double_char_def lex_code_def apsnd_def map_prod_def)

lemma skel_inside_lit: "skel L_Lit (double_char CHR 0x27 n) = (L_Lit, [])"
  by (induction n) (simp_all add: double_char_def lex_code_def apsnd_def map_prod_def)

lemma skel_ident: "skel L_Code (quote_ident n @ s) = skel L_Code s"
  by (simp add: quote_ident_def lex_code_def skel_append skel_inside_ident apsnd_def map_prod_def split_beta)

lemma skel_lit: "skel L_Lit (quote_literal n @ s) = skel L_Lit s"
  by (simp add: quote_literal_def skel_append skel_inside_lit apsnd_def map_prod_def split_beta)

lemma skel_comment: "list_all (\<lambda>c. \<not> line_end c) n \<Longrightarrow> skel L_Comment (n @ s) = skel L_Comment s"
  by (induction n) (simp_all add: apsnd_def map_prod_def split_beta)

lemma utf8_chars_bound: "c \<in> set (utf8_chars s) \<Longrightarrow> c < 2097152"
proof (induction s rule: utf8_chars.induct)
  case (2 b s)
  have m: "k mod 64 \<le> 63" for k :: nat using mod_less_divisor [of 64 k] by linarith
  show ?case
    using "2.prems" "2.IH" m [of "of_char (s ! 0)"] m [of "of_char (s ! 1)"] m [of "of_char (s ! 2)"]
      mod_less_divisor [of 32 "of_char b :: nat"] mod_less_divisor [of 16 "of_char b :: nat"]
      mod_less_divisor [of 8 "of_char b :: nat"]
    by (auto simp: Let_def split: if_splits) linarith+
qed simp

lemma comment_char_safe:
  assumes "n < 2097152"
  shows "list_all (\<lambda>c. \<not> line_end c) (comment_char n)"
proof -
  have big: "\<not> line_end (char_of k)" if "32 \<le> k" "k < 256" for k :: nat
  proof
    assume "line_end (char_of k)"
    then have "char_of k = CHR 0x0A \<or> char_of k = CHR 0x0D" by (simp add: line_end_def)
    then have "(of_char (char_of k :: char) :: nat) = 10 \<or> (of_char (char_of k :: char) :: nat) = 13"
      by (elim disjE; simp)
    then show False using that by simp
  qed
  have digit: "\<not> line_end (lower_digit k)" if "k < 16" for k
    unfolding lower_digit_def by (rule big) (use that in auto)
  show ?thesis
  proof (cases "is_control n")
    case True
    then have "n < 160" by (auto simp: is_control_def)
    then have "list_all (\<lambda>c. \<not> line_end c) (lower_hex n)"
      by (auto simp: lower_hex_def intro!: digit)
    with True show ?thesis by (auto simp: comment_char_def line_end_def)
  next
    case False
    then have "32 \<le> n" by (auto simp: is_control_def)
    with assms have "list_all (\<lambda>c. \<not> line_end c) (utf8_encode n)"
      by (simp add: utf8_encode_def) (intro conjI impI big; simp; linarith)
    with False \<open>32 \<le> n\<close> show ?thesis by (simp add: comment_char_def)
  qed
qed

lemma comment_safe_line: "list_all (\<lambda>c. \<not> line_end c) (comment_safe t)"
  using comment_char_safe utf8_chars_bound [of _ t]
  by (auto simp: comment_safe_def list_all_iff)

lemma skel_comment_safe: "skel L_Comment (comment_safe t @ s) = skel L_Comment s"
  by (rule skel_comment [OF comment_safe_line])

lemma quote_ident_line: "list_all (\<lambda>c. \<not> line_end c) n \<Longrightarrow> list_all (\<lambda>c. \<not> line_end c) (quote_ident n)"
  by (auto simp: quote_ident_def double_char_def list_all_iff line_end_def)

section \<open>Parts of a script\<close>

text \<open>Two texts with the same syntax, read from a state, and the state in which a text ends.\<close>

definition alike :: "lex \<Rightarrow> string \<Rightarrow> string \<Rightarrow> bool" where
  "alike st a b = (skel st a = skel st b)"

fun lex_run :: "lex \<Rightarrow> string \<Rightarrow> lex" where
  "lex_run st [] = st"
| "lex_run st (c # s) = lex_run (fst (lex_step st c)) s"

lemma fst_skel: "fst (skel st s) = lex_run st s"
  by (induction s arbitrary: st) (simp_all add: split_beta apsnd_def map_prod_def)

lemma alike_refl [simp]: "alike st a a"
  by (simp add: alike_def)

lemma alike_Cons: "alike st (c # a) (c # b) = alike (fst (lex_step st c)) a b"
  by (auto simp: alike_def split_beta prod_eq_iff)

lemma alike_same: "alike st (p @ a) (p @ b) = alike (lex_run st p) a b"
  by (auto simp: alike_def skel_append split_beta prod_eq_iff simp flip: fst_skel)

lemma alike_append: "alike st p q \<Longrightarrow> alike (lex_run st p) a b \<Longrightarrow> alike st (p @ a) (q @ b)"
  by (simp add: alike_def skel_append split_beta flip: fst_skel)

lemma lex_run_append [simp]: "lex_run st (a @ b) = lex_run (lex_run st a) b"
  by (simp add: skel_append split_beta flip: fst_skel)

text \<open>What the script relies on wherever it puts a name: text that is written in a state of the scanner, is
  never read as syntax there, and leaves the scanner in that state.\<close>

locale quoted_text =
  fixes st :: lex and written :: "string \<Rightarrow> string"
  assumes skel_written: "skel st (written n @ s) = skel st s"
begin

lemma alike_written: "alike st (written m @ a) (written n @ b) = alike st a b"
  by (simp add: alike_def skel_written)

lemma lex_run_written: "lex_run st (written n) = st"
  using skel_written [of n "[]"] by (simp flip: fst_skel)

end

interpretation in_ident: quoted_text L_Code quote_ident
  by unfold_locales (rule skel_ident)

interpretation in_literal: quoted_text L_Lit quote_literal
  by unfold_locales (rule skel_lit)

interpretation in_comment: quoted_text L_Comment comment_safe
  by unfold_locales (rule skel_comment_safe)

lemmas alike_names = in_ident.alike_written in_literal.alike_written in_comment.alike_written

lemmas lex_run_names [simp] = in_ident.lex_run_written in_literal.lex_run_written in_comment.lex_run_written

lemma alike_line: "list_all (\<lambda>c. \<not> line_end c) m \<Longrightarrow> list_all (\<lambda>c. \<not> line_end c) n
  \<Longrightarrow> alike L_Comment (m @ a) (n @ b) = alike L_Comment a b"
  by (simp add: alike_def skel_comment)

lemma lex_run_line: "list_all (\<lambda>c. \<not> line_end c) n \<Longrightarrow> lex_run L_Comment n = L_Comment"
  by (induction n) simp_all

lemmas alike_rules = alike_same alike_Cons alike_names alike_line lex_code_def line_end_def

text \<open>Text that starts and ends outside every quote and comment.\<close>

definition block :: "string \<Rightarrow> string \<Rightarrow> bool" where
  "block a b = (alike L_Code a b \<and> lex_run L_Code a = L_Code)"

lemma block_append: "block a b \<Longrightarrow> block c d \<Longrightarrow> block (a @ c) (b @ d)"
  by (simp add: block_def alike_append)

lemma block_same: "lex_run L_Code a = L_Code \<Longrightarrow> block a a"
  by (simp add: block_def)

lemma block_concat: "list_all2 (\<lambda>x y. block (f x) (g y)) xs ys \<Longrightarrow> block (concat (map f xs)) (concat (map g ys))"
  by (induction rule: list_all2_induct) (simp_all add: block_same block_append)

lemma block_names:
  assumes "length xs = length ys" "\<And>x y. block (f x) (f y)"
  shows "block (join '', '' (map f xs)) (join '', '' (map f ys))"
  using assms(1)
proof (induction xs ys rule: list_induct2)
  case (Cons x xs y ys)
  note b = assms(2) [of x y] and i = Cons.IH
  have s: "block '', '' '', ''" by (simp add: block_same lex_code_def)
  from Cons.hyps show ?case
    using block_append [OF b block_append [OF s i]] b by (cases xs; cases ys; simp)
qed (simp add: block_same)

lemma block_each:
  assumes "length xs = length ys" "\<And>x y. block (f x) (f y)"
  shows "block (concat (map f xs)) (concat (map f ys))"
  by (rule block_concat) (use assms in \<open>simp add: list_all2_conv_all_nth\<close>)

section \<open>Sections of the script\<close>

lemma block_ident: "block (quote_ident m) (quote_ident n)"
  using in_ident.alike_written [of m "[]" n "[]"] by (simp add: block_def)

lemma block_role: "block (sql_role (quote_ident a)) (sql_role (quote_ident b))"
  unfolding sql_role_def by (simp add: block_def alike_rules)

lemma block_head: "(x = None) = (y = None) \<Longrightarrow> block (sql_head x) (sql_head y)"
  unfolding sql_head_def by (cases x; cases y; simp add: block_def dash_def alike_rules)

lemma block_quoted: "block (CHR 0x27 # quote_literal m @ [CHR 0x27]) (CHR 0x27 # quote_literal n @ [CHR 0x27])"
  by (simp add: block_def alike_rules)

lemma block_limits:
  assumes "length ss = length ts"
  shows "block (sql_limits (quote_ident a) ss) (sql_limits (quote_ident b) ts)"
proof -
  note p = block_names [OF assms block_quoted]
  have "alike L_Code (join '', '' (map (\<lambda>sc. CHR 0x27 # quote_literal sc @ [CHR 0x27]) ss) @ '';\<newline>'')
          (join '', '' (map (\<lambda>sc. CHR 0x27 # quote_literal sc @ [CHR 0x27]) ts) @ '';\<newline>'')"
    by (rule alike_append) (use p in \<open>simp_all add: block_def\<close>)
  with p show ?thesis
    unfolding sql_limits_def role_limit_def by (simp add: block_def alike_rules)
qed

lemma block_usage:
  assumes "length ss = length ts"
  shows "block (sql_usage (quote_ident a) ss d) (sql_usage (quote_ident b) ts e)"
proof -
  have "block (''REVOKE ALL ON SCHEMA '' @ quote_ident x @ '' FROM '' @ quote_ident a @ '';'' @
        [CHR 0x0A] @ ''GRANT USAGE ON SCHEMA '' @ quote_ident x @ '' TO '' @ quote_ident a @ '';'' @ [CHR 0x0A])
      (''REVOKE ALL ON SCHEMA '' @ quote_ident y @ '' FROM '' @ quote_ident b @ '';'' @
        [CHR 0x0A] @ ''GRANT USAGE ON SCHEMA '' @ quote_ident y @ '' TO '' @ quote_ident b @ '';'' @ [CHR 0x0A])" for x y
    by (simp add: block_def alike_rules)
  note p = block_concat [OF list_all2_mono [OF _ this]]
  have "list_all2 (\<lambda>x y. True) ss ts" using assms by (simp add: list_all2_conv_all_nth)
  note p [OF this]
  then show ?thesis unfolding sql_usage_def by (simp add: block_def alike_rules)
qed

text \<open>Two grants of one shape: both whole, or both by column with as many columns.\<close>

definition same_shape :: "grant \<Rightarrow> grant \<Rightarrow> bool" where
  "same_shape g h = (map_option length (gr_columns g) = map_option length (gr_columns h))"

lemma list_all2_filter_both:
  "list_all2 R xs ys \<Longrightarrow> (\<And>x y. R x y \<Longrightarrow> P x = P y)
   \<Longrightarrow> list_all2 (\<lambda>x y. R x y \<and> P x) (filter P xs) (filter P ys)"
  by (induction rule: list_all2_induct) auto

lemma block_whole: "block (whole_grant (quote_ident a) g) (whole_grant (quote_ident b) h)"
  by (simp add: whole_grant_def block_def alike_rules)

lemma block_grants:
  assumes "list_all2 same_shape gs hs"
  shows "block (sql_grants (quote_ident a) gs) (sql_grants (quote_ident b) hs)"
proof -
  have "list_all2 (\<lambda>g h. same_shape g h \<and> gr_columns g = None)
          (filter (\<lambda>g. gr_columns g = None) gs) (filter (\<lambda>g. gr_columns g = None) hs)"
    by (rule list_all2_filter_both [OF assms]) (auto simp: same_shape_def)
  note block_concat [OF list_all2_mono [OF this block_whole]]
  moreover have "gs = [] \<longleftrightarrow> hs = []" using assms by auto
  ultimately show ?thesis unfolding sql_grants_def by (cases "gs = []") (simp_all add: block_def alike_rules)
qed

lemma join_quoted_Nil: "(join '', '' (map quote_ident xs) = []) = (xs = [])"
  by (cases xs; cases "tl xs"; simp add: quote_ident_def)

lemma block_column:
  assumes "same_shape g h" "gr_columns g \<noteq> None"
  shows "block (column_grant (quote_ident a) g) (column_grant (quote_ident b) h)"
proof -
  obtain xs ys where c: "gr_columns g = Some xs" "gr_columns h = Some ys" and l: "length xs = length ys"
    using assms by (cases "gr_columns g"; cases "gr_columns h"; auto simp: same_shape_def)
  note p = block_names [OF l block_ident]
  have k: "alike L_Code (join '', '' (map quote_ident xs) @ m) (join '', '' (map quote_ident ys) @ n)"
    if "alike L_Code m n" for m n
    by (rule alike_append) (use p that in \<open>simp_all add: block_def\<close>)
  show ?thesis
  proof (cases "xs = []")
    case True
    with l have "ys = []" by simp
    with True c show ?thesis
      by (simp add: column_grant_def block_def alike_rules)
  next
    case False
    with l have "ys \<noteq> []" by auto
    with False c p show ?thesis
      by (simp add: column_grant_def join_quoted_Nil block_def alike_rules k)
  qed
qed

lemma block_columns:
  assumes "list_all2 same_shape gs hs"
  shows "block (sql_columns (quote_ident a) r gs) (sql_columns (quote_ident b) r hs)"
proof -
  have f: "list_all2 (\<lambda>g h. same_shape g h \<and> gr_columns g \<noteq> None)
          (filter (\<lambda>g. gr_columns g \<noteq> None) gs) (filter (\<lambda>g. gr_columns g \<noteq> None) hs)"
    by (rule list_all2_filter_both [OF assms]) (metis option.map_disc_iff same_shape_def)
  from f have c: "list_all2 (\<lambda>g h. block (column_grant (quote_ident a) g) (column_grant (quote_ident b) h))
          (filter (\<lambda>g. gr_columns g \<noteq> None) gs) (filter (\<lambda>g. gr_columns g \<noteq> None) hs)"
    by (rule list_all2_mono) (auto intro: block_column)
  note p = block_concat [OF c]
  from f have "filter (\<lambda>g. gr_columns g \<noteq> None) gs = [] \<longleftrightarrow> filter (\<lambda>g. gr_columns g \<noteq> None) hs = []" by auto
  then show ?thesis unfolding sql_columns_def Let_def
    by (intro block_append [OF _ p]) (auto simp: block_def dash_def alike_rules)
qed

lemma block_defaults:
  assumes "length ss = length ts"
  shows "block (sql_defaults (quote_ident a) o1 ss) (sql_defaults (quote_ident b) o2 ts)"
proof -
  have "block (''ALTER DEFAULT PRIVILEGES FOR ROLE '' @ quote_ident o1 @ '' IN SCHEMA '' @
        quote_ident x @ '' REVOKE ALL ON TABLES FROM '' @ quote_ident a @ '';'' @ [CHR 0x0A])
      (''ALTER DEFAULT PRIVILEGES FOR ROLE '' @ quote_ident o2 @ '' IN SCHEMA '' @
        quote_ident y @ '' REVOKE ALL ON TABLES FROM '' @ quote_ident b @ '';'' @ [CHR 0x0A])" for x y
    by (simp add: block_def alike_rules)
  moreover have "list_all2 (\<lambda>x y. True) ss ts" using assms by (simp add: list_all2_conv_all_nth)
  ultimately have p: "block
      (concat (map (\<lambda>x. ''ALTER DEFAULT PRIVILEGES FOR ROLE '' @ quote_ident o1 @ '' IN SCHEMA '' @
        quote_ident x @ '' REVOKE ALL ON TABLES FROM '' @ quote_ident a @ '';'' @ [CHR 0x0A]) ss))
      (concat (map (\<lambda>y. ''ALTER DEFAULT PRIVILEGES FOR ROLE '' @ quote_ident o2 @ '' IN SCHEMA '' @
        quote_ident y @ '' REVOKE ALL ON TABLES FROM '' @ quote_ident b @ '';'' @ [CHR 0x0A]) ts))"
    by (intro block_concat) (rule list_all2_mono)
  show ?thesis unfolding sql_defaults_def append_assoc [symmetric]
    by (intro block_append [OF _ p [unfolded append_assoc [symmetric]]] block_same) (simp add: lex_code_def line_end_def)
qed

text \<open>A name that \<open>sane_ident\<close> lets through stays on its line, quoted or not.\<close>

definition one_line :: "string \<Rightarrow> bool" where
  "one_line s = list_all (\<lambda>c. \<not> line_end c) s"

lemma sane_one_line: "is_ok (sane_ident n) \<Longrightarrow> one_line n"
  by (auto simp: sane_ident_def is_ok_def list_ex_iff list_all_iff one_line_def line_end_def forbidden_chars_def
      split: if_splits)

lemma block_checks:
  assumes "one_line a" "one_line b"
  shows "block (sql_checks a r) (sql_checks b r)"
  using assms [unfolded one_line_def, THEN quote_ident_line] unfolding sql_checks_def
  by (cases r) (simp_all add: block_def alike_rules lex_run_line)

lemma block_tail:
  assumes "one_line a" "one_line b" "one_line d" "one_line e"
  shows "block (sql_tail a d) (sql_tail b e)"
  using assms unfolding sql_tail_def one_line_def
  by (simp add: block_def alike_rules lex_run_line)

lemma block_render:
  assumes "is_ok (sane_ident (so_role o1))" "is_ok (sane_ident (so_role o2))" "one_line d" "one_line e"
    "list_all2 same_shape gs hs" "length ss = length ts" "(so_redact o1 = []) = (so_redact o2 = [])"
    "(x = None) = (y = None)"
  shows "block (render o1 ss gs d x) (render o2 ts hs e y)"
  unfolding render_def Let_def assms(7)
  by (intro block_append block_head block_role block_limits block_usage block_grants block_columns block_defaults
      block_checks block_tail assms sane_one_line)

text \<open>C28: role, owner, schema, table and column names cannot become SQL, nor can the name of a database on one
  line. Two scripts for options and relations of the same form (as many schemas, as many relations with as
  many columns) differ inside quoted identifiers, literals and comments only, whatever the role (one the
  generator accepts), the owner, the schemas, the tables, the columns and the reason for an offline script
  are called; and a script ends outside every quote. The name of the database is the exception: one that
  holds a line end leaves the comment it is written into and becomes SQL (\<open>database_name_escapes\<close>), so it
  is assumed to hold none.\<close>

theorem setup_script_syntax_fixed:
  assumes "is_ok (sane_ident (so_role o1))" "is_ok (sane_ident (so_role o2))" "one_line d" "one_line e"
    and "list_all2 same_shape gs hs" "length ss = length ts" "(so_redact o1 = []) = (so_redact o2 = [])"
    and "(x = None) = (y = None)"
  shows "syntax_of (render o1 ss gs d x) = syntax_of (render o2 ts hs e y)
    \<and> fst (skel L_Code (render o1 ss gs d x)) = L_Code"
  using block_render [OF assms] fst_skel [of L_Code "render o1 ss gs d x"]
  by (simp_all add: block_def alike_def syntax_of_def)

definition demo_opts :: "string \<Rightarrow> setup_opts" where
  "demo_opts owner = \<lparr>so_role = ''r'', so_schemas = [], so_tables = [], so_redact = [''ssn''], so_database = None,
     so_owner = owner\<rparr>"

definition demo_grant :: "string \<Rightarrow> grant" where
  "demo_grant t = \<lparr>gr_schema = ''s'', gr_table = t, gr_columns = Some [''id''], gr_hidden = [''ssn'']\<rparr>"

lemma setup_script_syntax_fixed_witness:
  "syntax_of (render (demo_opts ''a'') [''public''] [demo_grant ''people''] ''d'' None)
   = syntax_of (render (demo_opts ''b'') [''x''] [demo_grant [CHR 0x22, CHR '';'']] ''e'' None)"
  by (rule setup_script_syntax_fixed [THEN conjunct1])
    (simp_all add: demo_opts_def demo_grant_def sane_ident_def is_ok_def forbidden_chars_def one_line_def
      line_end_def same_shape_def)

lemma database_name_escapes: "\<not> alike L_Code (sql_tail ''r'' ''d'') (sql_tail ''r'' [CHR 0x0A, CHR ''X'', CHR '';''])"
  unfolding sql_tail_def by (simp add: alike_rules) (simp add: alike_def lex_code_def line_end_def apsnd_def map_prod_def)

section \<open>Hidden columns\<close>

definition row_columns :: "json \<Rightarrow> string list" where
  "row_columns r = (case Option.bind (jget ''cols'' r) as_array of Some a \<Rightarrow> List.map_filter as_str a | None \<Rightarrow> [])"

definition granted_columns :: "json \<Rightarrow> grant \<Rightarrow> string list" where
  "granted_columns r g = (case gr_columns g of None \<Rightarrow> row_columns r | Some k \<Rightarrow> k)"

text \<open>a column that a listed redaction names in any case is granted on no relation: the columns of a
  relation are divided between those the script grants and those it hides, and the hidden ones are exactly
  the redacted ones.\<close>

theorem hidden_columns_not_granted:
  assumes "grant_of o' r = Some g"
  shows "granted_columns r g = filter (\<lambda>c. to_lowercase c \<notin> set (map to_lowercase (so_redact o'))) (row_columns r)
    \<and> gr_hidden g = filter (\<lambda>c. to_lowercase c \<in> set (map to_lowercase (so_redact o'))) (row_columns r)"
proof -
  define red where "red = set (map to_lowercase (so_redact o'))"
  have "g = \<lparr>gr_schema = (case get_str ''schema'' r of Some s \<Rightarrow> s | None \<Rightarrow> []),
      gr_table = (case get_str ''rel'' r of Some s \<Rightarrow> s | None \<Rightarrow> []),
      gr_columns = (if filter (\<lambda>c. to_lowercase c \<in> red) (row_columns r) = [] then None
        else Some (filter (\<lambda>c. to_lowercase c \<notin> red) (row_columns r))),
      gr_hidden = filter (\<lambda>c. to_lowercase c \<in> red) (row_columns r)\<rparr>"
    using assms unfolding grant_of_def Let_def row_columns_def [symmetric] red_def
    by (simp del: set_map split: if_split_asm)
  then have g: "gr_columns g = (if filter (\<lambda>c. to_lowercase c \<in> red) (row_columns r) = [] then None
        else Some (filter (\<lambda>c. to_lowercase c \<notin> red) (row_columns r)))"
      "gr_hidden g = filter (\<lambda>c. to_lowercase c \<in> red) (row_columns r)"
    by simp_all
  have "granted_columns r g = filter (\<lambda>c. to_lowercase c \<notin> red) (row_columns r)"
    using g(1) by (simp add: granted_columns_def filter_empty_conv filter_id_conv split: if_splits)
  then show ?thesis using g(2) by (simp add: red_def del: set_map)
qed

definition people_row :: json where
  "people_row = JObj [(''schema'', JStr ''s''), (''rel'', JStr ''people''), (''cols'', JArr [JStr ''id'', JStr ''ssn''])]"

lemma hidden_columns_not_granted_witness:
  "\<exists>g. grant_of (demo_opts ''o'') people_row = Some g \<and> granted_columns people_row g = [''id'']"
proof -
  obtain g where g: "grant_of (demo_opts ''o'') people_row = Some g"
    by (simp add: grant_of_def table_wanted_def demo_opts_def Let_def)
  have "granted_columns people_row g = [''id'']"
    by (subst hidden_columns_not_granted [OF g, THEN conjunct1])
      (simp add: row_columns_def people_row_def demo_opts_def string_ops List.map_filter_def)
  with g show ?thesis by blast
qed

text \<open>The server takes the last part of a qualified name in \<open>MCP_REDACT_COLUMNS\<close>; the generator compares the
  whole name with the bare column and grants the relation with the column in it.\<close>

lemma qualified_redaction_ignored:
  "map_option gr_columns (grant_of ((demo_opts ''o'')\<lparr>so_redact := [''people.ssn'']\<rparr>) people_row) = Some None"
  by (simp add: grant_of_def table_wanted_def demo_opts_def Let_def people_row_def string_ops List.map_filter_def)

end
