(* ===== verification/Cli.thy ===== *)
theory Cli
  imports Surface
begin

text \<open>
  The command line (\<open>src/cli.rs\<close>): what asks for help or the version, which options there are, and the
  refusal of everything else that looks like a long option. The name and the version of the package come
  from the build and are the argument \<open>pkg\<close>.
\<close>

definition KNOWN :: "string list" where
  "KNOWN = [''--stdio'', ''--validate'', ''--canon'', ''--fuzz'', ''--verify-audit'', ''--expect-last'',
     ''--print-setup-sql'', ''--role'', ''--schemas'', ''--tables'', ''--redact'', ''--database'', ''--owner'']"

definition USAGE :: string where
  "USAGE = ''postgres-mcp-hardened '' @ dash @ '' read-only PostgreSQL MCP server'' @ [CHR 0x0A, CHR 0x0A] @
        ''  postgres-mcp-hardened --stdio        speak MCP over stdin/stdout (what an MCP '' @
        ''client spawns)'' @ [CHR 0x0A] @
        ''  postgres-mcp-hardened                serve Streamable HTTP on MCP_ADDR (default '' @
        ''127.0.0.1:8080)'' @ [CHR 0x0A, CHR 0x0A] @
        ''  --validate <sql>                     print the validator's verdict for one statement'' @ [CHR 0x0A] @
        ''  --canon <sql>                        print the text that would actually reach the '' @ ''database'' @
        [CHR 0x0A] @ ''  --verify-audit <path> [--expect-last <hash>]'' @ [CHR 0x0A] @
        ''                                       check the audit log's hash chain against an '' @
        ''off-host anchor'' @ [CHR 0x0A] @
        ''  --print-setup-sql [--role R] [--schemas S] [--tables T] [--redact C] [--database D] '' @
        ''[--owner O]'' @ [CHR 0x0A] @
        ''                                       print the SQL that creates a least-privilege role'' @
        [CHR 0x0A] @ ''  --fuzz [iterations] [seed]           deterministic validator fuzz; exits 1 on a '' @
        ''violation'' @ [CHR 0x0A, CHR 0x0A] @ ''  -h, --help                           this text'' @ [CHR 0x0A] @
        ''  -V, --version                        version of this binary'' @ [CHR 0x0A, CHR 0x0A] @
        ''Configuration is environment-driven; DATABASE_URL is required to serve.'' @ [CHR 0x0A] @
        ''Reference: https://github.com/Eszetael/postgres-mcp-hardened''"

definition takes_value :: "string \<Rightarrow> bool" where
  "takes_value a = (a \<in> set [''--validate'', ''--canon'', ''--verify-audit'', ''--expect-last'', ''--role'',
     ''--schemas'', ''--tables'', ''--redact'', ''--database'', ''--owner''])"

definition is_known :: "string \<Rightarrow> bool" where
  "is_known a = (a \<in> set KNOWN)"

text \<open>The argument after an option with a value is skipped.\<close>

fun unknown_options :: "bool \<Rightarrow> string list \<Rightarrow> string list" where
  "unknown_options skip [] = []"
| "unknown_options skip (a # args) =
     (if skip then unknown_options False args
      else if starts_with a ''--'' then
        (if \<not> is_known a then a # unknown_options False args
         else if takes_value a then unknown_options True args
         else unknown_options False args)
      else unknown_options False args)"

text \<open>The first argument is the program. The answer is the exit code with what is printed, or None to go on.\<close>

definition handle_or_refuse :: "string \<Rightarrow> string list \<Rightarrow> (nat \<times> string) option" where
  "handle_or_refuse pkg args =
     (let opts = filter (\<lambda>a. starts_with a ''-'') (drop 1 args) in
      if ''-h'' \<in> set opts \<or> ''--help'' \<in> set opts then Some (0, USAGE)
      else if ''-V'' \<in> set opts \<or> ''--version'' \<in> set opts then Some (0, pkg)
      else if unknown_options False (drop 1 args) \<noteq> [] then Some (2, [])
      else None)"

end
