(* ===== verification/Socket_Addr.thy ===== *)
theory Socket_Addr
  imports Prelude
begin

text \<open>
  \<open>std::net::SocketAddr\<close> reads the listen address of the start-up checks (\<open>src/startup.rs\<close>): its parser
  written out, a consumer of characters that gives its value and the rest.
\<close>

section \<open>Numbers\<close>

type_synonym 'a reader = "string \<Rightarrow> ('a \<times> string) option"

definition digit_in :: "nat \<Rightarrow> char \<Rightarrow> nat option" where
  "digit_in radix c =
     (let n = of_char c;
          d = (if 48 \<le> n \<and> n \<le> 57 then n - 48
               else if 97 \<le> n \<and> n \<le> 122 then n - 87
               else if 65 \<le> n \<and> n \<le> 90 then n - 55 else radix) in
      if d < radix then Some d else None)"

fun read_digits :: "nat \<Rightarrow> nat \<Rightarrow> nat option \<Rightarrow> nat \<Rightarrow> nat \<Rightarrow> string \<Rightarrow> (nat \<times> nat \<times> string) option" where
  "read_digits radix most max_digits acc n [] = Some (acc, n, [])"
| "read_digits radix most max_digits acc n (c # s) =
     (case digit_in radix c of
        None \<Rightarrow> Some (acc, n, c # s)
      | Some d \<Rightarrow>
          if most < acc * radix + d \<or> (case max_digits of Some k \<Rightarrow> k < n + 1 | None \<Rightarrow> False) then None
          else read_digits radix most max_digits (acc * radix + d) (n + 1) s)"

definition read_number :: "nat \<Rightarrow> nat \<Rightarrow> nat option \<Rightarrow> bool \<Rightarrow> nat reader" where
  "read_number radix most max_digits zero_prefix s =
     (case read_digits radix most max_digits 0 0 s of
        None \<Rightarrow> None
      | Some (v, n, rest) \<Rightarrow>
          if n = 0 \<or> (\<not> zero_prefix \<and> take 1 s = ''0'' \<and> 1 < n) then None else Some (v, rest))"

definition read_given :: "char \<Rightarrow> string \<Rightarrow> string option" where
  "read_given c s = (case s of x # r \<Rightarrow> if x = c then Some r else None | [] \<Rightarrow> None)"

text \<open>A separator before every item but the first.\<close>

definition separated :: "char \<Rightarrow> nat \<Rightarrow> 'a reader \<Rightarrow> 'a reader" where
  "separated c i p s = (if 0 < i then Option.bind (read_given c s) p else p s)"

section \<open>Addresses\<close>

fun read_octets :: "nat \<Rightarrow> nat \<Rightarrow> nat list reader" where
  "read_octets 0 i s = Some ([], s)"
| "read_octets (Suc k) i s =
     (case separated CHR ''.'' i (read_number 10 255 (Some 3) False) s of
        None \<Rightarrow> None
      | Some (v, r) \<Rightarrow> map_option (\<lambda>(vs, r'). (v # vs, r')) (read_octets k (i + 1) r))"

definition read_ipv4 :: "nat list reader" where
  "read_ipv4 = read_octets 4 0"

definition octet_groups :: "nat list \<Rightarrow> nat list" where
  "octet_groups os = (case os of [a, b, c, d] \<Rightarrow> [a * 256 + b, c * 256 + d] | _ \<Rightarrow> [])"

text \<open>The groups, whether the last two came as an IPv4 address, and the rest. The first argument counts
  the groups still wanted.\<close>

fun read_groups :: "nat \<Rightarrow> nat \<Rightarrow> string \<Rightarrow> nat list \<times> bool \<times> string" where
  "read_groups 0 i s = ([], False, s)"
| "read_groups (Suc k) i s =
     (case (if 0 < k then separated CHR '':'' i read_ipv4 s else None) of
        Some (os, r) \<Rightarrow> (octet_groups os, True, r)
      | None \<Rightarrow>
          (case separated CHR '':'' i (read_number 16 65535 (Some 4) True) s of
             None \<Rightarrow> ([], False, s)
           | Some (g, r) \<Rightarrow> (case read_groups k (i + 1) r of (gs, v4, r') \<Rightarrow> (g # gs, v4, r'))))"

definition read_ipv6 :: "nat list reader" where
  "read_ipv6 s =
     (case read_groups 8 0 s of
        (hd6, v4, r) \<Rightarrow>
          if length hd6 = 8 then Some (hd6, r)
          else if v4 then None
          else Option.bind (Option.bind (read_given CHR '':'' r) (read_given CHR '':''))
            (\<lambda>r2. case read_groups (7 - length hd6) 0 r2 of
               (tl6, _, r3) \<Rightarrow> Some (hd6 @ replicate (8 - length hd6 - length tl6) 0 @ tl6, r3)))"

datatype socket_addr = Sock_V4 "nat list" nat | Sock_V6 "nat list" nat nat

definition read_port :: "nat reader" where
  "read_port s = Option.bind (read_given CHR '':'' s) (read_number 10 65535 None True)"

definition read_scope :: "nat reader" where
  "read_scope s = Option.bind (read_given CHR ''%'' s) (read_number 10 4294967295 None True)"

definition read_socket_v4 :: "socket_addr reader" where
  "read_socket_v4 s =
     Option.bind (read_ipv4 s) (\<lambda>(ip, r). map_option (\<lambda>(port, r'). (Sock_V4 ip port, r')) (read_port r))"

definition read_socket_v6 :: "socket_addr reader" where
  "read_socket_v6 s =
     Option.bind (Option.bind (read_given CHR ''['' s) read_ipv6)
       (\<lambda>(ip, r). case (case read_scope r of Some (sc, r1) \<Rightarrow> (sc, r1) | None \<Rightarrow> (0, r)) of (sc, r1) \<Rightarrow>
          Option.bind (Option.bind (read_given CHR '']'' r1) read_port)
            (\<lambda>(port, r2). Some (Sock_V6 ip sc port, r2)))"

definition parse_socket_addr :: "string \<Rightarrow> socket_addr option" where
  "parse_socket_addr s =
     (case (case read_socket_v4 s of Some x \<Rightarrow> Some x | None \<Rightarrow> read_socket_v6 s) of
        Some (a, []) \<Rightarrow> Some a
      | _ \<Rightarrow> None)"

text \<open>The addresses of the loopback interface.\<close>

fun loopback_socket :: "socket_addr \<Rightarrow> bool" where
  "loopback_socket (Sock_V4 ip port) = (take 1 ip = [127])"
| "loopback_socket (Sock_V6 ip sc port) = (ip = [0, 0, 0, 0, 0, 0, 0, 1])"

section \<open>What a reader consumes\<close>

lemma read_digits_split:
  "read_digits radix most m acc n s = Some (v, k, r) \<Longrightarrow>
   \<exists>ds. s = ds @ r \<and> length ds = k - n \<and> n \<le> k \<and> (\<forall>c \<in> set ds. digit_in radix c \<noteq> None)"
proof (induction radix most m acc n s rule: read_digits.induct)
  case (2 radix most m acc n c s)
  show ?case
  proof (cases "digit_in radix c")
    case None
    then show ?thesis using "2.prems" by auto
  next
    case (Some d)
    with "2.prems" have "read_digits radix most m (acc * radix + d) (n + 1) s = Some (v, k, r)"
      and "\<not> (most < acc * radix + d \<or> (case m of Some k \<Rightarrow> k < n + 1 | None \<Rightarrow> False))"
      by (auto split: if_splits)
    from "2.IH" [OF Some this(2) this(1)] obtain ds where "s = ds @ r" "length ds = k - (n + 1)" "n + 1 \<le> k"
      "\<forall>c \<in> set ds. digit_in radix c \<noteq> None" by blast
    then show ?thesis using Some by (intro exI [of _ "c # ds"]) auto
  qed
qed simp

lemma read_number_split:
  assumes "read_number radix most m z s = Some (v, r)"
  shows "\<exists>ds. s = ds @ r \<and> ds \<noteq> [] \<and> (\<forall>c \<in> set ds. digit_in radix c \<noteq> None)"
proof -
  from assms obtain n where d: "read_digits radix most m 0 0 s = Some (v, n, r)" and n: "n \<noteq> 0"
    by (auto simp: read_number_def split: option.splits if_splits)
  from read_digits_split [OF d] n show ?thesis by auto
qed

lemma read_given_Some: "read_given c s = Some r \<longleftrightarrow> s = c # r"
  by (cases s) (auto simp: read_given_def)

lemma digit_in_punct [simp]:
  "digit_in 10 CHR '':'' = None" "digit_in 16 CHR '':'' = None" "digit_in 10 CHR ''['' = None"
  "digit_in 16 CHR ''['' = None" "digit_in 16 CHR '']'' = None" "digit_in 10 CHR '']'' = None"
  "digit_in 16 CHR ''.'' = None" "digit_in 10 CHR ''.'' = None"
  by (simp_all add: digit_in_def)

lemma read_port_end:
  assumes "read_port s = Some (p, [])"
  shows "\<exists>ds. s = CHR '':'' # ds \<and> CHR '':'' \<notin> set ds"
proof -
  obtain r where r: "s = CHR '':'' # r" "read_number 10 65535 None True r = Some (p, [])"
    using assms by (auto simp: read_port_def read_given_Some bind_eq_Some_conv)
  from read_number_split [OF r(2)] obtain ds where "r = ds" "\<forall>c \<in> set ds. digit_in 10 c \<noteq> None" by auto
  with r(1) show ?thesis by (metis digit_in_punct(1))
qed

end
