(* ===== verification/Startup.thy ===== *)
theory Startup
  imports Socket_Addr Posture Cost_Guard Audit_Log Auth
begin

text \<open>
  What must be true before the first request (\<open>src/startup.rs\<close>): the check that redaction is enforced by
  the database, the settings the server knows, the configuration the audit log records and the list of
  fatal contradictions. What is written to the standard error stream is not modelled; a message that
  quotes with \<open>{:?}\<close> is reproduced without escapes inside the quotes.
\<close>

section \<open>Is redaction enforced?\<close>

definition EXPOSED_SQL :: string where
  "EXPOSED_SQL = ''SELECT current_user AS role, n.nspname AS schema, c.relname AS rel, '' @
        ''array_to_string(array_agg(a.attname ORDER BY a.attnum) FILTER (WHERE lower(a.attname) '' @
        ''= ANY($1)), ', ') AS exposed, array_to_string(array_agg(quote_ident(a.attname) ORDER '' @
        ''BY a.attnum) FILTER (WHERE lower(a.attname) <> ALL($1)), ', ') AS keep FROM '' @
        ''pg_attribute a JOIN pg_class c ON c.oid = a.attrelid JOIN pg_namespace n ON n.oid = '' @
        ''c.relnamespace WHERE a.attnum > 0 AND NOT a.attisdropped AND c.relkind IN ('r', 'p', 'v', 'm', 'f') AND n.nspname NOT IN ('pg_catalog', 'information_schema') AND has_column_privilege(c.oid, a.attnum, 'SELECT') GROUP BY 1, 2, 3 HAVING count(*) FILTER (WHERE lower(a.attname) = ANY($1)) > 0 ORDER BY 2, 3 LIMIT 50''"

definition exposure_text :: "string \<Rightarrow> json \<Rightarrow> string" where
  "exposure_text name row =
     (let get = (\<lambda>k. case get_str k row of Some s \<Rightarrow> s | None \<Rightarrow> []);
          role = get ''role''; schema = get ''schema''; rel = get ''rel''; keep = get ''keep'';
          kept = (if keep = [] then ''/* no other readable columns '' @ dash @ '' do not re-grant */'' else keep) in
      ''  -- '' @ schema @ ''.'' @ rel @ '' in database '' @ name @ '' exposes: '' @ get ''exposed'' @
        [CHR 0x0A] @ ''  REVOKE SELECT ON '' @ schema @ ''.'' @ rel @ '' FROM '' @ role @ '';'' @ [CHR 0x0A] @
        ''  GRANT SELECT ('' @ kept @ '') ON '' @ schema @ ''.'' @ rel @ '' TO '' @ role @ '';'')"

fun exposed_columns :: "host \<Rightarrow> string list \<Rightarrow> string list act" where
  "exposed_columns H [] = ret []"
| "exposed_columns H (name # names) =
     andthen (catalog H EXPOSED_SQL [P_Texts (redacted_names (h_env H))] (Some name))
       (\<lambda>r. andthen (exposed_columns H names)
         (\<lambda>rest. ret ((case r of
              Inl e \<Rightarrow> []
            | Inr v \<Rightarrow> map (exposure_text name) (rows_of v)) @ rest)))"

datatype redaction_outcome = Redaction_Off | Redaction_Verified | Redaction_Advised "string list" | Redaction_Refused "string list"

definition spawn_redaction_verification :: "host \<Rightarrow> redaction_outcome act" where
  "spawn_redaction_verification H =
     (let env = h_env H; strict = (env ''MCP_REDACT_REQUIRE_REVOKE'' \<in> {Some ''1'', Some ''true''}) in
      if \<not> redaction_configured env then ret Redaction_Off
      else andthen (exposed_columns H (database_names (h_libs H) env))
        (\<lambda>exposed. ret (if exposed = [] then Redaction_Verified
           else if strict then Redaction_Refused exposed else Redaction_Advised exposed)))"

section \<open>The settings\<close>

definition KNOWN_VARS :: "string list" where
  "KNOWN_VARS = [
     ''DATABASE_URL'', ''JWT_AUD'', ''JWT_ISS'',
     ''JWT_PUBKEY_PEM'', ''MCP_ADDR'', ''MCP_ALLOWED_HOSTS'',
     ''MCP_ALLOWED_ORIGINS'', ''MCP_ALLOW_ANONYMOUS_NETWORK'', ''MCP_ALLOW_EXCESSIVE_ROLE'',
     ''MCP_ALLOW_FUNCTIONS'', ''MCP_ALLOW_CATALOG'', ''MCP_ALLOW_PLAINTEXT_DB'',
     ''MCP_ALLOW_SCHEMAS'', ''MCP_PROTOCOL_PREVIEW'', ''MCP_ALLOW_TABLES'',
     ''MCP_AUDIT_HMAC_KEY'', ''MCP_AUDIT_HMAC_KEYS_OLD'', ''MCP_AUDIT_HMAC_KEY_FILE'',
     ''MCP_AUDIT_LOG'', ''MCP_AUTH_SERVERS'', ''MCP_BEARER_TOKEN'',
     ''MCP_DATABASE_URLS'', ''MCP_FUZZ_VERBOSE'', ''MCP_MAX_COST'',
     ''MCP_MAX_INFLIGHT_PER_CLIENT'', ''MCP_METRICS_TOKEN'', ''MCP_PASSWORD_FILE'',
     ''MCP_CLIENT_ID'', ''MCP_PUBLIC_URL'', ''MCP_RATE_BURST'',
     ''MCP_RATE_RPM'', ''MCP_RATE_RPM_STDIO'', ''MCP_REDACT_COLUMNS'',
     ''MCP_REDACT_REQUIRE_REVOKE'', ''MCP_RESERVED_AUTH_SLOTS'', ''MCP_SEARCH_PATH'',
     ''MCP_SERVER_LABEL'', ''MCP_SHOW_PARTITIONS'', ''MCP_SSLROOTCERT'',
     ''MCP_STATEMENT_TIMEOUT'', ''MCP_STRUCTURED_CONTENT'', ''MCP_TRUST_PROXY'']"

text \<open>One row of the table: the entries after the first, from the row above and the entry to the left.\<close>

fun fill_row :: "nat \<Rightarrow> nat list \<Rightarrow> nat list \<Rightarrow> nat \<Rightarrow> nat list" where
  "fill_row ca (cb # b) (d # u # prev) left =
     (let v = min (min (u + 1) (left + 1)) (d + (if ca \<noteq> cb then 1 else 0)) in
      v # fill_row ca b (u # prev) v)"
| "fill_row ca b prev left = []"

definition next_row :: "nat list \<Rightarrow> nat list \<Rightarrow> nat \<times> nat \<Rightarrow> nat list" where
  "next_row b prev ica = (case ica of (i, ca) \<Rightarrow> (i + 1) # fill_row ca b prev (i + 1))"

definition char_distance :: "nat list \<Rightarrow> nat list \<Rightarrow> nat" where
  "char_distance a b = foldl (next_row b) [0..<length b + 1] (enumerate 0 a) ! length b"

definition edit_distance :: "string \<Rightarrow> string \<Rightarrow> nat" where
  "edit_distance a b = char_distance (utf8_chars a) (utf8_chars b)"

definition FOREIGN_PREFIXES :: "string list" where
  "FOREIGN_PREFIXES = [''MCP_X_'', ''MCP_PROXY_'']"

definition nearest :: "string \<Rightarrow> (nat \<times> string) option" where
  "nearest k = foldl (\<lambda>best c. case best of
       None \<Rightarrow> Some c
     | Some m \<Rightarrow> if fst c < fst m \<or> fst c = fst m \<and> snd c < snd m then Some c else best) None
     (map (\<lambda>known. (edit_distance k known, known)) KNOWN_VARS)"

definition is_candidate :: "string \<Rightarrow> bool" where
  "is_candidate k =
     (starts_with k ''MCP_'' \<and> \<not> list_ex (starts_with k) FOREIGN_PREFIXES \<and> \<not> List.member KNOWN_VARS k)"

definition classify_unknown :: "string list \<Rightarrow> string list \<times> string list" where
  "classify_unknown names = foldl (\<lambda>(fatal, ignored) k.
       case nearest k of
         Some (d, known) \<Rightarrow>
           if d \<le> 3 then (fatal @ [''unknown setting '' @ k @ '': did you mean '' @ known @ ''?''], ignored)
           else (fatal, ignored @ [k])
       | None \<Rightarrow> (fatal, ignored @ [k])) ([], []) (filter is_candidate names)"

section \<open>The configuration on record\<close>

definition SECRET_VARS :: "string list" where
  "SECRET_VARS = [''MCP_BEARER_TOKEN'', ''MCP_METRICS_TOKEN'', ''MCP_AUDIT_HMAC_KEY'', ''MCP_AUDIT_HMAC_KEYS_OLD'']"

definition strip_keyword :: "string \<Rightarrow> string" where
  "strip_keyword tok =
     (case split_once_char CHR ''='' tok of
        Some (k, _) \<Rightarrow> if eq_ignore_ascii_case k ''password'' then ''password=***'' else tok
      | None \<Rightarrow> tok)"

definition strip_part :: "string \<Rightarrow> string" where
  "strip_part part =
     (case (find_str ''://'' part, find_str ''@'' part) of
        (Some s, Some a) \<Rightarrow>
          if s < a then
            (let creds = drop (s + 3) (take a part) in
             take (s + 3) part @ takeWhile (\<lambda>c. c \<noteq> CHR '':'') creds @ '':***'' @ drop a part)
          else part
      | _ \<Rightarrow> part)"

definition strip_password :: "string \<Rightarrow> string" where
  "strip_password url =
     (if \<not> contains url ''://'' \<and> contains url ''password='' then
        join '' '' (map strip_keyword (split_whitespace url))
      else foldl (\<lambda>out part. (if out \<noteq> [] then out @ '';'' else out) @ strip_part part) []
             (split_char CHR '';'' url))"

definition FINGERPRINT_KEY :: string where
  "FINGERPRINT_KEY = ''mcp-config-fingerprint''"

definition rendered_setting :: "audit_libs \<Rightarrow> string \<Rightarrow> string \<Rightarrow> string" where
  "rendered_setting L name raw =
     (if List.member SECRET_VARS name then ''sha256:'' @ take 8 (hmac_sha256_hex L FINGERPRINT_KEY raw)
      else if contains raw ''://'' \<or> contains raw ''password='' then strip_password raw
      else if 120 < length raw then ''<'' @ nat_str (length raw) @ '' bytes>''
      else raw)"

definition config_snapshot :: "audit_libs \<Rightarrow> env \<Rightarrow> (string \<times> json) list" where
  "config_snapshot L env = foldl (\<lambda>out name.
     case env name of None \<Rightarrow> out | Some raw \<Rightarrow> bt_insert name (JStr (rendered_setting L name raw)) out) [] KNOWN_VARS"

text \<open>The entry the chain opens with; \<open>version\<close> is the package's.\<close>

definition audit_startup :: "audit_libs \<Rightarrow> env \<Rightarrow> string \<Rightarrow> string \<Rightarrow> nat \<Rightarrow> string option \<Rightarrow> audit_call" where
  "audit_startup L env version transport ts caller =
     (let snapshot = config_snapshot L env; canonical = lib_to_string L (JObj snapshot);
          extra = foldl (\<lambda>m (k, v). bt_insert k v m) []
            [(''version'', JStr version), (''transport'', JStr transport),
             (''config_fp'', JStr (take 16 (hmac_sha256_hex L FINGERPRINT_KEY canonical))),
             (''config'', JObj snapshot)] in
      \<lparr>ac_ts = ts, ac_tool = ''server'', ac_decision = ''startup'', ac_sql = None, ac_caller = caller, ac_extra = extra\<rparr>)"

section \<open>Contradictions\<close>

text \<open>What the checks use of the outside: reading a file whole (or the error's text), reading it as text,
  opening it for appending (the error's text when that fails), the RSA key parser and the TLS files.\<close>

record startup_libs =
  sl_read :: "string \<Rightarrow> string + string"
  sl_read_text :: "string \<Rightarrow> string + string"
  sl_append :: "string \<Rightarrow> string option"
  sl_rsa_key :: "string \<Rightarrow> string + unit"
  sl_tls :: tls_libs

definition number_check :: "env \<Rightarrow> string \<times> bool \<Rightarrow> string list" where
  "number_check env va =
     (case va of (var, allow_zero) \<Rightarrow>
       (case env var of
          None \<Rightarrow> []
        | Some v \<Rightarrow>
            (case parse_f64 (trim v) of
               Some n \<Rightarrow>
                 if f64_lt n (Fin 0) then [var @ '' is negative ('' @ v @ '')'']
                 else if n = Fin 0 \<and> \<not> allow_zero then [var @ ''=0 would reject every query'']
                 else []
             | None \<Rightarrow> [var @ '' is not a number ('' @ quote v @ '')''])))"

definition number_checks :: "env \<Rightarrow> string list" where
  "number_checks env = concat (map (number_check env)
     [(''MCP_RATE_RPM'', True), (''MCP_RATE_BURST'', True), (''MCP_MAX_INFLIGHT_PER_CLIENT'', True), (''MCP_MAX_COST'', False)])"

definition key_file_check :: "startup_libs \<Rightarrow> env \<Rightarrow> string list" where
  "key_file_check L env =
     (case env ''MCP_AUDIT_HMAC_KEY_FILE'' of
        None \<Rightarrow> []
      | Some p \<Rightarrow>
          (case sl_read L p of
             Inr b \<Rightarrow> if b = [] then [''MCP_AUDIT_HMAC_KEY_FILE '' @ p @ '' is empty''] else []
           | Inl e \<Rightarrow> [''MCP_AUDIT_HMAC_KEY_FILE '' @ p @ '': '' @ e]))"

definition read_ok :: "startup_libs \<Rightarrow> string \<Rightarrow> string option" where
  "read_ok L p = (case sl_read L p of Inr b \<Rightarrow> Some b | Inl _ \<Rightarrow> None)"

definition jwt_check :: "startup_libs \<Rightarrow> env \<Rightarrow> string list" where
  "jwt_check L env =
     (if nonblank_env env ''JWT_PUBKEY_PEM'' then
        (case jwt_pubkey_pem env (read_ok L) of
           None \<Rightarrow> [''JWT_PUBKEY_PEM is set but is neither PEM text nor a readable file path'']
         | Some pem \<Rightarrow> (case sl_rsa_key L pem of
             Inl _ \<Rightarrow> [''JWT_PUBKEY_PEM is not a valid RSA public key in PEM format'']
           | Inr _ \<Rightarrow> []))
        @ concat (map (\<lambda>var. if \<not> nonblank_env env var then
            [var @ '' is required when JWT_PUBKEY_PEM is set '' @ dash @
        '' without it a token issued by the same provider for another application would be '' @
        ''accepted here''] else []) [''JWT_AUD'', ''JWT_ISS''])
      else [])"

definition timeout_check :: "env \<Rightarrow> string list" where
  "timeout_check env =
     (case env ''MCP_STATEMENT_TIMEOUT'' of
        None \<Rightarrow> []
      | Some v \<Rightarrow>
          if trim v \<noteq> [] \<and> list_all (\<lambda>c. is_ascii_digit c \<or> is_ascii_alphabetic c \<or> c = CHR '' '') (trim v) then []
          else [''MCP_STATEMENT_TIMEOUT is not a PostgreSQL interval: '' @ quote v])"

definition file_checks :: "startup_libs \<Rightarrow> env \<Rightarrow> string list" where
  "file_checks L env =
     (case env ''MCP_PASSWORD_FILE'' of
        None \<Rightarrow> []
      | Some p \<Rightarrow> (case sl_read_text L p of Inl e \<Rightarrow> [''MCP_PASSWORD_FILE '' @ p @ '': '' @
        e] | Inr _ \<Rightarrow> []))
     @ (if env ''MCP_SSLROOTCERT'' = None then []
        else (case build_tls (sl_tls L) env of Inl e \<Rightarrow> [e] | Inr _ \<Rightarrow> []))"

definition addr_check :: "env \<Rightarrow> string list" where
  "addr_check env =
     (case env ''MCP_ADDR'' of
        None \<Rightarrow> []
      | Some v \<Rightarrow> if parse_socket_addr (trim v) = None then
          [''MCP_ADDR is not an address:port ('' @ quote v @ '') '' @ dash @
        '' e.g. 127.0.0.1:8080 or 0.0.0.0:8080''] else [])"

definition audit_file_check :: "startup_libs \<Rightarrow> env \<Rightarrow> string list" where
  "audit_file_check L env =
     (case env ''MCP_AUDIT_LOG'' of
        None \<Rightarrow> []
      | Some p \<Rightarrow> (case sl_append L p of Some e \<Rightarrow> [''MCP_AUDIT_LOG '' @ p @
        '' cannot be written: '' @ e] | None \<Rightarrow> []))"

definition spec_url :: "string \<Rightarrow> string" where
  "spec_url part =
     (case split_once_char CHR ''='' part of
        Some (name, rest) \<Rightarrow> if \<not> contains name ''://'' then rest else part
      | None \<Rightarrow> part)"

definition plaintext_part :: "env \<Rightarrow> string \<Rightarrow> bool" where
  "plaintext_part env part =
     (contains (spec_url part) ''sslmode=disable'' \<and> \<not> db_on_trusted_network (spec_url part)
      \<and> \<not> hatch env ''MCP_ALLOW_PLAINTEXT_DB'')"

definition plaintext_check :: "env \<Rightarrow> string \<Rightarrow> string list" where
  "plaintext_check env var =
     (case env var of
        None \<Rightarrow> []
      | Some spec \<Rightarrow> map (\<lambda>_. var @
        '' disables TLS to a database reachable over a network outside this machine: every '' @
        ''query and every row would cross it in the clear. Use sslmode=verify-full, or set '' @
        ''MCP_ALLOW_PLAINTEXT_DB=i-accept-the-risk'')
          (filter (plaintext_part env) (filter (\<lambda>s. trim s \<noteq> []) (split_char CHR '';'' spec))))"

definition metrics_check :: "env \<Rightarrow> string list" where
  "metrics_check env =
     (case (env ''MCP_METRICS_TOKEN'', env ''MCP_BEARER_TOKEN'') of
        (Some m, Some b) \<Rightarrow> if trim m \<noteq> [] \<and> m = b then [''MCP_METRICS_TOKEN is the same string as MCP_BEARER_TOKEN '' @
        dash @ '' a scraper would hold a credential that can also read the database''] else []
      | _ \<Rightarrow> [])"

definition flag_check :: "env \<Rightarrow> string \<Rightarrow> string list" where
  "flag_check env var =
     (case env var of
        None \<Rightarrow> []
      | Some v \<Rightarrow> if \<not> List.member [''0'', ''1'', ''true'', ''false'', []] (trim v) then
          [var @ '' must be 0, 1, true or false '' @ dash @ '' '' @ quote v @ '' would be read as false''] else [])"

definition slots_check :: "env \<Rightarrow> string list" where
  "slots_check env =
     (case env ''MCP_RESERVED_AUTH_SLOTS'' of
        None \<Rightarrow> []
      | Some v \<Rightarrow> if parse_u32 (trim v) = None then [''MCP_RESERVED_AUTH_SLOTS is not a whole number ('' @
        quote v @ '') '' @ dash @ '' it used to fall back to a default without saying so''] else [])"

definition plain_part :: "string \<Rightarrow> bool" where
  "plain_part p = list_all (\<lambda>c. is_ascii_alphabetic c \<or> is_ascii_digit c \<or> c = CHR ''_'' \<or> c = CHR ''$'') p"

definition search_path_check :: "env \<Rightarrow> string list" where
  "search_path_check env =
     (case env ''MCP_SEARCH_PATH'' of
        None \<Rightarrow> []
      | Some v \<Rightarrow> map (\<lambda>part. ''MCP_SEARCH_PATH contains '' @ quote part @
        '', which is not a plain schema name'')
          (filter (\<lambda>p. \<not> plain_part p) (filter (\<lambda>s. s \<noteq> []) (map trim (split_char CHR '','' v)))))"

definition public_url_check :: "env \<Rightarrow> string list" where
  "public_url_check env =
     (case env ''MCP_PUBLIC_URL'' of
        None \<Rightarrow> []
      | Some v \<Rightarrow>
          if trim v \<noteq> [] \<and> \<not> starts_with v ''https://'' \<and> \<not> starts_with v ''http://localhost'' then
            [''MCP_PUBLIC_URL must be an https:// URL (or http://localhost for development): '' @ quote v]
          else [])"

text \<open>The fatal list, in the order it is filled; the process exits with 2 unless it is empty. \<open>names\<close> are
  the names of the environment.\<close>

definition preflight :: "startup_libs \<Rightarrow> env \<Rightarrow> string list \<Rightarrow> string list" where
  "preflight L env names =
     number_checks env @ key_file_check L env @ jwt_check L env @ timeout_check env @ file_checks L env
     @ addr_check env @ audit_file_check L env
     @ concat (map (plaintext_check env) [''DATABASE_URL'', ''MCP_DATABASE_URLS''])
     @ metrics_check env
     @ concat (map (flag_check env) [''MCP_TRUST_PROXY'', ''MCP_SHOW_PARTITIONS'', ''MCP_STRUCTURED_CONTENT''])
     @ slots_check env @ search_path_check env @ public_url_check env @ fst (classify_unknown names)"

definition preflight_config :: "startup_libs \<Rightarrow> env \<Rightarrow> string list \<Rightarrow> nat option" where
  "preflight_config L env names = (if preflight L env names = [] then None else Some 2)"

end
