(* ===== verification/Entry.thy ===== *)
theory Entry
  imports Cli Setup_Sql Startup Transport Tools_Text Fuzz
begin

text \<open>
  What starts, in what order (\<open>src/main.rs\<close>, \<open>main\<close>): the modes of the command line that print and exit,
  then the gates a server passes before it serves. What is printed
  is given without the line end after its last line.
\<close>

text \<open>The host, the arguments, name and version of the package, the files and keys, the names of the
  environment, the clock, and whether an address can be listened on.\<close>

record process =
  pr_host :: host
  pr_args :: "string list"
  pr_pkg :: string
  pr_startup :: startup_libs
  pr_audit :: audit_libs
  pr_read :: "string \<Rightarrow> string option"
  pr_names :: "string list"
  pr_now :: nat
  pr_bind :: "string \<Rightarrow> bool"
  pr_fuzz :: fuzz_world

datatype printed = Says string | Chain_Ok bool nat "nat option" nat | Chain_Broken verify_error

datatype outcome = Exits nat printed | Serving string policy_state

abbreviation pr_env :: "process \<Rightarrow> env" where
  "pr_env P \<equiv> h_env (pr_host P)"

section \<open>Modes\<close>

text \<open>\<open>args.get(pos + 1)\<close> after the position of an option, or the empty text.\<close>

definition arg_or_empty :: "string list \<Rightarrow> string \<Rightarrow> string" where
  "arg_or_empty args name = (case arg_after args name of Some v \<Rightarrow> v | None \<Rightarrow> [])"

definition validate_mode :: "process \<Rightarrow> outcome" where
  "validate_mode P =
     (case validate_readonly (h_parser (pr_host P)) (pr_env P) (arg_or_empty (pr_args P) ''--validate'') of
        Inr _ \<Rightarrow> Exits 0 (Says ''ALLOW'')
      | Inl e \<Rightarrow> Exits 1 (Says (''REJECT: '' @ verror_display e)))"

text \<open>The two numbers after \<open>--fuzz\<close>.\<close>

definition number_at :: "string list \<Rightarrow> nat \<Rightarrow> nat \<Rightarrow> nat" where
  "number_at args i d =
     (if i < length args then (case parse_u64 (args ! i) of Some n \<Rightarrow> n | None \<Rightarrow> d) else d)"

definition fuzz_lines :: "fuzz_report \<Rightarrow> string list" where
  "fuzz_lines r =
     [''fuzz: '' @ nat_str (fr_iters r) @ '' iterations, seed '' @ nat_str (unat (fr_seed r))
        @ '', slowest validation '' @ nat_str (fr_slowest_ms r) @ '' ms'']
     @ (if 0 < fr_slowest_ms r then [''  slowest input: '' @ fr_slowest_input r] else [])
     @ (if fr_findings r = [] then [''RESULT: 0 invariant violations'']
        else (''RESULT: '' @ nat_str (length (fr_findings r)) @ '' VIOLATIONS'')
          # map (\<lambda>f. ''- ['' @ fi_kind f @ ''] '' @ fi_input f @ [CHR 0x0A] @ ''    '' @ fi_detail f) (fr_findings r))"

definition fuzz_mode :: "process \<Rightarrow> outcome" where
  "fuzz_mode P =
     (let rest = drop 1 (dropWhile (\<lambda>a. a \<noteq> ''--fuzz'') (pr_args P));
          W = (pr_fuzz P)\<lparr>fw_parser := h_parser (pr_host P), fw_env := pr_env P\<rparr>;
          r = fuzz_run W (number_at rest 0 200000) (of_nat (number_at rest 1 0x5EED1234)) in
      Exits (if fr_findings r = [] then 0 else 1) (Says (join [CHR 0x0A] (fuzz_lines r))))"

definition canon_mode :: "process \<Rightarrow> outcome" where
  "canon_mode P =
     (case enforce_limit (h_parser (pr_host P)) (pr_env P) (arg_or_empty (pr_args P) ''--canon'') 1000 of
        Inr c \<Rightarrow> Exits 0 (Says c)
      | Inl e \<Rightarrow> Exits 1 (Says (''ERR: '' @ verror_display e)))"

definition verify_mode :: "process \<Rightarrow> outcome" where
  "verify_mode P =
     (let key = audit_key_of (pr_audit P) (pr_env P) (pr_read P);
          keys = verify_keys (pr_audit P) key (pr_env P ''MCP_AUDIT_HMAC_KEYS_OLD'') in
      case verify_audit_file (pr_audit P) keys (pr_read P (arg_or_empty (pr_args P) ''--verify-audit''))
             (arg_after (pr_args P) ''--expect-last'') of
        Inr (n, sq, rot, hash) \<Rightarrow> Exits 0 (Chain_Ok (key \<noteq> None) n sq rot)
      | Inl e \<Rightarrow> Exits 1 (Chain_Broken e))"

section \<open>The server\<close>

definition transport_of :: "process \<Rightarrow> string" where
  "transport_of P = (if List.member (pr_args P) ''--stdio'' then ''stdio'' else ''http'')"

definition startup_record :: "process \<Rightarrow> unit act" where
  "startup_record P =
     (let c = audit_startup (pr_audit P) (pr_env P) (h_version (pr_host P)) (transport_of P) (pr_now P) None in
      audit_as (ac_tool c) (ac_decision c) (ac_sql c))"

text \<open>The paths of the listener. A listener that cannot be bound ends the process.\<close>

datatype endpoint =
  Root_Page | Mcp_Post | Mcp_Delete | Metrics_Page | Health_Page | Ready_Page | Resource_Page | Card_Page

definition ROUTES :: "(string \<times> string \<times> endpoint) list" where
  "ROUTES =
     [(''/'', ''GET'', Root_Page), (''/mcp'', ''POST'', Mcp_Post), (''/mcp'', ''DELETE'', Mcp_Delete),
      (''/metrics'', ''GET'', Metrics_Page), (''/health'', ''GET'', Health_Page), (''/ready'', ''GET'', Ready_Page),
      (''/.well-known/oauth-protected-resource'', ''GET'', Resource_Page),
      (''/.well-known/mcp/server-card.json'', ''GET'', Card_Page)]"

definition run_http :: "process \<Rightarrow> policy_state \<Rightarrow> outcome" where
  "run_http P s = (if pr_bind P (listen_addr (pr_env P)) then Serving ''http'' s else Exits 1 (Says []))"

text \<open>Who is calling over the standard streams: the name the client gives itself, or the user and the process,
  read from the text of \<open>/proc/self/status\<close>.\<close>

definition uid_of :: "string \<Rightarrow> string option" where
  "uid_of status =
     (case List.find (\<lambda>l. starts_with l ''Uid:'') (str_lines status) of
        Some l \<Rightarrow> (case split_whitespace l of _ # uid # _ \<Rightarrow> Some uid | _ \<Rightarrow> None)
      | None \<Rightarrow> None)"

definition stdio_caller :: "env \<Rightarrow> string option \<Rightarrow> nat \<Rightarrow> string" where
  "stdio_caller env status pid =
     (let named = (case env ''MCP_CLIENT_ID'' of Some v \<Rightarrow> trim v | None \<Rightarrow> []) in
      if named \<noteq> [] then ''client:'' @ strip_invisible named
      else ''stdio:uid='' @ (case Option.bind status uid_of of Some u \<Rightarrow> u | None \<Rightarrow> ''?'')
        @ '',pid='' @ nat_str pid)"

definition start_server :: "process \<Rightarrow> outcome act" where
  "start_server P =
     (let H = pr_host P in
      case preflight_config (pr_startup P) (pr_env P) (pr_names P) of
        Some rc \<Rightarrow> ret (Exits rc (Says []))
      | None \<Rightarrow>
          andthen (startup_record P) (\<lambda>_.
          andthen (enforce_start_policy (h_world H) (h_libs H) (pr_env P) (transport_of P) (listen_addr (pr_env P)) policy_start)
            (\<lambda>s. ret (case ps_exit s of
               Some rc \<Rightarrow> Exits rc (Says [])
             | None \<Rightarrow> if transport_of P = ''stdio'' then Serving ''stdio'' s else run_http P s))))"

text \<open>The threads that are started once the policy is satisfied: the posture goes to the audit log, then the
  check of the redaction.\<close>

definition background :: "process \<Rightarrow> redaction_outcome act" where
  "background P =
     (let H = pr_host P in
      andthen (audit_posture (h_world H) (h_libs H) (pr_env P) (pr_now P) None) (\<lambda>c.
      andthen (audit_as (ac_tool c) (ac_decision c) (ac_sql c)) (\<lambda>_. spawn_redaction_verification H)))"

definition main_run :: "process \<Rightarrow> outcome act" where
  "main_run P =
     (let given = List.member (pr_args P) in
      case handle_or_refuse (pr_pkg P) (pr_args P) of
        Some (rc, out) \<Rightarrow> ret (Exits rc (Says out))
      | None \<Rightarrow>
          if given ''--validate'' then ret (validate_mode P)
          else if given ''--fuzz'' then ret (fuzz_mode P)
          else if given ''--print-setup-sql'' then
            andthen (setup_run (pr_host P) (pr_args P)) (\<lambda>(rc, out). ret (Exits rc (Says out)))
          else if given ''--canon'' then ret (canon_mode P)
          else if given ''--verify-audit'' then ret (verify_mode P)
          else start_server P)"

end
