(* ===== verification/Startup_Props.thy ===== *)
theory Startup_Props
  imports Startup Query_Props Db_Url_Props
begin

text \<open>
  The start-up checks: the distance that recognises a misspelt setting is the least number of edits,
  every misspelt setting stops the server, an address exempt from the start-up policy is a loopback
  address, credentials that are configured are credentials that are required, and accepted settings stay
  inside the quotes of the session's SET statements.
\<close>

section \<open>The distance\<close>

text \<open>\<open>edits n a b\<close>: the text \<open>a\<close> becomes \<open>b\<close> by \<open>n\<close> changes of one character.\<close>

inductive edits :: "nat \<Rightarrow> nat list \<Rightarrow> nat list \<Rightarrow> bool" where
  edits_Nil: "edits 0 [] []"
| edits_keep: "edits n a b \<Longrightarrow> edits n (x # a) (x # b)"
| edits_change: "edits n a b \<Longrightarrow> edits (Suc n) (x # a) (y # b)"
| edits_insert: "edits n a b \<Longrightarrow> edits (Suc n) a (y # b)"
| edits_delete: "edits n a b \<Longrightarrow> edits (Suc n) (x # a) b"

fun lev :: "nat list \<Rightarrow> nat list \<Rightarrow> nat" where
  "lev [] ys = length ys"
| "lev xs [] = length xs"
| "lev (x # xs) (y # ys) =
     min (min (lev xs (y # ys) + 1) (lev (x # xs) ys + 1)) (lev xs ys + (if x \<noteq> y then 1 else 0))"

lemma lev_Nil2 [simp]: "lev xs [] = length xs"
  by (cases xs) simp_all

lemma lev_steps: "lev (x # xs) (x # ys) \<le> lev xs ys" "lev (x # xs) (y # ys) \<le> Suc (lev xs ys)"
  "lev xs (y # ys) \<le> Suc (lev xs ys)" "lev (x # xs) ys \<le> Suc (lev xs ys)"
proof -
  show "lev xs (y # ys) \<le> Suc (lev xs ys)" by (cases xs) simp_all
  show "lev (x # xs) ys \<le> Suc (lev xs ys)" by (cases ys) simp_all
qed (simp_all add: min.coboundedI2)

lemma edits_lev: "edits n xs ys \<Longrightarrow> lev xs ys \<le> n"
proof (induction rule: edits.induct)
  case (edits_keep n a b x)
  then show ?case using lev_steps(1) [of x a b] by simp
next
  case (edits_change n a b x y)
  then show ?case using lev_steps(2) [of x a y b] by simp
next
  case (edits_insert n a b y)
  then show ?case using lev_steps(3) [of a y b] by simp
next
  case (edits_delete n a b x)
  then show ?case using lev_steps(4) [of x a b] by simp
qed simp

lemma edits_insert_all: "edits (length ys) [] ys"
  by (induction ys) (auto intro: edits.intros)

lemma edits_delete_all: "edits (length xs) xs []"
  by (induction xs) (auto intro: edits.intros)

lemma lev_edits: "edits (lev xs ys) xs ys"
proof (induction xs ys rule: lev.induct)
  case (3 x xs y ys)
  have "edits (lev xs ys + (if x \<noteq> y then 1 else 0)) (x # xs) (y # ys)"
    using 3(3) by (auto intro: edits_keep edits_change)
  moreover have "edits (lev xs (y # ys) + 1) (x # xs) (y # ys)" using 3(1) by (simp add: edits_delete)
  moreover have "edits (lev (x # xs) ys + 1) (x # xs) (y # ys)" using 3(2) by (simp add: edits_insert)
  ultimately show ?case by (simp only: lev.simps min_def split: if_split) blast
next
  case (2 v va)
  show ?case using edits_delete_all [of "v # va"] by simp
qed (simp add: edits_insert_all)

lemma edits_append: "edits m a b \<Longrightarrow> edits n c d \<Longrightarrow> edits (m + n) (a @ c) (b @ d)"
  by (induction rule: edits.induct) (auto intro: edits.intros)

lemma edits_rev: "edits n a b \<Longrightarrow> edits n (rev a) (rev b)"
proof (induction rule: edits.induct)
  case (edits_keep n a b x)
  have "edits 0 [x] [x]" by (simp add: edits.intros)
  from edits_append [OF edits_keep.IH this] show ?case by simp
next
  case (edits_change n a b x y)
  have "edits 1 [x] [y]" using edits.intros(3) [OF edits_Nil] by simp
  from edits_append [OF edits_change.IH this] show ?case by simp
next
  case (edits_insert n a b y)
  have "edits 1 [] [y]" using edits.intros(4) [OF edits_Nil] by simp
  from edits_append [OF edits_insert.IH this] show ?case by simp
next
  case (edits_delete n a b x)
  have "edits 1 [x] []" using edits.intros(5) [OF edits_Nil] by simp
  from edits_append [OF edits_delete.IH this] show ?case by simp
qed (simp add: edits_Nil)

text \<open>A row of the table holds the distances from one prefix to all prefixes.\<close>

fun row_from :: "nat list \<Rightarrow> nat list \<Rightarrow> nat list \<Rightarrow> nat list" where
  "row_from ra rp [] = [lev ra rp]"
| "row_from ra rp (y # s) = lev ra rp # row_from ra (y # rp) s"

lemma row_from_start: "row_from [] rp b = [length rp..<length rp + length b + 1]"
  by (induction b arbitrary: rp) (simp_all add: upt_rec)

lemma row_from_shape: "\<exists>r. row_from ra rp b = lev ra rp # r"
  by (cases b) simp_all

lemma fill_row_correct:
  "fill_row ca b (row_from ra rp b) (lev (ca # ra) rp) = tl (row_from (ca # ra) rp b)"
proof (induction b arbitrary: rp)
  case (Cons y s)
  obtain r where r: "row_from ra (y # rp) s = lev ra (y # rp) # r" using row_from_shape by blast
  obtain r' where r': "row_from (ca # ra) (y # rp) s = lev (ca # ra) (y # rp) # r'" using row_from_shape by blast
  have "min (min (lev ra (y # rp) + 1) (lev (ca # ra) rp + 1)) (lev ra rp + (if ca \<noteq> y then 1 else 0))
      = lev (ca # ra) (y # rp)" by simp
  then show ?case using Cons.IH [of "y # rp"] r r' by (simp add: Let_def del: lev.simps)
qed simp

lemma next_row_correct: "next_row b (row_from ra [] b) (length ra, ca) = row_from (ca # ra) [] b"
proof -
  obtain r where r: "row_from (ca # ra) [] b = lev (ca # ra) [] # r" using row_from_shape by blast
  with fill_row_correct [of ca b ra "[]"] show ?thesis by (simp add: next_row_def)
qed

lemma rows_correct: "foldl (next_row b) (row_from ra [] b) (enumerate (length ra) a) = row_from (rev a @ ra) [] b"
proof (induction a arbitrary: ra)
  case (Cons c a)
  show ?case using Cons.IH [of "c # ra"] by (simp add: next_row_correct)
qed simp

lemma row_from_nth: "row_from ra rp b ! length b = lev ra (rev b @ rp)"
  by (induction b arbitrary: rp) simp_all

lemma char_distance_lev: "char_distance a b = lev (rev a) (rev b)"
  using rows_correct [of b "[]" a] row_from_start [of "[]" b] row_from_nth [of "rev a" "[]" b]
  by (simp add: char_distance_def)

text \<open>C38: The distance the start-up check computes with its two-row table is the Levenshtein distance: the
  least number of insertions, deletions and replacements of one character that turn the first name into
  the second.\<close>

theorem edit_distance_is_least:
  "edit_distance a b = (LEAST n. edits n (utf8_chars a) (utf8_chars b))"
proof (rule Least_equality [symmetric])
  show "edits (edit_distance a b) (utf8_chars a) (utf8_chars b)"
    using edits_rev [OF lev_edits [of "rev (utf8_chars a)" "rev (utf8_chars b)"]]
    by (simp add: edit_distance_def char_distance_lev)
  show "edit_distance a b \<le> n" if "edits n (utf8_chars a) (utf8_chars b)" for n
    using edits_lev [OF edits_rev [OF that]] by (simp add: edit_distance_def char_distance_lev)
qed

section \<open>A misspelt setting\<close>

definition closer :: "(nat \<times> string) option \<Rightarrow> nat \<times> string \<Rightarrow> (nat \<times> string) option" where
  "closer best c = (case best of
       None \<Rightarrow> Some c
     | Some m \<Rightarrow> if fst c < fst m \<or> fst c = fst m \<and> snd c < snd m then Some c else best)"

lemma closer_least:
  "\<exists>r. foldl closer (Some m) cs = Some r \<and> r \<in> insert m (set cs) \<and> (\<forall>c \<in> insert m (set cs). fst r \<le> fst c)"
proof (induction cs arbitrary: m)
  case (Cons c cs)
  show ?case
  proof (cases "fst c < fst m \<or> fst c = fst m \<and> snd c < snd m")
    case True
    with Cons.IH [of c] show ?thesis by (auto simp: closer_def)
  next
    case False
    with Cons.IH [of m] show ?thesis by (fastforce simp: closer_def)
  qed
qed simp

lemma nearest_least:
  "\<exists>v. nearest k = Some (edit_distance k v, v) \<and> v \<in> set KNOWN_VARS
     \<and> (\<forall>u \<in> set KNOWN_VARS. edit_distance k v \<le> edit_distance k u)"
proof -
  obtain x xs where kv: "KNOWN_VARS = x # xs" by (simp add: KNOWN_VARS_def)
  let ?d = "\<lambda>known. (edit_distance k known, known)"
  have "nearest k = foldl closer None (map ?d KNOWN_VARS)"
    unfolding nearest_def closer_def [abs_def] by simp
  then have "nearest k = foldl closer (Some (?d x)) (map ?d xs)" by (simp add: kv closer_def)
  with closer_least [of "?d x" "map ?d xs"] show ?thesis by (auto simp: kv)
qed

definition fatal_name :: "string \<Rightarrow> string list" where
  "fatal_name k = (case nearest k of
     Some (d, known) \<Rightarrow> if d \<le> 3 then [''unknown setting '' @ k @ '': did you mean '' @ known @ ''?''] else []
   | None \<Rightarrow> [])"

lemma classify_fatal: "fst (classify_unknown names) = concat (map fatal_name (filter is_candidate names))"
proof -
  have "fst (foldl (\<lambda>(fatal, ignored) k.
       case nearest k of
         Some (d, known) \<Rightarrow>
           if d \<le> 3 then (fatal @ [''unknown setting '' @ k @ '': did you mean '' @ known @ ''?''], ignored)
           else (fatal, ignored @ [k])
       | None \<Rightarrow> (fatal, ignored @ [k])) (f, i) ks) = f @ concat (map fatal_name ks)" for f i ks
    by (induction ks arbitrary: f i) (simp_all add: fatal_name_def split: option.split prod.split)
  then show ?thesis by (simp add: classify_unknown_def)
qed

lemma fatal_name_iff: "fatal_name k \<noteq> [] \<longleftrightarrow> (\<exists>v \<in> set KNOWN_VARS. edit_distance k v \<le> 3)"
proof -
  obtain v where v: "nearest k = Some (edit_distance k v, v)" "v \<in> set KNOWN_VARS"
    "\<forall>u \<in> set KNOWN_VARS. edit_distance k v \<le> edit_distance k u"
    using nearest_least by blast
  then have "fatal_name k \<noteq> [] \<longleftrightarrow> edit_distance k v \<le> 3" by (simp add: fatal_name_def)
  then show ?thesis using v(2,3) le_trans by blast
qed

lemma within_iff: "edit_distance a b \<le> m \<longleftrightarrow> (\<exists>n \<le> m. edits n (utf8_chars a) (utf8_chars b))"
proof
  assume "edit_distance a b \<le> m"
  moreover have "edits (edit_distance a b) (utf8_chars a) (utf8_chars b)"
    using edits_rev [OF lev_edits [of "rev (utf8_chars a)" "rev (utf8_chars b)"]]
    by (simp add: edit_distance_def char_distance_lev)
  ultimately show "\<exists>n \<le> m. edits n (utf8_chars a) (utf8_chars b)" by blast
next
  assume "\<exists>n \<le> m. edits n (utf8_chars a) (utf8_chars b)"
  then show "edit_distance a b \<le> m"
    using edits_lev [OF edits_rev] by (fastforce simp: edit_distance_def char_distance_lev)
qed

definition misspelt :: "string \<Rightarrow> bool" where
  "misspelt k \<longleftrightarrow>
     starts_with k ''MCP_'' \<and> \<not> list_ex (starts_with k) FOREIGN_PREFIXES \<and> k \<notin> set KNOWN_VARS
     \<and> (\<exists>v \<in> set KNOWN_VARS. \<exists>n \<le> 3. edits n (utf8_chars k) (utf8_chars v))"

lemma classify_misspelt: "fst (classify_unknown names) = [] \<longleftrightarrow> (\<forall>k \<in> set names. \<not> misspelt k)"
proof -
  have "fst (classify_unknown names) = [] \<longleftrightarrow> (\<forall>k \<in> set names. is_candidate k \<longrightarrow> fatal_name k = [])"
    by (auto simp: classify_fatal)
  also have "\<dots> \<longleftrightarrow> (\<forall>k \<in> set names. is_candidate k \<longrightarrow>
      \<not> (\<exists>v \<in> set KNOWN_VARS. \<exists>n \<le> 3. edits n (utf8_chars k) (utf8_chars v)))"
    using fatal_name_iff within_iff [where m = 3] by metis
  finally show ?thesis unfolding is_candidate_def misspelt_def List.member_iff by blast
qed



section \<open>The addresses exempt from the start-up policy\<close>

lemma trim_start_in_split:
  "[] \<notin> set ws \<Longrightarrow> \<exists>us. set us \<subseteq> set ws \<and> s = concat us @ trim_start_in ws s"
proof (induction ws s rule: trim_start_in.induct)
  case (2 ws c s)
  show ?case
  proof (cases "List.find (\<lambda>w. prefix w (c # s)) ws")
    case None
    then show ?thesis by (intro exI [of _ "[]"]) simp
  next
    case (Some w)
    then have w: "w \<in> set ws" "prefix w (c # s)" by (auto simp: find_Some_iff)
    from "2.IH" [OF Some "2.prems"] obtain us where us: "set us \<subseteq> set ws"
      "drop (length w - 1) s = concat us @ trim_start_in ws (drop (length w - 1) s)" by blast
    show ?thesis
    proof (cases w)
      case Nil
      with w(1) "2.prems" show ?thesis by simp
    next
      case (Cons x v)
      with w(2) have e: "c # s = w @ drop (length w - 1) s" by (auto simp: prefix_def)
      have t: "trim_start_in ws (c # s) = trim_start_in ws (drop (length w - 1) s)" using Some by simp
      have "c # s = concat (w # us) @ trim_start_in ws (c # s)"
        unfolding t using e us(2) by (metis append.assoc concat.simps(2))
      with us(1) w(1) show ?thesis by (intro exI [of _ "w # us"]) simp
    qed
  qed
qed (intro exI [of _ "[]"], simp)

text \<open>White space at the start hides nothing a host begins with; white space at the end holds no colon.\<close>

lemma trim_split:
  "\<exists>a b. v = a @ trim v @ b \<and> CHR '':'' \<notin> set b
     \<and> (a = [] \<or> hd a \<notin> {CHR ''['', CHR '']'', CHR ''l'', CHR '':'', CHR ''1''})"
proof -
  have ws: "[] \<notin> set white_space" "[] \<notin> set (map rev white_space)" by (simp_all add: white_space_def)
  have chars: "CHR '':'' \<notin> set w" "hd w \<notin> {CHR ''['', CHR '']'', CHR ''l'', CHR '':'', CHR ''1''}"
    if "w \<in> set white_space" for w
    using that by (auto simp: white_space_def)
  obtain us where us: "set us \<subseteq> set white_space" "v = concat us @ trim_start v"
    using trim_start_in_split [OF ws(1), of v] unfolding trim_start_def by blast
  obtain vs where vs: "set vs \<subseteq> set (map rev white_space)" "rev (trim_start v) = concat vs @ rev (trim v)"
    using trim_start_in_split [OF ws(2), of "rev (trim_start v)"] unfolding trim_def trim_end_def by auto
  then have "trim_start v = trim v @ rev (concat vs)" by (metis rev_append rev_rev_ident)
  moreover have "CHR '':'' \<notin> set (concat vs)" using vs(1) chars(1) by fastforce
  moreover have "concat us = [] \<or> hd (concat us) \<notin> {CHR ''['', CHR '']'', CHR ''l'', CHR '':'', CHR ''1''}"
  proof (cases us)
    case (Cons w ws')
    with us(1) have w: "w \<in> set white_space" by simp
    with ws(1) have "w \<noteq> []" by metis
    then have "hd (concat us) = hd w" by (simp add: Cons)
    with chars(2) [OF w] show ?thesis by simp
  qed simp
  ultimately show ?thesis using us(2) by (intro exI [of _ "concat us"] exI [of _ "rev (concat vs)"]) simp
qed

lemma read_number_head:
  assumes "read_number 10 most m z s = Some (v, r)"
  shows "s \<noteq> [] \<and> digit_in 10 (hd s) \<noteq> None"
proof -
  from read_number_split [OF assms] obtain ds where "s = ds @ r" "ds \<noteq> []" "\<forall>c \<in> set ds. digit_in 10 c \<noteq> None" by blast
  then show ?thesis by (cases ds) auto
qed

lemma separated_split:
  assumes "separated c i (read_number 10 255 (Some 3) False) s = Some (v, r)"
  shows "\<exists>d. s = d @ r \<and> d \<noteq> []"
  using assms read_number_split [of 10 255 "Some 3" False]
  by (auto simp: separated_def read_given_Some bind_eq_Some_conv split: if_splits) (metis Cons_eq_appendI list.distinct(1))+

lemma read_octets_split: "read_octets k i s = Some (vs, r) \<Longrightarrow> \<exists>d. s = d @ r"
proof (induction k i s arbitrary: vs r rule: read_octets.induct)
  case (2 k i s)
  then obtain v r1 vs' where a: "separated CHR ''.'' i (read_number 10 255 (Some 3) False) s = Some (v, r1)"
    "read_octets k (i + 1) r1 = Some (vs', r)" by (auto split: option.splits)
  from "2.IH" [OF a(1) refl a(2)] separated_split [OF a(1)] show ?case by (metis append.assoc)
qed simp

lemma read_ipv4_step:
  "read_ipv4 s = (case read_number 10 255 (Some 3) False s of
     None \<Rightarrow> None | Some (v, r) \<Rightarrow> map_option (\<lambda>(vs, r'). (v # vs, r')) (read_octets 3 1 r))"
  using read_octets.simps(2) [of 3 0 s] by (simp add: read_ipv4_def separated_def split: option.split)

lemma ipv4_head:
  assumes "read_ipv4 s = Some (ip, r)"
  shows "s \<noteq> [] \<and> digit_in 10 (hd s) \<noteq> None"
proof -
  from assms obtain v r1 where "read_number 10 255 (Some 3) False s = Some (v, r1)"
    by (auto simp: read_ipv4_step split: option.splits)
  then show ?thesis by (rule read_number_head)
qed

lemma ipv4_of_127:
  assumes "read_ipv4 (''127.'' @ w) = Some (ip, r)"
  shows "take 1 ip = [127]"
proof -
  have "read_number 10 255 (Some 3) False (''127.'' @ w) = Some (127, CHR ''.'' # w)"
    by (simp add: read_number_def digit_in_def)
  then show ?thesis using assms by (auto simp: read_ipv4_step)
qed

lemma ipv4_split: "read_ipv4 s = Some (ip, r) \<Longrightarrow> \<exists>d. s = d @ r"
  unfolding read_ipv4_def by (rule read_octets_split)

lemma no_group_no_head:
  assumes "digit_in 10 c = None" "digit_in 16 c = None"
  shows "read_groups (Suc k) 0 (c # s) = ([], False, c # s)"
proof -
  have "read_ipv4 (c # s) = None"
    using ipv4_head [of "c # s"] assms(1) by (cases "read_ipv4 (c # s)") auto
  moreover have "read_number 16 65535 (Some 4) True (c # s) = None"
    using read_number_split [of 16 65535 "Some 4" True "c # s"] assms(2)
    by (cases "read_number 16 65535 (Some 4) True (c # s)") (auto simp: Cons_eq_append_conv)
  ultimately show ?thesis by (simp add: separated_def)
qed

lemma ipv6_head:
  assumes "digit_in 10 c = None" "digit_in 16 c = None" "c \<noteq> CHR '':''"
  shows "read_ipv6 (c # s) = None"
  using no_group_no_head [OF assms(1,2), of 7 s] assms(3) by (simp add: read_ipv6_def read_given_def)

lemma ipv6_of_127: "read_ipv6 (''127.'' @ w) = None"
proof -
  let ?s = "''127.'' @ w"
  have n: "read_number 16 65535 (Some 4) True ?s = Some (295, CHR ''.'' # w)"
    by (simp add: read_number_def digit_in_def)
  have one: "read_groups 7 1 (CHR ''.'' # w) = ([], False, CHR ''.'' # w)"
    using read_groups.simps(2) [of 6 1 "CHR ''.'' # w"] by (simp add: separated_def read_given_def)
  have step: "read_groups 8 0 ?s = (case read_ipv4 ?s of
        Some (os, r) \<Rightarrow> (octet_groups os, True, r) | None \<Rightarrow> ([295], False, CHR ''.'' # w))"
    using read_groups.simps(2) [of 7 0 ?s] n one by (simp add: separated_def split: option.split)
  have "length (octet_groups os) \<noteq> 8" for os
    by (auto simp: octet_groups_def split: list.split)
  with step show ?thesis by (simp add: read_ipv6_def read_given_def split: option.split)
qed

lemma ipv6_of_loopback: "read_ipv6 (''::1]'' @ w) = Some ([0, 0, 0, 0, 0, 0, 0, 1], CHR '']'' # w)"
proof -
  have d: "read_number 10 255 (Some 3) False (CHR ''1'' # CHR '']'' # w) = Some (1, CHR '']'' # w)"
    "read_number 16 65535 (Some 4) True (CHR ''1'' # CHR '']'' # w) = Some (1, CHR '']'' # w)"
    by (simp_all add: read_number_def digit_in_def)
  have v4: "read_ipv4 (CHR ''1'' # CHR '']'' # w) = None"
    using read_octets.simps(2) [of 2 1 "CHR '']'' # w"]
    by (simp add: read_ipv4_step d separated_def read_given_def)
  have g1: "read_groups 6 1 (CHR '']'' # w) = ([], False, CHR '']'' # w)"
    using read_groups.simps(2) [of 5 1 "CHR '']'' # w"] by (simp add: separated_def read_given_def)
  have g0: "read_groups 7 0 (CHR ''1'' # CHR '']'' # w) = ([1], False, CHR '']'' # w)"
    using read_groups.simps(2) [of 6 0 "CHR ''1'' # CHR '']'' # w"] v4 g1
    by (simp add: separated_def d)
  have "read_groups 8 0 (''::1]'' @ w) = ([], False, ''::1]'' @ w)"
    using no_group_no_head [of "CHR '':''" 7 "'':1]'' @ w"] by simp
  then show ?thesis using g0 by (simp add: read_ipv6_def read_given_def numeral_eq_Suc)
qed

lemma separated_suffix:
  assumes "separated c i p s = Some (v, r)" "\<And>s v r. p s = Some (v, r) \<Longrightarrow> \<exists>d. s = d @ r"
  shows "\<exists>d. s = d @ r"
proof (cases "0 < i")
  case True
  with assms(1) obtain s' where "s = c # s'" "p s' = Some (v, r)"
    by (auto simp: separated_def read_given_Some bind_eq_Some_conv)
  with assms(2) show ?thesis by (metis append_Cons)
next
  case False
  with assms show ?thesis by (simp add: separated_def)
qed

lemma number_suffix: "read_number radix most m z s = Some (v, r) \<Longrightarrow> \<exists>d. s = d @ r"
  using read_number_split by blast

lemma groups_suffix: "read_groups k i s = (gs, v4, r) \<Longrightarrow> \<exists>d. s = d @ r"
proof (induction k i s arbitrary: gs v4 r rule: read_groups.induct)
  case (2 k i s)
  let ?four = "if 0 < k then separated CHR '':'' i read_ipv4 s else None"
  show ?case
  proof (cases ?four)
    case (Some x)
    obtain os r' where x: "x = (os, r')" by (cases x)
    with "2.prems" Some have "r' = r" by simp
    moreover have "separated CHR '':'' i read_ipv4 s = Some (os, r')" using Some x by (cases "0 < k") simp_all
    ultimately show ?thesis using separated_suffix [of _ _ read_ipv4 s os r] ipv4_split by simp
  next
    case None
    show ?thesis
    proof (cases "separated CHR '':'' i (read_number 16 65535 (Some 4) True) s")
      case none: None
      with "2.prems" None show ?thesis by simp
    next
      case some: (Some x)
      obtain g r1 where x: "x = (g, r1)" by (cases x)
      obtain gs' v4' r' where rest: "read_groups k (i + 1) r1 = (gs', v4', r')" by (cases "read_groups k (i + 1) r1")
      with "2.prems" None some x have "r' = r" by simp
      moreover obtain d1 where "s = d1 @ r1" 
        using separated_suffix [OF some [unfolded x]] number_suffix by blast
      moreover obtain d2 where "r1 = d2 @ r'" using "2.IH" [OF None some x [symmetric] rest] by blast
      ultimately show ?thesis by simp
    qed
  qed
qed simp

lemma ipv6_suffix: "read_ipv6 s = Some (ip, r) \<Longrightarrow> \<exists>d. s = d @ r"
proof -
  assume a: "read_ipv6 s = Some (ip, r)"
  obtain gs v4 r1 where g: "read_groups 8 0 s = (gs, v4, r1)" by (cases "read_groups 8 0 s")
  from groups_suffix [OF g] obtain d where d: "s = d @ r1" by blast
  show ?thesis
  proof (cases "length gs = 8")
    case True
    with a g d show ?thesis by (auto simp: read_ipv6_def)
  next
    case False
    with a g have "Option.bind (Option.bind (read_given CHR '':'' r1) (read_given CHR '':''))
            (\<lambda>r2. case read_groups (7 - length gs) 0 r2 of
               (tl6, _, r3) \<Rightarrow> Some (gs @ replicate (8 - length gs - length tl6) 0 @ tl6, r3)) = Some (ip, r)"
      by (cases v4) (simp_all add: read_ipv6_def)
    then obtain r2 where r2: "r1 = CHR '':'' # CHR '':'' # r2"
      and t: "(case read_groups (7 - length gs) 0 r2 of
               (tl6, _, r3) \<Rightarrow> Some (gs @ replicate (8 - length gs - length tl6) 0 @ tl6, r3)) = Some (ip, r)"
      by (auto simp: bind_eq_Some_conv read_given_Some)
    obtain tl6 f r3 where "read_groups (7 - length gs) 0 r2 = (tl6, f, r3)" by (cases "read_groups (7 - length gs) 0 r2")
    with t groups_suffix have "\<exists>d'. r2 = d' @ r" by auto
    with d r2 show ?thesis by auto
  qed
qed

lemma sock_v4_shape:
  assumes "read_socket_v4 t = Some (x, [])"
  shows "\<exists>ip port h ds. x = Sock_V4 ip port \<and> read_ipv4 t = Some (ip, CHR '':'' # ds)
     \<and> t = h @ CHR '':'' # ds \<and> CHR '':'' \<notin> set ds"
proof -
  from assms obtain ip r port where a: "read_ipv4 t = Some (ip, r)" "read_port r = Some (port, [])" "x = Sock_V4 ip port"
    by (auto simp: read_socket_v4_def bind_eq_Some_conv)
  from read_port_end [OF a(2)] ipv4_split [OF a(1)] a(1,3) show ?thesis by auto
qed

lemma sock_v6_shape:
  assumes "read_socket_v6 t = Some (x, [])"
  shows "\<exists>ip sc port u u' r ds. x = Sock_V6 ip sc port \<and> t = CHR ''['' # u \<and> read_ipv6 u = Some (ip, r)
     \<and> u = u' @ CHR '']'' # CHR '':'' # ds \<and> CHR '':'' \<notin> set ds"
proof -
  from assms obtain u ip r where a: "t = CHR ''['' # u" "read_ipv6 u = Some (ip, r)"
    and b: "(case (case read_scope r of Some (sc, r1) \<Rightarrow> (sc, r1) | None \<Rightarrow> (0, r)) of (sc, r1) \<Rightarrow>
          Option.bind (Option.bind (read_given CHR '']'' r1) read_port)
            (\<lambda>(port, r2). Some (Sock_V6 ip sc port, r2))) = Some (x, [])"
    by (auto simp: read_socket_v6_def bind_eq_Some_conv read_given_Some)
  obtain sc r1 where sc: "(case read_scope r of Some (sc, r1) \<Rightarrow> (sc, r1) | None \<Rightarrow> (0, r)) = (sc, r1)" by fastforce
  have "\<exists>d. r = d @ r1"
  proof (cases "read_scope r")
    case (Some y)
    with sc have "read_scope r = Some (sc, r1)" by (cases y) simp
    then obtain r0 where "r = CHR ''%'' # r0" "read_number 10 4294967295 None True r0 = Some (sc, r1)"
      by (auto simp: read_scope_def bind_eq_Some_conv read_given_Some)
    then show ?thesis using number_suffix by (metis append_Cons)
  qed (use sc in simp)
  then obtain d1 where d1: "r = d1 @ r1" by blast
  from b sc obtain r2 port where p: "r1 = CHR '']'' # r2" "read_port r2 = Some (port, [])" "x = Sock_V6 ip sc port"
    by (auto simp: bind_eq_Some_conv read_given_Some)
  from read_port_end [OF p(2)] obtain ds where ds: "r2 = CHR '':'' # ds" "CHR '':'' \<notin> set ds" by blast
  from ipv6_suffix [OF a(2)] obtain d0 where "u = d0 @ r" by blast
  with d1 p(1) ds(1) have "u = (d0 @ d1) @ CHR '']'' # CHR '':'' # ds" by simp
  with a p(3) ds(2) show ?thesis by blast
qed

lemma trim_end_char_prefix: "prefix (trim_end_char d s) s"
proof -
  have "suffix (dropWhile (\<lambda>c. c = d) (rev s)) (rev s)" by (rule suffix_dropWhile)
  then show ?thesis by (simp add: trim_end_char_def suffix_to_prefix)
qed

lemma trim_end_char_hd:
  assumes "s \<noteq> []" "hd s \<noteq> d"
  shows "trim_end_char d s \<noteq> [] \<and> hd (trim_end_char d s) = hd s"
proof -
  obtain c r where s: "s = c # r" using assms(1) by (cases s) auto
  with assms(2) have "dropWhile (\<lambda>c. c = d) (rev r @ [c]) = dropWhile (\<lambda>c. c = d) (rev r) @ [c]"
    by (cases "\<forall>x \<in> set (rev r). x = d") (auto simp: dropWhile_append)
  with s show ?thesis by (simp add: trim_end_char_def)
qed

lemma loopback_heads:
  assumes "host = ''localhost'' \<or> host = ''::1'' \<or> starts_with host ''127.''"
  shows "host \<noteq> [] \<and> hd host \<in> {CHR ''l'', CHR '':'', CHR ''1''}"
  using assms by (auto simp: starts_with_def prefix_def)

lemma loopback_v4:
  assumes "read_ipv4 t = Some (ip, r)" "prefix host t"
    and "host = ''localhost'' \<or> host = ''::1'' \<or> starts_with host ''127.''"
  shows "take 1 ip = [127]"
proof -
  have "digit_in 10 (hd t) \<noteq> None" using ipv4_head [OF assms(1)] by blast
  moreover have "hd t = hd host" using assms(2) loopback_heads [OF assms(3)] by (auto simp: prefix_def)
  moreover have "digit_in 10 CHR ''l'' = None" by (simp add: digit_in_def)
  ultimately have "starts_with host ''127.''" using assms(3) by auto
  with assms(2) obtain w where "t = ''127.'' @ w" by (auto simp: starts_with_def prefix_def)
  with assms(1) ipv4_of_127 show ?thesis by blast
qed

lemma loopback_v6:
  assumes "read_ipv6 u = Some (ip, r)" "u = u' @ CHR '']'' # rest"
    and "trim_end_char CHR '']'' u' = ''localhost'' \<or> trim_end_char CHR '']'' u' = ''::1''
         \<or> starts_with (trim_end_char CHR '']'' u') ''127.''"
  shows "ip = [0, 0, 0, 0, 0, 0, 0, 1]"
proof -
  let ?h = "trim_end_char CHR '']'' u'"
  have split: "\<exists>k. u' = ?h @ replicate k CHR '']''"
  proof -
    have "rev u' = takeWhile (\<lambda>c. c = CHR '']'') (rev u') @ dropWhile (\<lambda>c. c = CHR '']'') (rev u')" by simp
    moreover have "takeWhile (\<lambda>c. c = CHR '']'') (rev u') = replicate k CHR '']''"
      if "k = length (takeWhile (\<lambda>c. c = CHR '']'') (rev u'))" for k
      unfolding that by (rule replicate_eqI) (auto dest: set_takeWhileD)
    ultimately have "rev u' = replicate (length (takeWhile (\<lambda>c. c = CHR '']'') (rev u'))) CHR '']'' @ rev ?h"
      by (metis rev_rev_ident trim_end_char_def)
    then show ?thesis by (metis rev_append rev_replicate rev_rev_ident)
  qed
  then obtain k where k: "u' = ?h @ replicate k CHR '']''" by blast
  from assms(3) consider "?h = ''localhost''" | "?h = ''::1''" | v where "?h = ''127.'' @ v"
    by (auto simp: starts_with_def prefix_def)
  then show ?thesis
  proof cases
    case 1
    with k assms(2) obtain w where u: "u = CHR ''l'' # w" by simp
    have "read_ipv6 (CHR ''l'' # w) = None" by (rule ipv6_head) (simp_all add: digit_in_def)
    with assms(1) u show ?thesis by simp
  next
    case 2
    then have "u = ''::1'' @ replicate (Suc k) CHR '']'' @ rest"
      using k assms(2) by (simp add: replicate_append_same [symmetric])
    then have "u = ''::1]'' @ (replicate k CHR '']'' @ rest)" by simp
    with assms(1) ipv6_of_loopback show ?thesis by simp
  next
    case 3
    with k assms(2) have "\<exists>w. u = ''127.'' @ w" by simp
    with assms(1) ipv6_of_127 show ?thesis by force
  qed
qed

lemma is_loopback_split:
  assumes "is_loopback (h @ CHR '':'' # ds)" "CHR '':'' \<notin> set ds"
  shows "\<exists>host. host = trim_end_char CHR '']'' (dropWhile (\<lambda>c. c = CHR ''['') h)
     \<and> (host = ''localhost'' \<or> host = ''::1'' \<or> starts_with host ''127.'')"
  using assms by (simp add: is_loopback_def Let_def)

text \<open>An address that is exempt from the start-up policy is a loopback address: when the start-up check
  accepts the value of \<open>MCP_ADDR\<close> and the policy takes it for loopback by looking at its text, the socket
  address it stands for is in 127.0.0.0/8 or is ::1.\<close>

theorem exempt_address_is_loopback:
  assumes "addr_check env = []" "env ''MCP_ADDR'' = Some v" "is_loopback v"
  shows "\<exists>a. parse_socket_addr (trim v) = Some a \<and> loopback_socket a"
proof -
  obtain x where x: "parse_socket_addr (trim v) = Some x" using assms(1,2) by (auto simp: addr_check_def split: if_splits)
  obtain a b where ab: "v = a @ trim v @ b" "CHR '':'' \<notin> set b"
    "a = [] \<or> hd a \<notin> {CHR ''['', CHR '']'', CHR ''l'', CHR '':'', CHR ''1''}"
    using trim_split [of v] by blast
  have front: "a = []" if "trim v = h @ CHR '':'' # ds" "CHR '':'' \<notin> set ds" for h ds
  proof (rule ccontr)
    assume ne: "a \<noteq> []"
    have "is_loopback ((a @ h) @ CHR '':'' # (ds @ b))" using assms(3) ab(1) that(1) by simp
    from is_loopback_split [OF this] that(2) ab(2) obtain host
      where host: "host = trim_end_char CHR '']'' (dropWhile (\<lambda>c. c = CHR ''['') (a @ h))"
        "host = ''localhost'' \<or> host = ''::1'' \<or> starts_with host ''127.''" by auto
    have "dropWhile (\<lambda>c. c = CHR ''['') (a @ h) = a @ h" using ne ab(3) by (cases a) auto
    with host(1) trim_end_char_hd [of "a @ h" "CHR '']''"] ne ab(3) have "hd host = hd a" by auto
    with loopback_heads [OF host(2)] ab(3) ne show False by auto
  qed
  have here: "\<exists>host. host = trim_end_char CHR '']'' (dropWhile (\<lambda>c. c = CHR ''['') h)
      \<and> (host = ''localhost'' \<or> host = ''::1'' \<or> starts_with host ''127.'')"
    if "trim v = h @ CHR '':'' # ds" "CHR '':'' \<notin> set ds" for h ds
    using is_loopback_split [of h "ds @ b"] assms(3) ab(1,2) front [OF that] that by simp
  from x consider "read_socket_v4 (trim v) = Some (x, [])" | "read_socket_v6 (trim v) = Some (x, [])"
    by (auto simp: parse_socket_addr_def split: option.splits list.splits)
  then have "loopback_socket x"
  proof cases
    case 1
    from sock_v4_shape [OF this] obtain ip port h ds where s: "x = Sock_V4 ip port"
      "read_ipv4 (trim v) = Some (ip, CHR '':'' # ds)" "trim v = h @ CHR '':'' # ds" "CHR '':'' \<notin> set ds" by blast
    from here [OF s(3,4)] obtain host where host:
      "host = trim_end_char CHR '']'' (dropWhile (\<lambda>c. c = CHR ''['') h)"
      "host = ''localhost'' \<or> host = ''::1'' \<or> starts_with host ''127.''" by blast
    have "hd (trim v) \<noteq> CHR ''[''" using ipv4_head [OF s(2)] by auto
    then have "dropWhile (\<lambda>c. c = CHR ''['') h = h" using s(3) by (cases h) auto
    then have "prefix host (trim v)"
      using host(1) trim_end_char_prefix [of "CHR '']''" h] s(3) by (simp add: prefix_order.trans)
    from loopback_v4 [OF s(2) this host(2)] s(1) show ?thesis by simp
  next
    case 2
    from sock_v6_shape [OF this] obtain ip sc port u u' r ds where s: "x = Sock_V6 ip sc port"
      "trim v = CHR ''['' # u" "read_ipv6 u = Some (ip, r)" "u = u' @ CHR '']'' # CHR '':'' # ds"
      "CHR '':'' \<notin> set ds" by blast
    have "trim v = (CHR ''['' # u' @ '']'') @ CHR '':'' # ds" using s(2,4) by simp
    from here [OF this s(5)] obtain host where host:
      "host = trim_end_char CHR '']'' (dropWhile (\<lambda>c. c = CHR ''['') (u' @ '']''))"
      "host = ''localhost'' \<or> host = ''::1'' \<or> starts_with host ''127.''" by auto
    have "read_ipv6 (CHR ''['' # w) = None" for w by (rule ipv6_head) simp_all
    with s(3,4) have "hd (u' @ '']'') \<noteq> CHR ''[''" by (cases u') auto
    then have "dropWhile (\<lambda>c. c = CHR ''['') (u' @ '']'') = u' @ '']''" by (cases u') auto
    with host have "trim_end_char CHR '']'' u' = ''localhost'' \<or> trim_end_char CHR '']'' u' = ''::1''
         \<or> starts_with (trim_end_char CHR '']'' u') ''127.''"
      by (simp add: trim_end_char_def)
    from loopback_v6 [OF s(3,4) this] s(1) show ?thesis by simp
  qed
  with x show ?thesis by blast
qed

theorem exempt_address_is_loopback_witness:
  "\<exists>a. parse_socket_addr (trim ''[::1]:8080'') = Some a \<and> loopback_socket a"
proof -
  let ?env = "\<lambda>k. if k = ''MCP_ADDR'' then Some ''[::1]:8080'' else None"
  have p: "read_port '':8080'' = Some (8080, [])"
    by (simp add: read_port_def read_given_def read_number_def digit_in_def)
  have "read_socket_v6 ''[::1]:8080'' = Some (Sock_V6 [0, 0, 0, 0, 0, 0, 0, 1] 0 8080, [])"
    using ipv6_of_loopback [of "'':8080''"] p
    by (simp add: read_socket_v6_def read_given_def read_scope_def)
  moreover have "read_socket_v4 ''[::1]:8080'' = None"
    using ipv4_head [of "''[::1]:8080''"] by (cases "read_ipv4 ''[::1]:8080''") (auto simp: read_socket_v4_def)
  moreover have "trim ''[::1]:8080'' = ''[::1]:8080''" "is_loopback ''[::1]:8080''" by code_simp+
  ultimately have "addr_check ?env = []" "is_loopback ''[::1]:8080''"
    by (simp_all add: addr_check_def parse_socket_addr_def)
  then show ?thesis using exempt_address_is_loopback [of ?env "''[::1]:8080''"] by simp
qed

end
