(* ===== verification/Startup_Safety.thy ===== *)
theory Startup_Safety
  imports Startup_Props
begin

text \<open>
  What the start-up checks guarantee to the rest of the server: credentials that are configured are
  required of every request, and accepted settings stay inside the quotes of the session's SET
  statements. The lemmas after that show where the checks and their readers disagree.
\<close>

section \<open>Credentials\<close>

lemma preflight_parts:
  assumes "preflight L env names = []"
  shows "jwt_check L env = []" "timeout_check env = []" "search_path_check env = []" "addr_check env = []"
  using assms by (simp_all add: preflight_def)

lemma nonblank_nonempty: "nonblank_env env k \<Longrightarrow> \<exists>v. env k = Some v \<and> v \<noteq> []"
proof -
  have "trim [] = []" by code_simp
  then show "nonblank_env env k \<Longrightarrow> \<exists>v. env k = Some v \<and> v \<noteq> []"
    by (auto simp: nonblank_env_def split: option.splits)
qed

lemma configured_key:
  assumes "preflight L env names = []" "nonblank_env env ''JWT_PUBKEY_PEM''"
  shows "\<exists>cfg. auth_config_of env (read_ok L) = Some cfg \<and> cfg_aud cfg \<noteq> [] \<and> cfg_iss cfg \<noteq> []"
proof -
  from preflight_parts(1) [OF assms(1)] assms(2) obtain pem where "jwt_pubkey_pem env (read_ok L) = Some pem"
    and named: "nonblank_env env ''JWT_AUD''" "nonblank_env env ''JWT_ISS''"
    by (auto simp: jwt_check_def split: option.splits if_splits)
  with nonblank_nonempty [OF named(1)] nonblank_nonempty [OF named(2)] show ?thesis
    by (auto simp: auth_config_of_def env_or_def)
qed

lemma credentials_required:
  assumes "preflight L env names = []" "own_authentication env"
    and "hs ''authorization'' = None" "get_str ''method'' req \<noteq> Some ''server/discover''"
    and "\<And>t. t \<noteq> [] \<Longrightarrow> al_hmac A t \<noteq> al_hmac A []"
  shows "\<exists>msg. enforce_auth A env (auth_config_of env (read_ok L)) hs req = Inl (401, msg, None)"
proof (cases "nonblank_env env ''JWT_PUBKEY_PEM''")
  case True
  with configured_key [OF assms(1)] obtain cfg
    where "auth_config_of env (read_ok L) = Some cfg" "cfg_aud cfg \<noteq> []" "cfg_iss cfg \<noteq> []" by blast
  then show ?thesis using assms(3,4) by (simp add: enforce_auth_def oauth_auth_def)
next
  case False
  then have "jwt_pubkey_pem env (read_ok L) = None"
    by (auto simp: jwt_pubkey_pem_def nonblank_env_def split: option.splits)
  then have "auth_config_of env (read_ok L) = None" by (simp add: auth_config_of_def)
  moreover from False assms(2) have "nonblank_env env ''MCP_BEARER_TOKEN''" by (simp add: own_authentication_def)
  then obtain t where "env ''MCP_BEARER_TOKEN'' = Some t" "t \<noteq> []" using nonblank_nonempty by blast
  ultimately show ?thesis
    using assms(3,4) assms(5) [of t] by (auto simp: enforce_auth_def shared_token_auth_def secret_eq_iff)
qed

text \<open>\<open>initialize\<close> is no exception, although the comments on the session table and on the instructions say
  that it is answered without credentials.\<close>

lemma initialize_needs_credentials:
  assumes "preflight L env names = []" "own_authentication env" "hs ''authorization'' = None"
    and "get_str ''method'' req = Some ''initialize''" and "\<And>t. t \<noteq> [] \<Longrightarrow> al_hmac A t \<noteq> al_hmac A []"
  shows "\<exists>msg. enforce_auth A env (auth_config_of env (read_ok L)) hs req = Inl (401, msg, None)"
  by (rule credentials_required [OF assms(1,2), of hs req A]) (use assms(3-5) in auto)

text \<open>The credentials a request shows: the token in its authorization header, which is validated against the
  configured key, audience and issuer and carries the scope the method needs when a key is configured, and
  has the keyed digest of the configured token otherwise.\<close>

definition credentials_shown :: "auth_libs \<Rightarrow> env \<Rightarrow> auth_config option \<Rightarrow> headers \<Rightarrow> json \<Rightarrow> bool" where
  "credentials_shown A env config hs req \<longleftrightarrow>
     (\<exists>h token. hs ''authorization'' = Some h \<and> bearer_token h = Some token
        \<and> (case config of
             Some cfg \<Rightarrow> cfg_aud cfg \<noteq> [] \<and> cfg_iss cfg \<noteq> []
               \<and> (\<exists>ctx. validate_token (al_rsa_key A) (al_decode A) token (cfg_pubkey cfg) (cfg_aud cfg) (cfg_iss cfg) = Inr ctx
                    \<and> (\<forall>needed. scope_needed req = Some needed \<longrightarrow> scope_satisfied ctx needed))
           | None \<Rightarrow> (\<exists>expected. env ''MCP_BEARER_TOKEN'' = Some expected \<and> expected \<noteq> []
               \<and> al_hmac A token = al_hmac A expected)))"

lemma passing_shows_credentials:
  assumes "preflight L env names = []" "own_authentication env"
    and "get_str ''method'' req \<noteq> Some ''server/discover''"
    and "\<And>t. t \<noteq> [] \<Longrightarrow> al_hmac A t \<noteq> al_hmac A []"
  shows "case enforce_auth A env (auth_config_of env (read_ok L)) hs req of
      Inr who \<Rightarrow> credentials_shown A env (auth_config_of env (read_ok L)) hs req
    | Inl (status, msg, tenant) \<Rightarrow> status = 401 \<or> status = 403"
proof (cases "auth_config_of env (read_ok L)")
  case (Some cfg)
  have "nonblank_env env ''JWT_PUBKEY_PEM''"
    using Some by (auto simp: auth_config_of_def jwt_pubkey_pem_def nonblank_env_def split: option.splits)
  with configured_key [OF assms(1)] Some have "cfg_aud cfg \<noteq> []" "cfg_iss cfg \<noteq> []" by auto
  with assms(3) show ?thesis
    by (auto simp: Some enforce_auth_def oauth_auth_def credentials_shown_def bind_eq_Some_conv
        split: option.splits sum.splits)
next
  case None
  with configured_key [OF assms(1)] have "\<not> nonblank_env env ''JWT_PUBKEY_PEM''" by auto
  with assms(2) have "nonblank_env env ''MCP_BEARER_TOKEN''" by (simp add: own_authentication_def)
  then obtain t where "env ''MCP_BEARER_TOKEN'' = Some t" "t \<noteq> []" using nonblank_nonempty by blast
  with assms(3) assms(4) [of t] show ?thesis
    by (auto simp: None enforce_auth_def shared_token_auth_def secret_eq_iff credentials_shown_def Let_def
        split: option.splits Option.bind_splits)
qed

text \<open>C10: Credentials that are configured are required of every request but \<open>server/discover\<close>: once the
  start-up checks pass, a server with a shared token or a public key lets a request through only with a
  token in its authorization header that is validated, with the scope its method needs, or whose keyed
  digest is that of the shared token; it answers every other request with 401 or 403, whatever its header
  holds, and one without the header with 401. The keyed digest is only assumed to tell a token from the
  empty text.\<close>

theorem configured_credentials_required:
  assumes "preflight L env names = []" "own_authentication env"
    and "get_str ''method'' req \<noteq> Some ''server/discover''"
    and "\<And>t. t \<noteq> [] \<Longrightarrow> al_hmac A t \<noteq> al_hmac A []"
  shows "(case enforce_auth A env (auth_config_of env (read_ok L)) hs req of
            Inr who \<Rightarrow> credentials_shown A env (auth_config_of env (read_ok L)) hs req
          | Inl (status, msg, tenant) \<Rightarrow> status = 401 \<or> status = 403)
       \<and> (hs ''authorization'' = None \<longrightarrow>
            (\<exists>msg. enforce_auth A env (auth_config_of env (read_ok L)) hs req = Inl (401, msg, None)))"
  using passing_shows_credentials [of L env names req A hs] credentials_required [of L env names hs req A] assms
  by blast

definition demo_startup_libs :: startup_libs where
  "demo_startup_libs = \<lparr>sl_read = (\<lambda>p. Inl ''not found''), sl_read_text = (\<lambda>p. Inl ''not found''),
     sl_append = (\<lambda>p. None), sl_rsa_key = (\<lambda>k. Inr ()), sl_tls = dl_tls demo_db_libs\<rparr>"

definition bearer_env :: env where
  "bearer_env = (\<lambda>k. if k = ''MCP_BEARER_TOKEN'' then Some ''s'' else None)"

lemma bearer_preflight: "preflight demo_startup_libs bearer_env [''PATH''] = []"
proof -
  have "\<not> is_candidate ''PATH''" by code_simp
  then have "fst (classify_unknown [''PATH'']) = []" by (simp add: classify_fatal)
  then show ?thesis
    by (simp add: preflight_def number_checks_def number_check_def key_file_check_def jwt_check_def nonblank_env_def
        timeout_check_def file_checks_def addr_check_def audit_file_check_def plaintext_check_def metrics_check_def
        flag_check_def slots_check_def search_path_check_def public_url_check_def bearer_env_def)
qed

text \<open>The token passes, another text in the header does not.\<close>

theorem configured_credentials_required_witness:
  "(let attempt = \<lambda>h. enforce_auth demo_auth_libs bearer_env (auth_config_of bearer_env (read_ok demo_startup_libs))
      [''authorization'' \<mapsto> h] (JObj [(''method'', JStr ''initialize'')]) in
    (\<exists>who. attempt ''Bearer s'' = Inr who) \<and> (\<exists>status msg tenant. attempt ''Bearer x'' = Inl (status, msg, tenant) \<and> status \<in> {401, 403}))"
proof -
  let ?cfg = "auth_config_of bearer_env (read_ok demo_startup_libs)" and ?req = "JObj [(''method'', JStr ''initialize'')]"
  have cfg: "?cfg = None" by (simp add: auth_config_of_def jwt_pubkey_pem_def bearer_env_def)
  have own: "own_authentication bearer_env" by code_simp
  have m: "get_str ''method'' ?req \<noteq> Some ''server/discover''" "get_str ''method'' ?req = Some ''initialize''"
    by (simp_all add: get_str_def)
  have tok: "bearer_token ''Bearer s'' = Some ''s''" "bearer_token ''Bearer x'' = Some ''x''" by code_simp+
  have inj: "al_hmac demo_auth_libs t \<noteq> al_hmac demo_auth_libs []" if "t \<noteq> []" for t
    using that by (simp add: demo_auth_libs_def)
  note main = configured_credentials_required [OF bearer_preflight own m(1) inj]
  have "\<not> credentials_shown demo_auth_libs bearer_env ?cfg [''authorization'' \<mapsto> ''Bearer x''] ?req"
    unfolding credentials_shown_def cfg by (simp add: tok bearer_env_def demo_auth_libs_def)
  with main [of "[''authorization'' \<mapsto> ''Bearer x'']"]
  have "\<exists>status msg tenant. enforce_auth demo_auth_libs bearer_env ?cfg [''authorization'' \<mapsto> ''Bearer x''] ?req
      = Inl (status, msg, tenant) \<and> status \<in> {401, 403}"
    by (auto split: sum.splits)
  moreover have "\<exists>who. enforce_auth demo_auth_libs bearer_env ?cfg [''authorization'' \<mapsto> ''Bearer s''] ?req = Inr who"
    unfolding cfg by (simp add: enforce_auth_def shared_token_auth_def m(2) bearer_env_def tok secret_eq_iff)
  ultimately show ?thesis by (simp add: Let_def)
qed

section \<open>The session's settings\<close>

lemma double_char_other: "c \<notin> set s \<Longrightarrow> double_char c s = s"
  by (induction s) (auto simp: double_char_def)

lemma plain_quoted: "plain_part n \<Longrightarrow> quoted_name n = CHR 0x22 # n @ [CHR 0x22]"
proof -
  assume "plain_part n"
  then have "CHR 0x22 \<notin> set n"
    by (auto simp: plain_part_def list_all_iff is_ascii_alphabetic_def is_ascii_digit_def)
  then show ?thesis by (simp add: quoted_name_def double_char_other)
qed

lemma white_space_no_quote: "w \<in> set white_space \<Longrightarrow> CHR 0x27 \<notin> set w"
  by (auto simp: white_space_def)

lemma trim_no_quote:
  assumes "CHR 0x27 \<notin> set (trim v)"
  shows "CHR 0x27 \<notin> set v"
proof -
  have ws: "[] \<notin> set white_space" "[] \<notin> set (map rev white_space)" by (simp_all add: white_space_def)
  obtain us where us: "set us \<subseteq> set white_space" "v = concat us @ trim_start v"
    using trim_start_in_split [OF ws(1), of v] unfolding trim_start_def by blast
  obtain vs where vs: "set vs \<subseteq> set (map rev white_space)" "rev (trim_start v) = concat vs @ rev (trim v)"
    using trim_start_in_split [OF ws(2), of "rev (trim_start v)"] unfolding trim_def trim_end_def by auto
  have "set (trim_start v) = set (concat vs) \<union> set (trim v)" using vs(2) by (metis set_append set_rev)
  moreover have "CHR 0x27 \<notin> set (concat vs)" using vs(1) white_space_no_quote by fastforce
  moreover have "CHR 0x27 \<notin> set (concat us)" using us(1) white_space_no_quote by fastforce
  ultimately show ?thesis using us(2) assms by (metis Un_iff set_append)
qed

text \<open>C29: Settings that pass the start-up checks cannot leave their place in the SET statements that open every
  session: the statement timeout holds no quote, so it ends where its literal ends, and the search path is
  a list of plain names, each in double quotes.\<close>

theorem accepted_settings_stay_quoted:
  assumes "preflight L env names = []"
  shows "CHR 0x27 \<notin> set (statement_timeout env)
     \<and> (search_path_stmt env = []
        \<or> (\<exists>ns. list_all plain_part ns \<and> ns \<noteq> []
             \<and> search_path_stmt env = '' SET search_path TO '' @
                 join '', '' (map (\<lambda>n. CHR 0x22 # n @ [CHR 0x22]) ns) @ '';''))"
proof
  show "CHR 0x27 \<notin> set (statement_timeout env)"
  proof (cases "nonblank (env ''MCP_STATEMENT_TIMEOUT'')")
    case None
    then show ?thesis by (simp add: statement_timeout_def)
  next
    case (Some v)
    then have "env ''MCP_STATEMENT_TIMEOUT'' = Some v" by (auto simp: nonblank_def split: option.splits if_splits)
    with preflight_parts(2) [OF assms]
    have "list_all (\<lambda>c. is_ascii_digit c \<or> is_ascii_alphabetic c \<or> c = CHR '' '') (trim v)"
      by (simp add: timeout_check_def split: if_splits)
    then have "CHR 0x27 \<notin> set (trim v)"
      by (auto simp: list_all_iff is_ascii_alphabetic_def is_ascii_digit_def)
    with Some show ?thesis using trim_no_quote by (simp add: statement_timeout_def)
  qed
next
  show "search_path_stmt env = []
        \<or> (\<exists>ns. list_all plain_part ns \<and> ns \<noteq> []
             \<and> search_path_stmt env = '' SET search_path TO '' @
                 join '', '' (map (\<lambda>n. CHR 0x22 # n @ [CHR 0x22]) ns) @ '';'')"
  proof (cases "nonblank (env ''MCP_SEARCH_PATH'')")
    case None
    then show ?thesis by (simp add: search_path_stmt_def search_path_stmt_from_def)
  next
    case (Some v)
    then have env: "env ''MCP_SEARCH_PATH'' = Some v" by (auto simp: nonblank_def split: option.splits if_splits)
    let ?ns = "map trim (split_char CHR '','' v)"
    have plain: "\<forall>n \<in> set ?ns. plain_part n"
    proof
      fix n assume "n \<in> set ?ns"
      with env preflight_parts(3) [OF assms] show "plain_part n"
        by (cases "n = []") (auto simp: search_path_check_def filter_empty_conv plain_part_def)
    qed
    then have "map (\<lambda>s. quoted_name (trim s)) (split_char CHR '','' v) = map (\<lambda>n. CHR 0x22 # n @ [CHR 0x22]) ?ns"
      by (simp add: plain_quoted)
    with plain Some env show ?thesis
      by (intro disjI2 exI [of _ ?ns]) (simp add: search_path_stmt_def search_path_stmt_from_def list_all_iff comp_def cong: map_cong)
  qed
qed

theorem accepted_settings_stay_quoted_witness:
  "CHR 0x27 \<notin> set (statement_timeout bearer_env)"
  using accepted_settings_stay_quoted [OF bearer_preflight] by blast

section \<open>Where checks and readers disagree\<close>

text \<open>An empty item is skipped by the check and quoted by the reader, which PostgreSQL refuses.\<close>

lemma empty_schema_name_accepted:
  "let env = (\<lambda>k. if k = ''MCP_SEARCH_PATH'' then Some ''public,'' else None) in
   search_path_check env = []
   \<and> search_path_stmt env = '' SET search_path TO '' @ [CHR 0x22] @ ''public'' @ [CHR 0x22] @ '', '' @ [CHR 0x22, CHR 0x22] @ '';''"
  by code_simp

text \<open>The check trims, the reader does not: a limit with a space falls back to its default unsaid.\<close>

lemma padded_number_ignored:
  "let env = (\<lambda>k. if k = ''MCP_MAX_COST'' then Some ''5 '' else None) in
   number_checks env = [] \<and> max_cost env = Fin 1000000"
proof -
  let ?env = "\<lambda>k. if k = ''MCP_MAX_COST'' then Some ''5 '' else None"
  have d: "parse_decimal ''5'' = Some 5" "parse_decimal ''5 '' = None" by code_simp+
  have t: "trim ''5 '' = ''5''" by code_simp
  have o: "\<not> f64_overflow \<le> 5" by (simp add: f64_overflow_def)
  have "parse_f64 ''5'' = Some (Fin 5)" "parse_f64 ''5 '' = None"
    by (simp_all add: parse_f64_def d o Let_def to_ascii_lowercase_def ascii_lower_def)
  then show ?thesis
    by (simp add: number_checks_def number_check_def max_cost_def parse_env_f64_def t)
qed

text \<open>A limit that is not a number passes, and nothing costs more than it.\<close>

lemma nan_cost_accepted:
  "let env = (\<lambda>k. if k = ''MCP_MAX_COST'' then Some ''nan'' else None) in
   number_checks env = [] \<and> max_cost env = NaN \<and> \<not> f64_lt (max_cost env) cost"
proof -
  have t: "trim ''nan'' = ''nan''" by code_simp
  show ?thesis
    by (cases cost) (simp_all add: number_checks_def number_check_def max_cost_def parse_env_f64_def t parse_f64_nan)
qed

text \<open>The keyword form of a connection string: the first equals sign belongs to the string, not to a name.\<close>

lemma keyword_plaintext_unseen:
  "\<not> plaintext_part (\<lambda>k. None) ''sslmode=disable host=db.example.com''"
  "plaintext_part (\<lambda>k. None) ''host=localhost sslmode=disable''"
  by code_simp+

text \<open>Passwords the audit log keeps: a parameter of a URL, and the rest of a quoted value.\<close>

lemma logged_passwords:
  "strip_password ''postgres://db/app?user=u&password=secret'' = ''postgres://db/app?user=u&password=secret''"
  "strip_password (''host=db password='' @ [CHR 0x27] @ ''top secret'' @ [CHR 0x27]) = ''host=db password=*** secret'' @ [CHR 0x27]"
  by code_simp+

text \<open>Databases that cannot be asked count as databases that enforce redaction.\<close>

lemma unasked_counts_as_enforced:
  assumes "redaction_configured (h_env H)"
    and "\<And>n l. fst (catalog H EXPOSED_SQL [P_Texts (redacted_names (h_env H))] (Some n) l) = Inl (err n)"
  shows "fst (spawn_redaction_verification H l) = Redaction_Verified"
proof -
  have "fst (exposed_columns H names l) = []" for names l
  proof (induction names arbitrary: l)
    case (Cons n names)
    obtain r l1 where r: "catalog H EXPOSED_SQL [P_Texts (redacted_names (h_env H))] (Some n) l = (r, l1)" by fastforce
    with assms(2) [of n l] have "r = Inl (err n)" by simp
    with r Cons.IH [of l1] show ?case by (simp add: andthen_def ret_def split_beta)
  qed (simp add: ret_def)
  with assms(1) show ?thesis by (simp add: spawn_redaction_verification_def andthen_def ret_def split_beta Let_def)
qed

end
