(* ===== verification/Entry_Props.thy ===== *)
theory Entry_Props
  imports Entry Posture_Props Startup_Safety
begin

text \<open>
  Between the command line and the first request (\<open>src/cli.rs\<close>, \<open>src/main.rs\<close>): which command lines start
  a server, and everything that has held before one serves.
\<close>

section \<open>The command line\<close>

text \<open>A command line read as options with their values; a word that is no option stands alone.\<close>

fun read_args :: "string list \<Rightarrow> (string \<times> string option) list" where
  "read_args [] = []"
| "read_args (a # args) =
     (if takes_value a then (case args of [] \<Rightarrow> [(a, None)] | v # rest \<Rightarrow> (a, Some v) # read_args rest)
      else (a, None) # read_args args)"

lemma takes_value_known: "takes_value a \<Longrightarrow> is_known a \<and> starts_with a ''--''"
  by (auto simp: takes_value_def is_known_def KNOWN_def starts_with_def)

lemma unknown_options_read:
  "unknown_options False args = filter (\<lambda>a. starts_with a ''--'' \<and> \<not> is_known a) (map fst (read_args args))"
proof (induction args rule: read_args.induct)
  case (2 a args)
  show ?case
  proof (cases "takes_value a")
    case True
    from takes_value_known [OF True] True 2(1) show ?thesis by (cases args) simp_all
  next
    case False
    then show ?thesis using 2(2) by simp
  qed
qed simp

text \<open>The modes that print and exit.\<close>

definition mode_options :: "string list" where
  "mode_options = [''--validate'', ''--fuzz'', ''--print-setup-sql'', ''--canon'', ''--verify-audit'',
     ''--help'', ''--version'', ''-h'', ''-V'']"

lemma setup_run_exits: "\<exists>rc out l'. setup_run H args l = ((rc, out), l')"
  by (metis prod.collapse)

lemma serving_started:
  assumes "main_run P l = (Serving tr s, l')"
  shows "handle_or_refuse (pr_pkg P) (pr_args P) = None" and "set (take 5 mode_options) \<inter> set (pr_args P) = {}"
    and "start_server P l = (Serving tr s, l')"
  using assms setup_run_exits [of "pr_host P" "pr_args P" l]
  by (auto simp: main_run_def ret_def andthen_def validate_mode_def canon_mode_def fuzz_mode_def verify_mode_def
      mode_options_def Let_def split: option.splits sum.splits if_splits)

lemma accepted_args:
  assumes "handle_or_refuse pkg args = None"
  shows "list_all (\<lambda>(a, v). starts_with a ''--'' \<longrightarrow> is_known a) (read_args (drop 1 args))"
    and "set (drop 5 mode_options) \<inter> set (drop 1 args) = {}"
  using assms
  by (auto simp: handle_or_refuse_def unknown_options_read mode_options_def Let_def list_all_iff filter_empty_conv
      starts_with_def split: if_splits)

lemma server_gates:
  assumes "start_server P l = (Serving tr s, l')"
  shows "preflight (pr_startup P) (pr_env P) (pr_names P) = []" and "tr = transport_of P" and "ps_exit s = None"
    and "enforce_start_policy (h_world (pr_host P)) (h_libs (pr_host P)) (pr_env P) tr (listen_addr (pr_env P)) policy_start
      (l @ [Audited ''server'' ''startup'' None]) = (s, l')"
  using assms
  by (auto simp: start_server_def startup_record_def audit_startup_def preflight_config_def andthen_def ret_def
      audit_as_def World.emit_def run_http_def transport_of_def Let_def split: option.splits if_splits prod.splits)

lemma policy_appends: "emits (enforce_start_policy w D env tr addr s0) (\<lambda>d s. True)"
  unfolding enforce_start_policy_def evaluate_def
  by (auto intro!: emits_ret emits_andthen emits_attempted [OF catalog_appends] split: list.split)

text \<open>C8: whoever serves has passed every gate, in the order of the code: every word of the command line that
  starts with two dashes, unless it is the value of an option, is one the program knows, and no word asks
  for another mode (a word with one dash, or none, is passed over: \<open>single_dash_ignored\<close>); the start-up
  checks report no fault in the configuration; the audit log has the start with the configuration before
  anything else happens; the transport is the one the command line names; and a listener that others can
  reach has its own authentication, or the platform's, or the operator's override for anonymous callers,
  and has asked the database for a role that may do nothing but read (or any role, with the override for
  that), or holds its answers back.\<close>

theorem serving_passed_every_gate:
  assumes "main_run P l = (Serving tr s, l')"
  shows "list_all (\<lambda>(a, v). starts_with a ''--'' \<longrightarrow> is_known a) (read_args (drop 1 (pr_args P)))
    \<and> list_all (\<lambda>m. m \<notin> set (drop 1 (pr_args P))) mode_options
    \<and> preflight (pr_startup P) (pr_env P) (pr_names P) = []
    \<and> (tr = ''stdio'') = (''--stdio'' \<in> set (pr_args P))
    \<and> (\<exists>d. l' = l @ Audited ''server'' ''startup'' None # d)
    \<and> (tr = ''stdio'' \<or> is_loopback (listen_addr (pr_env P))
       \<or> (own_authentication (pr_env P) \<or> platform_authenticates (pr_env P)
           \<or> pr_env P ''MCP_ALLOW_ANONYMOUS_NETWORK'' = Some ''i-accept-the-risk'')
         \<and> (serving_blocked s \<noteq> None
           \<or> (\<exists>f l0. ps_facts s = Some f
                \<and> fst (evaluate (h_world (pr_host P)) (h_libs (pr_host P)) (pr_env P) None l0) = Inr f
                \<and> (excessive f = [] \<or> pr_env P ''MCP_ALLOW_EXCESSIVE_ROLE'' = Some ''i-accept-the-risk''))))"
proof -
  note st = serving_started [OF assms]
  note g = server_gates [OF st(3)]
  have "policy_run (h_world (pr_host P)) (h_libs (pr_host P)) (pr_env P) tr (listen_addr (pr_env P)) (s, l')"
    using policy_run.Started [of "h_world (pr_host P)" "h_libs (pr_host P)" "pr_env P" tr "listen_addr (pr_env P)"
        "l @ [Audited ''server'' ''startup'' None]"] by (simp add: g(4))
  from policy_run_inv [OF this] g(3)
  have policy: "tr = ''stdio'' \<or> is_loopback (listen_addr (pr_env P))
       \<or> (own_authentication (pr_env P) \<or> platform_authenticates (pr_env P)
           \<or> pr_env P ''MCP_ALLOW_ANONYMOUS_NETWORK'' = Some ''i-accept-the-risk'')
         \<and> (serving_blocked s \<noteq> None
           \<or> (\<exists>f l0. ps_facts s = Some f
                \<and> fst (evaluate (h_world (pr_host P)) (h_libs (pr_host P)) (pr_env P) None l0) = Inr f
                \<and> (excessive f = [] \<or> pr_env P ''MCP_ALLOW_EXCESSIVE_ROLE'' = Some ''i-accept-the-risk'')))"
    by (auto simp: policy_inv_def serving_blocked_def role_checked_def role_accepted_def may_listen_def hatch_def)
  obtain d where "l' = (l @ [Audited ''server'' ''startup'' None]) @ d"
    using policy_appends [unfolded emits_def] g(4) by (metis snd_conv)
  then have "\<exists>d. l' = l @ Audited ''server'' ''startup'' None # d" by auto
  moreover have "list_all (\<lambda>m. m \<notin> set (drop 1 (pr_args P))) mode_options"
    using st(2) accepted_args(2) [OF st(1)]
    by (auto simp: mode_options_def dest: in_set_dropD)
  moreover have "(tr = ''stdio'') = (''--stdio'' \<in> set (pr_args P))"
    by (auto simp: g(2) transport_of_def)
  ultimately show ?thesis using accepted_args(1) [OF st(1)] g(1) policy by blast
qed

text \<open>A server with a token in a container that names its port, so that it listens on every address, before a
  database whose role may only read.\<close>

definition http_env :: env where
  "http_env = (\<lambda>k. if k = ''MCP_BEARER_TOKEN'' then Some ''s'' else if k = ''ACTOR_WEB_SERVER_PORT'' then Some ''8080'' else None)"

definition http_process :: "host \<Rightarrow> audit_libs \<Rightarrow> (string \<Rightarrow> string option) \<Rightarrow> fuzz_world \<Rightarrow> process" where
  "http_process H A R W =
     \<lparr>pr_host = H\<lparr>h_env := http_env, h_world := one_row_world plain_role, h_libs := demo_db_libs\<rparr>,
      pr_args = [''server''], pr_pkg = ''server'', pr_startup = demo_startup_libs, pr_audit = A, pr_read = R,
      pr_names = [''PATH''], pr_now = 0, pr_bind = (\<lambda>a. True), pr_fuzz = W\<rparr>"

lemma http_preflight: "preflight demo_startup_libs http_env [''PATH''] = []"
proof -
  have "\<not> is_candidate ''PATH''" by code_simp
  then have "fst (classify_unknown [''PATH'']) = []" by (simp add: classify_fatal)
  then show ?thesis
    by (simp add: preflight_def number_checks_def number_check_def key_file_check_def jwt_check_def nonblank_env_def
        timeout_check_def file_checks_def addr_check_def audit_file_check_def plaintext_check_def metrics_check_def
        flag_check_def slots_check_def search_path_check_def public_url_check_def http_env_def)
qed

lemma http_pool: "is_ok (pool_for demo_db_libs http_env None)"
proof -
  have "looks_like_connection ''postgres://u@localhost/d''" by code_simp
  then have url: "configured_url demo_db_libs http_env = Some ''postgres://u@localhost/d''"
    by (simp add: configured_url_def demo_db_libs_def database_url_def http_env_def)
  have none: "http_env ''MCP_DATABASE_URLS'' = None" by (simp add: http_env_def)
  have "is_ok (build_pool demo_db_libs http_env ''postgres://u@localhost/d'')"
    by (simp add: build_pool_def demo_db_libs_def build_tls_def http_env_def Let_def)
  then show ?thesis
    by (cases "build_pool demo_db_libs http_env ''postgres://u@localhost/d''")
      (auto simp: pool_for_def pg_pools_def url none)
qed

lemma http_serves:
  "\<exists>f l'. main_run (http_process H A R W) [] = (Serving ''http'' (policy_start\<lparr>ps_facts := Some f\<rparr>), l') \<and> excessive f = []"
proof -
  let ?l = "[Audited ''server'' ''startup'' None]"
  obtain f where f: "fst (evaluate (one_row_world plain_role) demo_db_libs http_env None ?l) = Inr f" "excessive f = []"
    using plain_role_evaluates [OF http_pool] by blast
  then obtain l' where l: "evaluate (one_row_world plain_role) demo_db_libs http_env None ?l = (Inr f, l')"
    by (metis prod.collapse)
  have ok: "handle_or_refuse ''server'' [''server''] = None" by code_simp
  have addr: "\<not> is_loopback (listen_addr http_env)" "may_listen http_env" by code_simp+
  have "main_run (http_process H A R W) [] = (Serving ''http'' (policy_start\<lparr>ps_facts := Some f\<rparr>), l')"
    using http_preflight
    by (simp add: main_run_def http_process_def ok start_server_def preflight_config_def startup_record_def
        audit_startup_def transport_of_def enforce_start_policy_def addr andthen_def ret_def audit_as_def World.emit_def
        l role_accepted_def f(2) run_http_def policy_start_def Let_def)
  with f(2) show ?thesis by blast
qed

theorem serving_passed_every_gate_witness:
  "\<forall>H A R W. \<exists>s l'. main_run (http_process H A R W) [] = (Serving ''http'' s, l') \<and> serving_blocked s = None
     \<and> (\<exists>f. ps_facts s = Some f \<and> excessive f = [])"
proof (intro allI)
  fix H A R W
  obtain f l' where run: "main_run (http_process H A R W) [] = (Serving ''http'' (policy_start\<lparr>ps_facts := Some f\<rparr>), l')"
    using http_serves by blast
  have env: "\<not> is_loopback (listen_addr http_env)" by code_simp
  have "excessive f = []"
    using serving_passed_every_gate [OF run] env
    by (auto simp: http_process_def http_env_def policy_start_def serving_blocked_def)
  with run show "\<exists>s l'. main_run (http_process H A R W) [] = (Serving ''http'' s, l') \<and> serving_blocked s = None
     \<and> (\<exists>f. ps_facts s = Some f \<and> excessive f = [])"
    by (fastforce simp: policy_start_def serving_blocked_def)
qed

text \<open>The caller over the standard streams is never anonymous, so the loop keeps its promise for it: whatever
  arrives, the buffer is bounded and every slot and permit is back after each message.\<close>

lemma stdio_caller_named: "stdio_caller env status pid \<noteq> []"
  by (simp add: stdio_caller_def Let_def)

lemma stdio_serving_balanced:
  assumes "slots_inv (g_slots g0)"
  shows "stdio_inv g0 (run_stdio env (stdio_caller env status pid) read handle input \<lparr>st_buf = [], st_gates = g0, st_out = []\<rparr>)"
  using stdio_bounded_and_balanced [OF assms stdio_caller_named] by blast

text \<open>A single dash or a stray word is passed over, and the server listens on the network; help wins even as
  the value of another option, with the exit code that means a statement may run.\<close>

lemma single_dash_ignored: "handle_or_refuse pkg [''server'', ''-stdio''] = None"
  by code_simp

lemma stray_word_ignored: "handle_or_refuse pkg [''server'', ''stdio''] = None"
  by code_simp

lemma help_as_statement: "handle_or_refuse pkg [''server'', ''--validate'', ''--help''] = Some (0, USAGE)"
  by (simp add: handle_or_refuse_def starts_with_def)

end
