(* ===== verification/Fuzz_Props.thy ===== *)
theory Fuzz_Props
  imports Fuzz
begin

text \<open>
  What a run of the fuzzer says (\<open>src/fuzz.rs\<close>): the numbers it draws never degenerate, the positions it cuts
  at can be cut, the comments it inserts end where they should, and a report without findings means that
  every text of the run kept the invariants.
\<close>

section \<open>The random numbers\<close>

lemma shift_fixed_zero: "x = drop_bit n x \<Longrightarrow> 0 < n \<Longrightarrow> x = (0 :: rng)"
proof (rule ccontr)
  assume h: "x = drop_bit n x" "0 < n" "x \<noteq> 0"
  have "unat (drop_bit n x) = unat x div 2 ^ n" by (simp only: unat_drop_bit_eq) (simp add: drop_bit_eq_div)
  also have "\<dots> < unat x"
    using h(2,3) one_less_power [of "2 :: nat" n] by (intro div_less_dividend) (auto simp: unat_gt_0)
  finally show False using h(1) by simp
qed

lemma push_fixed_zero: "x = push_bit 25 x \<Longrightarrow> x = (0 :: rng)"
proof -
  assume h: "x = push_bit 25 x"
  have "x = push_bit 75 x"
    by (subst h, subst h, subst h) (simp add: push_bit_push_bit)
  also have "\<dots> = 0" by (rule bit_word_eqI) (simp add: bit_simps)
  finally show ?thesis .
qed

lemma xor_zero: "x XOR y = (0 :: rng) \<Longrightarrow> x = y"
  by (metis xor.left_commute xor_self_eq xor.right_neutral)

lemma xor_shift_nonzero:
  "x \<noteq> 0 \<Longrightarrow> 0 < n \<Longrightarrow> x XOR drop_bit n x \<noteq> (0 :: rng)"
  "x \<noteq> 0 \<Longrightarrow> x XOR push_bit 25 x \<noteq> (0 :: rng)"
  using shift_fixed_zero [of x n] push_fixed_zero [of x] xor_zero by metis+

lemma xorshift_nonzero: "x \<noteq> 0 \<Longrightarrow> xorshift x \<noteq> 0"
  unfolding xorshift_def Let_def by (intro xor_shift_nonzero) simp_all

definition keeps_random :: "'a gen \<Rightarrow> bool" where
  "keeps_random g = state_io_rel (\<lambda>s s'. s \<noteq> 0 \<longrightarrow> s' \<noteq> 0) g"

lemma keeps_return: "keeps_random (State_Monad.return x)"
  by (auto simp: keeps_random_def state_io_rel_def)

lemma keeps_bind: "keeps_random m \<Longrightarrow> (\<And>x. keeps_random (f x)) \<Longrightarrow> keeps_random (State_Monad.bind m f)"
  unfolding keeps_random_def state_io_rel_def by (simp add: State_Monad.bind_def split_beta)

lemma keeps_next: "keeps_random next_u64"
  by (simp add: keeps_random_def state_io_rel_def next_u64_def xorshift_nonzero)

lemmas keeps_rules = keeps_return keeps_bind keeps_next

lemma keeps_below: "keeps_random (below n)"
  by (simp add: below_def keeps_rules)

lemma keeps_pick: "keeps_random (pick xs)"
  by (simp add: pick_def keeps_rules keeps_below)

lemma keeps_times: "keeps_random g \<Longrightarrow> keeps_random (repeat_gen n g)"
  by (induction n) (simp_all add: keeps_rules)

lemmas keeps_gens = keeps_rules keeps_below keeps_pick keeps_times

lemma keeps_flip: "keeps_random (flip_case_outside_literals s)"
  by (simp add: flip_case_outside_literals_def Let_def keeps_gens)

lemma keeps_requote: "keeps_random (requote_literal s)"
  by (auto simp: requote_literal_def Let_def keeps_gens split: prod.split)

lemma keeps_mutation: "keeps_random (mutation s p k)"
  by (auto simp: mutation_def comment_junk_def keeps_gens keeps_flip keeps_requote)

lemma keeps_mutate: "keeps_random (mutate a n s)"
  by (induction n arbitrary: s)
    (auto simp: mutate_once_def Let_def keeps_gens keeps_flip keeps_mutation)

lemma keeps_garbage: "keeps_random garbage"
  by (auto simp: garbage_def junk_def keeps_gens)

lemma keeps_input: "keeps_random (fuzz_input W i)"
  by (auto simp: fuzz_input_def keeps_gens keeps_mutate keeps_garbage simp del: mutate.simps)

section \<open>Positions\<close>

lemma safe_from_bounds: "p \<in> set (safe_from sql st i) \<Longrightarrow> p \<le> length sql \<and> is_char_boundary sql p"
proof (induction sql st i rule: safe_from.induct)
  case (1 sql st i)
  obtain st' n safe where z: "zone_step sql st i = (st', n, safe)" by (metis prod_cases3)
  have "safe \<Longrightarrow> is_char_boundary sql i"
    using z by (cases st) (auto split: if_splits option.splits)
  show ?case
  proof (cases "length sql \<le> i")
    case True
    with 1(2) show ?thesis by (subst (asm) safe_from.simps) (auto simp: is_char_boundary_def split: if_splits)
  next
    case False
    with 1(2) z have "safe \<and> p = i \<or> p \<in> set (safe_from sql st' (i + n))"
      by (subst (asm) safe_from.simps) (auto split: if_splits)
    with 1(1) [OF False z [symmetric] refl] \<open>safe \<Longrightarrow> is_char_boundary sql i\<close> False show ?thesis by auto
  qed
qed

lemma safe_positions_bounds: "p \<in> set (safe_positions sql) \<Longrightarrow> p \<le> length sql \<and> is_char_boundary sql p"
  unfolding safe_positions_def by (rule safe_from_bounds)

section \<open>Comments\<close>

text \<open>A block comment around text without a star or a slash, and a line comment around text without a line end,
  are over where they end, whatever follows: from before such a comment the scanner goes on behind it.\<close>

lemma block_step:
  assumes "i < length sql" "sql ! i \<noteq> CHR ''*''" "sql ! i \<noteq> CHR ''/''"
  shows "safe_from sql (Z_Block d) i = safe_from sql (Z_Block d) (i + 1)"
  using assms by (subst safe_from.simps) (simp add: byte_pair_def)

lemma block_skips:
  assumes "list_all (\<lambda>c. c \<noteq> CHR ''*'' \<and> c \<noteq> CHR ''/'') t"
  shows "safe_from (a @ t @ b) (Z_Block d) (length a) = safe_from (a @ t @ b) (Z_Block d) (length a + length t)"
  using assms
proof (induction t arbitrary: a)
  case (Cons c t)
  have "safe_from (a @ (c # t) @ b) (Z_Block d) (length a) = safe_from (a @ (c # t) @ b) (Z_Block d) (length a + 1)"
    by (rule block_step) (use Cons.prems in \<open>simp_all add: nth_append\<close>)
  with Cons.IH [of "a @ [c]"] Cons.prems show ?case by simp
qed simp

lemma block_comment_closes:
  assumes "list_all (\<lambda>c. c \<noteq> CHR ''*'' \<and> c \<noteq> CHR ''/'') t"
  shows "safe_from (a @ block_comment t @ b) Z_Normal (length a)
    = safe_from (a @ block_comment t @ b) Z_Normal (length a + length (block_comment t))"
proof -
  let ?s = "a @ block_comment t @ b"
  have "safe_from ?s Z_Normal (length a) = safe_from ?s (Z_Block 1) (length a + 2)"
    by (subst safe_from.simps) (simp add: block_comment_def byte_pair_def nth_append)
  also have "\<dots> = safe_from ?s (Z_Block 1) (length a + 2 + length t)"
    using block_skips [OF assms, of "a @ ''/*''" "''*/'' @ b" 1] by (simp add: block_comment_def)
  also have "\<dots> = safe_from ?s Z_Normal (length a + length (block_comment t))"
    by (subst safe_from.simps) (simp add: block_comment_def byte_pair_def nth_append)
  finally show ?thesis .
qed

lemma line_skips:
  assumes "CHR 0x0A \<notin> set t"
  shows "safe_from (a @ t @ b) Z_Line (length a) = safe_from (a @ t @ b) Z_Line (length a + length t)"
  using assms
proof (induction t arbitrary: a)
  case (Cons c t)
  have "safe_from (a @ (c # t) @ b) Z_Line (length a) = safe_from (a @ (c # t) @ b) Z_Line (length a + 1)"
    by (subst safe_from.simps) (use Cons.prems in \<open>auto simp: nth_append\<close>)
  with Cons.IH [of "a @ [c]"] Cons.prems show ?case by simp
qed simp

lemma line_comment_closes:
  "safe_from (a @ line_comment t @ b) Z_Normal (length a)
    = safe_from (a @ line_comment t @ b) Z_Normal (length a + length (line_comment t))"
proof -
  let ?u = "map (\<lambda>c. if c = CHR 0x0A then CHR '' '' else c) t"
  let ?s = "a @ line_comment t @ b"
  have "safe_from ?s Z_Normal (length a) = safe_from ?s Z_Line (length a + 1)"
    by (subst safe_from.simps) (simp add: line_comment_def byte_pair_def nth_append)
  also have "\<dots> = safe_from ?s Z_Line (length a + 1 + length (CHR ''-'' # ?u))"
    using line_skips [of "CHR ''-'' # ?u" "a @ ''-''" "[CHR 0x0A] @ b"] by (simp add: line_comment_def image_iff)
  also have "\<dots> = safe_from ?s Z_Normal (length a + length (line_comment t))"
    by (subst safe_from.simps) (simp add: line_comment_def nth_append)
  finally show ?thesis .
qed

lemma comment_junk_chars:
  "list_all (\<lambda>c. c \<noteq> CHR ''*'' \<and> c \<noteq> CHR ''/'') (fst (run_state (comment_junk n) s))"
proof -
  have "list_all P (fst (run_state (repeat_gen n (pick xs)) s))" if "xs \<noteq> []" "list_all P xs" for P n s and xs :: string
  proof (induction n arbitrary: s)
    case (Suc n)
    have "fst (run_state (below (length xs)) s) < length xs"
      using that(1) by (simp add: below_def State_Monad.bind_def split_beta)
    with that(2) have "P (fst (run_state (pick xs) s))"
      by (simp add: pick_def State_Monad.bind_def split_beta list_all_length)
    with Suc show ?case by (simp add: State_Monad.bind_def split_beta)
  qed simp
  then show ?thesis by (simp add: comment_junk_def)
qed

section \<open>The report\<close>

definition findings_of :: "fuzz_world \<Rightarrow> nat \<times> string \<times> bool \<Rightarrow> fuzz_finding list" where
  "findings_of W = (\<lambda>(i, inp, must_reject).
     (if SLOW_MS < fw_ms W i inp then [found ''SLOW'' inp (nat_str (fw_ms W i inp) @ '' ms'')] else [])
     @ check_verdict W inp must_reject)"

text \<open>The texts a run tries, with the number of the iteration.\<close>

fun fuzz_trace :: "fuzz_world \<Rightarrow> nat list \<Rightarrow> (nat \<times> string \<times> bool) list gen" where
  "fuzz_trace W [] = State_Monad.return []"
| "fuzz_trace W (i # is) =
     do { im \<leftarrow> fuzz_input W i; rest \<leftarrow> fuzz_trace W is; State_Monad.return ((i, im) # rest) }"

definition tried :: "fuzz_world \<Rightarrow> nat \<Rightarrow> rng \<Rightarrow> (nat \<times> string \<times> bool) list" where
  "tried W n seed = fst (run_state (fuzz_trace W [0..<n]) (rng_new seed))"

lemma loop_findings:
  "fst (fst (run_state (fuzz_loop W is fs) s)) = fst fs @ concat (map (findings_of W) (fst (run_state (fuzz_trace W is) s)))"
  by (induction "is" arbitrary: fs s)
    (auto simp: State_Monad.bind_def split_beta fuzz_check_def findings_of_def Let_def)

lemma trace_length: "map fst (fst (run_state (fuzz_trace W is) s)) = is"
  by (induction "is" arbitrary: s) (auto simp: State_Monad.bind_def split_beta)

text \<open>What a text of the run has to keep: its time, no panic, rejected where it must be, and a text for the
  database that is accepted again and stays on the path with the cost guard.\<close>

definition keeps_invariants :: "fuzz_world \<Rightarrow> nat \<times> string \<times> bool \<Rightarrow> bool" where
  "keeps_invariants W = (\<lambda>(i, inp, must_reject).
     fw_ms W i inp \<le> SLOW_MS \<and> \<not> fw_panics W Validating inp
     \<and> (is_ok (validate_readonly (fw_parser W) (fw_env W) inp) \<longrightarrow>
          \<not> must_reject \<and> \<not> fw_panics W Capping inp
          \<and> (\<forall>canon. enforce_limit (fw_parser W) (fw_env W) inp 1000 = Inr canon \<longrightarrow>
               \<not> fw_panics W Rechecking inp \<and> is_ok (validate_readonly (fw_parser W) (fw_env W) canon)
               \<and> (is_query_stmt (fw_parser W) inp \<longrightarrow> is_row_query canon))))"

lemma findings_Nil: "findings_of W x = [] \<longleftrightarrow> keeps_invariants W x"
  by (cases x) (auto simp: findings_of_def keeps_invariants_def check_verdict_def check_canon_def split: sum.split)

lemma canon_safe:
  assumes "is_ok (validate_readonly sp env inp)" "enforce_limit sp env inp n = Inr canon"
  shows "is_ok (validate_readonly sp env canon)"
  using assms enforce_limit_offset_ok [of sp env inp n 0 canon]
  by (auto simp: enforce_limit_def is_ok_validate validate_accepts_iff)

lemma never_unsafe: "f \<in> set (findings_of W x) \<Longrightarrow> fi_kind f \<noteq> ''CANON_UNSAFE''"
  by (cases x) (auto simp: findings_of_def check_verdict_def check_canon_def found_def dest: canon_safe [OF _ sym]
      split: if_splits sum.splits)

text \<open>a run of the fuzzer tries as many texts as it was asked for, its report is empty exactly when every
  one of them kept the invariants, and whatever it tries it never reports that the text for the database
  would be refused: the row cap validates what it returns.\<close>

theorem clean_fuzz_report_iff:
  "map fst (tried W n seed) = [0..<n]
   \<and> (fr_findings (fuzz_run W n seed) = []) = list_all (keeps_invariants W) (tried W n seed)
   \<and> ''CANON_UNSAFE'' \<notin> fi_kind ` set (fr_findings (fuzz_run W n seed))"
proof -
  have r: "fr_findings (fuzz_run W n seed) = concat (map (findings_of W) (tried W n seed))"
    using loop_findings [of W "[0..<n]" "([], 0, [])" "rng_new seed"]
    by (simp add: fuzz_run_def tried_def split_beta)
  have "''CANON_UNSAFE'' \<notin> fi_kind ` set (concat (map (findings_of W) (tried W n seed)))"
    by (auto simp: image_iff dest!: never_unsafe)
  then show ?thesis
    unfolding r by (simp add: tried_def trace_length findings_Nil list_all_iff)
qed

end
