(* ===== verification/Audited.thy ===== *)
theory Audited
  imports Query_Props
begin

text \<open>
  What the audit record says of a tool call: \<open>audits\<close> are the records among the events of an action. The
  actions that talk to the database record nothing; every tool closes with exactly one record, after the
  database is done, whose decision is the one the client is told.
\<close>

section \<open>Records among the events\<close>

definition audits :: "event list \<Rightarrow> (string \<times> string \<times> string option) list" where
  "audits d = List.map_filter (\<lambda>e. case e of Audited t dec s \<Rightarrow> Some (t, dec, s) | _ \<Rightarrow> None) d"

lemma audits_append [simp]: "audits (a @ b) = audits a @ audits b"
  by (simp add: audits_def map_filter_def)

lemma audits_simps [simp]:
  "audits [] = []" "audits (Audited t dec s # d) = (t, dec, s) # audits d"
  "audits (Counted m # d) = audits d" "audits (Sent c cmd # d) = audits d" "audits (Probed # d) = audits d"
  "audits (Got_Conn n c # d) = audits d" "audits (No_Conn n # d) = audits d"
  by (simp_all add: audits_def map_filter_def)

section \<open>Actions that record nothing\<close>

definition silent :: "'a act \<Rightarrow> bool" where
  "silent m = emits m (\<lambda>d _. audits d = [])"

named_theorems silent_rules \<open>actions that leave no audit record\<close>

lemma silent_ret [silent_rules]: "silent (ret x)"
  by (simp add: silent_def emits_ret)

lemma silent_andthen [silent_rules]: "silent m \<Longrightarrow> (\<And>x. silent (f x)) \<Longrightarrow> silent (andthen m f)"
  unfolding silent_def by (rule emits_andthen) (auto elim: emits_weaken)

lemma silent_attempted [silent_rules]: "silent m \<Longrightarrow> (\<And>x. silent (f x)) \<Longrightarrow> silent (attempted m f)"
  unfolding attempted_def by (rule silent_andthen) (auto split: sum.split intro: silent_ret)

lemma silent_if [silent_rules]: "silent m \<Longrightarrow> silent n \<Longrightarrow> silent (if b then m else n)"
  by simp

lemma silent_steps [silent_rules]:
  "silent (count_as m)" "silent (send w c cmd)" "silent (batch w c sql)" "silent (take_conn w name)" "silent (probe w)"
  unfolding silent_def by (rule emits_rules; simp)+

lemma silent_detail [silent_rules]: "silent (pool_error_detail w D env db)"
  unfolding silent_def by (rule emits_weaken [OF emits_detail]) auto

lemma silent_step [silent_rules]: "silent (step w c sql)"
  unfolding step_def by (intro silent_rules)

lemma silent_rollback [silent_rules]: "silent (rollback w c x)"
  unfolding rollback_def by (intro silent_rules)

lemma silent_with_conn [silent_rules]: "(\<And>c. silent (f c)) \<Longrightarrow> silent (with_conn w D env db f)"
  unfolding with_conn_def by (auto split: sum.split prod.split option.split intro!: silent_rules)

lemma silent_open_session [silent_rules]: "(\<And>u. silent (f u)) \<Longrightarrow> silent (open_session w c x f)"
  unfolding open_session_def by (intro silent_rules)

lemma silent_catalog [silent_rules]: "silent (query_catalog w D env sql ps db)"
  unfolding query_catalog_def by (auto split: prod.split intro!: silent_rules)

lemma silent_execute [silent_rules]: "silent (execute_readonly w D env sql db)"
  unfolding execute_readonly_def run_row_query_def run_plain_def
  by (auto split: sum.split reply.split intro!: silent_rules)

lemma silent_report [silent_rules]: "silent (report w D env db)"
  unfolding report_def evaluate_def tls_fact_def by (auto split: list.split intro!: silent_rules)

lemma silent_ask_all [silent_rules]: "silent (ask_all H db ps cs out)"
  by (induction H db ps cs out rule: ask_all.induct) (auto intro!: silent_rules)

lemma silent_schema_missing [silent_rules]: "silent (schema_missing H schema db)"
  unfolding schema_missing_def by (intro silent_rules)

lemma silent_refused_asking [silent_rules]: "silent (refused_asking env (parent_of H db) found)"
  by (induction found) (auto simp: parent_of_def intro!: silent_rules)

lemma silent_judge [silent_rules]: "silent (judge_plan H db sql mc plan)"
  unfolding judge_plan_def guard_functions_def guard_relations_def Let_def
  by (auto split: option.split intro!: silent_rules)

lemma silent_guard_step [silent_rules]: "silent m \<Longrightarrow> silent (guard_step w c sql m)"
  unfolding guard_step_def by (auto split: sum.split intro!: silent_rules)

lemma silent_guarded_explain [silent_rules]: "silent (guarded_explain H db sql mc c)"
  unfolding guarded_explain_def as_guard_def Let_def by (auto split: sum.split intro!: silent_rules)

lemma silent_cost_guard [silent_rules]: "silent (cost_guard H sql mc db)"
  unfolding cost_guard_def Let_def by (auto split: sum.split prod.split option.split intro!: silent_rules)

lemma silent_column [silent_rules]: "(\<And>x. silent (f x)) \<Longrightarrow> silent (column p f)"
  unfolding column_def by (auto split: sum.split intro!: silent_rules)

lemma silent_ask [silent_rules]: "silent (ask_one w c sql ps)" "silent (ask_opt w c sql ps)"
  unfolding ask_one_def ask_opt_def by (intro silent_rules)+

lemma silent_hypopg [silent_rules]: "silent m \<Longrightarrow> silent (require_hypopg w c m)"
  unfolding require_hypopg_def by (auto split: sum.split intro!: silent_rules)

lemma silent_quoted_table [silent_rules]: "(\<And>s t. silent (f s t)) \<Longrightarrow> silent (quoted_table w c schema table f)"
  unfolding quoted_table_def by (auto split: option.split intro!: silent_rules)

lemma silent_quoted_columns [silent_rules]:
  "(\<And>cs. silent (f cs)) \<Longrightarrow> silent (quoted_columns w c schema table cols done f)"
  by (induction cols arbitrary: "done") (auto split: option.split intro!: silent_rules)

lemma silent_transaction [silent_rules]: "silent (in_transaction H c sql ddl)"
  unfolding in_transaction_def compare_plans_def one_plan_def Let_def by (intro silent_rules)

lemma silent_simulate [silent_rules]: "silent (simulate_index H sql schema table cols meth db)"
  unfolding simulate_index_def simulate_on_def Let_def by (intro silent_rules)

section \<open>The decision the client is told\<close>

definition runs_text :: "string \<Rightarrow> bool" where
  "runs_text tool \<longleftrightarrow> tool \<in> {''query'', ''explain_query'', ''simulate_index''}"

text \<open>The validator refuses a statement; for an explanation the row cap is part of it.\<close>

definition validator_refuses :: "host \<Rightarrow> string \<Rightarrow> string \<Rightarrow> bool" where
  "validator_refuses H tool sql \<longleftrightarrow>
     validate_readonly (h_parser H) (h_env H) sql \<noteq> Inr ()
     \<or> tool = ''explain_query'' \<and> isl (enforce_limit (h_parser H) (h_env H) sql MAX_LIMIT)"

definition answer_code :: "json \<Rightarrow> string option" where
  "answer_code v = (case Option.bind (jget ''error'' v) (jget ''code'') of Some (JNum c) \<Rightarrow> Some c | _ \<Rightarrow> None)"

text \<open>What an answer tells: a result is an allowed call; the code of the cost limit is a refusal for cost; the
  code of a refused request is, for a tool that runs a text, a refusal of the validator when the validator
  refuses that text and of the surface when it does not; everything else is an error.\<close>

definition decision_told :: "host \<Rightarrow> string \<Rightarrow> string option \<Rightarrow> json \<Rightarrow> string" where
  "decision_told H tool text v =
     (if jget ''result'' v \<noteq> None then ''allowed''
      else if answer_code v = Some ''-32001'' then ''denied_cost''
      else if answer_code v = Some ''-32602'' then
        (case text of
           None \<Rightarrow> ''error''
         | Some sql \<Rightarrow> if validator_refuses H tool sql then ''denied_validation'' else ''denied_surface'')
      else ''error'')"

lemma answer_codes:
  "answer_code (err_content (- 32001) msg) = Some ''-32001''" "answer_code (err_content (- 32602) msg) = Some ''-32602''"
  "answer_code (err_content (- 32000) msg) = Some ''-32000''"
proof -
  have "int_str (- 32001) = ''-32001''" "int_str (- 32602) = ''-32602''" "int_str (- 32000) = ''-32000''"
    by (simp_all add: int_str_def nat_str_def digit_char_def dec_acc.simps char_of_def bit_0)
  then show
    "answer_code (err_content (- 32001) msg) = Some ''-32001''" "answer_code (err_content (- 32602) msg) = Some ''-32602''"
    "answer_code (err_content (- 32000) msg) = Some ''-32000''"
    by (simp_all add: answer_code_def err_content_def jobj_def)
qed

lemma told_errors [simp]:
  "decision_told H tool text (err_content (- 32001) msg) = ''denied_cost''"
  "decision_told H tool text (err_content (- 32000) msg) = ''error''"
  "decision_told H tool None (err_content (- 32602) msg) = ''error''"
  "validator_refuses H tool sql \<Longrightarrow> decision_told H tool (Some sql) (err_content (- 32602) msg) = ''denied_validation''"
  "\<not> validator_refuses H tool sql \<Longrightarrow> decision_told H tool (Some sql) (err_content (- 32602) msg) = ''denied_surface''"
  by (simp_all add: decision_told_def answer_codes)

lemma told_result [simp]: "jget ''result'' v = Some y \<Longrightarrow> decision_told H tool text v = ''allowed''"
  by (simp add: decision_told_def)

lemma told_allowed_iff: "decision_told H tool text v = ''allowed'' \<longleftrightarrow> jget ''result'' v \<noteq> None"
  by (simp add: decision_told_def split: option.split)

section \<open>Actions that close with one record\<close>

definition recorded :: "host \<Rightarrow> string \<Rightarrow> string option \<Rightarrow> event list \<Rightarrow> json \<Rightarrow> bool" where
  "recorded H tool sql d v \<longleftrightarrow> audits d = [(tool, decision_told H tool sql v, sql)]"

definition records :: "host \<Rightarrow> string \<Rightarrow> string option \<Rightarrow> json act \<Rightarrow> bool" where
  "records H tool sql m = emits m (recorded H tool sql)"

text \<open>A panic leaves no record; anything else closes with one.\<close>

definition closes :: "host \<Rightarrow> string \<Rightarrow> string option \<Rightarrow> (panic + json) act \<Rightarrow> bool" where
  "closes H tool sql m =
     emits m (\<lambda>d r. case r of Inl _ \<Rightarrow> audits d = [] \<and> runs_text tool | Inr v \<Rightarrow> recorded H tool sql d v)"

text \<open>A whole call may also be an error before anything has happened.\<close>

definition accounted :: "host \<Rightarrow> string \<Rightarrow> string option \<Rightarrow> event list \<Rightarrow> panic + json \<Rightarrow> bool" where
  "accounted H tool sql d r =
     (case r of
        Inl _ \<Rightarrow> audits d = [] \<and> runs_text tool
      | Inr v \<Rightarrow> d = [] \<and> jget ''result'' v = None \<or> recorded H tool sql d v)"

definition accounts :: "host \<Rightarrow> string \<Rightarrow> string option \<Rightarrow> (panic + json) act \<Rightarrow> bool" where
  "accounts H tool sql m = emits m (accounted H tool sql)"

lemma records_after: "silent m \<Longrightarrow> (\<And>x. records H tool sql (f x)) \<Longrightarrow> records H tool sql (andthen m f)"
  unfolding silent_def records_def
proof (rule emits_andthen)
  fix d x assume d: "audits d = []" and f: "\<And>x. emits (f x) (recorded H tool sql)"
  from f [of x] show "emits (f x) (\<lambda>d'. recorded H tool sql (d @ d'))"
    by (rule emits_weaken) (simp add: recorded_def d)
qed

lemma records_finish:
  "decision_told H tool None v = decision \<Longrightarrow> records H tool None (finish tool decision v)"
  unfolding records_def finish_def
  by (rule emits_andthen [OF emits_audit [where P = "\<lambda>d _. d = [Audited tool decision None]"]])
    (auto simp: recorded_def intro: emits_ret)

lemma records_report_as:
  assumes "decision_told H tool (Some sql) v = decision"
  shows "records H tool (Some sql) (report_as tool decision metric sql v)"
  unfolding records_def report_as_def
proof (rule emits_andthen [OF emits_audit [where P = "\<lambda>d _. d = [Audited tool decision (Some sql)]"]])
  fix d and u :: unit assume d: "d = [Audited tool decision (Some sql)]"
  have "silent (case metric of Some m \<Rightarrow> count_as m | None \<Rightarrow> ret ())"
    by (auto split: option.split intro: silent_rules)
  then show "emits (andthen (case metric of Some m \<Rightarrow> count_as m | None \<Rightarrow> ret ()) (\<lambda>_. ret v))
      (\<lambda>d'. recorded H tool (Some sql) (d @ d'))"
    unfolding silent_def by (rule emits_andthen) (auto simp: recorded_def d assms intro: emits_ret)
qed simp

lemma records_refusals:
  "\<not> validator_refuses H tool sql \<Longrightarrow> records H tool (Some sql) (guard_refusal tool sql e)"
  "\<not> validator_refuses H tool sql \<Longrightarrow> records H tool (Some sql) (surface_refusal tool sql e)"
  by (cases e; simp add: records_report_as)+

lemma closes_lifted: "records H tool sql m \<Longrightarrow> closes H tool sql (lifted m)"
  unfolding records_def closes_def lifted_def by (erule emits_andthen) (auto intro: emits_ret)

lemma closes_panic: "runs_text tool \<Longrightarrow> closes H tool sql (ret (Inl p))"
  by (simp add: closes_def emits_ret)

lemma closes_after: "silent m \<Longrightarrow> (\<And>x. closes H tool sql (f x)) \<Longrightarrow> closes H tool sql (andthen m f)"
  unfolding silent_def closes_def
proof (rule emits_andthen)
  let ?P = "\<lambda>d r. case r of Inl _ \<Rightarrow> audits d = [] \<and> runs_text tool | Inr v \<Rightarrow> recorded H tool sql d v"
  fix d x assume d: "audits d = []" and f: "\<And>x. emits (f x) ?P"
  from f [of x] show "emits (f x) (\<lambda>d'. ?P (d @ d'))"
    by (rule emits_weaken) (auto simp: recorded_def d split: sum.splits)
qed

lemma closes_guarded:
  assumes "silent g" "\<And>e. records H tool sql (refuse e)" "closes H tool sql m" "runs_text tool"
  shows "closes H tool sql (guarded g refuse m)"
  unfolding guarded_def attempted_def
  by (auto split: sum.split intro!: closes_after assms closes_panic closes_lifted)

lemma closes_accounts: "closes H tool sql m \<Longrightarrow> accounts H tool sql m"
  unfolding closes_def accounts_def by (erule emits_weaken) (auto simp: accounted_def split: sum.splits)

lemma accounts_error: "accounts H tool sql (ret (Inr (err_content code msg)))"
  by (simp add: accounts_def accounted_def emits_ret)

lemmas lifted_accounts = closes_accounts [OF closes_lifted]

section \<open>The tools\<close>

lemma has_result [simp]: "jget ''result'' (wrap_untrusted w env v tool) \<noteq> None" "jget ''result'' (ok_content w env v) \<noteq> None"
  "\<exists>y. jget ''result'' (wrap_untrusted w env v tool) = Some y" "\<exists>y. jget ''result'' (ok_content w env v) = Some y"
  by (simp_all add: wrap_untrusted_def ok_content_def Let_def jobj_def)

lemma told_allowed [simp]:
  "decision_told H tool text (wrap_untrusted w env v tool') = ''allowed''"
  "decision_told H tool text (ok_content w env v) = ''allowed''"
  using has_result by (simp_all add: decision_told_def)

lemma runs_text_simps [simp]:
  "runs_text ''query''" "runs_text ''explain_query''" "runs_text ''simulate_index''"
  by (simp_all add: runs_text_def)

text \<open>A schema that is known to be missing is an error.\<close>

lemma emits_schema_missing:
  "emits (schema_missing H schema db) (\<lambda>d r. audits d = [] \<and> (\<forall>e. r = Some e \<longrightarrow> (\<exists>msg. e = err_content (- 32602) msg)))"
  unfolding schema_missing_def
  by (rule emits_andthen [OF silent_catalog [unfolded silent_def]]) (auto intro!: emits_ret split: sum.splits if_splits)

lemma records_with_schema:
  assumes "records H tool None m"
  shows "records H tool None (with_schema H tool schema db m)"
  unfolding records_def with_schema_def
proof (rule emits_andthen [OF emits_schema_missing])
  fix d r assume d: "audits d = [] \<and> (\<forall>e. r = Some e \<longrightarrow> (\<exists>msg. e = err_content (- 32602) msg))"
  then have "records H tool None (case r of Some e \<Rightarrow> finish tool ''error'' e | None \<Rightarrow> m)"
    using assms by (auto split: option.split intro!: records_finish)
  then show "emits (case r of Some e \<Rightarrow> finish tool ''error'' e | None \<Rightarrow> m) (\<lambda>d'. recorded H tool None (d @ d'))"
    unfolding records_def by (rule emits_weaken) (simp add: recorded_def d)
qed

lemma records_list_tables: "records H ''list_tables'' None (handle_list_tables H args)"
  unfolding handle_list_tables_def Let_def
  by (auto split: sum.split intro!: records_with_schema records_after silent_rules records_finish)

lemma records_analyze: "records H ''analyze_indexes'' None (handle_analyze_indexes H args)"
  unfolding handle_analyze_indexes_def Let_def
  by (intro records_with_schema records_after silent_rules records_finish) simp

lemma accounts_describe: "accounts H ''describe_table'' None (lifted (handle_describe_table H args))"
proof -
  have err: "lifted (ret v) = ret (Inr v)" for v :: json by (simp add: lifted_def andthen_def ret_def)
  show ?thesis
    unfolding handle_describe_table_def Let_def
    by (auto split: option.split simp: err Let_def intro!: accounts_error lifted_accounts records_with_schema
        records_after silent_rules records_finish split: sum.split)
qed

lemma records_posture: "records H ''security_posture'' None (handle_security_posture w D env args)"
  unfolding handle_security_posture_def
  by (rule records_after [OF silent_report]) (rule records_finish [unfolded finish_def], simp)

lemma records_list_schemas: "records H ''list_schemas'' None (handle_list_schemas H args)"
  unfolding handle_list_schemas_def by (auto split: sum.split intro!: records_after silent_rules records_finish)

lemma records_health: "records H ''database_health'' None (handle_database_health H args)"
  unfolding handle_database_health_def by (intro records_after silent_rules records_finish) simp

lemma records_top_queries: "records H ''top_queries'' None (handle_top_queries H args)"
  unfolding handle_top_queries_def Let_def
  by (auto split: sum.split intro!: records_after silent_rules records_finish)

lemma closes_run_query: "closes H ''query'' (Some sql) (lifted (run_query H sql final r n off db))"
  unfolding run_query_def
  by (auto split: sum.split intro!: closes_lifted records_after silent_rules records_report_as)

lemma closes_guard_rows:
  "\<not> validator_refuses H ''query'' sql \<Longrightarrow> closes H ''query'' (Some sql) m \<Longrightarrow>
   closes H ''query'' (Some sql) (guard_rows H sql final db m)"
  by (simp add: guard_rows_def closes_guarded silent_cost_guard records_refusals)

lemma closes_guard_explained:
  "\<not> validator_refuses H ''query'' sql \<Longrightarrow> closes H ''query'' (Some sql) m \<Longrightarrow> closes H ''query'' (Some sql) (guard_explained H sql final db m)"
  by (simp add: guard_explained_def closes_guarded silent_cost_guard records_refusals closes_panic
      split: sum.split option.split)

lemma accounts_denied:
  "validator_refuses H t sql \<Longrightarrow>
   accounts H t (Some sql) (lifted (report_as t ''denied_validation'' m sql (err_content (- 32602) msg)))"
  by (intro closes_accounts closes_lifted records_report_as) simp

lemma accounts_query:
  assumes "get_str ''sql'' args = Some sql"
  shows "accounts H ''query'' (Some sql) (handle_query_tool H args)"
proof -
  have run: "accounts H ''query'' (Some sql)
      (guard_explained H sql final db (guard_rows H sql final db (lifted (run_query H sql final r n off db))))"
    if "\<not> validator_refuses H ''query'' sql" for final r n off db
    using that by (intro closes_accounts closes_guard_explained closes_guard_rows closes_run_query)
  have refused: "validator_refuses H ''query'' sql \<longleftrightarrow> validate_readonly (h_parser H) (h_env H) sql \<noteq> Inr ()"
    by (simp add: validator_refuses_def)
  show ?thesis
    unfolding handle_query_tool_def Let_def assms option.case
    by (simp add: accounts_denied accounts_error run refused split: sum.split)
qed

lemma closes_run_explain: "closes H ''explain_query'' (Some sql) (lifted (run_explain H sql a inner db))"
  unfolding run_explain_def Let_def
  by (rule closes_lifted, rule records_after [OF silent_catalog]) (simp split: sum.split add: records_report_as)

lemma accounts_explain:
  assumes "get_str ''sql'' args = Some sql"
  shows "accounts H ''explain_query'' (Some sql) (handle_explain_query H args)"
proof -
  have run: "accounts H ''explain_query'' (Some sql)
      (if b then guarded (cost_guard H x mc db) (guard_refusal ''explain_query'' sql) r else r)"
    if "closes H ''explain_query'' (Some sql) r" "\<not> validator_refuses H ''explain_query'' sql" for b x mc db r
    using that by (simp add: closes_accounts closes_guarded silent_cost_guard records_refusals)
  show ?thesis
    unfolding handle_explain_query_def Let_def assms option.case
    by (simp add: accounts_denied run closes_run_explain validator_refuses_def split: sum.split)
qed

lemma closes_run_simulation:
  "closes H ''simulate_index'' (Some sql) (run_simulation H sql schema table cols meth db)"
  unfolding run_simulation_def
  by (auto split: sum.split intro!: closes_after silent_rules closes_lifted closes_panic records_report_as)

lemma closes_guard_simulation:
  "closes H tool sql m \<Longrightarrow> tool = ''simulate_index'' \<Longrightarrow> sql = Some x \<Longrightarrow> \<not> validator_refuses H tool x \<Longrightarrow>
   closes H tool sql (guard_simulation H x schema table db m)"
  unfolding guard_simulation_def Let_def
  by (auto intro!: closes_guarded closes_lifted records_report_as records_refusals silent_cost_guard)

lemma accounts_simulate:
  assumes "get_str ''sql'' args = Some sql"
  shows "accounts H ''simulate_index'' (Some sql) (handle_simulate_index H args)"
proof -
  have run: "accounts H ''simulate_index'' (Some sql)
      (guard_simulation H sql schema table db (run_simulation H sql schema table cols meth db))"
    if "\<not> validator_refuses H ''simulate_index'' sql" for schema table db cols meth
    using that by (intro closes_accounts closes_guard_simulation closes_run_simulation refl)
  have refused: "validator_refuses H ''simulate_index'' sql \<longleftrightarrow> validate_readonly (h_parser H) (h_env H) sql \<noteq> Inr ()"
    by (simp add: validator_refuses_def)
  show ?thesis
    unfolding handle_simulate_index_def Let_def assms option.case
    by (simp add: accounts_denied accounts_error run refused split: sum.split option.split prod.split)
qed

section \<open>A tool call\<close>

text \<open>The text a record carries: what the caller asked to run, for the tools that run a caller's text.\<close>

definition recorded_text :: "string \<Rightarrow> json \<Rightarrow> string option" where
  "recorded_text tool args =
     (if List.member [''query'', ''explain_query'', ''simulate_index''] tool then get_str ''sql'' args else None)"

definition call_args :: "json \<Rightarrow> json" where
  "call_args params = (case jget ''arguments'' params of Some a \<Rightarrow> a | None \<Rightarrow> jobj [])"

lemma no_text:
  "get_str ''sql'' args = None \<Longrightarrow> accounts H ''query'' None (handle_query_tool H args)"
  "get_str ''sql'' args = None \<Longrightarrow> accounts H ''explain_query'' None (handle_explain_query H args)"
  "get_str ''sql'' args = None \<Longrightarrow> accounts H ''simulate_index'' None (handle_simulate_index H args)"
  by (simp_all add: handle_query_tool_def handle_explain_query_def handle_simulate_index_def Let_def accounts_error)

lemma accounts_call:
  assumes "get_str ''name'' params = Some tool"
  shows "accounts H tool (recorded_text tool (call_args params)) (handle_tools_call H params)"
proof -
  have texts:
    "accounts H ''query'' (recorded_text ''query'' args) (handle_query_tool H args)"
    "accounts H ''explain_query'' (recorded_text ''explain_query'' args) (handle_explain_query H args)"
    "accounts H ''simulate_index'' (recorded_text ''simulate_index'' args) (handle_simulate_index H args)" for args
    by (cases "get_str ''sql'' args";
        simp add: recorded_text_def accounts_query accounts_explain accounts_simulate no_text)+
  have none: "recorded_text t args = None" if "t \<notin> {''query'', ''explain_query'', ''simulate_index''}" for t args
    using that by (auto simp: recorded_text_def)
  note catalog = lifted_accounts [OF records_list_schemas] lifted_accounts [OF records_list_tables]
    lifted_accounts [OF records_health] lifted_accounts [OF records_top_queries]
    lifted_accounts [OF records_analyze] lifted_accounts [OF records_posture] accounts_describe
  show ?thesis
    unfolding handle_tools_call_def assms option.case Let_def call_args_def [symmetric]
    by (simp add: texts none catalog accounts_error)
qed

text \<open>C4: Every tool call that returns is accounted for, whatever the client sends and whatever the database
  answers: either nothing happened at all (no connection was asked for, nothing was sent, nothing was
  recorded) and the answer is an error, or the call left exactly one audit record. It names the tool that
  was called, carries the caller's statement as it was sent (for the tools that run one), and its decision
  is the one the client was told: \<open>allowed\<close> for a result, \<open>denied_cost\<close> for the error of the cost limit,
  \<open>denied_validation\<close> for a statement the validator refuses, \<open>denied_surface\<close> when the request was refused
  although the validator accepts it, \<open>error\<close> otherwise. Only a tool that runs a text can panic, and a call
  that panics leaves no record.\<close>

theorem tool_calls_are_recorded:
  "\<exists>d. snd (handle_tools_call H params l) = l @ d
     \<and> (case fst (handle_tools_call H params l) of
          Inl p \<Rightarrow> audits d = [] \<and> (\<exists>tool. get_str ''name'' params = Some tool \<and> runs_text tool)
        | Inr v \<Rightarrow> d = [] \<and> jget ''result'' v = None
            \<or> (\<exists>tool. get_str ''name'' params = Some tool
                \<and> audits d = [(tool, decision_told H tool (recorded_text tool (call_args params)) v,
                               recorded_text tool (call_args params))]))"
proof (cases "get_str ''name'' params")
  case None
  then show ?thesis by (simp add: handle_tools_call_def ret_def)
next
  case (Some tool)
  from accounts_call [OF this, of H] show ?thesis
    unfolding accounts_def emits_def accounted_def recorded_def
    by (force simp: Some split: sum.split)
qed

section \<open>A call without a trace\<close>

text \<open>With a surface configured, a statement that is no row query and whose explained part cannot be cut out
  ends the call in a panic: nothing is recorded, although the statement was accepted.\<close>

lemma panicking_statement_unrecorded:
  assumes "get_str ''sql'' args = Some sql" "valid H sql" "surface_active (h_env H)"
    and "enforce_limit_offset (h_parser H) (h_env H) sql
        (saturating_add (min (case u64_arg ''limit'' args of Some n \<Rightarrow> n | None \<Rightarrow> 1000) MAX_LIMIT) 1)
        (case u64_arg ''offset'' args of Some n \<Rightarrow> n | None \<Rightarrow> 0) = Inr final"
    and "\<not> is_row_query final" "explained_statement final = Inl p"
  shows "handle_query_tool H args l = (Inl p, l)"
  using assms by (simp add: handle_query_tool_def guard_explained_def ret_def Let_def)

end
