(* ===== verification/Http_Work.thy ===== *)
theory Http_Work
  imports Audited Startup_Safety
begin

text \<open>
  A whole request over HTTP (\<open>mcp_handler\<close> of \<open>src/transport.rs\<close>): the stages that admit it, the work on a
  thread of its own and the answer, put together from the models of the stages and of \<open>handle_request\<close>.
\<close>

section \<open>The work\<close>

text \<open>What a client is told when the handler panicked.\<close>

definition task_error :: json where
  "task_error = err_content (- 32603) ''internal task error''"

text \<open>The revision of the request is in force on the working thread until the work ends, also by a panic.\<close>

definition mcp_work :: "host \<Rightarrow> http_request \<Rightarrow> work \<Rightarrow> rev_state \<Rightarrow> (rev_state \<times> json) act" where
  "mcp_work H q w s =
     (case set_request_rev (Some (wk_rev w)) s of
        (s1, saved) \<Rightarrow>
          andthen (handle_request H (rq_body q) s1)
            (\<lambda>(s2, r). ret (drop_rev_scope saved s2, case r of Inl _ \<Rightarrow> task_error | Inr v \<Rightarrow> v)))"

text \<open>Between admission and answer other requests may change the server: \<open>meanwhile\<close>.\<close>

definition mcp_handler ::
  "deployment \<Rightarrow> host \<Rightarrow> http_request \<Rightarrow> rev_state \<Rightarrow> (server \<Rightarrow> server) \<Rightarrow> string \<Rightarrow> nat \<Rightarrow> server
     \<Rightarrow> (rev_state \<times> server \<times> http_response) act" where
  "mcp_handler d H q thread meanwhile new_id now s =
     (case mcp_admit d q s of
        (s1, Inl resp) \<Rightarrow> ret (thread, s1, resp)
      | (s1, Inr w) \<Rightarrow>
          andthen (mcp_work H q w thread)
            (\<lambda>(thread', resp). ret (thread', mcp_finish q w resp new_id now (meanwhile s1))))"

section \<open>One client's revision\<close>

text \<open>Two states of the memory of revisions that agree on the request.\<close>

lemma current_rev_request: "request_rev s = Some r \<Longrightarrow> current_rev s = r"
  by (simp add: current_rev_def)

lemma negotiate_request:
  "negotiate_initialize params s = (s', r) \<Longrightarrow> request_rev s' = request_rev s \<and> snd (negotiate_initialize params s2) = r"
  by (auto simp: negotiate_initialize_def remember_session_rev_def Let_def)

definition same_answers :: "(rev_state \<times> 'a) act \<Rightarrow> (rev_state \<times> 'a) act \<Rightarrow> rev option \<Rightarrow> bool" where
  "same_answers m n r = (\<forall>l. snd (fst (m l)) = snd (fst (n l)) \<and> snd (m l) = snd (n l)
     \<and> request_rev (fst (fst (m l))) = r \<and> request_rev (fst (fst (n l))) = r)"

lemma same_answers_ret: "request_rev s = r \<Longrightarrow> request_rev t = r \<Longrightarrow> same_answers (ret (s, v)) (ret (t, v)) r"
  by (simp add: same_answers_def ret_def)

lemma same_answers_then:
  "request_rev s = r \<Longrightarrow> request_rev t = r
   \<Longrightarrow> same_answers (andthen m (\<lambda>v. ret (s, f v))) (andthen m (\<lambda>v. ret (t, f v))) r"
  by (simp add: same_answers_def andthen_def ret_def split_beta)

lemma same_answers_map:
  assumes "same_answers m n r" "\<And>s. request_rev s = r \<Longrightarrow> request_rev (g s) = r'" "\<And>s. request_rev s = r \<Longrightarrow> request_rev (h s) = r'"
  shows "same_answers (andthen m (\<lambda>(s, v). ret (g s, f v))) (andthen n (\<lambda>(s, v). ret (h s, f v))) r'"
  using assms by (simp add: same_answers_def andthen_def ret_def split_beta)

lemma same_answers_if:
  "same_answers m n r \<Longrightarrow> same_answers m' n' r \<Longrightarrow> same_answers (if b then m else m') (if b then n else n') r"
  by simp

lemma dispatch_same:
  assumes "request_rev s = Some r" "request_rev t = Some r"
  shows "same_answers (dispatch H m params s) (dispatch H m params t) (Some r)"
proof -
  note rev = assms [THEN current_rev_request]
  have init: "same_answers (handle_initialize H params s) (handle_initialize H params t) (Some r)"
  proof -
    obtain s' r1 where n1: "negotiate_initialize params s = (s', r1)" by fastforce
    obtain t' r2 where n2: "negotiate_initialize params t = (t', r2)" by fastforce
    from negotiate_request [OF n1, of t] negotiate_request [OF n2, of s] n1 n2 assms
    have "r1 = r2" "request_rev s' = Some r" "request_rev t' = Some r" by simp_all
    then show ?thesis by (simp add: handle_initialize_def n1 n2 same_answers_then)
  qed
  show ?thesis
    unfolding dispatch_def answered_def rev
    by (intro same_answers_if same_answers_ret same_answers_then assms
        same_answers_map [OF init, where g = "\<lambda>s. s" and h = "\<lambda>s. s"])
qed

lemma run_method_same:
  assumes "request_rev s = Some r" "request_rev t = Some r"
  shows "same_answers (run_method H m params s) (run_method H m params t) (Some r)"
proof (cases "rev_from_meta params")
  case None
  show ?thesis
    unfolding run_method_def None option.case prod.case assms [THEN current_rev_request]
    by (rule same_answers_map [OF dispatch_same [OF assms]]) simp_all
next
  case (Some r')
  have "same_answers (dispatch H m params (s\<lparr>request_rev := Some r'\<rparr>)) (dispatch H m params (t\<lparr>request_rev := Some r'\<rparr>)) (Some r')"
    by (rule dispatch_same) simp_all
  note map = same_answers_map [OF this, where g = "drop_rev_scope (Some r)" and h = "drop_rev_scope (Some r)" and r' = "Some r"]
  have rev: "current_rev (u\<lparr>request_rev := Some r'\<rparr>) = r'" for u by (rule current_rev_request) simp
  show ?thesis
    unfolding run_method_def Some set_request_rev_def option.case prod.case assms rev
    by (rule map) (simp_all add: drop_rev_scope_def)
qed

lemma request_same:
  assumes "request_rev s = Some r" "request_rev t = Some r"
  shows "same_answers (handle_request H req s) (handle_request H req t) (Some r)"
  unfolding handle_request_def Let_def
  by (auto simp: assms split: option.split intro!: same_answers_ret run_method_same)

lemma work_same:
  "snd (fst (mcp_work H q w s l)) = snd (fst (mcp_work H q w t l)) \<and> snd (mcp_work H q w s l) = snd (mcp_work H q w t l)
   \<and> request_rev (fst (fst (mcp_work H q w s l))) = request_rev s"
proof -
  let ?r = "Some (wk_rev w)"
  have "same_answers (handle_request H (rq_body q) (s\<lparr>request_rev := ?r\<rparr>)) (handle_request H (rq_body q) (t\<lparr>request_rev := ?r\<rparr>)) ?r"
    by (rule request_same) simp_all
  then show ?thesis
    by (simp add: same_answers_def mcp_work_def set_request_rev_def drop_rev_scope_def andthen_def ret_def split_beta)
qed

text \<open>C13: No HTTP client sees what another client negotiated: the answer to a request, the server state it
  leaves and everything it does on the database do not depend on the revision the process last agreed on,
  nor on what an earlier request left on the working thread, and the thread is handed back with the
  request revision it had. A client's own session and headers alone choose the shape of its answers.\<close>

theorem http_clients_keep_apart:
  "snd (fst (mcp_handler d H q thread meanwhile new_id now s l))
     = snd (fst (mcp_handler d H q thread' meanwhile new_id now s l))
   \<and> snd (mcp_handler d H q thread meanwhile new_id now s l) = snd (mcp_handler d H q thread' meanwhile new_id now s l)
   \<and> request_rev (fst (fst (mcp_handler d H q thread meanwhile new_id now s l))) = request_rev thread"
proof -
  obtain s1 r where a: "mcp_admit d q s = (s1, r)" by fastforce
  show ?thesis
  proof (cases r)
    case (Inl resp)
    then show ?thesis by (simp add: mcp_handler_def a ret_def)
  next
    case (Inr w)
    from work_same [of H q w thread l thread'] show ?thesis
      by (simp add: mcp_handler_def a Inr andthen_def ret_def split_beta)
  qed
qed

section \<open>Strangers\<close>

lemma admitted_authenticated:
  assumes "mcp_admit d q s = (s', Inr wk)"
  shows "enforce_auth (dp_auth_libs d) (dp_env d) (dp_auth_config d) (rq_headers q) (rq_body q) = Inr (wk_caller wk)"
  using assms mcp_auth_ok(1)
  by (fastforce simp: mcp_admit_def Let_def split: prod.splits sum.splits option.splits)

text \<open>Only \<open>server/discover\<close> gets past the gates without credentials, and it leaves the database alone.\<close>

lemma discover_apart:
  assumes "own_authentication (h_env H)" "discover_authenticated H" "get_str ''method'' req = Some ''server/discover''"
  shows "\<exists>out. \<forall>w D l. handle_request (H\<lparr>h_world := w, h_libs := D\<rparr>) req s l = (out, l)"
proof -
  obtain v where v: "\<And>w D l. handle_server_discover (H\<lparr>h_world := w, h_libs := D\<rparr>) l = (v, l)"
    using strangers_learn_nothing [OF assms(1,2)] by blast
  have run: "\<exists>out. \<forall>w D l. run_method (H\<lparr>h_world := w, h_libs := D\<rparr>) ''server/discover'' params s l = (out, l)" for params
    by (auto simp: run_method_def dispatch_def answered_def andthen_def ret_def v split: option.split prod.split)
  let ?params = "case jget ''params'' req of Some p \<Rightarrow> p | None \<Rightarrow> jobj []"
  obtain out where out: "\<And>w D l. run_method (H\<lparr>h_world := w, h_libs := D\<rparr>) ''server/discover'' ?params s l = (out, l)"
    using run by blast
  have "handle_request (H\<lparr>h_world := w, h_libs := D\<rparr>) req s l = (fst (handle_request H req s []), l)" for w D l
    using out [of "h_libs H" "h_world H" "[]"] out [of D w l]
    by (simp add: handle_request_def Let_def assms(3) ret_def split: option.split)
  then show ?thesis by blast
qed

text \<open>C11: A stranger reaches no database: on a server whose start-up checks passed and that has a shared token
  or a public key, a request over HTTP without an authorization header, whatever else it carries, asks for
  no connection and sends nothing, and its answer and the server state it leaves are the same whatever
  database stands behind the server.\<close>

theorem strangers_reach_no_database:
  assumes "preflight L (h_env H) names = []" "own_authentication (h_env H)"
    and "dp_env d = h_env H" "dp_auth_config d = auth_config_of (h_env H) (read_ok L)"
    and "h_oauth H \<longleftrightarrow> dp_auth_config d \<noteq> None"
    and "rq_headers q ''authorization'' = None"
    and "\<And>t. t \<noteq> [] \<Longrightarrow> al_hmac (dp_auth_libs d) t \<noteq> al_hmac (dp_auth_libs d) []"
  shows "\<exists>out. \<forall>w D l.
    mcp_handler d (H\<lparr>h_world := w, h_libs := D\<rparr>) q thread meanwhile new_id now s l = (out, l)"
proof -
  obtain s1 r where a: "mcp_admit d q s = (s1, r)" by fastforce
  show ?thesis
  proof (cases r)
    case (Inl resp)
    then show ?thesis by (auto simp: mcp_handler_def a ret_def)
  next
    case (Inr wk)
    have disc: "get_str ''method'' (rq_body q) = Some ''server/discover''"
    proof (rule ccontr)
      assume other: "get_str ''method'' (rq_body q) \<noteq> Some ''server/discover''"
      have "\<exists>msg. enforce_auth (dp_auth_libs d) (h_env H) (auth_config_of (h_env H) (read_ok L)) (rq_headers q) (rq_body q)
          = Inl (401, msg, None)"
        by (rule credentials_required [OF assms(1,2), of "rq_headers q" "rq_body q" "dp_auth_libs d"])
          (fact assms(6) other assms(7))+
      with admitted_authenticated [OF a [unfolded Inr]] show False by (simp add: assms(3,4))
    qed
    have "discover_authenticated H"
      using assms(2,4,5) configured_key [OF assms(1)]
      by (auto simp: discover_authenticated_def own_authentication_def)
    from discover_apart [OF assms(2) this disc] obtain out
      where "\<And>w D l. handle_request (H\<lparr>h_world := w, h_libs := D\<rparr>) (rq_body q) (thread\<lparr>request_rev := Some (wk_rev wk)\<rparr>) l = (out, l)"
      by blast
    then show ?thesis
      by (auto simp: mcp_handler_def a Inr mcp_work_def set_request_rev_def andthen_def ret_def split_beta)
  qed
qed

definition token_deployment :: deployment where
  "token_deployment = \<lparr>dp_env = bearer_env, dp_auth_libs = demo_auth_libs,
     dp_auth_config = auth_config_of bearer_env (read_ok demo_startup_libs)\<rparr>"

theorem strangers_reach_no_database_witness:
  "\<exists>out. \<forall>w D l. mcp_handler token_deployment ((token_host plan_world)\<lparr>h_world := w, h_libs := D\<rparr>) demo_http_request
     \<lparr>request_rev = None, session_rev = None\<rparr> id ''fresh'' 0 demo_server l = (out, l)"
proof (rule strangers_reach_no_database)
  have env: "h_env (token_host plan_world) = bearer_env" by (simp add: token_host_def bearer_env_def)
  show "preflight demo_startup_libs (h_env (token_host plan_world)) [''PATH''] = []"
    by (simp add: env bearer_preflight)
  show "own_authentication (h_env (token_host plan_world))" unfolding env by code_simp
  show "dp_env token_deployment = h_env (token_host plan_world)"
    "dp_auth_config token_deployment = auth_config_of (h_env (token_host plan_world)) (read_ok demo_startup_libs)"
    by (simp_all add: token_deployment_def env)
  show "h_oauth (token_host plan_world) \<longleftrightarrow> dp_auth_config token_deployment \<noteq> None"
    by (simp add: token_deployment_def token_host_def auth_config_of_def jwt_pubkey_pem_def bearer_env_def)
  show "rq_headers demo_http_request ''authorization'' = None" by (simp add: demo_http_request_def)
qed (simp add: token_deployment_def demo_auth_libs_def)

end
