(* ===== verification/Concurrent.thy ===== *)
theory Concurrent
  imports Query_Props
begin

text \<open>
  Requests that run at the same time share the connections of a pool. A connection is held by one request
  from the reset that opens a session to the next reset, and nothing else is known of the order of
  events: any such interleaving of requests is accepted by the automaton of read-only sessions.
\<close>

section \<open>One connection\<close>

definition reset_text :: string where
  "reset_text = ''DISCARD ALL''"

definition texts_on :: "nat \<Rightarrow> event list \<Rightarrow> string list" where
  "texts_on c d = List.map_filter (\<lambda>e. case e of Sent k (x, ps) \<Rightarrow> if k = c then Some x else None | _ \<Rightarrow> None) d"

lemma texts_on_simps [simp]:
  "texts_on c [] = []"
  "texts_on c (Sent k (x, ps) # d) = (if k = c then x # texts_on c d else texts_on c d)"
  "texts_on c (a @ b) = texts_on c a @ texts_on c b"
  by (simp_all add: texts_on_def map_filter_def)

lemma texts_on_other [simp]: "\<not> is_command e \<Longrightarrow> texts_on c (e # d) = texts_on c d"
  by (cases e) (simp_all add: texts_on_def map_filter_def is_command_def)

text \<open>The automaton of one connection: whether its session is read-only.\<close>

definition ro_bit :: "sqlparser \<Rightarrow> env \<Rightarrow> bool \<Rightarrow> string \<Rightarrow> bool option" where
  "ro_bit P env b x =
     (if b \<and> (server_text x \<or> caller_text P env x) then Some b
      else if x = reset_text then Some False
      else if read_only_settings env x then Some True
      else None)"

fun ro_bits :: "sqlparser \<Rightarrow> env \<Rightarrow> bool \<Rightarrow> string list \<Rightarrow> bool option" where
  "ro_bits P env b [] = Some b"
| "ro_bits P env b (x # xs) = Option.bind (ro_bit P env b x) (\<lambda>b'. ro_bits P env b' xs)"

lemma ro_bits_append: "ro_bits P env b (xs @ ys) = Option.bind (ro_bits P env b xs) (\<lambda>b'. ro_bits P env b' ys)"
  by (induction xs arbitrary: b) (simp_all split: Option.bind_split)

lemma ro_next_bit: "ro_next P env s (Sent c (x, ps)) = map_option (\<lambda>b. s(c := b)) (ro_bit P env (s c) x)"
  by (auto simp: ro_next_def ro_bit_def reset_text_def fun_upd_idem)

lemma ro_next_other: "\<not> is_command e \<Longrightarrow> ro_next P env s e = Some s"
  by (cases e) (simp_all add: ro_next_def is_command_def)

text \<open>Connections do not influence each other.\<close>

lemma monitored_by_connection:
  "monitored (ro_next P env) s d \<noteq> None \<longleftrightarrow> (\<forall>c. ro_bits P env (s c) (texts_on c d) \<noteq> None)"
proof (induction d arbitrary: s)
  case (Cons e d)
  show ?case
  proof (cases "is_command e")
    case False
    then show ?thesis using Cons.IH [of s] by (simp add: ro_next_other)
  next
    case True
    then obtain c x ps where e: "e = Sent c (x, ps)"
      by (cases e) (auto simp: is_command_def split: event.splits)
    show ?thesis
    proof (cases "ro_bit P env (s c) x")
      case None
      then have "ro_bits P env (s c) (texts_on c (e # d)) = None" by (simp add: e)
      then have "\<not> (\<forall>c. ro_bits P env (s c) (texts_on c (e # d)) \<noteq> None)" by blast
      with None show ?thesis by (simp add: e ro_next_bit)
    next
      case (Some b)
      then have "ro_bits P env (s k) (texts_on k (e # d)) = ro_bits P env ((s(c := b)) k) (texts_on k d)" for k
        by (simp add: e)
      moreover have "monitored (ro_next P env) s (e # d) = monitored (ro_next P env) (s(c := b)) d"
        using Some by (simp add: e ro_next_bit)
      ultimately show ?thesis by (simp only: Cons.IH)
    qed
  qed
qed simp

section \<open>Sessions of a connection\<close>

text \<open>A stretch of what an action sends on a connection, from a reset on.\<close>

definition session_in :: "nat \<Rightarrow> event list \<Rightarrow> string list \<Rightarrow> bool" where
  "session_in c d b = (\<exists>pre rest post. b = reset_text # rest \<and> texts_on c d = pre @ b @ post)"

lemma reset_no_server_text: "\<not> server_text reset_text"
proof -
  have cmd: "sql = reset_text" if "fst (catalog_command sql) = reset_text" for sql
    using that by (auto simp: catalog_command_def reset_text_def split: if_splits)
  have "list_all (\<lambda>s. take 1 s \<noteq> ''D'') catalog_texts"
    unfolding catalog_texts_def
    by (simp add: ROLE_SQL_def MEMBERSHIPS_SQL_def WRITABLE_SQL_def TLS_SQL_def SCHEMAS_SQL_def SCHEMA_SQL_def TABLES_SQL_def
        DESCRIBE_SQL_def RESOURCES_SQL_def FUNCTIONS_SQL_def PARENT_SQL_def CHECKS_def INDEX_CHECKS_def
        UNUSED_SQL_def DUPLICATES_SQL_def SEQ_SCANS_SQL_def)
  then have "reset_text \<notin> set catalog_texts" by (auto simp: list_all_iff reset_text_def)
  then have catalog: "reset_text \<noteq> fst (catalog_command sql)" if "sql \<in> set catalog_texts" for sql
    using cmd [of sql] that by metis
  have "top_queries_sql n \<noteq> reset_text" for n by (simp add: top_queries_sql_def reset_text_def)
  then have top: "reset_text \<noteq> fst (catalog_command (top_queries_sql n))" for n
    using cmd [of "top_queries_sql n"] by metis
  have "reset_text \<notin> {begin_read_only, ''ROLLBACK'', PARALLEL_SQL, RESET_SQL, HYPOPG_SQL, AVAILABLE_SQL, TABLE_SQL,
           COLUMN_SQL, CREATE_SQL}"
    by (simp add: reset_text_def begin_read_only_def PARALLEL_SQL_def RESET_SQL_def HYPOPG_SQL_def AVAILABLE_SQL_def
        TABLE_SQL_def COLUMN_SQL_def CREATE_SQL_def)
  with catalog top show ?thesis unfolding server_text_def by blast
qed

lemma session_accepted:
  assumes "\<not> caller_text P env reset_text" "ro_bits P env b0 (texts_on c d) \<noteq> None" "session_in c d b"
  shows "ro_bits P env b1 b \<noteq> None"
proof -
  obtain pre rest post where b: "b = reset_text # rest" and d: "texts_on c d = pre @ b @ post"
    using assms(3) by (auto simp: session_in_def)
  have bit: "ro_bit P env x reset_text = Some False" for x
    by (simp add: ro_bit_def assms(1) reset_no_server_text)
  from assms(2) have "ro_bits P env False rest \<noteq> None"
    by (auto simp: d b ro_bits_append bit split: Option.bind_splits)
  then show ?thesis by (simp add: b bit)
qed

lemma sessions_accepted:
  "(\<And>b. b \<in> set bs \<Longrightarrow> \<forall>x. ro_bits P env x b \<noteq> None) \<Longrightarrow> ro_bits P env x (concat bs) \<noteq> None"
proof (induction bs arbitrary: x)
  case (Cons b bs)
  then obtain y where "ro_bits P env x b = Some y" by fastforce
  with Cons show ?case by (simp add: ro_bits_append)
qed simp

section \<open>Requests side by side\<close>

text \<open>C2: The promise of a single request survives sharing: let any number of requests run at the same time
  against pools of connections, each with whatever answers it gets, and interleave what they send in any
  way that gives a connection to one holder between two resets. Everything that reaches any connection is
  still accepted by the automaton of read-only sessions. The parser is only assumed not to take the reset
  itself for a readable statement.\<close>

theorem shared_connections_stay_read_only:
  assumes "\<And>d. d \<in> set ds \<Longrightarrow> \<exists>w D req s l. snd (handle_request (H\<lparr>h_world := w, h_libs := D\<rparr>) req s l) = l @ d"
    and "\<And>c. \<exists>bs. texts_on c tr = concat bs \<and> (\<forall>b \<in> set bs. \<exists>d \<in> set ds. session_in c d b)"
    and "\<not> caller_text (h_parser H) (h_env H) reset_text"
  shows "monitored (ro_next (h_parser H) (h_env H)) (\<lambda>c. False) tr \<noteq> None"
  unfolding monitored_by_connection
proof
  fix c
  obtain bs where bs: "texts_on c tr = concat bs" "\<And>b. b \<in> set bs \<Longrightarrow> \<exists>d \<in> set ds. session_in c d b"
    using assms(2) by meson
  have "ro_bits (h_parser H) (h_env H) False (texts_on c d) \<noteq> None" if "d \<in> set ds" for d
  proof -
    from assms(1) [OF that] obtain w D req s l
      where l: "snd (handle_request (H\<lparr>h_world := w, h_libs := D\<rparr>) req s l) = l @ d" by blast
    from rsafe_request [of "H\<lparr>h_world := w, h_libs := D\<rparr>" req s] obtain d'
      where "snd (handle_request (H\<lparr>h_world := w, h_libs := D\<rparr>) req s l) = l @ d'"
        "keeps (ro_next (h_parser H) (h_env H)) anything d'"
      unfolding safe_def emits_def by auto
    with l have "monitored (ro_next (h_parser H) (h_env H)) (\<lambda>c. False) d \<noteq> None" by (auto simp: keeps_def)
    then show ?thesis unfolding monitored_by_connection by simp
  qed
  with bs(2) session_accepted [OF assms(3)]
  have "\<And>b. b \<in> set bs \<Longrightarrow> \<forall>x. ro_bits (h_parser H) (h_env H) x b \<noteq> None" by meson
  from sessions_accepted [OF this] show "ro_bits (h_parser H) (h_env H) False (texts_on c tr) \<noteq> None"
    by (simp add: bs(1))
qed

section \<open>Two listings at once\<close>

definition quiet_world :: "nat \<Rightarrow> world" where
  "quiet_world c = (demo_world (\<lambda>l c cmd. Rows []))\<lparr>w_conn := (\<lambda>l n. Some c)\<rparr>"

text \<open>A parser that reads nothing.\<close>

definition listing_host :: host where
  "listing_host = plan_host\<lparr>h_parser := (demo_parser (S_Query (demo_query (demo_select [] []))) [] [])
     \<lparr>sp_parse := (\<lambda>n s. Inl ''unreadable'')\<rparr>\<rparr>"

definition listing_request :: json where
  "listing_request = JObj [(''jsonrpc'', JStr ''2.0''), (''id'', JNum ''1''), (''method'', JStr ''tools/call''),
     (''params'', JObj [(''name'', JStr ''list_schemas'')])]"

definition listing_trace :: "string \<Rightarrow> nat \<Rightarrow> event list" where
  "listing_trace k c = [Got_Conn k c, Sent c (reset_text, []), Sent c (catalog_settings token_env, []),
     Sent c (begin_read_only, []), Sent c (fst (catalog_command SCHEMAS_SQL), []), Sent c (''ROLLBACK'', []),
     Audited ''list_schemas'' ''allowed'' None]"

definition two_listings :: "string \<Rightarrow> event list" where
  "two_listings k = concat (map2 (\<lambda>a b. [a, b]) (listing_trace k 0) (listing_trace k 1))"

lemma listing_no_text: "\<not> caller_text (h_parser listing_host) env x"
  by (simp add: caller_text_def listing_host_def validate_readonly_def parse_def)

lemma quiet_step: "step (quiet_world c) k x l = (Inr (), l @ [Sent k (x, [])])"
  by (simp add: step_def batch_def andthen_def send_def ret_def quiet_world_def demo_world_def)

lemma listing_catalog:
  assumes "pool_for demo_db_libs token_env None = Inr (k, p)"
  shows "\<exists>v. query_catalog (quiet_world c) demo_db_libs token_env SCHEMAS_SQL [] None l
    = (Inr v, l @ butlast (listing_trace k c))"
proof -
  have r: "rollback (quiet_world c) c' x l' = (x, l' @ [Sent c' (''ROLLBACK'', [])])" for c' l' and x :: "string + json"
    by (simp add: rollback_def batch_def andthen_def send_def ret_def quiet_world_def demo_world_def)
  have t: "take_conn (quiet_world c) k l = (Some c, l @ [Got_Conn k c])"
    by (simp add: take_conn_def quiet_world_def demo_world_def)
  have s: "send (quiet_world c) c' cmd l' = (Rows [], l' @ [Sent c' cmd])" for c' cmd l'
    by (simp add: send_def quiet_world_def demo_world_def)
  obtain cmd wr where cw: "catalog_command SCHEMAS_SQL = (cmd, wr)" by fastforce
  show ?thesis
    by (simp add: query_catalog_def with_conn_def assms andthen_def t open_session_def attempted_def quiet_step cw s r
        listing_trace_def reset_text_def bindR_def)
qed

lemma listing_call:
  assumes "pool_for demo_db_libs token_env None = Inr (k, p)"
  shows "snd (handle_tools_call (listing_host\<lparr>h_world := quiet_world c, h_libs := demo_db_libs\<rparr>)
      (JObj [(''name'', JStr ''list_schemas'')]) l) = l @ listing_trace k c"
proof -
  let ?H = "listing_host\<lparr>h_world := quiet_world c, h_libs := demo_db_libs\<rparr>"
  have H: "h_world ?H = quiet_world c" "h_libs ?H = demo_db_libs" "h_env ?H = token_env"
    by (simp_all add: listing_host_def)
  obtain v where v: "query_catalog (quiet_world c) demo_db_libs token_env SCHEMAS_SQL [] None l
      = (Inr v, l @ butlast (listing_trace k c))" using listing_catalog [OF assms] by blast
  show ?thesis
    unfolding handle_tools_call_def
    by (simp add: get_str_def lifted_def handle_list_schemas_def andthen_def jobj_def H v finish_def audit_as_def
        World.emit_def ret_def listing_trace_def)
qed

lemma listing_runs:
  assumes "pool_for demo_db_libs token_env None = Inr (k, p)"
  shows "snd (handle_request (listing_host\<lparr>h_world := quiet_world c, h_libs := demo_db_libs\<rparr>) listing_request s l)
    = l @ listing_trace k c"
  using listing_call [OF assms, of c l]
  by (simp add: handle_request_def listing_request_def bad_id_def get_str_def unsupported_version_error_def
      meta_version_def run_method_def rev_from_meta_def dispatch_def andthen_def ret_def split_beta Let_def)

theorem shared_connections_stay_read_only_witness:
  "\<exists>k. monitored (ro_next (h_parser listing_host) (h_env listing_host)) (\<lambda>c. False) (two_listings k) \<noteq> None"
proof -
  obtain k p where p: "pool_for demo_db_libs token_env None = Inr (k, p)"
    using token_pool_ok by (cases "pool_for demo_db_libs token_env None") auto
  have "monitored (ro_next (h_parser listing_host) (h_env listing_host)) (\<lambda>c. False) (two_listings k) \<noteq> None"
  proof (rule shared_connections_stay_read_only [where ds = "[listing_trace k 0, listing_trace k 1]"])
    fix d assume "d \<in> set [listing_trace k 0, listing_trace k 1]"
    then show "\<exists>w D req s l. snd (handle_request (listing_host\<lparr>h_world := w, h_libs := D\<rparr>) req s l) = l @ d"
      using listing_runs [OF p, of 0] listing_runs [OF p, of 1] by (cases "d = listing_trace k 0") (auto, blast+)
  next
    fix c
    have on: "texts_on c (two_listings k) = (if c \<le> 1 then texts_on c (listing_trace k c) else [])"
      by (auto simp: two_listings_def listing_trace_def is_command_def)
    have "session_in c (listing_trace k c) (texts_on c (listing_trace k c))"
      unfolding session_in_def by (simp add: listing_trace_def is_command_def) (rule exI [of _ "[]"], simp)
    with on show "\<exists>bs. texts_on c (two_listings k) = concat bs
        \<and> (\<forall>b \<in> set bs. \<exists>d \<in> set [listing_trace k 0, listing_trace k 1]. session_in c d b)"
      by (intro exI [of _ "if c \<le> 1 then [texts_on c (listing_trace k c)] else []"])
        (cases "c = 0"; cases "c = 1"; simp)
  qed (rule listing_no_text)
  then show ?thesis by blast
qed

end
