(* ===== verification/Trail.thy ===== *)
theory Trail
  imports Concurrent Audited Audit_Props
begin

text \<open>
  From the tools to the verified log: the records that a run of tool calls leaves, written one after the
  other by the writer of \<open>src/audit_log.rs\<close>, are accepted by its verifier, and the \<open>allowed\<close> entries among
  them are as many as the results that were handed out.
\<close>

section \<open>A run of tool calls\<close>

fun serve :: "host \<Rightarrow> json list \<Rightarrow> (panic + json) list act" where
  "serve H [] = ret []"
| "serve H (p # ps) = andthen (handle_tools_call H p) (\<lambda>r. andthen (serve H ps) (\<lambda>rs. ret (r # rs)))"

definition is_result :: "panic + json \<Rightarrow> bool" where
  "is_result r = (case r of Inl _ \<Rightarrow> False | Inr v \<Rightarrow> jget ''result'' v \<noteq> None)"

definition granted :: "string \<times> string \<times> string option \<Rightarrow> bool" where
  "granted x = (fst (snd x) = ''allowed'')"

text \<open>Whatever a call does, its result and its granted record come together.\<close>

definition balanced :: "nat \<Rightarrow> event list \<Rightarrow> (panic + json) list \<Rightarrow> bool" where
  "balanced n d rs = (length (audits d) \<le> n \<and> length (filter granted (audits d)) = length (filter is_result rs))"

lemma call_balanced: "emits (handle_tools_call H params) (\<lambda>d r. balanced 1 d [r])"
proof (cases "get_str ''name'' params")
  case None
  then show ?thesis
    by (simp add: handle_tools_call_def balanced_def is_result_def emits_ret)
next
  case (Some tool)
  from accounts_call [OF this, of H] show ?thesis
    unfolding accounts_def
    by (rule emits_weaken) (auto simp: accounted_def recorded_def balanced_def is_result_def granted_def told_allowed_iff split: sum.splits)
qed

lemma serve_balanced: "emits (serve H ps) (\<lambda>d rs. balanced (length ps) d rs)"
proof (induction ps)
  case Nil
  then show ?case by (simp add: balanced_def emits_ret)
next
  case (Cons p ps)
  show ?case
    unfolding serve.simps
  proof (rule emits_andthen [OF call_balanced])
    fix d r assume d: "balanced 1 d [r]"
    show "emits (andthen (serve H ps) (\<lambda>rs. ret (r # rs))) (\<lambda>d'. balanced (length (p # ps)) (d @ d'))"
    proof (rule emits_andthen [OF Cons.IH])
      fix d' rs assume "balanced (length ps) d' rs"
      with d show "emits (ret (r # rs)) (\<lambda>d''. balanced (length (p # ps)) (d @ d' @ d''))"
        by (intro emits_ret) (auto simp: balanced_def split: if_splits)
    qed
  qed
qed

section \<open>The log of a run\<close>

text \<open>\<open>audit\<close> adds the time, the caller of the thread and no further fields.\<close>

definition audit_call_of :: "nat \<Rightarrow> string option \<Rightarrow> string \<times> string \<times> string option \<Rightarrow> audit_call" where
  "audit_call_of now who x =
     \<lparr>ac_ts = now, ac_tool = fst x, ac_decision = fst (snd x), ac_sql = snd (snd x), ac_caller = who, ac_extra = []\<rparr>"

definition trail :: "(nat \<Rightarrow> nat) \<Rightarrow> string option \<Rightarrow> (string \<times> string \<times> string option) list \<Rightarrow> audit_call list" where
  "trail clock who xs = map (\<lambda>(i, x). audit_call_of (clock i) who x) (List.enumerate 0 xs)"

lemma length_trail [simp]: "length (trail clock who xs) = length xs"
  by (simp add: trail_def)

lemma trail_plain: "c \<in> set (trail clock who xs) \<Longrightarrow> plain_extra c"
  by (auto simp: trail_def audit_call_of_def plain_extra_def)

lemma trail_granted:
  "length (filter (\<lambda>c. ac_decision c = ''allowed'') (trail clock who xs)) = length (filter granted xs)"
proof -
  have "length (filter (\<lambda>c. ac_decision c = ''allowed'') (map (\<lambda>(i, x). audit_call_of (clock i) who x) (List.enumerate n xs)))
      = length (filter granted xs)" for n
    by (induction xs arbitrary: n) (simp_all add: audit_call_of_def granted_def)
  then show ?thesis by (simp add: trail_def)
qed

text \<open>C23: The trail accounts for the answers: let any tool calls run one after the other, with whatever the
  database answers, and write what they record into a fresh log under one key. The verifier accepts the
  log, counts one entry for each record, and among the entries exactly as many say \<open>allowed\<close> as results
  were handed to clients.\<close>

theorem trail_accounts_for_answers:
  assumes "serve H ps l = (rs, l @ d)" and "cs = trail clock who (audits d)"
    and "key_known keys key" and "length ps \<le> u64_max"
    and "\<And>v. v \<in> set (written L key cs fresh_audit) \<Longrightarrow> codec_ok L v"
  shows "(\<exists>rot. verify_audit_file L keys (au_log (audit_run L key cs fresh_audit))
             (Some (au_prev (audit_run L key cs fresh_audit)))
           = Inr (length cs, (if cs = [] then None else Some (length cs)), rot, au_prev (audit_run L key cs fresh_audit)))
       \<and> length (filter (\<lambda>c. ac_decision c = ''allowed'') cs) = length (filter is_result rs)"
proof -
  from serve_balanced [of H ps] assms(1) have bal: "balanced (length ps) d rs"
    unfolding emits_def by (metis fst_conv same_append_eq snd_conv)
  then have "length cs \<le> u64_max" using assms(2,4) by (simp add: balanced_def)
  then have "\<exists>rot. verify_audit_file L keys (au_log (audit_run L key cs fresh_audit))
             (Some (au_prev (audit_run L key cs fresh_audit)))
           = Inr (length cs, (if cs = [] then None else Some (length cs)), rot, au_prev (audit_run L key cs fresh_audit))"
    by (intro writer_verifies) (use assms(2,3,5) in \<open>auto simp: trail_plain\<close>)
  with bal assms(2) show ?thesis by (simp add: trail_granted balanced_def)
qed

section \<open>One listing\<close>

theorem trail_accounts_for_answers_witness:
  "\<exists>rs d rot. serve (listing_host\<lparr>h_world := quiet_world 0, h_libs := demo_db_libs\<rparr>)
       [JObj [(''name'', JStr ''list_schemas'')]] [] = (rs, d)
     \<and> verify_audit_file demo_libs [] (au_log (audit_run demo_libs None [demo_call0] fresh_audit))
         (Some (au_prev (audit_run demo_libs None [demo_call0] fresh_audit)))
       = Inr (1, Some 1, rot, au_prev (audit_run demo_libs None [demo_call0] fresh_audit))
     \<and> length (filter is_result rs) = 1"
proof -
  let ?H = "listing_host\<lparr>h_world := quiet_world 0, h_libs := demo_db_libs\<rparr>"
  obtain k p where p: "pool_for demo_db_libs token_env None = Inr (k, p)"
    using token_pool_ok by (cases "pool_for demo_db_libs token_env None") auto
  obtain rs d where run: "serve ?H [JObj [(''name'', JStr ''list_schemas'')]] [] = (rs, d)" by fastforce
  have "d = listing_trace k 0"
    using run listing_call [OF p, of 0 "[]"] by (auto simp: andthen_def ret_def split: prod.splits)
  then have cs: "[demo_call0] = trail (\<lambda>i. 7) None (audits d)"
    by (simp add: listing_trace_def trail_def audit_call_of_def demo_call0_def)
  have allowed: "ac_decision demo_call0 = ''allowed''" by (simp add: demo_call0_def)
  have "(\<exists>rot. verify_audit_file demo_libs [] (au_log (audit_run demo_libs None [demo_call0] fresh_audit))
         (Some (au_prev (audit_run demo_libs None [demo_call0] fresh_audit)))
       = Inr (length [demo_call0], (if [demo_call0] = [] then None else Some (length [demo_call0])), rot,
           au_prev (audit_run demo_libs None [demo_call0] fresh_audit)))
     \<and> length (filter (\<lambda>c. ac_decision c = ''allowed'') [demo_call0]) = length (filter is_result rs)"
  proof (rule trail_accounts_for_answers)
    show "serve ?H [JObj [(''name'', JStr ''list_schemas'')]] [] = (rs, [] @ d)" using run by simp
    show "[demo_call0] = trail (\<lambda>i. 7) None (audits d)" by (rule cs)
    show "key_known [] None" by (simp add: key_known_def)
    show "length [JObj [(''name'', JStr ''list_schemas'')]] \<le> u64_max" by (simp add: u64_max_def)
  qed (rule demo_codec)
  note trail = this
  have one: "(if [demo_call0] = [] then None else Some 1) = Some (1::nat)" "length [demo_call0] = 1"
    "length (filter (\<lambda>c. ac_decision c = ''allowed'') [demo_call0]) = 1"
    by (simp_all add: allowed)
  from trail [unfolded one] obtain rot where r: "verify_audit_file demo_libs []
         (au_log (audit_run demo_libs None [demo_call0] fresh_audit))
         (Some (au_prev (audit_run demo_libs None [demo_call0] fresh_audit)))
       = Inr (1, Some 1, rot, au_prev (audit_run demo_libs None [demo_call0] fresh_audit))"
    and n: "1 = length (filter is_result rs)" by blast
  show ?thesis
    by (rule exI [of _ rs], rule exI [of _ d], rule exI [of _ rot]) (intro conjI run r n [symmetric])
qed

end
