(* ===== verification/Spec2Isabelle.thy ===== *)
theory Spec2Isabelle
  imports Redaction_Props Audit_Props Surface Transport Tools_Text_Props Db_Url_Props Pool_Props Db_Props Posture_Props Answers Setup_Props Entry_Props Fuzz_Props Http_Work Trail
begin

text \<open>
  A model of a read-only PostgreSQL server for the Model Context Protocol (Rust, \<open>src/src/*.rs\<close>), with the
  theorems that make it correct.

  \<^bold>\<open>The program.\<close> A client sends JSON-RPC requests over the standard streams or over HTTP
  (\<open>transport.rs\<close>). A request passes the gates for origin, session, credentials, revision, rate and free
  connections (\<open>http.rs\<close>, \<open>authz.rs\<close>, \<open>auth.rs\<close>, \<open>protocol.rs\<close>, \<open>ratelimit.rs\<close>, \<open>pipeline.rs\<close>) and reaches a
  method or a tool (\<open>handlers.rs\<close>, \<open>tools.rs\<close>). A statement of the caller is judged on its syntax tree and
  capped (\<open>validate.rs\<close>), explained by the database so that its cost and the relations it reads can be judged
  (\<open>tools.rs\<close>, \<open>surface.rs\<close>), and run in a session that was made read-only on a connection from a pool
  (\<open>db.rs\<close>); redacted columns are masked in the answer. Every decision is linked into a hash chain
  (\<open>audit_log.rs\<close>). Before the first request the command line (\<open>cli.rs\<close>), the configuration (\<open>startup.rs\<close>) and
  the role of the connection (\<open>posture.rs\<close>) are checked, in the order of \<open>main.rs\<close>. Two modes stand beside the
  server: the generator of a role with few privileges (\<open>setup_sql.rs\<close>) and the fuzzer of the validator
  (\<open>fuzz.rs\<close>).

  \<^bold>\<open>Vocabulary.\<close> \<open>Prelude\<close> has Rust's strings as lists of bytes in UTF-8, the parts of \<open>str\<close> and \<open>u64\<close> that the
  program uses, and errors as values of a sum type. \<open>Json\<close> has the values of \<open>serde_json\<close> with a number as
  its text, and 64-bit floats as exact rationals with infinities and NaN. \<open>Sql_Ast\<close> has the syntax trees of
  the crate \<open>sqlparser\<close> and a parser as a record of functions; its two locales state what a traversal of a
  tree yields to a visitor. \<open>World\<close> has the outside as a sequence of events, and actions as functions on it:
  the pool and the database answer as functions of the events so far, so a theorem about all worlds covers
  every behaviour of the database. \<open>Sessions\<close> has monitors over those events: an automaton per connection,
  and locales with the rules for the actions the handlers are built from.

  \<^bold>\<open>The validator.\<close> \<open>Validate_Functions\<close> (names, lists, the verdict on a call), \<open>Validate_Size\<close> (size of folded
  constants, saturating at 64 bits), \<open>Validate_Redaction\<close> (redacted names, decoded literals, invisible
  characters), \<open>Validate_Scanner\<close> (the visitors), \<open>Validate\<close> (the verdict), \<open>Enforce_Limit\<close> (the row cap).
  \<open>Validate_Props\<close> and \<open>Redaction_Props\<close> show what acceptance means: one statement of a reading shape, only
  readable calls and relations, no redacted column by the names and literals the scanner reads or by position
  in the joins it looks at (lemmas beside the theorems show what it does not look at), bounded constants, a
  cap that edits the count and nothing else, and a capped text that is itself accepted.

  \<^bold>\<open>Requests and their gates.\<close> \<open>Auth\<close>, \<open>Protocol\<close>, \<open>Http\<close>, \<open>Ratelimit\<close>, \<open>Pipeline\<close> and \<open>Transport\<close> follow the
  files of these names. Shared counters are fields of a state, a guard that is dropped gives back what it
  holds, and concurrent requests are interleaved steps: every gate and every drop of a guard is one, and the
  gates of the standard streams and of HTTP are shown to run such steps. Locales state what a token bucket and a scoped
  resource promise and are interpreted on the code's operations. The theorems: work starts only behind every
  gate, permits are conserved under every interleaving, a bucket bounds every window of time.

  \<^bold>\<open>The database.\<close> \<open>Db_Url\<close> (hosts, trusted networks, the TLS mode handed to the driver, passwords), \<open>Db\<close>
  (trust anchors, pools, diagnosis), \<open>Db_Exec\<close> (masking, \<open>execute_readonly\<close>, \<open>query_catalog\<close>), with
  \<open>Db_Url_Props\<close>, \<open>Pool_Props\<close> and \<open>Db_Props\<close>: a running statement refines one fixed script, nothing redacted
  leaves and everything else leaves as it came, and in which state a connection returns to its pool.

  \<^bold>\<open>Tools.\<close> \<open>Tools_Text\<close> (settings as SQL, messages, resource addresses, the block around data), \<open>Surface\<close> (the
  configured surface and the walk over a plan), \<open>Cost_Guard\<close>, \<open>Catalog_Tools\<close>, \<open>Index_Sim\<close>, \<open>Handlers\<close> and
  \<open>Requests\<close> (the tool list and a whole request). \<open>Read_Only\<close> interprets the monitors: whatever is asked, a
  connection carries only resets, the settings that make its session read-only and, after those, the server's
  own texts and accepted statements. \<open>Query_Props\<close>: a query is answered only behind the guard, a cut result
  says so, the listings keep to the surface. \<open>Answers\<close>: every answer has the shape of JSON-RPC.
  \<open>Concurrent\<close>: the promise of \<open>Read_Only\<close> holds for requests that share connections, in every interleaving that
  gives a connection to one holder between two resets. \<open>Http_Work\<close> puts a whole HTTP request together (admission,
  work on a thread of its own, answer): a stranger reaches no database, and no client sees the revision another
  one negotiated.

  \<^bold>\<open>Audit.\<close> \<open>Audit_Log\<close> has the writer in its two steps, the verifier, key rotation and the high-water mark;
  \<open>Audit_Props\<close> the round trip and what the last hash anchors. \<open>Audited\<close>: a tool call leaves exactly one record,
  with the decision the client is told, unless it is refused before anything has happened or panics. \<open>Trail\<close> joins
  the two: the records of a run of tool calls, written into a log, verify, and as many entries say \<open>allowed\<close> as
  results were handed out.

  \<^bold>\<open>Start.\<close> \<open>Posture\<close> and \<open>Posture_Props\<close> (what the role may do, the policy of an exposed server as a transition
  system with its retries, the report and its grade), \<open>Startup\<close> with \<open>Socket_Addr\<close>, \<open>Startup_Props\<close> and
  \<open>Startup_Safety\<close> (the settings and their contradictions, the distance that recognises a misspelt one, what
  accepted settings guarantee to the parts that read them), \<open>Cli\<close>, \<open>Entry\<close> and \<open>Entry_Props\<close> (which command
  lines serve, and all that has held before).

  \<^bold>\<open>Modes.\<close> \<open>Setup_Sql\<close> and \<open>Setup_Props\<close>: the generated script, read by a scanner of SQL, has the same syntax
  whatever the names in it; the locale \<open>quoted_text\<close> states what the three ways of writing a name owe it.
  \<open>Fuzz\<close> and \<open>Fuzz_Props\<close>: the fuzzer with its generator on 64-bit words in the state monad, and what an empty
  report says.

  \<^bold>\<open>Loops.\<close> Recursion is structural or has a measure: the bytes left of a text, the values below a JSON document
  (the plan walk turns exactly once for each), the nodes of an expression. No fuel is used anywhere; the
  retries of the start-up policy and the steps of concurrent requests are inductive relations, because they
  have no bound in the program either.

  \<^bold>\<open>Arguments.\<close> Code that is not in the repository is an argument: the SQL parser and its printer, \<open>serde_json\<close>
  where only its round trip matters, SHA-256 and HMAC, the JWT library, the PostgreSQL driver with the server
  behind it, TLS and PEM reading, the clock, files, and Unicode's tables beyond the characters named in
  \<open>Prelude\<close>. What a theorem needs of one of them is a hypothesis of its statement, with a witness.

  \<^bold>\<open>Not modelled.\<close> Text on the standard error stream. The escapes of \<open>{:?}\<close> inside quotes. Rounding of floats: the
  limits are exact rationals, so a comparison at the last binary digit may differ. The sockets, threads and
  the runtime under the handlers: a thread is an action or a step that may be taken at any time. A panic is a
  value where the code can panic on a caller's text or a reply (a slice off a character boundary, a column of
  an unexpected type); a poisoned lock or exhausted memory is not modelled. The Rust tests, and the scripts,
  packages and container files beside the Rust sources.
\<close>

end
